(* ===== verification/Prelude.thy ===== *)
theory Prelude
  imports Main "HOL-Library.Sublist" "HOL-Library.Char_ord" "HOL-Library.List_Lexorder"
begin

text \<open>
  Shared vocabulary of the development: Go strings and byte slices as character lists (one
  \<^typ>\<open>char\<close> per byte), the few functions of Go's packages \<^verbatim>\<open>strings\<close> and
  \<^verbatim>\<open>encoding/hex\<close> the program uses, generic facts about lists of rows, and the collections of
  facts the component theories extend.
\<close>

named_theorems row_simps "equations that compute lookups in and updates of table rows"
named_theorems frame_simps "parts of the state an operation leaves alone"
named_theorems wf_intros "operations that keep a component's invariant"

type_synonym bytes = string

subsection \<open>Go's package strings\<close>

text \<open>
  \<^verbatim>\<open>strings.Cut\<close>, \<^verbatim>\<open>strings.Index\<close> and \<^verbatim>\<open>strings.SplitN(s, sep, 2)\<close> are only called with a
  separator of one byte. \<open>before c s\<close> is what precedes the first \<open>c\<close> (all of \<open>s\<close> when there is
  none) and \<open>after c s\<close> what follows it (empty when there is none).
\<close>

definition before :: "char \<Rightarrow> string \<Rightarrow> string" where
  "before c s = takeWhile (\<lambda>x. x \<noteq> c) s"

definition after :: "char \<Rightarrow> string \<Rightarrow> string" where
  "after c s = drop 1 (dropWhile (\<lambda>x. x \<noteq> c) s)"

text \<open>\<^verbatim>\<open>strings.LastIndex\<close> with a one-byte separator: what precedes and follows the last \<open>c\<close>.\<close>

definition before_last :: "char \<Rightarrow> string \<Rightarrow> string" where
  "before_last c s = rev (after c (rev s))"

definition after_last :: "char \<Rightarrow> string \<Rightarrow> string" where
  "after_last c s = rev (before c (rev s))"

text \<open>\<^verbatim>\<open>strings.TrimPrefix\<close>.\<close>

definition trim_prefix :: "string \<Rightarrow> string \<Rightarrow> string" where
  "trim_prefix s p = (if prefix p s then drop (length p) s else s)"

text \<open>
  \<^verbatim>\<open>strings.TrimSpace\<close> and \<^verbatim>\<open>strings.Fields\<close> on ASCII white space (the multi-byte spaces of
  Unicode are ordinary bytes here).
\<close>

definition is_space :: "char \<Rightarrow> bool" where
  "is_space c \<longleftrightarrow> c \<in> {CHR '' '', CHR 0x09, CHR 0x0A, CHR 0x0B, CHR 0x0C, CHR 0x0D}"

definition trim_space :: "string \<Rightarrow> string" where
  "trim_space s = rev (dropWhile is_space (rev (dropWhile is_space s)))"

fun go_fields_from :: "string \<Rightarrow> string \<Rightarrow> string list" where
  "go_fields_from w [] = (if w = [] then [] else [rev w])"
| "go_fields_from w (c # s) =
     (if is_space c then (if w = [] then go_fields_from [] s else rev w # go_fields_from [] s)
      else go_fields_from (c # w) s)"

definition go_fields :: "string \<Rightarrow> string list" where
  "go_fields s = go_fields_from [] s"

text \<open>\<^verbatim>\<open>strings.Split\<close> with a one-byte separator.\<close>

fun split_on :: "char \<Rightarrow> string \<Rightarrow> string list" where
  "split_on c [] = [[]]"
| "split_on c (x # xs) =
     (if x = c then [] # split_on c xs
      else (case split_on c xs of [] \<Rightarrow> [[x]] | w # ws \<Rightarrow> (x # w) # ws))"

text \<open>\<^verbatim>\<open>strings.Join\<close>.\<close>

fun join :: "string \<Rightarrow> string list \<Rightarrow> string" where
  "join sep [] = []"
| "join sep [x] = x"
| "join sep (x # y # ys) = x @ sep @ join sep (y # ys)"

text \<open>\<^verbatim>\<open>strings.ToLower\<close> on ASCII letters.\<close>

definition lower_char :: "char \<Rightarrow> char" where
  "lower_char c = (if CHR ''A'' \<le> c \<and> c \<le> CHR ''Z'' then char_of (of_char c + 32 :: nat) else c)"

definition to_lower :: "string \<Rightarrow> string" where
  "to_lower s = map lower_char s"

text \<open>\<^verbatim>\<open>hex.EncodeToString\<close>: two lower-case digits per byte.\<close>

definition hex_digit :: "nat \<Rightarrow> char" where
  "hex_digit n = char_of (if n < 10 then 48 + n else 87 + n)"

definition hex_encode :: "bytes \<Rightarrow> string" where
  "hex_encode bs = concat (map (\<lambda>b. [hex_digit (of_char b div 16), hex_digit (of_char b mod 16)]) bs)"

subsection \<open>Facts about these functions\<close>

lemma before_append_sep [simp]: "c \<notin> set a \<Longrightarrow> before c (a @ c # b) = a"
  unfolding before_def by (induction a) auto

lemma after_append_sep [simp]: "c \<notin> set a \<Longrightarrow> after c (a @ c # b) = b"
  unfolding after_def by (induction a) auto

lemma before_no_sep [simp]: "c \<notin> set s \<Longrightarrow> before c s = s"
  unfolding before_def by (induction s) auto

lemma after_no_sep [simp]: "c \<notin> set s \<Longrightarrow> after c s = []"
  unfolding after_def by (induction s) auto

lemma set_before_subset: "set (before c s) \<subseteq> set s"
  unfolding before_def using set_takeWhileD by fastforce

lemma sep_not_in_before [simp]: "c \<notin> set (before c s)"
  unfolding before_def by (auto dest: set_takeWhileD)

lemma before_after_decomp: "c \<in> set s \<Longrightarrow> s = before c s @ c # after c s"
  unfolding before_def after_def by (induction s) auto

lemma length_hex_encode [simp]: "length (hex_encode bs) = 2 * length bs"
  unfolding hex_encode_def by (induction bs) auto

lemma trim_prefix_append [simp]: "trim_prefix (p @ s) p = s"
  by (simp add: trim_prefix_def)

lemma fields_from_words:
  "x \<in> set (go_fields_from w s) \<Longrightarrow> \<forall>c \<in> set w. \<not> is_space c \<Longrightarrow>
   x \<noteq> [] \<and> (\<forall>c \<in> set x. \<not> is_space c) \<and> set x \<subseteq> set w \<union> set s"
proof (induction s arbitrary: w x)
  case Nil
  then show ?case by (cases "w = []") auto
next
  case (Cons c s)
  show ?case
  proof (cases "is_space c")
    case True
    with Cons.prems consider "x = rev w" "w \<noteq> []" | "x \<in> set (go_fields_from [] s)"
      by (cases "w = []") auto
    then show ?thesis
      using Cons.prems(2) Cons.IH [of x "[]"] by cases auto
  next
    case False
    with Cons.prems have "x \<in> set (go_fields_from (c # w) s)" and "\<forall>d \<in> set (c # w). \<not> is_space d"
      by simp_all
    then have "x \<noteq> [] \<and> (\<forall>d \<in> set x. \<not> is_space d) \<and> set x \<subseteq> set (c # w) \<union> set s"
      by (rule Cons.IH)
    then show ?thesis by (simp add: subset_eq)
  qed
qed

lemma fields_words:
  "x \<in> set (go_fields s) \<Longrightarrow> x \<noteq> [] \<and> (\<forall>c \<in> set x. \<not> is_space c) \<and> set x \<subseteq> set s"
  using fields_from_words [of x "[]" s] by (simp add: go_fields_def)

subsection \<open>Rows: first match, update where, delete where\<close>

text \<open>
  A table is a list of rows in insertion order. \<^verbatim>\<open>SELECT ... WHERE p\<close> read with
  \<^verbatim>\<open>QueryRow\<close> is the first row that satisfies \<open>p\<close>; \<^verbatim>\<open>UPDATE ... WHERE p\<close> maps the rows that
  do; \<^verbatim>\<open>DELETE ... WHERE p\<close> filters them out. The row count that
  \<^verbatim>\<open>RowsAffected\<close> reports is \<open>count_where\<close>.
\<close>

definition select_first :: "('r \<Rightarrow> bool) \<Rightarrow> 'r list \<Rightarrow> 'r option" where
  "select_first p rs = List.find p rs"

definition update_where :: "('r \<Rightarrow> bool) \<Rightarrow> ('r \<Rightarrow> 'r) \<Rightarrow> 'r list \<Rightarrow> 'r list" where
  "update_where p f rs = map (\<lambda>r. if p r then f r else r) rs"

definition delete_where :: "('r \<Rightarrow> bool) \<Rightarrow> 'r list \<Rightarrow> 'r list" where
  "delete_where p rs = filter (\<lambda>r. \<not> p r) rs"

definition count_where :: "('r \<Rightarrow> bool) \<Rightarrow> 'r list \<Rightarrow> nat" where
  "count_where p rs = length (filter p rs)"

lemma select_first_Nil [simp, row_simps]: "select_first p [] = None"
  by (simp add: select_first_def)

lemma select_first_Cons [simp, row_simps]:
  "select_first p (r # rs) = (if p r then Some r else select_first p rs)"
  by (simp add: select_first_def)

lemma select_first_SomeD: "select_first p rs = Some r \<Longrightarrow> r \<in> set rs \<and> p r"
  by (induction rs) (auto split: if_splits)

lemma select_first_None_iff: "select_first p rs = None \<longleftrightarrow> (\<forall>r \<in> set rs. \<not> p r)"
  by (induction rs) auto

lemma select_first_append [row_simps]:
  "select_first p (rs @ ss) = (case select_first p rs of None \<Rightarrow> select_first p ss | Some r \<Rightarrow> Some r)"
  by (induction rs) auto

lemma select_first_cong:
  "(\<And>r. r \<in> set rs \<Longrightarrow> p r = q r) \<Longrightarrow> select_first p rs = select_first q rs"
  by (induction rs) auto

lemma select_first_map: "select_first p (map f rs) = map_option f (select_first (p \<circ> f) rs)"
  by (induction rs) auto

lemma select_first_update_where:
  "(\<And>r. q (f r) = q r) \<Longrightarrow>
   select_first q (update_where p f rs) =
     map_option (\<lambda>r. if p r then f r else r) (select_first q rs)"
  unfolding update_where_def by (induction rs) auto

lemma select_first_delete_where_disjoint:
  "(\<And>r. q r \<Longrightarrow> \<not> p r) \<Longrightarrow> select_first q (delete_where p rs) = select_first q rs"
  unfolding delete_where_def by (induction rs) auto

lemma select_first_delete_where_self [simp]: "select_first p (delete_where p rs) = None"
  unfolding delete_where_def by (induction rs) auto

lemma set_delete_where [simp]: "set (delete_where p rs) = {r \<in> set rs. \<not> p r}"
  by (auto simp: delete_where_def)

lemma set_update_where: "set (update_where p f rs) = (\<lambda>r. if p r then f r else r) ` set rs"
  by (auto simp: update_where_def)

lemma map_update_where [row_simps]:
  "(\<And>r. g (f r) = g r) \<Longrightarrow> map g (update_where p f rs) = map g rs"
  by (auto simp: update_where_def)

lemma count_where_0 [simp]: "count_where p rs = 0 \<longleftrightarrow> (\<forall>r \<in> set rs. \<not> p r)"
  by (auto simp: count_where_def filter_empty_conv)

lemma delete_where_none: "(\<forall>r \<in> set rs. \<not> p r) \<Longrightarrow> delete_where p rs = rs"
  unfolding delete_where_def by (induction rs) auto

lemma update_where_none: "(\<forall>r \<in> set rs. \<not> p r) \<Longrightarrow> update_where p f rs = rs"
  unfolding update_where_def by (induction rs) auto

lemma distinct_map_delete_where [intro]: "distinct (map g rs) \<Longrightarrow> distinct (map g (delete_where p rs))"
  unfolding delete_where_def by (rule distinct_map_filter)

lemma select_first_key:
  "distinct (map g rs) \<Longrightarrow> r \<in> set rs \<Longrightarrow> g r = k \<Longrightarrow> select_first (\<lambda>x. g x = k) rs = Some r"
  by (induction rs) (auto simp: image_iff)

subsection \<open>Results\<close>

text \<open>
  A Go function that returns \<^verbatim>\<open>(T, error)\<close> returns \<open>Inl\<close> the error or \<open>Inr\<close> the value.
  A loop that appends the converted element or returns the first error is \<open>traverse\<close>.
\<close>

fun traverse :: "('a \<Rightarrow> 'e + 'b) \<Rightarrow> 'a list \<Rightarrow> 'e + 'b list" where
  "traverse f [] = Inr []"
| "traverse f (x # xs) =
     (case f x of
        Inl e \<Rightarrow> Inl e
      | Inr y \<Rightarrow> (case traverse f xs of Inl e \<Rightarrow> Inl e | Inr ys \<Rightarrow> Inr (y # ys)))"

lemma traverse_Inr_iff:
  "traverse f xs = Inr ys \<longleftrightarrow> list_all2 (\<lambda>x y. f x = Inr y) xs ys"
proof (induction xs arbitrary: ys)
  case (Cons x xs)
  show ?case
    by (cases "f x"; cases "traverse f xs"; cases ys) (auto simp flip: Cons.IH)
qed auto

lemma traverse_Inl_cases:
  "traverse f xs = Inl e \<Longrightarrow> \<exists>x \<in> set xs. f x = Inl e"
  by (induction xs) (auto split: sum.splits)

lemma traverse_total:
  "(\<And>x. x \<in> set xs \<Longrightarrow> f x = Inr (g x)) \<Longrightarrow> traverse f xs = Inr (map g xs)"
  by (induction xs) auto

lemma traverse_map_eq:
  assumes "traverse f xs = Inr ys" and "\<And>x y. f x = Inr y \<Longrightarrow> h y = g x"
  shows "map h ys = map g xs"
proof -
  have "list_all2 (\<lambda>x y. f x = Inr y) xs ys" using assms(1) by (simp add: traverse_Inr_iff)
  then show ?thesis by (induction rule: list_all2_induct) (simp_all add: assms(2))
qed

definition is_ok :: "'e + 'a \<Rightarrow> bool" where
  "is_ok r = (case r of Inl _ \<Rightarrow> False | Inr _ \<Rightarrow> True)"

lemma is_ok_simps [simp]: "\<not> is_ok (Inl e)" "is_ok (Inr x)"
  by (simp_all add: is_ok_def)

lemma is_ok_iff: "is_ok r \<longleftrightarrow> (\<exists>x. r = Inr x)"
  by (cases r) auto

end
