(* ===== verification/GoTime.thy ===== *)
theory GoTime
  imports Prelude
begin

text \<open>
  Instants and their RFC 3339 text. The program keeps every instant in the database as
  \<^verbatim>\<open>t.Format(time.RFC3339)\<close> in UTC, reads it back with \<^verbatim>\<open>parseTime\<close>
  (\<^verbatim>\<open>store/store.go\<close>), and lets SQLite compare and sort the texts. A \<^verbatim>\<open>time.Time\<close> is the number
  of nanoseconds since the Unix epoch (an \<^typ>\<open>int\<close>); a \<^verbatim>\<open>time.Duration\<close> is a number of
  nanoseconds. The calendar is the proleptic Gregorian one, computed as Go's package
  \<^verbatim>\<open>time\<close> does it: cut off 400-year, 100-year, 4-year and 1-year cycles counted from a year that is
  1 modulo 400, then find the month.

  The two facts the store relies on: parsing a formatted instant gives the instant truncated to the
  second (\<open>parse_time_rfc3339\<close>), and the byte order of two formatted instants is the order of the
  instants to the second (\<open>rfc3339_le_iff\<close>), both for years 0 to 9999 (\<open>in_range\<close>).
\<close>

type_synonym time = int
type_synonym duration = int

definition second :: duration where "second = 1000000000"
definition minute :: duration where "minute = 60 * second"
definition hour :: duration where "hour = 60 * minute"

subsection \<open>The calendar\<close>

definition is_leap :: "int \<Rightarrow> bool" where
  "is_leap y \<longleftrightarrow> y mod 4 = 0 \<and> (y mod 100 \<noteq> 0 \<or> y mod 400 = 0)"

definition leap_day :: "int \<Rightarrow> int" where
  "leap_day y = (if is_leap y then 1 else 0)"

text \<open>Days from 1 January of year 1 to 1 January of year \<open>y\<close>.\<close>

definition days_before_year :: "int \<Rightarrow> int" where
  "days_before_year y = 365 * (y - 1) + (y - 1) div 4 - (y - 1) div 100 + (y - 1) div 400"

text \<open>Days from the start of a year with \<open>l\<close> leap days to the start of month \<open>m\<close> (1 to 12).\<close>

definition days_before_month :: "int \<Rightarrow> int \<Rightarrow> int" where
  "days_before_month l m =
     (if m \<le> 1 then 0 else if m = 2 then 31 else if m = 3 then 59 + l else if m = 4 then 90 + l
      else if m = 5 then 120 + l else if m = 6 then 151 + l else if m = 7 then 181 + l
      else if m = 8 then 212 + l else if m = 9 then 243 + l else if m = 10 then 273 + l
      else if m = 11 then 304 + l else if m = 12 then 334 + l else 365 + l)"

definition days_in_month :: "int \<Rightarrow> int \<Rightarrow> int" where
  "days_in_month l m = days_before_month l (m + 1) - days_before_month l m"

definition month_of :: "int \<Rightarrow> int \<Rightarrow> int" where
  "month_of l d =
     (if d < 31 then 1 else if d < 59 + l then 2 else if d < 90 + l then 3
      else if d < 120 + l then 4 else if d < 151 + l then 5 else if d < 181 + l then 6
      else if d < 212 + l then 7 else if d < 243 + l then 8 else if d < 273 + l then 9
      else if d < 304 + l then 10 else if d < 334 + l then 11 else 12)"

text \<open>Days since the Unix epoch of a civil date.\<close>

definition days_of_civil :: "int \<Rightarrow> int \<Rightarrow> int \<Rightarrow> int" where
  "days_of_civil y m d = days_before_year y + days_before_month (leap_day y) m + (d - 1) - 719162"

text \<open>Year and day of the year (from 0) of a day counted from 1 January of year 1.\<close>

definition year_yday :: "int \<Rightarrow> int \<times> int" where
  "year_yday d =
     (let n400 = d div 146097; d1 = d mod 146097;
          n100 = min 3 (d1 div 36524); d2 = d1 - 36524 * n100;
          n4 = d2 div 1461; d3 = d2 - 1461 * n4;
          n1 = min 3 (d3 div 365)
      in (400 * n400 + 100 * n100 + 4 * n4 + n1 + 1, d3 - 365 * n1))"

definition civil_of_days :: "int \<Rightarrow> int \<times> int \<times> int" where
  "civil_of_days z =
     (case year_yday (z + 719162) of (y, yd) \<Rightarrow>
        (let m = month_of (leap_day y) yd in (y, m, yd - days_before_month (leap_day y) m + 1)))"

definition valid_civil :: "int \<Rightarrow> int \<Rightarrow> int \<Rightarrow> bool" where
  "valid_civil y m d \<longleftrightarrow> 1 \<le> m \<and> m \<le> 12 \<and> 1 \<le> d \<and> d \<le> days_in_month (leap_day y) m"

lemma leap_day_cases: "leap_day y = 0 \<or> leap_day y = 1"
  by (simp add: leap_day_def)

text \<open>What the quotient of a division by a positive number satisfies.\<close>

lemma div_bounds: "0 < k \<Longrightarrow> k * ((a::int) div k) \<le> a \<and> a < k * (a div k) + k"
  using pos_mod_bound [of k a] pos_mod_sign [of k a] mult_div_mod_eq [of k a] by linarith

lemma div_Suc_int:
  assumes "0 < k"
  shows "((n::int) + 1) div k = n div k + (if (n + 1) mod k = 0 then 1 else 0)"
proof (cases "(n + 1) mod k = 0")
  case True
  then have "n + 1 = k * ((n + 1) div k)" using mult_div_mod_eq [of k "n + 1"] by linarith
  then have "n = k * ((n + 1) div k - 1) + (k - 1)" by (simp add: algebra_simps)
  then have "n div k = (n + 1) div k - 1"
    using assms by (metis div_mult_self4 div_pos_pos_trivial add.commute add_0_right
        diff_gt_0_iff_gt less_irrefl diff_less_eq int_one_le_iff_zero_less le_diff_eq add_0 less_add_one)
  then show ?thesis using True by simp
next
  case False
  then have "0 < (n + 1) mod k" using assms pos_mod_sign [of k "n + 1"] by linarith
  moreover have "n = k * ((n + 1) div k) + ((n + 1) mod k - 1)"
    using mult_div_mod_eq [of k "n + 1"] by linarith
  ultimately have "n div k = (n + 1) div k"
    using assms pos_mod_bound [of k "n + 1"] int_div_pos_eq [of n k "(n + 1) div k" "(n + 1) mod k - 1"]
    by linarith
  then show ?thesis using False by simp
qed

lemma four_terms_shift:
  fixes y :: int
  shows "a' = a + p \<Longrightarrow> b' = b + q \<Longrightarrow> c' = c + r \<Longrightarrow>
    365 * y + a' - b' + c' = 365 * (y - 1) + a - b + c + 365 + p - q + r"
  by simp

lemma days_before_year_Suc: "days_before_year (y + 1) = days_before_year y + 365 + leap_day y"
proof -
  note e = div_Suc_int [of _ "y - 1", simplified diff_add_cancel]
  have "days_before_year (y + 1) = days_before_year y + 365
      + (if y mod 4 = 0 then 1 else 0) - (if y mod 100 = 0 then 1 else 0)
      + (if y mod 400 = 0 then 1 else 0)"
    unfolding days_before_year_def add_diff_cancel_right'
    by (rule four_terms_shift [OF e [of 4] e [of 100] e [of 400]]) simp_all
  moreover have "y mod 100 = 0 \<Longrightarrow> y mod 4 = 0"
    using mod_mod_cancel [of 4 100 y] by simp
  moreover have "y mod 400 = 0 \<Longrightarrow> y mod 100 = 0"
    using mod_mod_cancel [of 100 400 y] by simp
  ultimately show ?thesis
    by (cases "y mod 4 = 0"; cases "y mod 100 = 0"; cases "y mod 400 = 0")
      (simp_all add: leap_day_def is_leap_def)
qed

text \<open>Cutting at most three cycles of length \<open>k\<close> off a number that is at most four of them.\<close>

lemma cut_cycles:
  fixes a k :: int
  assumes "0 < k" "0 \<le> a" "a \<le> 4 * k" and q: "q = min 3 (a div k)"
  shows "0 \<le> q" "q \<le> 3" "0 \<le> a - k * q" "a - k * q \<le> k" "q < 3 \<Longrightarrow> a - k * q < k"
proof -
  have b: "k * (a div k) \<le> a" "a < k * (a div k) + k" using div_bounds [OF assms(1)] by auto
  have nn: "0 \<le> a div k" using assms by (simp add: pos_imp_zdiv_nonneg_iff)
  show "0 \<le> q" "q \<le> 3" using nn q by auto
  consider "a div k \<le> 3" "q = a div k" | "3 < a div k" "q = 3" using q by linarith
  then have *: "0 \<le> a - k * q \<and> a - k * q \<le> k \<and> (q < 3 \<longrightarrow> a - k * q < k)"
  proof cases
    case 1
    then show ?thesis using b by simp
  next
    case 2
    have "k * 3 \<le> k * (a div k)" using 2 assms(1) by (intro mult_left_mono) auto
    then have "k * 3 \<le> a" using b by linarith
    then show ?thesis using 2 assms(3) by simp
  qed
  then show "0 \<le> a - k * q" "a - k * q \<le> k" "q < 3 \<Longrightarrow> a - k * q < k" by auto
qed

lemma year_yday_cycles:
  assumes "year_yday d = (y, yd)"
  obtains n400 n100 n4 n1 where
    "y = 400 * n400 + 100 * n100 + 4 * n4 + n1 + 1"
    "d = 146097 * n400 + 36524 * n100 + 1461 * n4 + 365 * n1 + yd"
    "0 \<le> n100" "n100 \<le> 3" "0 \<le> n4" "n4 \<le> 24" "0 \<le> n1" "n1 \<le> 3" "0 \<le> yd"
    "n1 < 3 \<longrightarrow> yd < 365" "yd \<le> 365" "n4 = 24 \<and> n100 < 3 \<and> n1 = 3 \<longrightarrow> yd < 365"
proof -
  define n400 where "n400 = d div 146097"
  define d1 where "d1 = d mod 146097"
  define n100 where "n100 = min 3 (d1 div 36524)"
  define d2 where "d2 = d1 - 36524 * n100"
  define n4 where "n4 = d2 div 1461"
  define d3 where "d3 = d2 - 1461 * n4"
  define n1 where "n1 = min 3 (d3 div 365)"
  have "year_yday d = (400 * n400 + 100 * n100 + 4 * n4 + n1 + 1, d3 - 365 * n1)"
    unfolding year_yday_def Let_def n400_def d1_def n100_def d2_def n4_def d3_def n1_def by (rule refl)
  then have yd: "y = 400 * n400 + 100 * n100 + 4 * n4 + n1 + 1" "yd = d3 - 365 * n1"
    using assms by simp_all
  have d1: "0 \<le> d1" "d1 < 146097" "d = 146097 * n400 + d1"
    unfolding d1_def n400_def by simp_all
  have "d1 \<le> 4 * 36524" using d1(2) by simp
  note cut = cut_cycles [OF _ d1(1) this n100_def, folded d2_def]
  have d2: "0 \<le> n100" "n100 \<le> 3" "0 \<le> d2" "d2 \<le> 36524" "n100 < 3 \<Longrightarrow> d2 < 36524"
    by (rule cut; simp)+
  have d3: "0 \<le> n4" "n4 \<le> 24" "0 \<le> d3" "d3 < 1461" "d2 = 1461 * n4 + d3"
    using d2(3,4) div_bounds [of 1461 d2] unfolding d3_def n4_def by linarith+
  have "d3 \<le> 4 * 365" using d3(4) by simp
  note cut = cut_cycles [OF _ d3(3) this n1_def]
  have n1: "0 \<le> n1" "n1 \<le> 3" "0 \<le> d3 - 365 * n1" "d3 - 365 * n1 \<le> 365" "n1 < 3 \<Longrightarrow> d3 - 365 * n1 < 365"
    by (rule cut; simp)+
  have last: "n4 = 24 \<and> n100 < 3 \<and> n1 = 3 \<longrightarrow> yd < 365"
    using d2(5) d3(5) yd(2) by auto
  have d: "d = 146097 * n400 + 36524 * n100 + 1461 * n4 + 365 * n1 + yd"
    using yd(2) d1(3) d3(5) d2_def by linarith
  have "0 \<le> yd" "n1 < 3 \<longrightarrow> yd < 365" "yd \<le> 365"
    unfolding yd(2) using n1(3-5) by blast+
  then show thesis
    using that [OF yd(1) d d2(1,2) d3(1,2) n1(1,2)] last by blast
qed

lemma year_yday_correct:
  assumes "year_yday d = (y, yd)"
  shows "d = days_before_year y + yd" and "0 \<le> yd" and "yd < 365 + leap_day y"
proof -
  obtain n400 n100 n4 n1 where c:
    "y = 400 * n400 + 100 * n100 + 4 * n4 + n1 + 1"
    "d = 146097 * n400 + 36524 * n100 + 1461 * n4 + 365 * n1 + yd"
    "0 \<le> n100" "n100 \<le> 3" "0 \<le> n4" "n4 \<le> 24" "0 \<le> n1" "n1 \<le> 3" "0 \<le> yd"
    "n1 < 3 \<longrightarrow> yd < 365" "yd \<le> 365" "n4 = 24 \<and> n100 < 3 \<and> n1 = 3 \<longrightarrow> yd < 365"
    by (rule year_yday_cycles [OF assms]) blast
  have "(y - 1) div 4 = 100 * n400 + 25 * n100 + n4"
    using c div_bounds [of 4 "y - 1"] by linarith
  moreover have "(y - 1) div 100 = 4 * n400 + n100"
    using c div_bounds [of 100 "y - 1"] by linarith
  moreover have "(y - 1) div 400 = n400"
    using c div_bounds [of 400 "y - 1"] by linarith
  ultimately show "d = days_before_year y + yd"
    using c by (simp add: days_before_year_def)
  show "0 \<le> yd" by (fact c)
  show "yd < 365 + leap_day y"
  proof (cases "yd < 365")
    case True
    then show ?thesis using leap_day_cases [of y] by linarith
  next
    case False
    then have n1: "n1 = 3" and "n4 < 24 \<or> n100 = 3" using c by linarith+
    have "y = 4 * (100 * n400 + 25 * n100 + n4 + 1)" unfolding c(1) n1 by (simp add: algebra_simps)
    then have "y mod 4 = 0" by (simp only: mod_mult_self1_is_0)
    moreover have "y mod 100 \<noteq> 0 \<or> y mod 400 = 0"
    proof (cases "n4 < 24")
      case True
      have "y = 100 * (4 * n400 + n100) + (4 * n4 + 4)" unfolding c(1) n1 by (simp add: algebra_simps)
      moreover have "0 < 4 * n4 + 4" "4 * n4 + 4 < 100" using c(5) True by linarith+
      ultimately have "y mod 100 = 4 * n4 + 4"
        using int_mod_pos_eq [of y 100 "4 * n400 + n100" "4 * n4 + 4"] by linarith
      then show ?thesis using c(5) by linarith
    next
      case False
      then have n: "n4 = 24" "n100 = 3" using c(6) \<open>n4 < 24 \<or> n100 = 3\<close> by linarith+
      have "y = 400 * (n400 + 1)" unfolding c(1) n1 n by (simp add: algebra_simps)
      then show ?thesis by (simp only: mod_mult_self1_is_0 simp_thms)
    qed
    ultimately have "leap_day y = 1" by (simp add: leap_day_def is_leap_def)
    then show ?thesis using c by linarith
  qed
qed

text \<open>Months partition the year.\<close>

lemma month_of_bounds:
  assumes "l = 0 \<or> l = 1" "0 \<le> d" "d < 365 + l"
  shows "1 \<le> month_of l d" "month_of l d \<le> 12"
    and "days_before_month l (month_of l d) \<le> d" "d < days_before_month l (month_of l d + 1)"
  using assms by (auto simp: month_of_def days_before_month_def)

lemma days_before_month_step: "l = 0 \<or> l = 1 \<Longrightarrow> days_before_month l m \<le> days_before_month l (m + 1)"
  by (auto simp: days_before_month_def)

lemma days_before_month_mono:
  assumes "l = 0 \<or> l = 1" "m \<le> m'"
  shows "days_before_month l m \<le> days_before_month l m'"
  using assms(2)
proof (induction m' rule: int_ge_induct)
  case (step i)
  then show ?case using days_before_month_step [OF assms(1), of i] by linarith
qed simp

lemma days_before_month_13: "days_before_month l 13 = 365 + l"
  by (simp add: days_before_month_def)

lemma days_before_month_nonneg: "l = 0 \<or> l = 1 \<Longrightarrow> 0 \<le> days_before_month l m"
  by (auto simp: days_before_month_def)

lemma civil_of_days_correct:
  assumes "civil_of_days z = (y, m, d)"
  shows "valid_civil y m d" "days_of_civil y m d = z"
proof -
  obtain y' yd where yy: "year_yday (z + 719162) = (y', yd)" by fastforce
  note yc = year_yday_correct [OF this]
  note mb = month_of_bounds [OF leap_day_cases yc(2,3)]
  have "y = y'" "m = month_of (leap_day y') yd"
    "d = yd - days_before_month (leap_day y') (month_of (leap_day y') yd) + 1"
    using assms yy by (auto simp: civil_of_days_def Let_def)
  with mb yc(1) show "valid_civil y m d" "days_of_civil y m d = z"
    by (auto simp: valid_civil_def days_in_month_def days_of_civil_def)
qed

lemma days_before_year_less:
  assumes "y < y'"
  shows "days_before_year y + 365 + leap_day y \<le> days_before_year y'"
proof -
  have "days_before_year (y + 1) \<le> days_before_year (y + 1 + int k)" for k
  proof (induction k)
    case (Suc k)
    have "days_before_year (y + 1 + int (Suc k)) = days_before_year ((y + 1 + int k) + 1)"
      by (rule arg_cong [where f = days_before_year]) simp
    then have "days_before_year (y + 1 + int k) \<le> days_before_year (y + 1 + int (Suc k))"
      using days_before_year_Suc [of "y + 1 + int k"] leap_day_cases [of "y + 1 + int k"]
      by linarith
    then show ?case using Suc by linarith
  qed simp
  from this [of "nat (y' - y - 1)"] assms show ?thesis
    using days_before_year_Suc [of y] by simp
qed

text \<open>The order of valid civil dates is the order of their day numbers.\<close>

definition civil_less :: "int \<times> int \<times> int \<Rightarrow> int \<times> int \<times> int \<Rightarrow> bool" where
  "civil_less = (\<lambda>(y, m, d) (y', m', d'). y < y' \<or> y = y' \<and> (m < m' \<or> m = m' \<and> d < d'))"

lemma days_of_civil_less:
  assumes "valid_civil y m d" "valid_civil y' m' d'" "civil_less (y, m, d) (y', m', d')"
  shows "days_of_civil y m d < days_of_civil y' m' d'"
proof -
  note lc = leap_day_cases [of y] leap_day_cases [of y']
  have m: "1 \<le> m" "m \<le> 12" "1 \<le> m'" "m' \<le> 12"
    "1 \<le> d" "days_before_month (leap_day y) m + d \<le> days_before_month (leap_day y) (m + 1)" "1 \<le> d'"
    using assms(1,2) by (auto simp: valid_civil_def days_in_month_def)
  have "days_before_month (leap_day y) (m + 1) \<le> 365 + leap_day y"
    using m lc days_before_month_mono [of "leap_day y" "m + 1" 13] days_before_month_13 by auto
  moreover have "0 \<le> days_before_month (leap_day y') m'"
    using lc days_before_month_nonneg by blast
  moreover have "y < y' \<Longrightarrow> days_before_year y + 365 + leap_day y \<le> days_before_year y'"
    by (rule days_before_year_less)
  moreover have "m < m' \<Longrightarrow> days_before_month (leap_day y) (m + 1) \<le> days_before_month (leap_day y) m'"
    using m lc days_before_month_mono [of "leap_day y" "m + 1" m'] by auto
  ultimately show ?thesis
    using assms(3) m unfolding civil_less_def days_of_civil_def by auto
qed

lemma civil_of_days_less_iff: "civil_less (civil_of_days a) (civil_of_days b) \<longleftrightarrow> a < b"
proof -
  obtain y m d where a: "civil_of_days a = (y, m, d)" using prod_cases3 by blast
  obtain y' m' d' where b: "civil_of_days b = (y', m', d')" using prod_cases3 by blast
  note ac = civil_of_days_correct [OF a] and bc = civil_of_days_correct [OF b]
  show ?thesis
  proof (cases "civil_less (y, m, d) (y', m', d')")
    case True
    then show ?thesis using days_of_civil_less ac bc a b by metis
  next
    case False
    then have "(y, m, d) = (y', m', d') \<or> civil_less (y', m', d') (y, m, d)"
      unfolding civil_less_def by auto
    then have "b \<le> a" using days_of_civil_less [OF bc(1) ac(1)] ac(2) bc(2) by auto
    with False a b show ?thesis by simp
  qed
qed

subsection \<open>Formatting: time.RFC3339 in UTC\<close>

definition dig :: "int \<Rightarrow> char" where
  "dig n = char_of (nat (48 + n))"

definition pad2 :: "int \<Rightarrow> string" where
  "pad2 n = [dig (n div 10), dig (n mod 10)]"

fun decimal :: "nat \<Rightarrow> string" where
  "decimal n = (if n < 10 then [dig (int n)] else decimal (n div 10) @ [dig (int (n mod 10))])"

declare decimal.simps [simp del]

text \<open>The year: at least four digits, with a sign in front when it is negative.\<close>

definition pad4 :: "int \<Rightarrow> string" where
  "pad4 n = [dig (n div 1000), dig (n div 100 mod 10), dig (n div 10 mod 10), dig (n mod 10)]"

definition format_year :: "int \<Rightarrow> string" where
  "format_year y =
     (if 0 \<le> y \<and> y \<le> 9999 then pad4 y
      else if 9999 < y then decimal (nat y)
      else CHR ''-'' # (if y < -9999 then decimal (nat (- y)) else pad4 (- y)))"

definition unix_seconds :: "time \<Rightarrow> int" where
  "unix_seconds t = t div second"

definition year_of :: "time \<Rightarrow> int" where
  "year_of t = fst (civil_of_days (unix_seconds t div 86400))"

definition rfc3339 :: "time \<Rightarrow> string" where
  "rfc3339 t =
     (let s = unix_seconds t; sod = s mod 86400 in
      case civil_of_days (s div 86400) of (y, m, d) \<Rightarrow>
        format_year y @ [CHR ''-''] @ pad2 m @ [CHR ''-''] @ pad2 d @ [CHR ''T'']
        @ pad2 (sod div 3600) @ [CHR '':''] @ pad2 (sod div 60 mod 60) @ [CHR '':'']
        @ pad2 (sod mod 60) @ [CHR ''Z''])"

definition in_range :: "time \<Rightarrow> bool" where
  "in_range t \<longleftrightarrow> 0 \<le> year_of t \<and> year_of t \<le> 9999"

subsection \<open>Parsing: parseTime of store.go\<close>

text \<open>
  \<^verbatim>\<open>parseTime\<close> tries RFC 3339 and then the layout \<^verbatim>\<open>2006-01-02 15:04:05\<close>, which is read as UTC.
  Both start with nineteen bytes that differ in the separator only; RFC 3339 goes on with an
  optional fraction of a second (nine digits count) and \<^verbatim>\<open>Z\<close> or an offset.
\<close>

definition is_digit :: "char \<Rightarrow> bool" where
  "is_digit c \<longleftrightarrow> CHR ''0'' \<le> c \<and> c \<le> CHR ''9''"

definition dval :: "char \<Rightarrow> int" where
  "dval c = int (of_char c) - 48"

definition num2 :: "string \<Rightarrow> nat \<Rightarrow> int" where
  "num2 s i = 10 * dval (s ! i) + dval (s ! Suc i)"

definition digits_at :: "string \<Rightarrow> nat list \<Rightarrow> bool" where
  "digits_at s is \<longleftrightarrow> (\<forall>i \<in> set is. is_digit (s ! i))"

text \<open>The first nineteen bytes, as seconds since the Unix epoch.\<close>

definition parse_datetime :: "char \<Rightarrow> string \<Rightarrow> int option" where
  "parse_datetime sep s =
     (if length s < 19 then None
      else
        let y = 100 * num2 s 0 + num2 s 2; m = num2 s 5; d = num2 s 8;
            h = num2 s 11; mi = num2 s 14; se = num2 s 17
        in if digits_at s [0, 1, 2, 3, 5, 6, 8, 9, 11, 12, 14, 15, 17, 18]
              \<and> s ! 4 = CHR ''-'' \<and> s ! 7 = CHR ''-'' \<and> s ! 10 = sep \<and> s ! 13 = CHR '':''
              \<and> s ! 16 = CHR '':'' \<and> valid_civil y m d \<and> h < 24 \<and> mi < 60 \<and> se < 60
           then Some (86400 * days_of_civil y m d + 3600 * h + 60 * mi + se) else None)"

definition fraction_of :: "string \<Rightarrow> string" where
  "fraction_of s = (case s of c # r \<Rightarrow> if c = CHR ''.'' then takeWhile is_digit r else [] | [] \<Rightarrow> [])"

definition nanos_of :: "string \<Rightarrow> int" where
  "nanos_of ds = foldl (\<lambda>a c. 10 * a + dval c) 0 (take 9 (ds @ ''000000000''))"

text \<open>The offset of \<^verbatim>\<open>Z\<close> or \<^verbatim>\<open>+hh:mm\<close> in seconds, when that is all there is.\<close>

definition parse_zone :: "string \<Rightarrow> int option" where
  "parse_zone s =
     (if s = ''Z'' then Some 0
      else if length s = 6 \<and> (s ! 0 = CHR ''+'' \<or> s ! 0 = CHR ''-'') \<and> s ! 3 = CHR '':''
              \<and> digits_at s [1, 2, 4, 5] \<and> num2 s 1 < 24 \<and> num2 s 4 < 60
      then Some ((if s ! 0 = CHR ''-'' then -1 else 1) * (3600 * num2 s 1 + 60 * num2 s 4))
      else None)"

definition parse_rfc3339 :: "string \<Rightarrow> time option" where
  "parse_rfc3339 s =
     (case parse_datetime (CHR ''T'') s of None \<Rightarrow> None
      | Some secs \<Rightarrow>
          (let r = drop 19 s; f = fraction_of r; r' = (if f = [] then r else drop (Suc (length f)) r)
           in case parse_zone r' of None \<Rightarrow> None
              | Some off \<Rightarrow> Some (second * (secs - off) + nanos_of f)))"

definition parse_time :: "string \<Rightarrow> time option" where
  "parse_time s =
     (case parse_rfc3339 s of Some t \<Rightarrow> Some t
      | None \<Rightarrow>
          (if length s = 19 then map_option (\<lambda>secs. second * secs) (parse_datetime (CHR '' '') s)
           else None))"

subsection \<open>Round trip\<close>

lemma of_char_dig [simp]: "0 \<le> n \<Longrightarrow> n \<le> 9 \<Longrightarrow> (of_char (dig n) :: nat) = nat (48 + n)"
  by (simp add: dig_def)

lemma dval_dig [simp]: "0 \<le> n \<Longrightarrow> n \<le> 9 \<Longrightarrow> dval (dig n) = n"
  by (simp add: dval_def)

lemma is_digit_dig [simp]: "0 \<le> n \<Longrightarrow> n \<le> 9 \<Longrightarrow> is_digit (dig n)"
  by (simp add: is_digit_def less_eq_char_def nat_le_iff)

lemma dig_less_iff: "0 \<le> a \<Longrightarrow> a \<le> 9 \<Longrightarrow> 0 \<le> b \<Longrightarrow> b \<le> 9 \<Longrightarrow> dig a < dig b \<longleftrightarrow> a < b"
  by (simp add: less_char_def)

lemma dig_eq_iff: "0 \<le> a \<Longrightarrow> a \<le> 9 \<Longrightarrow> 0 \<le> b \<Longrightarrow> b \<le> 9 \<Longrightarrow> dig a = dig b \<longleftrightarrow> a = b"
  by (metis dval_dig)

lemma digit_bounds: "0 \<le> (n::int) mod 10" "(n::int) mod 10 \<le> 9"
  by simp_all

lemma tens_bounds: "0 \<le> (n::int) \<Longrightarrow> n < 100 \<Longrightarrow> 0 \<le> n div 10 \<and> n div 10 \<le> 9"
  using div_bounds [of 10 n] by linarith

lemma length_pad [simp]: "length (pad2 n) = 2" "length (pad4 n) = 4"
  by (simp_all add: pad2_def pad4_def)

lemma pad4_pad2: "0 \<le> y \<Longrightarrow> pad4 y = pad2 (y div 100) @ pad2 (y mod 100)"
proof -
  assume "0 \<le> y"
  have "y div 1000 = y div 100 div 10" using zdiv_zmult2_eq [of 10 y 100] by simp
  moreover have "y mod 100 = 10 * (y div 10 mod 10) + y mod 10"
    using zmod_zmult2_eq [of 10 y 10] by simp
  then have "y mod 100 div 10 = y div 10 mod 10"
    by (rule int_div_pos_eq) simp_all
  moreover have "y mod 100 mod 10 = y mod 10" using mod_mod_cancel [of 10 100 y] by simp
  ultimately show ?thesis by (simp only: pad4_def pad2_def append_Cons append_Nil)
qed

text \<open>The nineteen bytes of a date and a time of day.\<close>

definition stamp :: "int \<Rightarrow> int \<Rightarrow> int \<Rightarrow> char \<Rightarrow> int \<Rightarrow> int \<Rightarrow> int \<Rightarrow> string" where
  "stamp y m d sep h mi s =
     pad4 y @ [CHR ''-''] @ pad2 m @ [CHR ''-''] @ pad2 d @ [sep]
        @ pad2 h @ [CHR '':''] @ pad2 mi @ [CHR '':''] @ pad2 s"

definition two_digits :: "string \<Rightarrow> nat \<Rightarrow> int \<Rightarrow> bool" where
  "two_digits s i n \<longleftrightarrow> is_digit (s ! i) \<and> is_digit (s ! Suc i) \<and> num2 s i = n"

lemma two_digits_pad2:
  assumes "0 \<le> n" "n < 100" "i = length pre" "s = pre @ pad2 n @ suf"
  shows "two_digits s i n"
  using assms tens_bounds [of n] by (simp add: two_digits_def num2_def pad2_def nth_append)

lemma parse_datetime_two_digits:
  assumes "two_digits x 0 c" "two_digits x 2 yy" "two_digits x 5 m" "two_digits x 8 d"
    "two_digits x 11 h" "two_digits x 14 mi" "two_digits x 17 s"
    "19 \<le> length x" "x ! 4 = CHR ''-''" "x ! 7 = CHR ''-''" "x ! 10 = sep" "x ! 13 = CHR '':''"
    "x ! 16 = CHR '':''" "valid_civil (100 * c + yy) m d" "h < 24" "mi < 60" "s < 60"
  shows "parse_datetime sep x = Some (86400 * days_of_civil (100 * c + yy) m d + 3600 * h + 60 * mi + s)"
  using assms unfolding two_digits_def parse_datetime_def Let_def digits_at_def
  by (simp add: numeral_eq_Suc)

lemma parse_stamp:
  assumes "0 \<le> y" "y \<le> 9999" "valid_civil y m d"
    "0 \<le> h" "h < 24" "0 \<le> mi" "mi < 60" "0 \<le> s" "s < 60"
  shows "parse_datetime sep (stamp y m d sep h mi s @ rest) =
    Some (86400 * days_of_civil y m d + 3600 * h + 60 * mi + s)"
proof -
  have md: "0 \<le> m" "m < 100" "0 \<le> d" "d < 100"
    using assms(3) leap_day_cases [of y] 
    by (auto simp: valid_civil_def days_in_month_def days_before_month_def split: if_splits)
  have y: "0 \<le> y div 100" "y div 100 < 100" "0 \<le> y mod 100" "y mod 100 < 100" "100 * (y div 100) + y mod 100 = y"
    using assms(1,2) div_bounds [of 100 y] by auto
  let ?x = "stamp y m d sep h mi s @ rest"
  have t: "two_digits ?x 0 (y div 100)" "two_digits ?x 2 (y mod 100)" "two_digits ?x 5 m"
      "two_digits ?x 8 d" "two_digits ?x 11 h" "two_digits ?x 14 mi" "two_digits ?x 17 s"
    unfolding stamp_def pad4_pad2 [OF assms(1)]
    subgoal by (rule two_digits_pad2 [where pre = "[]"]) (use assms md y in auto)
    subgoal by (rule two_digits_pad2 [where pre = "pad2 (y div 100)"]) (use assms md y in auto)
    subgoal by (rule two_digits_pad2 [where pre = "pad2 (y div 100) @ pad2 (y mod 100) @ [CHR ''-'']"]) (use assms md y in auto)
    subgoal by (rule two_digits_pad2 [where pre = "pad2 (y div 100) @ pad2 (y mod 100) @ [CHR ''-''] @ pad2 m @ [CHR ''-'']"]) (use assms md y in auto)
    subgoal by (rule two_digits_pad2 [where pre = "pad2 (y div 100) @ pad2 (y mod 100) @ [CHR ''-''] @ pad2 m @ [CHR ''-''] @ pad2 d @ [sep]"]) (use assms md y in auto)
    subgoal by (rule two_digits_pad2 [where pre = "pad2 (y div 100) @ pad2 (y mod 100) @ [CHR ''-''] @ pad2 m @ [CHR ''-''] @ pad2 d @ [sep] @ pad2 h @ [CHR '':'']"]) (use assms md y in auto)
    subgoal by (rule two_digits_pad2 [where pre = "pad2 (y div 100) @ pad2 (y mod 100) @ [CHR ''-''] @ pad2 m @ [CHR ''-''] @ pad2 d @ [sep] @ pad2 h @ [CHR '':''] @ pad2 mi @ [CHR '':'']"]) (use assms md y in auto)
    done
  have "19 \<le> length ?x" "?x ! 4 = CHR ''-''" "?x ! 7 = CHR ''-''" "?x ! 10 = sep" "?x ! 13 = CHR '':''"
    "?x ! 16 = CHR '':''"
    by (simp_all add: stamp_def nth_append)
  with t show ?thesis
    using parse_datetime_two_digits [of ?x "y div 100" "y mod 100" m d h mi s sep] assms unfolding y(5) by simp
qed

lemma rfc3339_stamp:
  assumes "in_range t" "civil_of_days (unix_seconds t div 86400) = (y, m, d)" "sod = unix_seconds t mod 86400"
  shows "rfc3339 t = stamp y m d (CHR ''T'') (sod div 3600) (sod div 60 mod 60) (sod mod 60) @ ''Z''"
    and "0 \<le> y" "y \<le> 9999"
  using assms by (simp_all add: rfc3339_def stamp_def Let_def in_range_def year_of_def format_year_def)

lemma clock_bounds:
  assumes "sod = n mod (86400::int)"
  shows "0 \<le> sod div 3600" "sod div 3600 < 24" "0 \<le> sod div 60 mod 60" "sod div 60 mod 60 < 60"
    "0 \<le> sod mod 60" "sod mod 60 < 60" "3600 * (sod div 3600) + 60 * (sod div 60 mod 60) + sod mod 60 = sod"
proof -
  have s: "0 \<le> sod" "sod < 86400" using assms by simp_all
  then show "0 \<le> sod div 3600" "sod div 3600 < 24"
    using div_bounds [of 3600 sod] by linarith+
  have "sod div 3600 = sod div 60 div 60" using zdiv_zmult2_eq [of 60 sod 60] by simp
  then show "3600 * (sod div 3600) + 60 * (sod div 60 mod 60) + sod mod 60 = sod"
    using mult_div_mod_eq [of 60 sod] mult_div_mod_eq [of 60 "sod div 60"] by linarith
qed simp_all

theorem parse_time_rfc3339:
  assumes "in_range t"
  shows "parse_time (rfc3339 t) = Some (second * unix_seconds t)"
proof -
  obtain y m d where c: "civil_of_days (unix_seconds t div 86400) = (y, m, d)"
    using prod_cases3 by blast
  define sod where "sod = unix_seconds t mod 86400"
  note st = rfc3339_stamp [OF assms c sod_def] and cb = clock_bounds [OF sod_def]
    and cc = civil_of_days_correct [OF c]
  have "86400 * days_of_civil y m d + 3600 * (sod div 3600) + 60 * (sod div 60 mod 60) + sod mod 60
      = unix_seconds t"
    using cb(7) mult_div_mod_eq [of 86400 "unix_seconds t"] unfolding cc(2) sod_def by linarith
  then have "parse_datetime (CHR ''T'') (rfc3339 t) = Some (unix_seconds t)"
    unfolding st(1) parse_stamp [OF st(2,3) cc(1) cb(1-6)] by simp
  moreover have "drop 19 (rfc3339 t) = ''Z''"
    unfolding st(1) by (simp add: stamp_def)
  ultimately show ?thesis
    by (simp add: parse_time_def parse_rfc3339_def fraction_of_def parse_zone_def nanos_of_def Let_def dval_def)
qed

subsection \<open>Byte order is time order\<close>

lemma append_less_iff:
  "length a = length b \<Longrightarrow> (a @ x < b @ y) = (a < b \<or> a = b \<and> x < (y :: string))"
  by (induction a b rule: list_induct2) auto

lemma positional_less:
  fixes k q r q' r' :: int
  assumes "0 \<le> r" "r < k" "0 \<le> r'" "r' < k"
  shows "(q < q' \<or> q = q' \<and> r < r') = (k * q + r < k * q' + r')"
proof -
  have step: "k * a + k \<le> k * b" if "a < b" for a b :: int
    using mult_left_mono [of "a + 1" b k] that assms by (simp add: algebra_simps)
  show ?thesis
    using assms step [of q q'] step [of q' q] by (cases q q' rule: linorder_cases) auto
qed

lemma pad2_less:
  assumes "0 \<le> a" "a < 100" "0 \<le> b" "b < 100"
  shows "pad2 a < pad2 b \<longleftrightarrow> a < b"
proof -
  have "pad2 a < pad2 b \<longleftrightarrow> (a div 10 < b div 10 \<or> a div 10 = b div 10 \<and> a mod 10 < b mod 10)"
    using tens_bounds [OF assms(1,2)] tens_bounds [OF assms(3,4)] digit_bounds [of a] digit_bounds [of b]
    by (simp add: pad2_def dig_less_iff dig_eq_iff)
  also have "\<dots> \<longleftrightarrow> 10 * (a div 10) + a mod 10 < 10 * (b div 10) + b mod 10"
    by (rule positional_less) simp_all
  finally show ?thesis by simp
qed

lemma pad2_eq: "0 \<le> a \<Longrightarrow> a < 100 \<Longrightarrow> 0 \<le> b \<Longrightarrow> b < 100 \<Longrightarrow> pad2 a = pad2 b \<longleftrightarrow> a = b"
  using pad2_less [of a b] pad2_less [of b a] by fastforce


lemma hundreds:
  fixes n :: int
  assumes "0 \<le> n" "n \<le> 9999"
  shows "0 \<le> n div 100" "n div 100 < 100" "0 \<le> n mod 100" "n mod 100 < 100"
    "100 * (n div 100) + n mod 100 = n"
  using assms div_bounds [of 100 n] by auto

lemma pad4_less:
  assumes "0 \<le> a" "a \<le> 9999" "0 \<le> b" "b \<le> 9999"
  shows "pad4 a < pad4 b \<longleftrightarrow> a < b"
proof -
  note ca = hundreds [OF assms(1,2)] and cb = hundreds [OF assms(3,4)]
  have "pad4 a < pad4 b \<longleftrightarrow> (a div 100 < b div 100 \<or> a div 100 = b div 100 \<and> a mod 100 < b mod 100)"
    using ca cb unfolding pad4_pad2 [OF assms(1)] pad4_pad2 [OF assms(3)]
    by (simp add: append_less_iff pad2_less pad2_eq)
  also have "\<dots> \<longleftrightarrow> 100 * (a div 100) + a mod 100 < 100 * (b div 100) + b mod 100"
    by (rule positional_less) (use ca cb in simp_all)
  finally show ?thesis unfolding ca(5) cb(5) .
qed

lemma pad4_eq: "0 \<le> a \<Longrightarrow> a \<le> 9999 \<Longrightarrow> 0 \<le> b \<Longrightarrow> b \<le> 9999 \<Longrightarrow> pad4 a = pad4 b \<longleftrightarrow> a = b"
  using pad4_less [of a b] pad4_less [of b a] by fastforce

text \<open>The clock reading of a second of the day, in lexicographic order.\<close>

lemma clock_less_iff:
  assumes "sa = na mod (86400::int)" "sb = nb mod (86400::int)"
  shows "(sa div 3600 < sb div 3600 \<or> sa div 3600 = sb div 3600 \<and>
      (sa div 60 mod 60 < sb div 60 mod 60 \<or> sa div 60 mod 60 = sb div 60 mod 60 \<and> sa mod 60 < sb mod 60))
     \<longleftrightarrow> sa < sb"
proof -
  define ha ma ca hb mb cb where
    "ha = sa div 3600" "ma = sa div 60 mod 60" "ca = sa mod 60"
    "hb = sb div 3600" "mb = sb div 60 mod 60" "cb = sb mod 60"
  note d = this
  show ?thesis
    using clock_bounds [OF assms(1)] clock_bounds [OF assms(2)] unfolding d [symmetric] by auto
qed

lemma stamp_less:
  assumes "0 \<le> y" "y \<le> 9999" "0 \<le> y'" "y' \<le> 9999" "0 \<le> m" "m < 100" "0 \<le> m'" "m' < 100"
    "0 \<le> d" "d < 100" "0 \<le> d'" "d' < 100" "0 \<le> h" "h < 24" "0 \<le> h'" "h' < 24"
    "0 \<le> mi" "mi < 60" "0 \<le> mi'" "mi' < 60" "0 \<le> s" "s < 60" "0 \<le> s'" "s' < 60"
  shows "stamp y m d sep h mi s @ x < stamp y' m' d' sep h' mi' s' @ x \<longleftrightarrow>
      civil_less (y, m, d) (y', m', d') \<or> (y, m, d) = (y', m', d') \<and>
      (h < h' \<or> h = h' \<and> (mi < mi' \<or> mi = mi' \<and> s < s'))"
proof -
  have "pad4 y < pad4 y' \<longleftrightarrow> y < y'" "pad4 y = pad4 y' \<longleftrightarrow> y = y'"
    "pad2 m < pad2 m' \<longleftrightarrow> m < m'" "pad2 m = pad2 m' \<longleftrightarrow> m = m'"
    "pad2 d < pad2 d' \<longleftrightarrow> d < d'" "pad2 d = pad2 d' \<longleftrightarrow> d = d'"
    "pad2 h < pad2 h' \<longleftrightarrow> h < h'" "pad2 h = pad2 h' \<longleftrightarrow> h = h'"
    "pad2 mi < pad2 mi' \<longleftrightarrow> mi < mi'" "pad2 mi = pad2 mi' \<longleftrightarrow> mi = mi'"
    "pad2 s < pad2 s' \<longleftrightarrow> s < s'"
    using assms by (simp_all add: pad4_less pad4_eq pad2_less pad2_eq)
  then show ?thesis
    unfolding stamp_def civil_less_def
    by (simp add: append_less_iff) blast
qed

lemma rfc3339_less_iff:
  assumes "in_range t" "in_range u"
  shows "rfc3339 t < rfc3339 u \<longleftrightarrow> unix_seconds t < unix_seconds u"
proof -
  obtain y m d where c: "civil_of_days (unix_seconds t div 86400) = (y, m, d)" using prod_cases3 by blast
  obtain y' m' d' where c': "civil_of_days (unix_seconds u div 86400) = (y', m', d')" using prod_cases3 by blast
  define s where "s = unix_seconds t mod 86400"
  define s' where "s' = unix_seconds u mod 86400"
  note st = rfc3339_stamp [OF assms(1) c s_def] and st' = rfc3339_stamp [OF assms(2) c' s'_def]
  note cb = clock_bounds [OF s_def] and cb' = clock_bounds [OF s'_def]
  have md: "0 \<le> m \<and> m < 100 \<and> 0 \<le> d \<and> d < 100" if "valid_civil y m d" for y m d
    using that leap_day_cases [of y]
    by (auto simp: valid_civil_def days_in_month_def days_before_month_def split: if_splits)
  note b = md [OF civil_of_days_correct(1) [OF c]] md [OF civil_of_days_correct(1) [OF c']]
  have "rfc3339 t < rfc3339 u \<longleftrightarrow>
      civil_less (y, m, d) (y', m', d') \<or> (y, m, d) = (y', m', d') \<and>
      (s div 3600 < s' div 3600 \<or> s div 3600 = s' div 3600 \<and>
        (s div 60 mod 60 < s' div 60 mod 60 \<or> s div 60 mod 60 = s' div 60 mod 60 \<and> s mod 60 < s' mod 60))"
    unfolding st(1) st'(1) by (rule stamp_less) (use b cb cb' st(2,3) st'(2,3) in blast)+
  also have "\<dots> \<longleftrightarrow> unix_seconds t div 86400 < unix_seconds u div 86400
      \<or> unix_seconds t div 86400 = unix_seconds u div 86400 \<and> s < s'"
    unfolding clock_less_iff [OF s_def s'_def]
    using civil_of_days_less_iff [of "unix_seconds t div 86400" "unix_seconds u div 86400"]
      civil_of_days_correct(2) [OF c] civil_of_days_correct(2) [OF c'] c c' by auto
  also have "\<dots> \<longleftrightarrow> unix_seconds t < unix_seconds u"
  proof -
    define q q' where "q = unix_seconds t div 86400" "q' = unix_seconds u div 86400"
    have "unix_seconds t = 86400 * q + s" "unix_seconds u = 86400 * q' + s'" "0 \<le> s" "s < 86400" "0 \<le> s'" "s' < 86400"
      unfolding q_q'_def s_def s'_def by simp_all
    then show ?thesis unfolding q_q'_def [symmetric] by auto
  qed
  finally show ?thesis .
qed

corollary rfc3339_le_iff:
  assumes "in_range t" "in_range u"
  shows "rfc3339 t \<le> rfc3339 u \<longleftrightarrow> unix_seconds t \<le> unix_seconds u"
  using rfc3339_less_iff [OF assms(2,1)] by (simp add: not_less [symmetric])


text \<open>Instants whose year has four digits form an interval.\<close>

lemma year_of_mono: "t \<le> u \<Longrightarrow> year_of t \<le> year_of u"
proof -
  assume "t \<le> u"
  then have "unix_seconds t div 86400 \<le> unix_seconds u div 86400"
    unfolding unix_seconds_def by (intro zdiv_mono1) (auto simp: second_def)
  then have "\<not> civil_less (civil_of_days (unix_seconds u div 86400)) (civil_of_days (unix_seconds t div 86400))"
    unfolding civil_of_days_less_iff by simp
  then show ?thesis
    unfolding year_of_def civil_less_def by (auto split: prod.splits)
qed

lemma in_range_between: "in_range a \<Longrightarrow> in_range c \<Longrightarrow> a \<le> b \<Longrightarrow> b \<le> c \<Longrightarrow> in_range b"
  unfolding in_range_def using year_of_mono [of a b] year_of_mono [of b c] by linarith

lemma unix_seconds_mono: "t \<le> u \<Longrightarrow> unix_seconds t \<le> unix_seconds u"
  unfolding unix_seconds_def by (intro zdiv_mono1) (auto simp: second_def)

lemma unix_seconds_le: "second * unix_seconds t \<le> t" "t < second * unix_seconds t + second"
  unfolding unix_seconds_def using div_bounds [of second t] by (auto simp: second_def)

end
