(* ===== verification/Database.thy ===== *)
theory Database
  imports GoTime
begin

text \<open>
  The SQLite database of \<^verbatim>\<open>store/store.go\<close> as the kernel sees it: one list of rows per table of
  \<^verbatim>\<open>migrate\<close>, the INSERT statements with the constraints the schema declares (primary keys,
  UNIQUE, CHECK, foreign keys, the partial unique index on active grants), the cascading delete of a
  principal, and the driver calls the store makes (\<^verbatim>\<open>Exec\<close>, \<^verbatim>\<open>Query\<close>, \<^verbatim>\<open>Begin\<close>,
  \<^verbatim>\<open>Commit\<close>, \<^verbatim>\<open>Rollback\<close>). DATETIME columns hold the RFC 3339 text the program writes; the
  \<^verbatim>\<open>redirect_uris\<close> column, a JSON array of strings in the database, is kept as the list.

  The world around the database is explicit: the clock with the delay before each reading, the
  random draws, and for each driver call whether it fails (any call may, which is how a full disk, a
  lost connection or a crash in the middle of a transaction appear here).
\<close>

subsection \<open>Tables\<close>

record principal_row =
  pr_id :: string
  pr_class :: string
  pr_external_id :: string
  pr_created_at :: string

record credential_row =
  cr_id :: string
  cr_principal_id :: string
  cr_type :: string
  cr_data :: bytes
  cr_label :: string
  cr_created_at :: string
  cr_revoked_by :: "string option"
  cr_revoked_at :: "string option"

record signing_key_row =
  sk_id :: string
  sk_status :: string
  sk_algorithm :: string
  sk_private_key :: bytes
  sk_created_at :: string
  sk_retired_at :: "string option"

record grant_row =
  gr_id :: string
  gr_principal_id :: string
  gr_scope :: string
  gr_environment :: string
  gr_granted_by :: string
  gr_granted_at :: string
  gr_revoked_by :: "string option"
  gr_revoked_at :: "string option"

record invite_row =
  ir_token_hash :: string
  ir_contact_id :: string
  ir_created_by :: string
  ir_created_at :: string
  ir_expires_at :: string
  ir_used_at :: "string option"

record client_row =
  cl_id :: string
  cl_secret_hash :: string
  cl_redirect_uris :: "string list"
  cl_client_name :: string
  cl_created_at :: string

record code_row =
  cd_code_hash :: string
  cd_client_id :: string
  cd_principal_id :: string
  cd_redirect_uri :: string
  cd_scope :: string
  cd_nonce :: string
  cd_expires_at :: string
  cd_created_at :: string
  cd_used_at :: "string option"

record session_row =
  ss_token_hash :: string
  ss_principal_id :: string
  ss_created_at :: string
  ss_expires_at :: string
  ss_revoked_at :: "string option"

record database =
  principals :: "principal_row list"
  credentials :: "credential_row list"
  signing_keys :: "signing_key_row list"
  grants :: "grant_row list"
  invites :: "invite_row list"
  clients :: "client_row list"
  auth_codes :: "code_row list"
  idp_sessions :: "session_row list"

definition empty_db :: database where
  "empty_db = \<lparr>principals = [], credentials = [], signing_keys = [], grants = [], invites = [],
     clients = [], auth_codes = [], idp_sessions = []\<rparr>"

subsection \<open>Statements\<close>

text \<open>
  A statement either fails with the driver's message and no effect, or returns the new database and
  the number of rows it affected.
\<close>

type_synonym statement = "database \<Rightarrow> string + (database \<times> nat)"

definition unique_failed :: "string \<Rightarrow> string" where
  "unique_failed cols = ''constraint failed: UNIQUE constraint failed: '' @ cols"

definition check_failed :: string where
  "check_failed = ''constraint failed: CHECK constraint failed''"

definition fk_failed :: string where
  "fk_failed = ''constraint failed: FOREIGN KEY constraint failed''"

definition has_principal :: "string \<Rightarrow> database \<Rightarrow> bool" where
  "has_principal pid db \<longleftrightarrow> (\<exists>p \<in> set (principals db). pr_id p = pid)"

definition insert_principal :: "principal_row \<Rightarrow> statement" where
  "insert_principal r db =
     (if pr_class r \<notin> {''human'', ''agent''} then Inl check_failed
      else if \<exists>q \<in> set (principals db). pr_id q = pr_id r then Inl (unique_failed ''principals.id'')
      else if \<exists>q \<in> set (principals db). pr_class q = pr_class r \<and> pr_external_id q = pr_external_id r
           then Inl (unique_failed ''principals.class, principals.external_id'')
      else Inr (db\<lparr>principals := principals db @ [r]\<rparr>, 1))"

definition insert_credential :: "credential_row \<Rightarrow> statement" where
  "insert_credential r db =
     (if cr_type r \<notin> {''webauthn'', ''machine_key''} then Inl check_failed
      else if \<exists>q \<in> set (credentials db). cr_id q = cr_id r then Inl (unique_failed ''credentials.id'')
      else if \<not> has_principal (cr_principal_id r) db then Inl fk_failed
      else Inr (db\<lparr>credentials := credentials db @ [r]\<rparr>, 1))"

definition insert_signing_key :: "signing_key_row \<Rightarrow> statement" where
  "insert_signing_key r db =
     (if sk_status r \<notin> {''active'', ''retired''} then Inl check_failed
      else if \<exists>q \<in> set (signing_keys db). sk_id q = sk_id r then Inl (unique_failed ''signing_keys.id'')
      else Inr (db\<lparr>signing_keys := signing_keys db @ [r]\<rparr>, 1))"

text \<open>The key of the partial index \<^verbatim>\<open>idx_grants_active\<close>.\<close>

definition grant_key :: "grant_row \<Rightarrow> string \<times> string \<times> string" where
  "grant_key r = (gr_principal_id r, gr_scope r, gr_environment r)"

definition insert_grant :: "grant_row \<Rightarrow> statement" where
  "insert_grant r db =
     (if \<exists>q \<in> set (grants db). gr_id q = gr_id r then Inl (unique_failed ''grants.id'')
      else if gr_revoked_at r = None \<and>
              (\<exists>q \<in> set (grants db). gr_revoked_at q = None \<and> grant_key q = grant_key r)
           then Inl (unique_failed ''grants.principal_id, grants.scope, grants.environment'')
      else if \<not> has_principal (gr_principal_id r) db then Inl fk_failed
      else Inr (db\<lparr>grants := grants db @ [r]\<rparr>, 1))"

definition insert_invite :: "invite_row \<Rightarrow> statement" where
  "insert_invite r db =
     (if \<exists>q \<in> set (invites db). ir_token_hash q = ir_token_hash r
      then Inl (unique_failed ''enrolment_invites.token_hash'')
      else Inr (db\<lparr>invites := invites db @ [r]\<rparr>, 1))"

definition insert_client :: "client_row \<Rightarrow> statement" where
  "insert_client r db =
     (if \<exists>q \<in> set (clients db). cl_id q = cl_id r then Inl (unique_failed ''oidc_clients.id'')
      else Inr (db\<lparr>clients := clients db @ [r]\<rparr>, 1))"

text \<open>INSERT ... ON CONFLICT(id) DO UPDATE SET secret_hash, redirect_uris, client_name.\<close>

definition upsert_client :: "client_row \<Rightarrow> statement" where
  "upsert_client r db =
     (if \<exists>q \<in> set (clients db). cl_id q = cl_id r
      then Inr (db\<lparr>clients := update_where (\<lambda>q. cl_id q = cl_id r)
             (\<lambda>q. q\<lparr>cl_secret_hash := cl_secret_hash r, cl_redirect_uris := cl_redirect_uris r,
                    cl_client_name := cl_client_name r\<rparr>) (clients db)\<rparr>, 1)
      else Inr (db\<lparr>clients := clients db @ [r]\<rparr>, 1))"

definition insert_code :: "code_row \<Rightarrow> statement" where
  "insert_code r db =
     (if \<exists>q \<in> set (auth_codes db). cd_code_hash q = cd_code_hash r
      then Inl (unique_failed ''oidc_auth_codes.code_hash'')
      else if \<not> has_principal (cd_principal_id r) db then Inl fk_failed
      else Inr (db\<lparr>auth_codes := auth_codes db @ [r]\<rparr>, 1))"

definition insert_session :: "session_row \<Rightarrow> statement" where
  "insert_session r db =
     (if \<exists>q \<in> set (idp_sessions db). ss_token_hash q = ss_token_hash r
      then Inl (unique_failed ''idp_sessions.token_hash'')
      else if \<not> has_principal (ss_principal_id r) db then Inl fk_failed
      else Inr (db\<lparr>idp_sessions := idp_sessions db @ [r]\<rparr>, 1))"

text \<open>DELETE FROM principals, with the ON DELETE CASCADE of the referencing tables.\<close>

definition delete_principal_rows :: "string \<Rightarrow> statement" where
  "delete_principal_rows pid db =
     Inr (db\<lparr>principals := delete_where (\<lambda>r. pr_id r = pid) (principals db),
             credentials := (if has_principal pid db
               then delete_where (\<lambda>r. cr_principal_id r = pid) (credentials db) else credentials db),
             grants := (if has_principal pid db
               then delete_where (\<lambda>r. gr_principal_id r = pid) (grants db) else grants db),
             auth_codes := (if has_principal pid db
               then delete_where (\<lambda>r. cd_principal_id r = pid) (auth_codes db) else auth_codes db),
             idp_sessions := (if has_principal pid db
               then delete_where (\<lambda>r. ss_principal_id r = pid) (idp_sessions db) else idp_sessions db)\<rparr>,
          count_where (\<lambda>r. pr_id r = pid) (principals db))"

definition update_credentials :: "(credential_row \<Rightarrow> bool) \<Rightarrow> (credential_row \<Rightarrow> credential_row) \<Rightarrow> statement" where
  "update_credentials p f db =
     Inr (db\<lparr>credentials := update_where p f (credentials db)\<rparr>, count_where p (credentials db))"

definition delete_credentials :: "(credential_row \<Rightarrow> bool) \<Rightarrow> statement" where
  "delete_credentials p db =
     Inr (db\<lparr>credentials := delete_where p (credentials db)\<rparr>, count_where p (credentials db))"

definition update_signing_keys :: "(signing_key_row \<Rightarrow> bool) \<Rightarrow> (signing_key_row \<Rightarrow> signing_key_row) \<Rightarrow> statement" where
  "update_signing_keys p f db =
     Inr (db\<lparr>signing_keys := update_where p f (signing_keys db)\<rparr>, count_where p (signing_keys db))"

definition update_grants :: "(grant_row \<Rightarrow> bool) \<Rightarrow> (grant_row \<Rightarrow> grant_row) \<Rightarrow> statement" where
  "update_grants p f db =
     Inr (db\<lparr>grants := update_where p f (grants db)\<rparr>, count_where p (grants db))"

definition update_invites :: "(invite_row \<Rightarrow> bool) \<Rightarrow> (invite_row \<Rightarrow> invite_row) \<Rightarrow> statement" where
  "update_invites p f db =
     Inr (db\<lparr>invites := update_where p f (invites db)\<rparr>, count_where p (invites db))"

definition delete_clients :: "(client_row \<Rightarrow> bool) \<Rightarrow> statement" where
  "delete_clients p db =
     Inr (db\<lparr>clients := delete_where p (clients db)\<rparr>, count_where p (clients db))"

definition update_codes :: "(code_row \<Rightarrow> bool) \<Rightarrow> (code_row \<Rightarrow> code_row) \<Rightarrow> statement" where
  "update_codes p f db =
     Inr (db\<lparr>auth_codes := update_where p f (auth_codes db)\<rparr>, count_where p (auth_codes db))"

definition update_sessions :: "(session_row \<Rightarrow> bool) \<Rightarrow> (session_row \<Rightarrow> session_row) \<Rightarrow> statement" where
  "update_sessions p f db =
     Inr (db\<lparr>idp_sessions := update_where p f (idp_sessions db)\<rparr>, count_where p (idp_sessions db))"

subsection \<open>Errors\<close>

text \<open>
  The sentinel errors callers test with \<^verbatim>\<open>errors.Is\<close>, and every other error with its context.
\<close>

datatype err =
    ErrNotFound | ErrDuplicate | ErrInviteExpired | ErrInviteUsed | ErrCredentialRevoked
  | ErrIDPSessionExpired | ErrIDPSessionRevoked | ErrUnknownScope | ErrGrantRevoked
  | ErrInvalidRedirectURI | ErrAuthCodeExpired | ErrAuthCodeUsed | ErrInvalidCredentialData
  | ErrOther string

text \<open>
  A case distinction that names some errors and treats the others alike, as an if-chain.
\<close>

lemma err_cases:
  "(case e of ErrNotFound \<Rightarrow> a | ErrDuplicate \<Rightarrow> z | ErrInviteExpired
     \<Rightarrow> z | ErrInviteUsed \<Rightarrow> z | ErrCredentialRevoked \<Rightarrow> z |
     ErrIDPSessionExpired \<Rightarrow> z | ErrIDPSessionRevoked \<Rightarrow> z | ErrUnknownScope
     \<Rightarrow> z | ErrGrantRevoked \<Rightarrow> z | ErrInvalidRedirectURI \<Rightarrow> z |
     ErrAuthCodeExpired \<Rightarrow> z | ErrAuthCodeUsed \<Rightarrow> z |
     ErrInvalidCredentialData \<Rightarrow> z | ErrOther s \<Rightarrow> z) = (if e = ErrNotFound
     then a else z)"
  "(case e of ErrNotFound \<Rightarrow> z | ErrDuplicate \<Rightarrow> z | ErrInviteExpired
     \<Rightarrow> z | ErrInviteUsed \<Rightarrow> z | ErrCredentialRevoked \<Rightarrow> z |
     ErrIDPSessionExpired \<Rightarrow> z | ErrIDPSessionRevoked \<Rightarrow> z | ErrUnknownScope
     \<Rightarrow> z | ErrGrantRevoked \<Rightarrow> z | ErrInvalidRedirectURI \<Rightarrow> z |
     ErrAuthCodeExpired \<Rightarrow> a | ErrAuthCodeUsed \<Rightarrow> b |
     ErrInvalidCredentialData \<Rightarrow> z | ErrOther s \<Rightarrow> z) = (if e =
     ErrAuthCodeExpired then a else if e = ErrAuthCodeUsed then b else z)"
  "(case e of ErrNotFound \<Rightarrow> a | ErrDuplicate \<Rightarrow> z | ErrInviteExpired
     \<Rightarrow> z | ErrInviteUsed \<Rightarrow> z | ErrCredentialRevoked \<Rightarrow> z |
     ErrIDPSessionExpired \<Rightarrow> z | ErrIDPSessionRevoked \<Rightarrow> z | ErrUnknownScope
     \<Rightarrow> z | ErrGrantRevoked \<Rightarrow> z | ErrInvalidRedirectURI \<Rightarrow> z |
     ErrAuthCodeExpired \<Rightarrow> b | ErrAuthCodeUsed \<Rightarrow> c |
     ErrInvalidCredentialData \<Rightarrow> z | ErrOther s \<Rightarrow> z) = (if e = ErrNotFound
     then a else if e = ErrAuthCodeExpired then b else if e = ErrAuthCodeUsed then c else z)"
  "(case e of ErrNotFound \<Rightarrow> c | ErrDuplicate \<Rightarrow> z | ErrInviteExpired
     \<Rightarrow> z | ErrInviteUsed \<Rightarrow> z | ErrCredentialRevoked \<Rightarrow> z |
     ErrIDPSessionExpired \<Rightarrow> b | ErrIDPSessionRevoked \<Rightarrow> a | ErrUnknownScope
     \<Rightarrow> z | ErrGrantRevoked \<Rightarrow> z | ErrInvalidRedirectURI \<Rightarrow> z |
     ErrAuthCodeExpired \<Rightarrow> z | ErrAuthCodeUsed \<Rightarrow> z |
     ErrInvalidCredentialData \<Rightarrow> z | ErrOther s \<Rightarrow> z) = (if e =
     ErrIDPSessionRevoked then a else if e = ErrIDPSessionExpired then b else if e = ErrNotFound
     then c else z)"
  "(case e of ErrNotFound \<Rightarrow> a | ErrDuplicate \<Rightarrow> z | ErrInviteExpired
     \<Rightarrow> b | ErrInviteUsed \<Rightarrow> c | ErrCredentialRevoked \<Rightarrow> z |
     ErrIDPSessionExpired \<Rightarrow> z | ErrIDPSessionRevoked \<Rightarrow> z | ErrUnknownScope
     \<Rightarrow> z | ErrGrantRevoked \<Rightarrow> z | ErrInvalidRedirectURI \<Rightarrow> z |
     ErrAuthCodeExpired \<Rightarrow> z | ErrAuthCodeUsed \<Rightarrow> z |
     ErrInvalidCredentialData \<Rightarrow> z | ErrOther s \<Rightarrow> z) = (if e = ErrNotFound
     then a else if e = ErrInviteExpired then b else if e = ErrInviteUsed then c else z)"
  "(case e of ErrNotFound \<Rightarrow> a | ErrDuplicate \<Rightarrow> z | ErrInviteExpired
     \<Rightarrow> z | ErrInviteUsed \<Rightarrow> b | ErrCredentialRevoked \<Rightarrow> z |
     ErrIDPSessionExpired \<Rightarrow> z | ErrIDPSessionRevoked \<Rightarrow> z | ErrUnknownScope
     \<Rightarrow> z | ErrGrantRevoked \<Rightarrow> z | ErrInvalidRedirectURI \<Rightarrow> z |
     ErrAuthCodeExpired \<Rightarrow> z | ErrAuthCodeUsed \<Rightarrow> z |
     ErrInvalidCredentialData \<Rightarrow> z | ErrOther s \<Rightarrow> z) = (if e = ErrNotFound
     then a else if e = ErrInviteUsed then b else z)"
  "(case e of ErrNotFound \<Rightarrow> a | ErrDuplicate \<Rightarrow> z | ErrInviteExpired
     \<Rightarrow> z | ErrInviteUsed \<Rightarrow> z | ErrCredentialRevoked \<Rightarrow> z |
     ErrIDPSessionExpired \<Rightarrow> z | ErrIDPSessionRevoked \<Rightarrow> z | ErrUnknownScope
     \<Rightarrow> z | ErrGrantRevoked \<Rightarrow> b | ErrInvalidRedirectURI \<Rightarrow> z |
     ErrAuthCodeExpired \<Rightarrow> z | ErrAuthCodeUsed \<Rightarrow> z |
     ErrInvalidCredentialData \<Rightarrow> z | ErrOther s \<Rightarrow> z) = (if e = ErrNotFound
     then a else if e = ErrGrantRevoked then b else z)"
  "(case e of ErrNotFound \<Rightarrow> b | ErrDuplicate \<Rightarrow> c | ErrInviteExpired
     \<Rightarrow> z | ErrInviteUsed \<Rightarrow> z | ErrCredentialRevoked \<Rightarrow> z |
     ErrIDPSessionExpired \<Rightarrow> z | ErrIDPSessionRevoked \<Rightarrow> z | ErrUnknownScope
     \<Rightarrow> a | ErrGrantRevoked \<Rightarrow> z | ErrInvalidRedirectURI \<Rightarrow> z |
     ErrAuthCodeExpired \<Rightarrow> z | ErrAuthCodeUsed \<Rightarrow> z |
     ErrInvalidCredentialData \<Rightarrow> z | ErrOther s \<Rightarrow> z) = (if e =
     ErrUnknownScope then a else if e = ErrNotFound then b else if e = ErrDuplicate then c else z)"
  "(case e of ErrNotFound \<Rightarrow> a | ErrDuplicate \<Rightarrow> z | ErrInviteExpired
     \<Rightarrow> z | ErrInviteUsed \<Rightarrow> z | ErrCredentialRevoked \<Rightarrow> b |
     ErrIDPSessionExpired \<Rightarrow> z | ErrIDPSessionRevoked \<Rightarrow> z | ErrUnknownScope
     \<Rightarrow> z | ErrGrantRevoked \<Rightarrow> z | ErrInvalidRedirectURI \<Rightarrow> z |
     ErrAuthCodeExpired \<Rightarrow> z | ErrAuthCodeUsed \<Rightarrow> z |
     ErrInvalidCredentialData \<Rightarrow> z | ErrOther s \<Rightarrow> z) = (if e = ErrNotFound
     then a else if e = ErrCredentialRevoked then b else z)"
  by (cases e; simp)+

definition contains :: "string \<Rightarrow> string \<Rightarrow> bool" where
  "contains s sub \<longleftrightarrow> sublist sub s"

definition is_unique_violation :: "string \<Rightarrow> bool" where
  "is_unique_violation msg \<longleftrightarrow>
     contains msg ''UNIQUE constraint''
     \<or> contains msg ''constraint failed: principals.class, principals.external_id''"

definition is_fk_violation :: "string \<Rightarrow> bool" where
  "is_fk_violation msg \<longleftrightarrow> contains msg ''FOREIGN KEY constraint''"

subsection \<open>The world\<close>

record world =
  w_db :: database
  w_clock :: time
  w_delays :: "time list"
  w_faults :: "bool list"
  w_rand :: "bytes option list"
  w_uuids :: "string option list"
  w_fresh :: "nat \<Rightarrow> string"
  w_fresh_count :: nat
  w_keygen :: "bytes option list"

text \<open>\<^verbatim>\<open>time.Now()\<close>: the clock moves by the next delay (never back) and is read.\<close>

definition time_now :: "world \<Rightarrow> time \<times> world" where
  "time_now w =
     (let t = w_clock w + (case w_delays w of [] \<Rightarrow> 0 | d # _ \<Rightarrow> max 0 d) in
      (t, w\<lparr>w_clock := t, w_delays := tl (w_delays w)\<rparr>))"

text \<open>
  \<^verbatim>\<open>rand.Read\<close> into a slice of \<open>n\<close> bytes (a draw is cut or padded to that length),
  \<^verbatim>\<open>uuid.NewRandom\<close>, and the generation of an EC key as PKCS8 DER.
\<close>

definition rand_read :: "nat \<Rightarrow> world \<Rightarrow> bytes option \<times> world" where
  "rand_read n w =
     (case w_rand w of
        [] \<Rightarrow> (None, w)
      | b # bs \<Rightarrow> (map_option (\<lambda>d. take n (d @ replicate n (CHR 0x00))) b, w\<lparr>w_rand := bs\<rparr>))"

definition new_uuid :: "world \<Rightarrow> string option \<times> world" where
  "new_uuid w =
     (case w_uuids w of [] \<Rightarrow> (None, w) | u # us \<Rightarrow> (u, w\<lparr>w_uuids := us\<rparr>))"

text \<open>
  \<^verbatim>\<open>uuid.New\<close> has no error to return (a failing generator ends the process): the \<open>n\<close>-th call gives
  the \<open>n\<close>-th identifier.
\<close>

definition uuid_new :: "world \<Rightarrow> string \<times> world" where
  "uuid_new w = (w_fresh w (w_fresh_count w), w\<lparr>w_fresh_count := w_fresh_count w + 1\<rparr>)"

definition new_key_der :: "world \<Rightarrow> bytes option \<times> world" where
  "new_key_der w =
     (case w_keygen w of [] \<Rightarrow> (None, w) | k # ks \<Rightarrow> (k, w\<lparr>w_keygen := ks\<rparr>))"

definition io_failed :: string where
  "io_failed = ''disk I/O error''"

definition next_fault :: "world \<Rightarrow> bool \<times> world" where
  "next_fault w =
     (case w_faults w of [] \<Rightarrow> (False, w) | f # fs \<Rightarrow> (f, w\<lparr>w_faults := fs\<rparr>))"

definition db_exec :: "statement \<Rightarrow> world \<Rightarrow> (string + nat) \<times> world" where
  "db_exec stm w =
     (case next_fault w of
        (True, w) \<Rightarrow> (Inl io_failed, w)
      | (False, w) \<Rightarrow>
          (case stm (w_db w) of
             Inl msg \<Rightarrow> (Inl msg, w)
           | Inr (db, n) \<Rightarrow> (Inr n, w\<lparr>w_db := db\<rparr>)))"

definition db_query :: "(database \<Rightarrow> 'r) \<Rightarrow> world \<Rightarrow> (string + 'r) \<times> world" where
  "db_query q w =
     (case next_fault w of (True, w) \<Rightarrow> (Inl io_failed, w) | (False, w) \<Rightarrow> (Inr (q (w_db w)), w))"

text \<open>
  A transaction keeps the database it began with; the deferred rollback of a transaction that did
  not commit restores it, and a commit that fails commits nothing.
\<close>

definition db_begin :: "world \<Rightarrow> (string + database) \<times> world" where
  "db_begin w =
     (case next_fault w of (True, w) \<Rightarrow> (Inl io_failed, w) | (False, w) \<Rightarrow> (Inr (w_db w), w))"

definition rollback :: "database \<Rightarrow> world \<Rightarrow> world" where
  "rollback db w = w\<lparr>w_db := db\<rparr>"

definition db_commit :: "database \<Rightarrow> world \<Rightarrow> (string + unit) \<times> world" where
  "db_commit db w =
     (case next_fault w of (True, w) \<Rightarrow> (Inl io_failed, rollback db w) | (False, w) \<Rightarrow> (Inr (), w))"

end
