(* ===== verification/DbSteps.thy ===== *)
theory DbSteps
  imports Database
begin

text \<open>
  The atomic writes of the program as a step relation on databases, one rule per INSERT, UPDATE or
  DELETE the store issues, with the shape it issues it in (new rows are not yet revoked, used or
  retired; a revocation sets both attribution columns; a code, an invite and a session are only
  marked when they are not marked yet). Requests run concurrently and a request may stop after any
  driver call, so what holds after every sequence of these steps holds whatever the interleaving and
  the failures. The locale \<open>db_invariant\<close> is the interface between an invariant of the steps
  and the operations: each operation of the store is shown, inside it, to keep the invariant.
\<close>

text \<open>Every timestamp the store writes is the RFC 3339 text of an instant.\<close>

definition is_stamp :: "string \<Rightarrow> bool" where
  "is_stamp s \<longleftrightarrow> (\<exists>t. s = rfc3339 t)"

lemma stamp_rfc3339 [simp, intro]: "is_stamp (rfc3339 t)"
  unfolding is_stamp_def by blast

inductive db_step :: "database \<Rightarrow> database \<Rightarrow> bool" where
  ins_principal: "insert_principal r db = Inr (db', n) \<Longrightarrow> is_stamp (pr_created_at r) \<Longrightarrow> db_step db db'"
| ins_credential: "insert_credential r db = Inr (db', n) \<Longrightarrow> cr_revoked_by r = None \<Longrightarrow>
     cr_revoked_at r = None \<Longrightarrow> is_stamp (cr_created_at r) \<Longrightarrow> db_step db db'"
| revoke_credential: "update_credentials (\<lambda>r. cr_id r = i)
     (\<lambda>r. r\<lparr>cr_revoked_by := Some b, cr_revoked_at := Some (rfc3339 t)\<rparr>) db = Inr (db', n) \<Longrightarrow> db_step db db'"
| credential_data: "update_credentials (\<lambda>r. cr_id r = i) (\<lambda>r. r\<lparr>cr_data := dat\<rparr>) db = Inr (db', n) \<Longrightarrow>
     db_step db db'"
| del_passkeys: "delete_credentials (\<lambda>r. cr_principal_id r = pid \<and> cr_type r = ''webauthn'') db = Inr (db', n) \<Longrightarrow>
     db_step db db'"
| ins_key: "insert_signing_key r db = Inr (db', n) \<Longrightarrow> sk_status r = ''active'' \<Longrightarrow>
     sk_retired_at r = None \<Longrightarrow> is_stamp (sk_created_at r) \<Longrightarrow> db_step db db'"
| retire_keys: "update_signing_keys (\<lambda>r. sk_status r = ''active'' \<and> sk_id r \<noteq> i)
     (\<lambda>r. r\<lparr>sk_status := ''retired'', sk_retired_at := Some (rfc3339 t)\<rparr>) db = Inr (db', n) \<Longrightarrow> db_step db db'"
| key_blob: "update_signing_keys (\<lambda>r. sk_id r = i) (\<lambda>r. r\<lparr>sk_private_key := blob\<rparr>) db = Inr (db', n) \<Longrightarrow>
     db_step db db'"
| ins_grant: "insert_grant r db = Inr (db', n) \<Longrightarrow> gr_revoked_by r = None \<Longrightarrow>
     gr_revoked_at r = None \<Longrightarrow> is_stamp (gr_granted_at r) \<Longrightarrow> db_step db db'"
| revoke_grant: "update_grants (\<lambda>r. gr_id r = i)
     (\<lambda>r. r\<lparr>gr_revoked_by := Some b, gr_revoked_at := Some (rfc3339 t)\<rparr>) db = Inr (db', n) \<Longrightarrow> db_step db db'"
| ins_invite: "insert_invite r db = Inr (db', n) \<Longrightarrow> ir_used_at r = None \<Longrightarrow> is_stamp (ir_created_at r) \<Longrightarrow>
     is_stamp (ir_expires_at r) \<Longrightarrow> db_step db db'"
| use_invite: "update_invites (\<lambda>r. ir_token_hash r = h \<and> ir_used_at r = None)
     (\<lambda>r. r\<lparr>ir_used_at := Some (rfc3339 t)\<rparr>) db = Inr (db', n) \<Longrightarrow> db_step db db'"
| ins_client: "insert_client r db = Inr (db', n) \<Longrightarrow> is_stamp (cl_created_at r) \<Longrightarrow> db_step db db'"
| ups_client: "upsert_client r db = Inr (db', n) \<Longrightarrow> is_stamp (cl_created_at r) \<Longrightarrow> db_step db db'"
| ins_code: "insert_code r db = Inr (db', n) \<Longrightarrow> cd_used_at r = None \<Longrightarrow> is_stamp (cd_created_at r) \<Longrightarrow>
     is_stamp (cd_expires_at r) \<Longrightarrow> db_step db db'"
| use_code: "update_codes (\<lambda>r. cd_code_hash r = h \<and> cd_used_at r = None)
     (\<lambda>r. r\<lparr>cd_used_at := Some (rfc3339 t)\<rparr>) db = Inr (db', n) \<Longrightarrow> db_step db db'"
| ins_session: "insert_session r db = Inr (db', n) \<Longrightarrow> ss_revoked_at r = None \<Longrightarrow> is_stamp (ss_created_at r) \<Longrightarrow>
     is_stamp (ss_expires_at r) \<Longrightarrow> db_step db db'"
| revoke_sessions: "update_sessions (\<lambda>r. p r \<and> ss_revoked_at r = None)
     (\<lambda>r. r\<lparr>ss_revoked_at := Some (rfc3339 t)\<rparr>) db = Inr (db', n) \<Longrightarrow> db_step db db'"

text \<open>
  The store also exports three deletions that nothing in the program calls: of a principal (with the
  rows that belong to it), of a credential and of a client. They are steps of their own.
\<close>

inductive purge_step :: "database \<Rightarrow> database \<Rightarrow> bool" where
  del_principal: "delete_principal_rows pid db = Inr (db', n) \<Longrightarrow> purge_step db db'"
| del_credential: "delete_credentials (\<lambda>r. cr_id r = i) db = Inr (db', n) \<Longrightarrow> purge_step db db'"
| del_client: "delete_clients (\<lambda>r. cl_id r = i) db = Inr (db', n) \<Longrightarrow> purge_step db db'"

inductive db_steps :: "database \<Rightarrow> database \<Rightarrow> bool" where
  steps_refl: "db_steps db db"
| steps_more: "db_steps db db' \<Longrightarrow> db_step db' db'' \<Longrightarrow> db_steps db db''"

inductive_cases db_stepE: "db_step db db'"

inductive_cases purge_stepE: "purge_step db db'"

lemma db_steps_trans: "db_steps b c \<Longrightarrow> db_steps a b \<Longrightarrow> db_steps a c"
  by (induction rule: db_steps.induct) (auto intro: steps_more)

subsection \<open>What the primitives leave alone\<close>

lemma prim_frames [simp, frame_simps]:
  "w_db (snd (time_now w)) = w_db w"
  "w_db (snd (rand_read n w)) = w_db w"
  "w_db (snd (new_uuid w)) = w_db w"
  "w_db (snd (uuid_new w)) = w_db w"
  "w_db (snd (new_key_der w)) = w_db w"
  "w_db (snd (next_fault w)) = w_db w"
  "w_db (snd (db_query q w)) = w_db w"
  "w_db (snd (db_begin w)) = w_db w"
  "w_db (rollback db w) = db"
  by (auto simp: time_now_def rand_read_def new_uuid_def uuid_new_def new_key_der_def next_fault_def db_query_def
      db_begin_def rollback_def Let_def split: list.splits prod.splits bool.splits)

lemma w_clock_frames [simp, frame_simps]:
  "w_clock (snd (rand_read n w)) = w_clock w"
  "w_clock (snd (new_uuid w)) = w_clock w"
  "w_clock (snd (uuid_new w)) = w_clock w"
  "w_clock (snd (new_key_der w)) = w_clock w"
  "w_clock (snd (next_fault w)) = w_clock w"
  "w_clock (snd (db_query q w)) = w_clock w"
  "w_clock (snd (db_exec s w)) = w_clock w"
  "w_clock (snd (db_begin w)) = w_clock w"
  "w_clock (rollback db w) = w_clock w"
  "w_clock (snd (db_commit db w)) = w_clock w"
  by (auto simp: rand_read_def new_uuid_def uuid_new_def new_key_der_def next_fault_def db_query_def db_exec_def
      db_begin_def db_commit_def rollback_def Let_def split: list.splits prod.splits bool.splits sum.splits)

lemma rand_read_length: "fst (rand_read n w) = Some b \<Longrightarrow> length b = n"
  by (auto simp: rand_read_def split: list.splits)

lemma time_now_clock [simp]: "fst (time_now w) = w_clock (snd (time_now w))"
  by (simp add: time_now_def Let_def)

lemma time_now_mono: "w_clock w \<le> w_clock (snd (time_now w))"
  by (auto simp: time_now_def Let_def split: list.splits)

lemma db_exec_cases:
  obtains (fault) "db_exec stm w = (Inl io_failed, snd (next_fault w))"
  | (refused) msg where "stm (w_db w) = Inl msg" "db_exec stm w = (Inl msg, snd (next_fault w))"
  | (ok) db n where "stm (w_db w) = Inr (db, n)" "db_exec stm w = (Inr n, (snd (next_fault w))\<lparr>w_db := db\<rparr>)"
proof (cases "next_fault w")
  case (Pair f v)
  then have "w_db v = w_db w" using prim_frames(6) [of w] by simp
  with Pair that show thesis
    by (cases f; cases "stm (w_db w)") (auto simp: db_exec_def)
qed

lemma db_exec_InrD:
  "fst (db_exec stm w) = Inr n \<Longrightarrow> \<exists>db. stm (w_db w) = Inr (db, n) \<and> w_db (snd (db_exec stm w)) = db"
  by (cases rule: db_exec_cases [of stm w]) auto

lemma db_exec_InlD:
  "fst (db_exec stm w) = Inl e \<Longrightarrow> w_db (snd (db_exec stm w)) = w_db w \<and> (e = io_failed \<or> stm (w_db w) = Inl e)"
  by (cases rule: db_exec_cases [of stm w]) auto

lemma next_fault_db: "next_fault w = (f, v) \<Longrightarrow> w_db v = w_db w"
  using prim_frames(6) [of w] by (metis snd_conv)

lemma db_query_InrD: "fst (db_query q w) = Inr x \<Longrightarrow> x = q (w_db w)"
  by (auto dest: next_fault_db simp: db_query_def split: prod.splits bool.splits)

lemma db_begin_InrD: "fst (db_begin w) = Inr db \<Longrightarrow> db = w_db w"
  by (auto dest: next_fault_db simp: db_begin_def split: prod.splits bool.splits)

lemma db_commit_Inr: "fst (db_commit db w) = Inr u \<Longrightarrow> w_db (snd (db_commit db w)) = w_db w"
  by (auto dest: next_fault_db simp: db_commit_def split: prod.splits bool.splits)

lemma db_commit_Inl: "fst (db_commit db w) = Inl e \<Longrightarrow> w_db (snd (db_commit db w)) = db"
  by (auto simp: db_commit_def split: prod.splits bool.splits)

text \<open>Without a pending fault every driver call goes through.\<close>

lemma no_fault [simp]:
  "w_faults w = [] \<Longrightarrow> db_query q w = (Inr (q (w_db w)), w)"
  "w_faults w = [] \<Longrightarrow> db_begin w = (Inr (w_db w), w)"
  "w_faults w = [] \<Longrightarrow> db_commit db w = (Inr (), w)"
  "w_faults w = [] \<Longrightarrow> db_exec stm w =
     (case stm (w_db w) of Inl msg \<Rightarrow> (Inl msg, w) | Inr (db', n) \<Rightarrow> (Inr n, w\<lparr>w_db := db'\<rparr>))"
  by (simp_all add: db_query_def db_begin_def db_commit_def db_exec_def next_fault_def)

lemma faults_frame [simp]:
  "w_faults (snd (time_now w)) = w_faults w"
  "w_faults (snd (rand_read n w)) = w_faults w"
  "w_faults (snd (new_uuid w)) = w_faults w"
  "w_faults (snd (uuid_new w)) = w_faults w"
  "w_faults (snd (new_key_der w)) = w_faults w"
  by (auto simp: time_now_def rand_read_def new_uuid_def uuid_new_def new_key_der_def Let_def split: list.splits)

subsection \<open>The invariant interface\<close>

locale db_invariant =
  fixes I :: "database \<Rightarrow> bool"
  assumes step: "I db \<Longrightarrow> db_step db db' \<Longrightarrow> I db'"
begin

lemma steps: "db_steps db db' \<Longrightarrow> I db \<Longrightarrow> I db'"
  by (induction rule: db_steps.induct) (auto intro: step)

lemma exec:
  assumes "I (w_db w)" and "\<And>db db' n. stm db = Inr (db', n) \<Longrightarrow> db_step db db'"
  shows "I (w_db (snd (db_exec stm w)))"
  using assms step by (cases rule: db_exec_cases [of stm w]) auto

lemma exec_ins_principal:
  "I (w_db w) \<Longrightarrow> is_stamp (pr_created_at r) \<Longrightarrow> I (w_db (snd (db_exec (insert_principal r) w)))"
  by (rule exec) (auto intro: ins_principal)

lemma exec_ins_credential:
  "I (w_db w) \<Longrightarrow> cr_revoked_by r = None \<Longrightarrow> cr_revoked_at r = None \<Longrightarrow> is_stamp (cr_created_at r) \<Longrightarrow> I (w_db (snd (db_exec (insert_credential r) w)))"
  by (rule exec) (auto intro: ins_credential)

lemma exec_revoke_credential:
  "I (w_db w) \<Longrightarrow> I (w_db (snd (db_exec (update_credentials (\<lambda>r. cr_id r = i)
       (\<lambda>r. r\<lparr>cr_revoked_by := Some b, cr_revoked_at := Some (rfc3339 t)\<rparr>)) w)))"
  by (rule exec) (auto intro: revoke_credential)

lemma exec_credential_data:
  "I (w_db w) \<Longrightarrow> I (w_db (snd (db_exec (update_credentials (\<lambda>r. cr_id r = i) (\<lambda>r. r\<lparr>cr_data := dat\<rparr>)) w)))"
  by (rule exec) (auto intro: credential_data)

lemma exec_del_passkeys:
  "I (w_db w) \<Longrightarrow> I (w_db (snd (db_exec (delete_credentials
     (\<lambda>r. cr_principal_id r = pid \<and> cr_type r = ''webauthn'')) w)))"
  by (rule exec) (auto intro: del_passkeys)

lemma exec_ins_key:
  "I (w_db w) \<Longrightarrow> sk_status k = ''active'' \<Longrightarrow> sk_retired_at k = None \<Longrightarrow> is_stamp (sk_created_at k) \<Longrightarrow> I (w_db (snd (db_exec (insert_signing_key k) w)))"
  by (rule exec) (auto intro: ins_key)

lemma exec_retire_keys:
  "I (w_db w) \<Longrightarrow> I (w_db (snd (db_exec (update_signing_keys (\<lambda>r. sk_status r = ''active'' \<and> sk_id r \<noteq> i)
       (\<lambda>r. r\<lparr>sk_status := ''retired'', sk_retired_at := Some (rfc3339 t)\<rparr>)) w)))"
  by (rule exec) (auto intro: retire_keys)

lemma exec_key_blob:
  "I (w_db w) \<Longrightarrow> I (w_db (snd (db_exec (update_signing_keys (\<lambda>r. sk_id r = i) (\<lambda>r. r\<lparr>sk_private_key := blob\<rparr>)) w)))"
  by (rule exec) (auto intro: key_blob)

lemma exec_ins_grant:
  "I (w_db w) \<Longrightarrow> gr_revoked_by g = None \<Longrightarrow> gr_revoked_at g = None \<Longrightarrow> is_stamp (gr_granted_at g) \<Longrightarrow> I (w_db (snd (db_exec (insert_grant g) w)))"
  by (rule exec) (auto intro: ins_grant)

lemma exec_revoke_grant:
  "I (w_db w) \<Longrightarrow> I (w_db (snd (db_exec (update_grants (\<lambda>r. gr_id r = i)
       (\<lambda>r. r\<lparr>gr_revoked_by := Some b, gr_revoked_at := Some (rfc3339 t)\<rparr>)) w)))"
  by (rule exec) (auto intro: revoke_grant)

lemma exec_ins_invite:
  "I (w_db w) \<Longrightarrow> ir_used_at v = None \<Longrightarrow> is_stamp (ir_created_at v) \<Longrightarrow> is_stamp (ir_expires_at v) \<Longrightarrow> I (w_db (snd (db_exec (insert_invite v) w)))"
  by (rule exec) (auto intro: ins_invite)

lemma exec_use_invite:
  "I (w_db w) \<Longrightarrow> I (w_db (snd (db_exec (update_invites (\<lambda>r. ir_token_hash r = h \<and> ir_used_at r = None)
       (\<lambda>r. r\<lparr>ir_used_at := Some (rfc3339 t)\<rparr>)) w)))"
  by (rule exec) (auto intro: use_invite)

lemma exec_ins_client:
  "I (w_db w) \<Longrightarrow> is_stamp (cl_created_at cl) \<Longrightarrow> I (w_db (snd (db_exec (insert_client cl) w)))"
  by (rule exec) (auto intro: ins_client)

lemma exec_ups_client:
  "I (w_db w) \<Longrightarrow> is_stamp (cl_created_at cl) \<Longrightarrow> I (w_db (snd (db_exec (upsert_client cl) w)))"
  by (rule exec) (auto intro: ups_client)

lemma exec_ins_code:
  "I (w_db w) \<Longrightarrow> cd_used_at c = None \<Longrightarrow> is_stamp (cd_created_at c) \<Longrightarrow> is_stamp (cd_expires_at c) \<Longrightarrow> I (w_db (snd (db_exec (insert_code c) w)))"
  by (rule exec) (auto intro: ins_code)

lemma exec_use_code:
  "I (w_db w) \<Longrightarrow> I (w_db (snd (db_exec (update_codes (\<lambda>r. cd_code_hash r = h \<and> cd_used_at r = None)
       (\<lambda>r. r\<lparr>cd_used_at := Some (rfc3339 t)\<rparr>)) w)))"
  by (rule exec) (auto intro: use_code)

lemma exec_ins_session:
  "I (w_db w) \<Longrightarrow> ss_revoked_at ss = None \<Longrightarrow> is_stamp (ss_created_at ss) \<Longrightarrow> is_stamp (ss_expires_at ss) \<Longrightarrow> I (w_db (snd (db_exec (insert_session ss) w)))"
  by (rule exec) (auto intro: ins_session)

lemma exec_revoke_sessions:
  "I (w_db w) \<Longrightarrow> I (w_db (snd (db_exec (update_sessions (\<lambda>r. sp r \<and> ss_revoked_at r = None)
       (\<lambda>r. r\<lparr>ss_revoked_at := Some (rfc3339 t)\<rparr>)) w)))"
  by (rule exec) (auto intro: revoke_sessions)

lemmas execs = exec_ins_principal
  exec_ins_credential
  exec_revoke_credential
  exec_credential_data
  exec_del_passkeys
  exec_ins_key
  exec_retire_keys
  exec_key_blob
  exec_ins_grant
  exec_revoke_grant
  exec_ins_invite
  exec_use_invite
  exec_ins_client
  exec_ups_client
  exec_ins_code
  exec_use_code
  exec_ins_session
  exec_revoke_sessions

text \<open>How an invariant goes through the branches of a handler.\<close>

lemma inv_prod:
  "I (w_db (snd m)) \<Longrightarrow> (\<And>r w. m = (r, w) \<Longrightarrow> I (w_db w) \<Longrightarrow> I (w_db (snd (k r w)))) \<Longrightarrow>
   I (w_db (snd (case m of (r, w) \<Rightarrow> k r w)))"
  by (cases m) simp

lemma inv_if:
  "I (w_db (snd a)) \<Longrightarrow> I (w_db (snd b)) \<Longrightarrow> I (w_db (snd (if c then a else b)))"
  by simp

lemma inv_option:
  "I (w_db (snd a)) \<Longrightarrow> (\<And>y. I (w_db (snd (f y)))) \<Longrightarrow>
   I (w_db (snd (case z of None \<Rightarrow> a | Some y \<Rightarrow> f y)))"
  by (cases z) simp_all

lemma inv_sum:
  "(\<And>e. I (w_db (snd (f e)))) \<Longrightarrow> (\<And>y. I (w_db (snd (g y)))) \<Longrightarrow>
   I (w_db (snd (case z of Inl e \<Rightarrow> f e | Inr y \<Rightarrow> g y)))"
  by (cases z) simp_all

lemma inv_let: "(\<And>v. I (w_db (snd (f v)))) \<Longrightarrow> I (w_db (snd (let v = t in f v)))"
  by (simp add: Let_def)

lemma inv_ret: "I (w_db w) \<Longrightarrow> I (w_db (snd (r, w)))"
  by simp

lemma inv_err:
  "\<lbrakk>I (w_db (snd a1)); I (w_db (snd a2)); I (w_db (snd a3)); I (w_db (snd a4)); I (w_db
     (snd a5)); I (w_db (snd a6)); I (w_db (snd a7)); I (w_db (snd a8)); I (w_db (snd a9)); I
     (w_db (snd a10)); I (w_db (snd a11)); I (w_db (snd a12)); I (w_db (snd a13)); \<And>s. I
     (w_db (snd (f s)))\<rbrakk> \<Longrightarrow>
   I (w_db (snd (case e of ErrNotFound \<Rightarrow> a1 | ErrDuplicate \<Rightarrow> a2 |
     ErrInviteExpired \<Rightarrow> a3 | ErrInviteUsed \<Rightarrow> a4 | ErrCredentialRevoked
     \<Rightarrow> a5 | ErrIDPSessionExpired \<Rightarrow> a6 | ErrIDPSessionRevoked
     \<Rightarrow> a7 | ErrUnknownScope \<Rightarrow> a8 | ErrGrantRevoked \<Rightarrow> a9 |
     ErrInvalidRedirectURI \<Rightarrow> a10 | ErrAuthCodeExpired \<Rightarrow> a11 |
     ErrAuthCodeUsed \<Rightarrow> a12 | ErrInvalidCredentialData \<Rightarrow> a13 | ErrOther s
     \<Rightarrow> f s)))"
  by (cases e) simp_all

lemmas inv_rules = inv_let inv_if inv_option inv_sum inv_prod inv_err inv_ret

lemma commit: "I db \<Longrightarrow> I (w_db w) \<Longrightarrow> I (w_db (snd (db_commit db w)))"
  using db_commit_Inl [of db w] db_commit_Inr [of db w] by (cases "fst (db_commit db w)") auto

end

locale db_purge_invariant = db_invariant +
  assumes purge: "I db \<Longrightarrow> purge_step db db' \<Longrightarrow> I db'"
begin

lemma exec_purge:
  assumes "I (w_db w)" and "\<And>db db' n. stm db = Inr (db', n) \<Longrightarrow> purge_step db db'"
  shows "I (w_db (snd (db_exec stm w)))"
  using assms purge by (cases rule: db_exec_cases [of stm w]) auto

lemma exec_del_principal: "I (w_db w) \<Longrightarrow> I (w_db (snd (db_exec (delete_principal_rows pid) w)))"
  by (rule exec_purge) (auto intro: del_principal)

lemma exec_del_credential:
  "I (w_db w) \<Longrightarrow> I (w_db (snd (db_exec (delete_credentials (\<lambda>r. cr_id r = i)) w)))"
  by (rule exec_purge) (auto intro: del_credential)

lemma exec_del_client: "I (w_db w) \<Longrightarrow> I (w_db (snd (db_exec (delete_clients (\<lambda>r. cl_id r = i)) w)))"
  by (rule exec_purge) (auto intro: del_client)

end

text \<open>The reachability of a database from a given one is itself an invariant.\<close>

interpretation reach: db_invariant "db_steps d" for d
  by unfold_locales (rule steps_more)

subsection \<open>The schema as an invariant\<close>

definition wf_principals :: "database \<Rightarrow> bool" where
  "wf_principals db \<longleftrightarrow>
     distinct (map pr_id (principals db)) \<and>
     distinct (map (\<lambda>r. (pr_class r, pr_external_id r)) (principals db)) \<and>
     (\<forall>r \<in> set (principals db). pr_class r \<in> {''human'', ''agent''})"

definition wf_credentials :: "database \<Rightarrow> bool" where
  "wf_credentials db \<longleftrightarrow>
     distinct (map cr_id (credentials db)) \<and>
     (\<forall>r \<in> set (credentials db). cr_type r \<in> {''webauthn'', ''machine_key''}
        \<and> has_principal (cr_principal_id r) db
        \<and> (cr_revoked_at r = None \<longleftrightarrow> cr_revoked_by r = None))"

definition wf_keys :: "database \<Rightarrow> bool" where
  "wf_keys db \<longleftrightarrow>
     distinct (map sk_id (signing_keys db)) \<and>
     (\<forall>r \<in> set (signing_keys db). (sk_status r = ''active'' \<and> sk_retired_at r = None)
        \<or> (sk_status r = ''retired'' \<and> sk_retired_at r \<noteq> None))"

definition active_grants :: "database \<Rightarrow> grant_row list" where
  "active_grants db = filter (\<lambda>r. gr_revoked_at r = None) (grants db)"

definition wf_grants :: "database \<Rightarrow> bool" where
  "wf_grants db \<longleftrightarrow>
     distinct (map gr_id (grants db)) \<and>
     distinct (map grant_key (active_grants db)) \<and>
     (\<forall>r \<in> set (grants db). has_principal (gr_principal_id r) db
        \<and> (gr_revoked_at r = None \<longleftrightarrow> gr_revoked_by r = None))"

definition wf_tokens :: "database \<Rightarrow> bool" where
  "wf_tokens db \<longleftrightarrow>
     distinct (map ir_token_hash (invites db)) \<and>
     distinct (map cl_id (clients db)) \<and>
     distinct (map cd_code_hash (auth_codes db)) \<and>
     (\<forall>r \<in> set (auth_codes db). has_principal (cd_principal_id r) db) \<and>
     distinct (map ss_token_hash (idp_sessions db)) \<and>
     (\<forall>r \<in> set (idp_sessions db). has_principal (ss_principal_id r) db)"

definition wf_db :: "database \<Rightarrow> bool" where
  "wf_db db \<longleftrightarrow> wf_principals db \<and> wf_credentials db \<and> wf_keys db \<and> wf_grants db \<and> wf_tokens db"


lemma has_principal_simps [simp]:
  "has_principal p (db\<lparr>credentials := a\<rparr>) = has_principal p db"
  "has_principal p (db\<lparr>signing_keys := b\<rparr>) = has_principal p db"
  "has_principal p (db\<lparr>grants := c\<rparr>) = has_principal p db"
  "has_principal p (db\<lparr>invites := d\<rparr>) = has_principal p db"
  "has_principal p (db\<lparr>clients := e\<rparr>) = has_principal p db"
  "has_principal p (db\<lparr>auth_codes := f\<rparr>) = has_principal p db"
  "has_principal p (db\<lparr>idp_sessions := g\<rparr>) = has_principal p db"
  "has_principal p (db\<lparr>principals := principals db @ [r]\<rparr>) = (pr_id r = p \<or> has_principal p db)"
  "has_principal p (db\<lparr>principals := delete_where (\<lambda>r. pr_id r = i) (principals db)\<rparr>) =
     (p \<noteq> i \<and> has_principal p db)"
  by (auto simp: has_principal_def)

lemmas statement_defs = insert_principal_def insert_credential_def insert_signing_key_def
  insert_grant_def insert_invite_def insert_client_def upsert_client_def insert_code_def
  insert_session_def delete_principal_rows_def update_credentials_def delete_credentials_def
  update_signing_keys_def update_grants_def update_invites_def delete_clients_def update_codes_def
  update_sessions_def

lemma distinct_map_snoc: "distinct (map f (xs @ [x])) \<longleftrightarrow> distinct (map f xs) \<and> (\<forall>y \<in> set xs. f y \<noteq> f x)"
  by (auto simp: image_iff)

lemma ball_update_where:
  "(\<forall>r \<in> set (update_where p f rs). P r) \<longleftrightarrow> (\<forall>r \<in> set rs. P (if p r then f r else r))"
  by (auto simp: set_update_where)

lemmas table_simps = distinct_map_snoc ball_update_where map_update_where distinct_map_delete_where

lemma wf_principals_step: "db_step db db' \<Longrightarrow> wf_principals db \<Longrightarrow> wf_principals db'"
  by (induction rule: db_step.induct)
    (auto simp: statement_defs wf_principals_def table_simps split: if_splits simp del: map_append)

lemma wf_principals_purge: "purge_step db db' \<Longrightarrow> wf_principals db \<Longrightarrow> wf_principals db'"
  by (erule purge_stepE)
    (auto simp: statement_defs wf_principals_def table_simps split: if_splits simp del: map_append)

lemma wf_keys_step: "db_step db db' \<Longrightarrow> wf_keys db \<Longrightarrow> wf_keys db'"
  by (induction rule: db_step.induct)
    (auto simp: statement_defs wf_keys_def table_simps split: if_splits simp del: map_append)

lemma wf_keys_purge: "purge_step db db' \<Longrightarrow> wf_keys db \<Longrightarrow> wf_keys db'"
  by (erule purge_stepE)
    (auto simp: statement_defs wf_keys_def table_simps split: if_splits simp del: map_append)

lemma wf_credentials_step: "db_step db db' \<Longrightarrow> wf_credentials db \<Longrightarrow> wf_credentials db'"
  by (induction rule: db_step.induct)
    (auto simp: statement_defs wf_credentials_def table_simps split: if_splits simp del: map_append)

lemma wf_credentials_purge: "purge_step db db' \<Longrightarrow> wf_credentials db \<Longrightarrow> wf_credentials db'"
  by (erule purge_stepE)
    (auto simp: statement_defs wf_credentials_def table_simps split: if_splits simp del: map_append)

lemma wf_tokens_step: "db_step db db' \<Longrightarrow> wf_tokens db \<Longrightarrow> wf_tokens db'"
  by (induction rule: db_step.induct)
    (auto simp: statement_defs wf_tokens_def table_simps split: if_splits simp del: map_append)

lemma wf_tokens_purge: "purge_step db db' \<Longrightarrow> wf_tokens db \<Longrightarrow> wf_tokens db'"
  by (erule purge_stepE)
    (auto simp: statement_defs wf_tokens_def table_simps split: if_splits simp del: map_append)

lemma filter_delete_where: "filter q (delete_where p rs) = delete_where p (filter q rs)"
  by (simp add: delete_where_def conj_commute)

lemma filter_revoked:
  "filter (\<lambda>r. gr_revoked_at r = None)
     (update_where p (\<lambda>r. r\<lparr>gr_revoked_by := b, gr_revoked_at := Some t\<rparr>) rs) =
   delete_where p (filter (\<lambda>r. gr_revoked_at r = None) rs)"
  by (induction rs) (auto simp: update_where_def delete_where_def)

lemma mem_active_grants: "r \<in> set (active_grants db) \<longleftrightarrow> r \<in> set (grants db) \<and> gr_revoked_at r = None"
  by (auto simp: active_grants_def)

lemma active_keys_step:
  "db_step db db' \<Longrightarrow> distinct (map grant_key (active_grants db)) \<Longrightarrow>
   distinct (map grant_key (active_grants db'))"
  by (induction rule: db_step.induct)
    (auto simp: statement_defs active_grants_def filter_delete_where filter_revoked table_simps
       split: if_splits simp del: map_append, metis option.distinct(1))

lemma wf_grants_step: 
  assumes "db_step db db'" "wf_grants db" shows "wf_grants db'"
proof -
  have "distinct (map gr_id (grants db')) \<and> (\<forall>r \<in> set (grants db'). has_principal (gr_principal_id r) db'
        \<and> (gr_revoked_at r = None \<longleftrightarrow> gr_revoked_by r = None))"
    using assms unfolding wf_grants_def
    by (induction rule: db_step.induct)
      (auto simp: statement_defs table_simps split: if_splits simp del: map_append)
  then show ?thesis using active_keys_step [OF assms(1)] assms(2) by (simp add: wf_grants_def)
qed

lemma wf_grants_purge: "purge_step db db' \<Longrightarrow> wf_grants db \<Longrightarrow> wf_grants db'"
  by (erule purge_stepE)
    (auto simp: statement_defs wf_grants_def active_grants_def filter_delete_where table_simps
       split: if_splits simp del: map_append)

lemma wf_db_purge: "wf_db db \<Longrightarrow> purge_step db db' \<Longrightarrow> wf_db db'"
  unfolding wf_db_def
  by (simp add: wf_principals_purge wf_credentials_purge wf_keys_purge wf_grants_purge wf_tokens_purge)

lemma wf_db_step: "wf_db db \<Longrightarrow> db_step db db' \<Longrightarrow> wf_db db'"
  unfolding wf_db_def
  by (simp add: wf_principals_step wf_credentials_step wf_keys_step wf_grants_step wf_tokens_step)

interpretation wf: db_purge_invariant wf_db
  by unfold_locales (rule wf_db_step, assumption+, rule wf_db_purge)

lemma wf_empty_db [simp]: "wf_db empty_db"
  by (simp add: wf_db_def empty_db_def wf_principals_def wf_credentials_def wf_keys_def wf_grants_def
      wf_tokens_def active_grants_def)

subsection \<open>What is recorded once stays recorded\<close>

text \<open>
  Marks that no step removes: a used code, a used invite and a revoked grant or session stay used or
  revoked. Of grants only the fact of the revocation is stable, not its attribution: see
  \<open>RevokeGrant\<close>.
\<close>

definition spent :: "('r \<Rightarrow> string) \<Rightarrow> ('r \<Rightarrow> string option) \<Rightarrow> string \<Rightarrow> 'r list \<Rightarrow> bool" where
  "spent key mark k rs \<longleftrightarrow>
     (\<exists>r \<in> set rs. key r = k) \<and> (\<forall>r \<in> set rs. key r = k \<longrightarrow> mark r \<noteq> None)"

lemma spent_snoc: "spent key mark k rs \<Longrightarrow> (\<forall>q \<in> set rs. key q \<noteq> key r) \<Longrightarrow> spent key mark k (rs @ [r])"
  by (auto simp: spent_def)

lemma spent_update:
  assumes "spent key mark k rs" "\<And>r. key (f r) = key r" "\<And>r. mark r \<noteq> None \<Longrightarrow> mark (f r) \<noteq> None"
  shows "spent key mark k (update_where p f rs)"
proof -
  obtain r where "r \<in> set rs" "key r = k" using assms(1) by (auto simp: spent_def)
  then have "\<exists>r \<in> set (update_where p f rs). key r = k"
    using assms(2) unfolding set_update_where by (intro bexI [of _ "if p r then f r else r"]) auto
  then show ?thesis using assms by (simp add: spent_def ball_update_where)
qed

abbreviation invite_spent :: "string \<Rightarrow> database \<Rightarrow> bool" where
  "invite_spent h db \<equiv> spent ir_token_hash ir_used_at h (invites db)"

abbreviation code_spent :: "string \<Rightarrow> database \<Rightarrow> bool" where
  "code_spent h db \<equiv> spent cd_code_hash cd_used_at h (auth_codes db)"

abbreviation grant_revoked :: "string \<Rightarrow> database \<Rightarrow> bool" where
  "grant_revoked i db \<equiv> spent gr_id gr_revoked_at i (grants db)"

abbreviation session_revoked :: "string \<Rightarrow> database \<Rightarrow> bool" where
  "session_revoked h db \<equiv> spent ss_token_hash ss_revoked_at h (idp_sessions db)"

lemmas spent_rules = spent_snoc spent_update

lemma invite_spent_step: "invite_spent h db \<Longrightarrow> db_step db db' \<Longrightarrow> invite_spent h db'"
  by (erule db_stepE) (auto simp: statement_defs intro!: spent_rules split: if_splits)

lemma code_spent_step: "code_spent h db \<Longrightarrow> db_step db db' \<Longrightarrow> code_spent h db'"
  by (erule db_stepE) (auto simp: statement_defs intro!: spent_rules split: if_splits)

lemma grant_revoked_step: "grant_revoked i db \<Longrightarrow> db_step db db' \<Longrightarrow> grant_revoked i db'"
  by (erule db_stepE) (auto simp: statement_defs intro!: spent_rules split: if_splits)

lemma session_revoked_step: "session_revoked h db \<Longrightarrow> db_step db db' \<Longrightarrow> session_revoked h db'"
  by (erule db_stepE) (auto simp: statement_defs intro!: spent_rules split: if_splits)

interpretation invite_use: db_invariant "invite_spent h" for h
  by unfold_locales (rule invite_spent_step)

interpretation code_use: db_invariant "code_spent h" for h
  by unfold_locales (rule code_spent_step)

interpretation grant_revocation: db_invariant "grant_revoked i" for i
  by unfold_locales (rule grant_revoked_step)

interpretation session_revocation: db_invariant "session_revoked h" for h
  by unfold_locales (rule session_revoked_step)

subsection \<open>Every timestamp is one\<close>

definition row_stamped :: "string option list \<Rightarrow> bool" where
  "row_stamped cols \<longleftrightarrow> (\<forall>s. Some s \<in> set cols \<longrightarrow> is_stamp s)"

definition table_stamped :: "('r \<Rightarrow> string option list) \<Rightarrow> 'r list \<Rightarrow> bool" where
  "table_stamped cols rs \<longleftrightarrow> (\<forall>r \<in> set rs. row_stamped (cols r))"

definition stamped :: "database \<Rightarrow> bool" where
  "stamped db \<longleftrightarrow>
     table_stamped (\<lambda>r. [Some (pr_created_at r)]) (principals db) \<and>
     table_stamped (\<lambda>r. [Some (cr_created_at r), cr_revoked_at r]) (credentials db) \<and>
     table_stamped (\<lambda>r. [Some (sk_created_at r), sk_retired_at r]) (signing_keys db) \<and>
     table_stamped (\<lambda>r. [Some (gr_granted_at r), gr_revoked_at r]) (grants db) \<and>
     table_stamped (\<lambda>r. [Some (ir_created_at r), Some (ir_expires_at r), ir_used_at r]) (invites db) \<and>
     table_stamped (\<lambda>r. [Some (cl_created_at r)]) (clients db) \<and>
     table_stamped (\<lambda>r. [Some (cd_created_at r), Some (cd_expires_at r), cd_used_at r]) (auth_codes db) \<and>
     table_stamped (\<lambda>r. [Some (ss_created_at r), Some (ss_expires_at r), ss_revoked_at r]) (idp_sessions db)"

lemma row_stamped_simps [simp]:
  "row_stamped []"
  "row_stamped (None # cols) \<longleftrightarrow> row_stamped cols"
  "row_stamped (Some s # cols) \<longleftrightarrow> is_stamp s \<and> row_stamped cols"
  by (auto simp: row_stamped_def)

lemma table_stamped_snoc: "table_stamped cols rs \<Longrightarrow> row_stamped (cols r) \<Longrightarrow> table_stamped cols (rs @ [r])"
  by (auto simp: table_stamped_def)

lemma table_stamped_update:
  "table_stamped cols rs \<Longrightarrow> (\<And>r. row_stamped (cols r) \<Longrightarrow> row_stamped (cols (f r))) \<Longrightarrow> table_stamped cols (update_where p f rs)"
  by (auto simp: table_stamped_def set_update_where)

lemma table_stamped_delete: "table_stamped cols rs \<Longrightarrow> table_stamped cols (delete_where p rs)"
  by (auto simp: table_stamped_def)

lemmas table_stamped_rules = table_stamped_snoc table_stamped_update table_stamped_delete

lemma stamped_step: "stamped db \<Longrightarrow> db_step db db' \<Longrightarrow> stamped db'"
  by (erule db_stepE) (auto simp: statement_defs stamped_def intro!: table_stamped_rules split: if_splits)

lemma stamped_purge: "stamped db \<Longrightarrow> purge_step db db' \<Longrightarrow> stamped db'"
  by (erule purge_stepE) (auto simp: statement_defs stamped_def intro!: table_stamped_rules split: if_splits)

interpretation stamps: db_purge_invariant stamped
  by unfold_locales (rule stamped_step, assumption+, rule stamped_purge)

end
