(* ===== verification/StorePrincipals.thy ===== *)
theory StorePrincipals
  imports DbSteps
begin

text \<open>
  \<^verbatim>\<open>store/store.go\<close>: the principal registry and the credential store. A row's timestamps are
  parsed when it is read, and a row that does not parse is an error.
\<close>

subsection \<open>Data\<close>

record principal =
  p_id :: string
  p_class :: string
  p_external_id :: string
  p_created_at :: time

record credential =
  c_id :: string
  c_principal_id :: string
  c_type :: string
  c_data :: bytes
  c_label :: string
  c_created_at :: time
  c_revoked_by :: "string option"
  c_revoked_at :: "time option"

definition class_human :: string where "class_human = ''human''"
definition class_agent :: string where "class_agent = ''agent''"
definition type_webauthn :: string where "type_webauthn = ''webauthn''"
definition type_machine_key :: string where "type_machine_key = ''machine_key''"

definition credential_is_active :: "credential \<Rightarrow> bool" where
  "credential_is_active c \<longleftrightarrow> c_revoked_at c = None"

subsection \<open>Reading rows\<close>

definition read_principal :: "principal_row \<Rightarrow> err + principal" where
  "read_principal r =
     (case parse_time (pr_created_at r) of
        None \<Rightarrow> Inl (ErrOther ''store: parse principal timestamp'')
      | Some t \<Rightarrow> Inr \<lparr>p_id = pr_id r, p_class = pr_class r, p_external_id = pr_external_id r,
                       p_created_at = t\<rparr>)"

definition scan_principal :: "string + principal_row option \<Rightarrow> err + principal" where
  "scan_principal q =
     (case q of
        Inl _ \<Rightarrow> Inl (ErrOther ''store: scan principal'')
      | Inr None \<Rightarrow> Inl ErrNotFound
      | Inr (Some r) \<Rightarrow> read_principal r)"

definition collect_principals :: "principal_row list \<Rightarrow> err + principal list" where
  "collect_principals rs = traverse read_principal rs"

definition read_credential :: "credential_row \<Rightarrow> err + credential" where
  "read_credential r =
     (case parse_time (cr_created_at r) of
        None \<Rightarrow> Inl (ErrOther ''store: parse credential timestamp'')
      | Some t \<Rightarrow>
          (let c = \<lparr>c_id = cr_id r, c_principal_id = cr_principal_id r, c_type = cr_type r,
                    c_data = cr_data r, c_label = cr_label r, c_created_at = t,
                    c_revoked_by = cr_revoked_by r, c_revoked_at = None\<rparr> in
           case cr_revoked_at r of
             None \<Rightarrow> Inr c
           | Some s \<Rightarrow>
               (case parse_time s of
                  None \<Rightarrow> Inl (ErrOther ''store: parse credential revoked_at'')
                | Some rt \<Rightarrow> Inr (c\<lparr>c_revoked_at := Some rt\<rparr>))))"

definition scan_credential :: "string + credential_row option \<Rightarrow> err + credential" where
  "scan_credential q =
     (case q of
        Inl _ \<Rightarrow> Inl (ErrOther ''store: scan credential'')
      | Inr None \<Rightarrow> Inl ErrNotFound
      | Inr (Some r) \<Rightarrow> read_credential r)"

definition collect_credentials :: "credential_row list \<Rightarrow> err + credential list" where
  "collect_credentials rs = traverse read_credential rs"

subsection \<open>Principals\<close>

definition create_principal :: "string \<Rightarrow> string \<Rightarrow> world \<Rightarrow> (err + principal) \<times> world" where
  "create_principal cls external_id w =
     (case new_uuid w of
        (None, w) \<Rightarrow> (Inl (ErrOther ''store: generate id''), w)
      | (Some i, w) \<Rightarrow>
          (case time_now w of (now, w) \<Rightarrow>
             (case db_exec (insert_principal \<lparr>pr_id = i, pr_class = cls, pr_external_id = external_id,
                      pr_created_at = rfc3339 now\<rparr>) w of
                (Inl msg, w) \<Rightarrow>
                  (Inl (if is_unique_violation msg then ErrDuplicate
                        else ErrOther ''store: create principal''), w)
              | (Inr _, w) \<Rightarrow>
                  (Inr \<lparr>p_id = i, p_class = cls, p_external_id = external_id, p_created_at = now\<rparr>, w))))"

definition get_principal_by_id :: "string \<Rightarrow> world \<Rightarrow> (err + principal) \<times> world" where
  "get_principal_by_id i w =
     (case db_query (\<lambda>db. select_first (\<lambda>r. pr_id r = i) (principals db)) w of
        (q, w) \<Rightarrow> (scan_principal q, w))"

definition get_principal_by_external_id :: "string \<Rightarrow> string \<Rightarrow> world \<Rightarrow> (err + principal) \<times> world" where
  "get_principal_by_external_id cls external_id w =
     (case db_query (\<lambda>db. select_first
              (\<lambda>r. pr_class r = cls \<and> pr_external_id r = external_id) (principals db)) w of
        (q, w) \<Rightarrow> (scan_principal q, w))"

definition list_principals :: "string list \<Rightarrow> world \<Rightarrow> (err + principal list) \<times> world" where
  "list_principals classes w =
     (case db_query (\<lambda>db. sort_key pr_created_at
              (if classes = [] then principals db
               else filter (\<lambda>r. pr_class r \<in> set classes) (principals db))) w of
        (Inl _, w) \<Rightarrow> (Inl (ErrOther ''store: list principals''), w)
      | (Inr rows, w) \<Rightarrow> (collect_principals rows, w))"

definition delete_principal :: "string \<Rightarrow> world \<Rightarrow> (err + unit) \<times> world" where
  "delete_principal i w =
     (case db_exec (delete_principal_rows i) w of
        (Inl _, w) \<Rightarrow> (Inl (ErrOther ''store: delete principal''), w)
      | (Inr n, w) \<Rightarrow> (if n = 0 then Inl ErrNotFound else Inr (), w))"

subsection \<open>Credentials\<close>

definition create_credential ::
  "string \<Rightarrow> string \<Rightarrow> bytes \<Rightarrow> string \<Rightarrow> world \<Rightarrow> (err + credential) \<times> world" where
  "create_credential principal_id cred_type dat label w =
     (case new_uuid w of
        (None, w) \<Rightarrow> (Inl (ErrOther ''store: generate id''), w)
      | (Some i, w) \<Rightarrow>
          (case time_now w of (now, w) \<Rightarrow>
             (case db_exec (insert_credential \<lparr>cr_id = i, cr_principal_id = principal_id,
                      cr_type = cred_type, cr_data = dat, cr_label = label,
                      cr_created_at = rfc3339 now, cr_revoked_by = None, cr_revoked_at = None\<rparr>) w of
                (Inl msg, w) \<Rightarrow>
                  (Inl (if is_fk_violation msg then ErrNotFound
                        else ErrOther ''store: create credential''), w)
              | (Inr _, w) \<Rightarrow>
                  (Inr \<lparr>c_id = i, c_principal_id = principal_id, c_type = cred_type, c_data = dat,
                        c_label = label, c_created_at = now, c_revoked_by = None,
                        c_revoked_at = None\<rparr>, w))))"

definition get_credential :: "string \<Rightarrow> world \<Rightarrow> (err + credential) \<times> world" where
  "get_credential i w =
     (case db_query (\<lambda>db. select_first (\<lambda>r. cr_id r = i) (credentials db)) w of
        (q, w) \<Rightarrow> (scan_credential q, w))"

definition list_credentials_by_principal :: "string \<Rightarrow> world \<Rightarrow> (err + credential list) \<times> world" where
  "list_credentials_by_principal pid w =
     (case db_query (\<lambda>db. sort_key cr_created_at
              (filter (\<lambda>r. cr_principal_id r = pid) (credentials db))) w of
        (Inl _, w) \<Rightarrow> (Inl (ErrOther ''store: list credentials''), w)
      | (Inr rows, w) \<Rightarrow> (collect_credentials rows, w))"

definition revoke_credential :: "string \<Rightarrow> string \<Rightarrow> world \<Rightarrow> (err + unit) \<times> world" where
  "revoke_credential i revoked_by w =
     (case db_query (\<lambda>db. map_option cr_revoked_at (select_first (\<lambda>r. cr_id r = i) (credentials db))) w of
        (Inl _, w) \<Rightarrow> (Inl (ErrOther ''store: revoke credential fetch''), w)
      | (Inr None, w) \<Rightarrow> (Inl ErrNotFound, w)
      | (Inr (Some (Some _)), w) \<Rightarrow> (Inl ErrCredentialRevoked, w)
      | (Inr (Some None), w) \<Rightarrow>
          (case time_now w of (now, w) \<Rightarrow>
             (case db_exec (update_credentials (\<lambda>r. cr_id r = i)
                      (\<lambda>r. r\<lparr>cr_revoked_by := Some revoked_by, cr_revoked_at := Some (rfc3339 now)\<rparr>)) w of
                (Inl _, w) \<Rightarrow> (Inl (ErrOther ''store: revoke credential''), w)
              | (Inr _, w) \<Rightarrow> (Inr (), w))))"

definition update_credential_data :: "string \<Rightarrow> bytes \<Rightarrow> world \<Rightarrow> (err + unit) \<times> world" where
  "update_credential_data i dat w =
     (case db_exec (update_credentials (\<lambda>r. cr_id r = i) (\<lambda>r. r\<lparr>cr_data := dat\<rparr>)) w of
        (Inl _, w) \<Rightarrow> (Inl (ErrOther ''store: update credential data''), w)
      | (Inr n, w) \<Rightarrow> (if n = 0 then Inl ErrNotFound else Inr (), w))"

definition delete_credential :: "string \<Rightarrow> world \<Rightarrow> (err + unit) \<times> world" where
  "delete_credential i w =
     (case db_exec (delete_credentials (\<lambda>r. cr_id r = i)) w of
        (Inl _, w) \<Rightarrow> (Inl (ErrOther ''store: delete credential''), w)
      | (Inr n, w) \<Rightarrow> (if n = 0 then Inl ErrNotFound else Inr (), w))"

subsection \<open>The operations keep every invariant of the steps\<close>

lemmas op_splits = sum.split option.split

context db_invariant
begin

lemma create_principal [wf_intros]:
  "I (w_db w) \<Longrightarrow> I (w_db (snd (create_principal cls ext w)))"
  unfolding create_principal_def
  by (auto simp: case_prod_beta intro!: execs split: op_splits)

lemma create_credential [wf_intros]:
  "I (w_db w) \<Longrightarrow> I (w_db (snd (create_credential pid ty dat lab w)))"
  unfolding create_credential_def
  by (auto simp: case_prod_beta intro!: execs split: op_splits)

lemma revoke_credential [wf_intros]: "I (w_db w) \<Longrightarrow> I (w_db (snd (revoke_credential i b w)))"
  unfolding revoke_credential_def
  by (auto simp: case_prod_beta intro!: execs split: op_splits)

lemma update_credential_data [wf_intros]: "I (w_db w) \<Longrightarrow> I (w_db (snd (update_credential_data i dat w)))"
  unfolding update_credential_data_def
  by (auto simp: case_prod_beta intro!: execs split: op_splits)

end

context db_purge_invariant
begin

lemma delete_principal: "I (w_db w) \<Longrightarrow> I (w_db (snd (delete_principal i w)))"
  unfolding delete_principal_def
  by (auto simp: case_prod_beta intro!: exec_del_principal split: op_splits)

lemma delete_credential: "I (w_db w) \<Longrightarrow> I (w_db (snd (delete_credential i w)))"
  unfolding delete_credential_def
  by (auto simp: case_prod_beta intro!: exec_del_credential split: op_splits)

end

lemma principal_reads [simp, frame_simps]:
  "w_db (snd (get_principal_by_id i w)) = w_db w"
  "w_db (snd (get_principal_by_external_id cls ext w)) = w_db w"
  "w_db (snd (list_principals cs w)) = w_db w"
  "w_db (snd (get_credential i w)) = w_db w"
  "w_db (snd (list_credentials_by_principal pid w)) = w_db w"
  by (simp_all add: get_principal_by_id_def get_principal_by_external_id_def list_principals_def
      get_credential_def list_credentials_by_principal_def case_prod_beta split: op_splits)

end
