(* ===== verification/StoreGrants.thy ===== *)
theory StoreGrants
  imports StorePrincipals
begin

text \<open>
  \<^verbatim>\<open>store/grant.go\<close>: the scope vocabulary and the default-deny grant store.
\<close>

record grant =
  g_id :: string
  g_principal_id :: string
  g_scope :: string
  g_environment :: string
  g_granted_by :: string
  g_granted_at :: time
  g_revoked_by :: "string option"
  g_revoked_at :: "time option"

definition grant_is_active :: "grant \<Rightarrow> bool" where
  "grant_is_active g \<longleftrightarrow> g_revoked_at g = None"

text \<open>A vocabulary is the set of its scopes, kept without repetition.\<close>

type_synonym vocabulary = "string list"

definition new_vocabulary :: "string list \<Rightarrow> vocabulary" where
  "new_vocabulary scopes = remdups scopes"

definition vocab_contains :: "vocabulary \<Rightarrow> string \<Rightarrow> bool" where
  "vocab_contains v scope \<longleftrightarrow> scope \<in> set v"

definition vocab_all :: "vocabulary \<Rightarrow> string list" where
  "vocab_all v = sort v"

definition read_grant :: "grant_row \<Rightarrow> err + grant" where
  "read_grant r =
     (case parse_time (gr_granted_at r) of
        None \<Rightarrow> Inl (ErrOther ''store: parse grant granted_at'')
      | Some t \<Rightarrow>
          (let g = \<lparr>g_id = gr_id r, g_principal_id = gr_principal_id r, g_scope = gr_scope r,
                    g_environment = gr_environment r, g_granted_by = gr_granted_by r,
                    g_granted_at = t, g_revoked_by = gr_revoked_by r, g_revoked_at = None\<rparr> in
           case gr_revoked_at r of
             None \<Rightarrow> Inr g
           | Some s \<Rightarrow>
               (case parse_time s of
                  None \<Rightarrow> Inl (ErrOther ''store: parse grant revoked_at'')
                | Some rt \<Rightarrow> Inr (g\<lparr>g_revoked_at := Some rt\<rparr>))))"

definition scan_grant :: "string + grant_row option \<Rightarrow> err + grant" where
  "scan_grant q =
     (case q of
        Inl _ \<Rightarrow> Inl (ErrOther ''store: scan grant'')
      | Inr None \<Rightarrow> Inl ErrNotFound
      | Inr (Some r) \<Rightarrow> read_grant r)"

definition collect_grants :: "grant_row list \<Rightarrow> err + grant list" where
  "collect_grants rs = traverse read_grant rs"

definition create_grant ::
  "string \<Rightarrow> string \<Rightarrow> string \<Rightarrow> string \<Rightarrow> vocabulary \<Rightarrow> world \<Rightarrow> (err + grant) \<times> world" where
  "create_grant principal_id scope environment granted_by vocab w =
     (if \<not> vocab_contains vocab scope then (Inl ErrUnknownScope, w)
      else
        (case new_uuid w of
           (None, w) \<Rightarrow> (Inl (ErrOther ''store: generate grant id''), w)
         | (Some i, w) \<Rightarrow>
             (case time_now w of (now, w) \<Rightarrow>
                (case db_exec (insert_grant \<lparr>gr_id = i, gr_principal_id = principal_id,
                         gr_scope = scope, gr_environment = environment, gr_granted_by = granted_by,
                         gr_granted_at = rfc3339 now, gr_revoked_by = None, gr_revoked_at = None\<rparr>) w of
                   (Inl msg, w) \<Rightarrow>
                     (Inl (if is_fk_violation msg then ErrNotFound
                           else if is_unique_violation msg then ErrDuplicate
                           else ErrOther ''store: create grant''), w)
                 | (Inr _, w) \<Rightarrow>
                     (Inr \<lparr>g_id = i, g_principal_id = principal_id, g_scope = scope,
                           g_environment = environment, g_granted_by = granted_by,
                           g_granted_at = now, g_revoked_by = None, g_revoked_at = None\<rparr>, w)))))"

definition revoke_grant :: "string \<Rightarrow> string \<Rightarrow> world \<Rightarrow> (err + unit) \<times> world" where
  "revoke_grant i revoked_by w =
     (case db_query (\<lambda>db. map_option gr_revoked_at (select_first (\<lambda>r. gr_id r = i) (grants db))) w of
        (Inl _, w) \<Rightarrow> (Inl (ErrOther ''store: revoke grant fetch''), w)
      | (Inr None, w) \<Rightarrow> (Inl ErrNotFound, w)
      | (Inr (Some (Some _)), w) \<Rightarrow> (Inl ErrGrantRevoked, w)
      | (Inr (Some None), w) \<Rightarrow>
          (case time_now w of (now, w) \<Rightarrow>
             (case db_exec (update_grants (\<lambda>r. gr_id r = i)
                      (\<lambda>r. r\<lparr>gr_revoked_by := Some revoked_by, gr_revoked_at := Some (rfc3339 now)\<rparr>)) w of
                (Inl _, w) \<Rightarrow> (Inl (ErrOther ''store: revoke grant''), w)
              | (Inr _, w) \<Rightarrow> (Inr (), w))))"

text \<open>
  The four queries of \<^verbatim>\<open>ListGrants\<close> differ in their WHERE clause: the environment is a filter
  unless it is empty, and revoked rows are left out when only active ones are asked for.
\<close>

definition list_grants_where :: "string \<Rightarrow> string \<Rightarrow> bool \<Rightarrow> grant_row \<Rightarrow> bool" where
  "list_grants_where pid environment active_only r \<longleftrightarrow>
     (if environment \<noteq> '''' \<and> active_only then
        gr_principal_id r = pid \<and> gr_environment r = environment \<and> gr_revoked_at r = None
      else if environment \<noteq> '''' \<and> \<not> active_only then
        gr_principal_id r = pid \<and> gr_environment r = environment
      else if environment = '''' \<and> active_only then
        gr_principal_id r = pid \<and> gr_revoked_at r = None
      else gr_principal_id r = pid)"

definition list_grants ::
  "string \<Rightarrow> string \<Rightarrow> bool \<Rightarrow> world \<Rightarrow> (err + grant list) \<times> world" where
  "list_grants pid environment active_only w =
     (case db_query (\<lambda>db. sort_key gr_granted_at
              (filter (list_grants_where pid environment active_only) (grants db))) w of
        (Inl _, w) \<Rightarrow> (Inl (ErrOther ''store: list grants''), w)
      | (Inr rows, w) \<Rightarrow> (collect_grants rows, w))"

definition get_grant :: "string \<Rightarrow> world \<Rightarrow> (err + grant) \<times> world" where
  "get_grant i w =
     (case db_query (\<lambda>db. select_first (\<lambda>r. gr_id r = i) (grants db)) w of
        (q, w) \<Rightarrow> (scan_grant q, w))"

definition get_active_scopes :: "string \<Rightarrow> string \<Rightarrow> world \<Rightarrow> (err + string list) \<times> world" where
  "get_active_scopes pid environment w =
     (case list_grants pid environment True w of
        (Inl e, w) \<Rightarrow> (Inl e, w)
      | (Inr gs, w) \<Rightarrow> (Inr (map g_scope gs), w))"

context db_invariant
begin

lemma create_grant [wf_intros]: "I (w_db w) \<Longrightarrow> I (w_db (snd (create_grant pid sc env by v w)))"
  unfolding create_grant_def
  by (auto simp: case_prod_beta intro!: execs split: op_splits)

lemma revoke_grant [wf_intros]: "I (w_db w) \<Longrightarrow> I (w_db (snd (revoke_grant i b w)))"
  unfolding revoke_grant_def
  by (auto simp: case_prod_beta intro!: execs split: op_splits)

end

lemma grant_reads [simp, frame_simps]:
  "w_db (snd (list_grants pid env a w)) = w_db w"
  "w_db (snd (get_grant i w)) = w_db w"
  "w_db (snd (get_active_scopes pid env w)) = w_db w"
  by (simp_all add: list_grants_def get_grant_def get_active_scopes_def case_prod_beta split: op_splits)

end
