(* ===== verification/Crypto.thy ===== *)
theory Crypto
  imports Prelude
begin

text \<open>
  The cryptographic primitives the program calls, as a record of functions every definition that
  needs them takes as an argument, and the laws the documentation of \<^verbatim>\<open>crypto/cipher\<close> promises:
  opening what was sealed under the same key and nonce gives the plaintext back.
\<close>

record crypto =
  cx_sha256 :: "bytes \<Rightarrow> bytes"
  cx_seal :: "bytes \<Rightarrow> bytes \<Rightarrow> bytes \<Rightarrow> bytes"
  cx_open :: "bytes \<Rightarrow> bytes \<Rightarrow> bytes \<Rightarrow> bytes option"
  cx_is_pkcs8 :: "bytes \<Rightarrow> bool"

definition seal_law :: "crypto \<Rightarrow> bool" where
  "seal_law x \<longleftrightarrow> (\<forall>key nonce plain. cx_open x key nonce (cx_seal x key nonce plain) = Some plain)"

text \<open>\<^verbatim>\<open>HashToken\<close>.\<close>

definition hash_token :: "crypto \<Rightarrow> string \<Rightarrow> string" where
  "hash_token x raw_token = hex_encode (cx_sha256 x raw_token)"

text \<open>
  A toy instance for evaluating the definitions on concrete inputs: the hash is the identity, and a
  sealed text is the key, a mark and the plaintext.
\<close>

definition demo_crypto :: crypto where
  "demo_crypto = \<lparr>cx_sha256 = (\<lambda>b. b),
     cx_seal = (\<lambda>k n p. k @ CHR ''|'' # p),
     cx_open = (\<lambda>k n c. if prefix (k @ [CHR ''|'']) c then Some (drop (length k + 1) c) else None),
     cx_is_pkcs8 = (\<lambda>b. prefix ''DER'' b)\<rparr>"

lemma demo_seal_law: "seal_law demo_crypto"
  by (simp add: seal_law_def demo_crypto_def)

end
