(* ===== verification/StoreKeys.thy ===== *)
theory StoreKeys
  imports StorePrincipals Crypto
begin

text \<open>
  \<^verbatim>\<open>store/signing_key.go\<close>: the signing keys, encrypted at rest under the key-encryption key
  \<open>kek\<close> (\<^verbatim>\<open>Store.kek\<close>), their rotation, and the two re-encryption passes. A key pair is the
  PKCS8 DER the generator returns.
\<close>

record signing_key =
  k_id :: string
  k_algorithm :: string
  k_private_key :: bytes
  k_status :: string
  k_created_at :: time
  k_retired_at :: "time option"

definition nonce_size :: nat where "nonce_size = 12"

definition encrypt_key_der :: "crypto \<Rightarrow> bytes \<Rightarrow> bytes \<Rightarrow> world \<Rightarrow> (err + bytes) \<times> world" where
  "encrypt_key_der x kek der w =
     (case rand_read nonce_size w of
        (None, w) \<Rightarrow> (Inl (ErrOther ''rand''), w)
      | (Some nonce, w) \<Rightarrow> (Inr (nonce @ cx_seal x kek nonce der), w))"

definition decrypt_key_der :: "crypto \<Rightarrow> bytes \<Rightarrow> bytes \<Rightarrow> err + bytes" where
  "decrypt_key_der x kek blob =
     (if length blob < nonce_size then Inl (ErrOther ''blob too short to contain nonce'')
      else
        (case cx_open x kek (take nonce_size blob) (drop nonce_size blob) of
           None \<Rightarrow> Inl (ErrOther ''cipher: message authentication failed'')
         | Some der \<Rightarrow> Inr der))"

definition read_signing_key :: "crypto \<Rightarrow> bytes \<Rightarrow> signing_key_row \<Rightarrow> err + signing_key" where
  "read_signing_key x kek r =
     (case decrypt_key_der x kek (sk_private_key r) of
        Inl _ \<Rightarrow> Inl (ErrOther ''store: decrypt signing key'')
      | Inr der \<Rightarrow>
          (case parse_time (sk_created_at r) of
             None \<Rightarrow> Inl (ErrOther ''store: parse signing key created_at'')
           | Some t \<Rightarrow>
               (let k = \<lparr>k_id = sk_id r, k_algorithm = sk_algorithm r, k_private_key = der,
                         k_status = sk_status r, k_created_at = t, k_retired_at = None\<rparr> in
                case sk_retired_at r of
                  None \<Rightarrow> Inr k
                | Some s \<Rightarrow>
                    (case parse_time s of
                       None \<Rightarrow> Inl (ErrOther ''store: parse signing key retired_at'')
                     | Some rt \<Rightarrow> Inr (k\<lparr>k_retired_at := Some rt\<rparr>)))))"

definition scan_signing_key :: "crypto \<Rightarrow> bytes \<Rightarrow> string + signing_key_row option \<Rightarrow> err + signing_key" where
  "scan_signing_key x kek q =
     (case q of
        Inl _ \<Rightarrow> Inl (ErrOther ''store: scan signing key'')
      | Inr None \<Rightarrow> Inl ErrNotFound
      | Inr (Some r) \<Rightarrow> read_signing_key x kek r)"

definition collect_signing_keys :: "crypto \<Rightarrow> bytes \<Rightarrow> signing_key_row list \<Rightarrow> err + signing_key list" where
  "collect_signing_keys x kek rs = traverse (read_signing_key x kek) rs"

text \<open>The executor argument (the database or a transaction) is the world either way.\<close>

definition generate_signing_key_with :: "crypto \<Rightarrow> bytes \<Rightarrow> world \<Rightarrow> (err + signing_key) \<times> world" where
  "generate_signing_key_with x kek w =
     (case new_uuid w of
        (None, w) \<Rightarrow> (Inl (ErrOther ''store: generate signing key id''), w)
      | (Some i, w) \<Rightarrow>
          (case new_key_der w of
             (None, w) \<Rightarrow> (Inl (ErrOther ''store: generate EC key''), w)
           | (Some der, w) \<Rightarrow>
               (case encrypt_key_der x kek der w of
                  (Inl _, w) \<Rightarrow> (Inl (ErrOther ''store: encrypt signing key''), w)
                | (Inr blob, w) \<Rightarrow>
                    (case time_now w of (now, w) \<Rightarrow>
                       (case db_exec (insert_signing_key \<lparr>sk_id = i, sk_status = ''active'',
                                sk_algorithm = ''ES256'', sk_private_key = blob,
                                sk_created_at = rfc3339 now, sk_retired_at = None\<rparr>) w of
                          (Inl _, w) \<Rightarrow> (Inl (ErrOther ''store: insert signing key''), w)
                        | (Inr _, w) \<Rightarrow>
                            (Inr \<lparr>k_id = i, k_algorithm = ''ES256'', k_private_key = der,
                                  k_status = ''active'', k_created_at = now, k_retired_at = None\<rparr>, w))))))"

definition get_or_create_active_signing_key ::
  "crypto \<Rightarrow> bytes \<Rightarrow> world \<Rightarrow> (err + signing_key) \<times> world" where
  "get_or_create_active_signing_key x kek w =
     (case db_query (\<lambda>db. select_first (\<lambda>r. sk_status r = ''active'') (signing_keys db)) w of
        (q, w) \<Rightarrow>
          (case scan_signing_key x kek q of
             Inr k \<Rightarrow> (Inr k, w)
           | Inl e \<Rightarrow> if e \<noteq> ErrNotFound then (Inl e, w) else generate_signing_key_with x kek w))"

definition verification_where :: "string \<Rightarrow> signing_key_row \<Rightarrow> bool" where
  "verification_where cutoff r \<longleftrightarrow>
     sk_status r = ''active''
     \<or> (sk_status r = ''retired'' \<and> (case sk_retired_at r of None \<Rightarrow> False | Some t \<Rightarrow> cutoff \<le> t))"

text \<open>ORDER BY created_at DESC.\<close>

definition list_verification_keys ::
  "crypto \<Rightarrow> bytes \<Rightarrow> time \<Rightarrow> world \<Rightarrow> (err + signing_key list) \<times> world" where
  "list_verification_keys x kek verification_window w =
     (case time_now w of (now, w) \<Rightarrow>
        (let cutoff = rfc3339 (now - verification_window) in
         case db_query (\<lambda>db. rev (sort_key sk_created_at
                  (rev (filter (verification_where cutoff) (signing_keys db))))) w of
           (Inl _, w) \<Rightarrow> (Inl (ErrOther ''store: list verification keys''), w)
         | (Inr rows, w) \<Rightarrow> (collect_signing_keys x kek rows, w)))"

definition rotate_signing_key :: "crypto \<Rightarrow> bytes \<Rightarrow> world \<Rightarrow> (err + signing_key) \<times> world" where
  "rotate_signing_key x kek w =
     (case db_begin w of
        (Inl _, w) \<Rightarrow> (Inl (ErrOther ''store: begin rotation tx''), w)
      | (Inr db0, w) \<Rightarrow>
          (case generate_signing_key_with x kek w of
             (Inl e, w) \<Rightarrow> (Inl e, rollback db0 w)
           | (Inr new_key, w) \<Rightarrow>
               (case time_now w of (now, w) \<Rightarrow>
                  (case db_exec (update_signing_keys
                           (\<lambda>r. sk_status r = ''active'' \<and> sk_id r \<noteq> k_id new_key)
                           (\<lambda>r. r\<lparr>sk_status := ''retired'', sk_retired_at := Some (rfc3339 now)\<rparr>)) w of
                     (Inl _, w) \<Rightarrow> (Inl (ErrOther ''store: retire old signing key''), rollback db0 w)
                   | (Inr _, w) \<Rightarrow>
                       (case db_commit db0 w of
                          (Inl _, w) \<Rightarrow> (Inl (ErrOther ''store: commit rotation tx''), w)
                        | (Inr _, w) \<Rightarrow> (Inr new_key, w))))))"

text \<open>\<open>Inr None\<close> is \<^verbatim>\<open>(false, nil, nil)\<close>, \<open>Inr (Some k)\<close> is \<^verbatim>\<open>(true, k, nil)\<close>.\<close>

definition rotate_signing_key_if_older_than ::
  "crypto \<Rightarrow> bytes \<Rightarrow> time \<Rightarrow> world \<Rightarrow> (err + signing_key option) \<times> world" where
  "rotate_signing_key_if_older_than x kek max_age w =
     (case get_or_create_active_signing_key x kek w of
        (Inl _, w) \<Rightarrow> (Inl (ErrOther ''store: check signing key age''), w)
      | (Inr k, w) \<Rightarrow>
          (case time_now w of (now, w) \<Rightarrow>
             if now - k_created_at k \<le> max_age then (Inr None, w)
             else
               (case rotate_signing_key x kek w of
                  (Inl _, w) \<Rightarrow> (Inl (ErrOther ''store: rotate signing key''), w)
                | (Inr new_key, w) \<Rightarrow> (Inr (Some new_key), w))))"

subsection \<open>Re-encryption\<close>

definition select_blobs :: "database \<Rightarrow> (string \<times> bytes) list" where
  "select_blobs db = map (\<lambda>r. (sk_id r, sk_private_key r)) (signing_keys db)"

definition update_blob :: "string \<Rightarrow> bytes \<Rightarrow> statement" where
  "update_blob i blob = update_signing_keys (\<lambda>r. sk_id r = i) (\<lambda>r. r\<lparr>sk_private_key := blob\<rparr>)"

text \<open>The scan of \<^verbatim>\<open>MigrateSigningKeyEncryption\<close>: the rows still in plain PKCS8.\<close>

fun migrate_scan :: "crypto \<Rightarrow> bytes \<Rightarrow> (string \<times> bytes) list \<Rightarrow> err + (string \<times> bytes) list" where
  "migrate_scan x kek [] = Inr []"
| "migrate_scan x kek ((i, blob) # rest) =
     (if is_ok (decrypt_key_der x kek blob) then migrate_scan x kek rest
      else if \<not> cx_is_pkcs8 x blob then
        Inl (ErrOther ''store: migrate signing key encryption: key could not be decrypted'')
      else
        (case migrate_scan x kek rest of
           Inl e \<Rightarrow> Inl e
         | Inr es \<Rightarrow> Inr ((i, blob) # es)))"

fun migrate_write :: "crypto \<Rightarrow> bytes \<Rightarrow> (string \<times> bytes) list \<Rightarrow> world \<Rightarrow> (err + unit) \<times> world" where
  "migrate_write x kek [] w = (Inr (), w)"
| "migrate_write x kek ((i, raw) # rest) w =
     (case encrypt_key_der x kek raw w of
        (Inl _, w) \<Rightarrow> (Inl (ErrOther ''store: migrate signing key encryption: encrypt key''), w)
      | (Inr encrypted, w) \<Rightarrow>
          (case db_exec (update_blob i encrypted) w of
             (Inl _, w) \<Rightarrow> (Inl (ErrOther ''store: migrate signing key encryption: update key''), w)
           | (Inr _, w) \<Rightarrow> migrate_write x kek rest w))"

definition migrate_signing_key_encryption :: "crypto \<Rightarrow> bytes \<Rightarrow> world \<Rightarrow> (err + nat) \<times> world" where
  "migrate_signing_key_encryption x kek w =
     (case db_query select_blobs w of
        (Inl _, w) \<Rightarrow> (Inl (ErrOther ''store: migrate signing key encryption: query''), w)
      | (Inr rows, w) \<Rightarrow>
          (case migrate_scan x kek rows of
             Inl e \<Rightarrow> (Inl e, w)
           | Inr to_migrate \<Rightarrow>
               (case migrate_write x kek to_migrate w of
                  (Inl e, w) \<Rightarrow> (Inl e, w)
                | (Inr _, w) \<Rightarrow> (Inr (length to_migrate), w))))"

text \<open>The read loop of \<^verbatim>\<open>RekeySigningKeys\<close>, with its round-trip check.\<close>

fun rekey_scan ::
  "crypto \<Rightarrow> bytes \<Rightarrow> bytes \<Rightarrow> (string \<times> bytes) list \<Rightarrow> world \<Rightarrow> (err + (string \<times> bytes) list) \<times> world" where
  "rekey_scan x kek new_kek [] w = (Inr [], w)"
| "rekey_scan x kek new_kek ((i, blob) # rest) w =
     (case decrypt_key_der x kek blob of
        Inl _ \<Rightarrow> (Inl (ErrOther ''store: rekey signing keys: decrypt with old KEK failed''), w)
      | Inr der \<Rightarrow>
          (case encrypt_key_der x new_kek der w of
             (Inl _, w) \<Rightarrow> (Inl (ErrOther ''store: rekey signing keys: encrypt with new KEK''), w)
           | (Inr new_blob, w) \<Rightarrow>
               (case decrypt_key_der x new_kek new_blob of
                  Inl _ \<Rightarrow> (Inl (ErrOther ''store: rekey signing keys: round-trip decrypt failed''), w)
                | Inr round_tripped \<Rightarrow>
                    if round_tripped \<noteq> der then
                      (Inl (ErrOther ''store: rekey signing keys: round-trip plaintext mismatch''), w)
                    else
                      (case rekey_scan x kek new_kek rest w of
                         (Inl e, w) \<Rightarrow> (Inl e, w)
                       | (Inr es, w) \<Rightarrow> (Inr ((i, new_blob) # es), w)))))"

fun rekey_write :: "(string \<times> bytes) list \<Rightarrow> world \<Rightarrow> (err + unit) \<times> world" where
  "rekey_write [] w = (Inr (), w)"
| "rekey_write ((i, new_blob) # rest) w =
     (case db_exec (update_blob i new_blob) w of
        (Inl _, w) \<Rightarrow> (Inl (ErrOther ''store: rekey signing keys: update key''), w)
      | (Inr _, w) \<Rightarrow> rekey_write rest w)"

definition rekey_signing_keys :: "crypto \<Rightarrow> bytes \<Rightarrow> bytes \<Rightarrow> world \<Rightarrow> (err + nat) \<times> world" where
  "rekey_signing_keys x kek new_kek w =
     (if new_kek = kek then (Inr 0, w)
      else
        (case db_query select_blobs w of
           (Inl _, w) \<Rightarrow> (Inl (ErrOther ''store: rekey signing keys: query''), w)
         | (Inr rows, w) \<Rightarrow>
             (case rekey_scan x kek new_kek rows w of
                (Inl e, w) \<Rightarrow> (Inl e, w)
              | (Inr pending, w) \<Rightarrow>
                  if length pending = 0 then (Inr 0, w)
                  else
                    (case db_begin w of
                       (Inl _, w) \<Rightarrow> (Inl (ErrOther ''store: rekey signing keys: begin tx''), w)
                     | (Inr db0, w) \<Rightarrow>
                         (case rekey_write pending w of
                            (Inl e, w) \<Rightarrow> (Inl e, rollback db0 w)
                          | (Inr _, w) \<Rightarrow>
                              (case db_commit db0 w of
                                 (Inl _, w) \<Rightarrow> (Inl (ErrOther ''store: rekey signing keys: commit''), w)
                               | (Inr _, w) \<Rightarrow> (Inr (length pending), w)))))))"

lemma key_frames [simp, frame_simps]:
  "w_db (snd (encrypt_key_der x kek der w)) = w_db w"
  "w_db (snd (list_verification_keys x kek win w)) = w_db w"
  by (simp_all add: encrypt_key_der_def list_verification_keys_def Let_def case_prod_beta split: op_splits)

lemma rekey_scan_frame [simp, frame_simps]: "w_db (snd (rekey_scan x kek nk rows w)) = w_db w"
  by (induction rows arbitrary: w) (auto simp: case_prod_beta split: op_splits)

context db_invariant
begin

lemma generate_signing_key_with [wf_intros]:
  "I (w_db w) \<Longrightarrow> I (w_db (snd (generate_signing_key_with x kek w)))"
  unfolding generate_signing_key_with_def
  by (auto simp: case_prod_beta intro!: execs split: op_splits)

lemma get_or_create_active_signing_key [wf_intros]:
  "I (w_db w) \<Longrightarrow> I (w_db (snd (get_or_create_active_signing_key x kek w)))"
  unfolding get_or_create_active_signing_key_def
  by (auto simp: case_prod_beta intro!: generate_signing_key_with split: op_splits)

lemma rotate_signing_key [wf_intros]: "I (w_db w) \<Longrightarrow> I (w_db (snd (rotate_signing_key x kek w)))"
  using db_begin_InrD [of w] unfolding rotate_signing_key_def
  by (auto simp: case_prod_beta intro!: commit execs generate_signing_key_with split: op_splits)

lemma rotate_signing_key_if_older_than [wf_intros]:
  "I (w_db w) \<Longrightarrow> I (w_db (snd (rotate_signing_key_if_older_than x kek a w)))"
  unfolding rotate_signing_key_if_older_than_def
  by (auto simp: case_prod_beta intro!: rotate_signing_key get_or_create_active_signing_key
      split: op_splits)

lemma migrate_write [wf_intros]: "I (w_db w) \<Longrightarrow> I (w_db (snd (migrate_write x kek es w)))"
  by (induction es arbitrary: w)
    (auto simp: case_prod_beta update_blob_def exec_key_blob split: op_splits)

lemma migrate_signing_key_encryption [wf_intros]:
  "I (w_db w) \<Longrightarrow> I (w_db (snd (migrate_signing_key_encryption x kek w)))"
  unfolding migrate_signing_key_encryption_def
  by (auto simp: case_prod_beta intro!: migrate_write split: op_splits)

lemma rekey_write [wf_intros]: "I (w_db w) \<Longrightarrow> I (w_db (snd (rekey_write es w)))"
  by (induction es arbitrary: w)
    (auto simp: case_prod_beta update_blob_def exec_key_blob split: op_splits)

lemma rekey_signing_keys [wf_intros]: "I (w_db w) \<Longrightarrow> I (w_db (snd (rekey_signing_keys x kek nk w)))"
  unfolding rekey_signing_keys_def
  by (auto simp: case_prod_beta dest!: db_begin_InrD intro!: commit rekey_write split: op_splits)

end

end
