(* ===== verification/StoreSessions.thy ===== *)
theory StoreSessions
  imports StorePrincipals Crypto
begin

text \<open>
  \<^verbatim>\<open>store/store.go\<close>: the IdP sessions, the long-lived server-side sessions that gate the silent
  re-mint of access tokens.
\<close>

definition idp_session_ttl :: time where "idp_session_ttl = 72 * hour"

record idp_session =
  s_token_hash :: string
  s_principal_id :: string
  s_created_at :: time
  s_expires_at :: time
  s_revoked_at :: "time option"

text \<open>\<^verbatim>\<open>IsValid\<close>, with the clock reading it takes passed in.\<close>

definition idp_session_is_valid :: "idp_session \<Rightarrow> time \<Rightarrow> bool" where
  "idp_session_is_valid s now \<longleftrightarrow> s_revoked_at s = None \<and> s_expires_at s > now"

definition generate_raw_token :: "world \<Rightarrow> (err + string) \<times> world" where
  "generate_raw_token w =
     (case rand_read 32 w of
        (None, w) \<Rightarrow> (Inl (ErrOther ''rand''), w)
      | (Some b, w) \<Rightarrow> (Inr (hex_encode b), w))"

definition create_idp_session ::
  "crypto \<Rightarrow> string \<Rightarrow> world \<Rightarrow> (err + string \<times> idp_session) \<times> world" where
  "create_idp_session x principal_id w =
     (case generate_raw_token w of
        (Inl _, w) \<Rightarrow> (Inl (ErrOther ''store: generate idp session token''), w)
      | (Inr raw_token, w) \<Rightarrow>
          (let hash = hash_token x raw_token in
           case time_now w of (now, w) \<Rightarrow>
             (let expires_at = now + idp_session_ttl in
              case db_exec (insert_session \<lparr>ss_token_hash = hash, ss_principal_id = principal_id,
                       ss_created_at = rfc3339 now, ss_expires_at = rfc3339 expires_at,
                       ss_revoked_at = None\<rparr>) w of
                (Inl msg, w) \<Rightarrow>
                  (Inl (if is_fk_violation msg then ErrNotFound
                        else ErrOther ''store: create idp session''), w)
              | (Inr _, w) \<Rightarrow>
                  (Inr (raw_token, \<lparr>s_token_hash = hash, s_principal_id = principal_id,
                                    s_created_at = now, s_expires_at = expires_at,
                                    s_revoked_at = None\<rparr>), w))))"

definition get_idp_session_by_token :: "crypto \<Rightarrow> string \<Rightarrow> world \<Rightarrow> (err + idp_session) \<times> world" where
  "get_idp_session_by_token x raw_token w =
     (let hash = hash_token x raw_token in
      case db_query (\<lambda>db. select_first (\<lambda>r. ss_token_hash r = hash) (idp_sessions db)) w of
        (Inl _, w) \<Rightarrow> (Inl (ErrOther ''store: scan idp session''), w)
      | (Inr None, w) \<Rightarrow> (Inl ErrNotFound, w)
      | (Inr (Some r), w) \<Rightarrow>
          (case parse_time (ss_created_at r) of
             None \<Rightarrow> (Inl (ErrOther ''store: parse idp session created_at''), w)
           | Some t1 \<Rightarrow>
               (case parse_time (ss_expires_at r) of
                  None \<Rightarrow> (Inl (ErrOther ''store: parse idp session expires_at''), w)
                | Some t2 \<Rightarrow>
                    (case ss_revoked_at r of
                       Some s \<Rightarrow>
                         (case parse_time s of
                            None \<Rightarrow> (Inl (ErrOther ''store: parse idp session revoked_at''), w)
                          | Some _ \<Rightarrow> (Inl ErrIDPSessionRevoked, w))
                     | None \<Rightarrow>
                         (case time_now w of (now, w) \<Rightarrow>
                            (if t2 < now then Inl ErrIDPSessionExpired
                             else Inr \<lparr>s_token_hash = ss_token_hash r,
                                       s_principal_id = ss_principal_id r, s_created_at = t1,
                                       s_expires_at = t2, s_revoked_at = None\<rparr>, w))))))"

definition revoke_idp_sessions_for_principal :: "string \<Rightarrow> world \<Rightarrow> (err + nat) \<times> world" where
  "revoke_idp_sessions_for_principal principal_id w =
     (case time_now w of (now, w) \<Rightarrow>
        (case db_exec (update_sessions (\<lambda>r. ss_principal_id r = principal_id \<and> ss_revoked_at r = None)
                 (\<lambda>r. r\<lparr>ss_revoked_at := Some (rfc3339 now)\<rparr>)) w of
           (Inl _, w) \<Rightarrow> (Inl (ErrOther ''store: revoke idp sessions''), w)
         | (Inr n, w) \<Rightarrow> (Inr n, w)))"

definition revoke_idp_session_by_token :: "crypto \<Rightarrow> string \<Rightarrow> world \<Rightarrow> (err + unit) \<times> world" where
  "revoke_idp_session_by_token x raw_token w =
     (let hash = hash_token x raw_token in
      case time_now w of (now, w) \<Rightarrow>
        (case db_exec (update_sessions (\<lambda>r. ss_token_hash r = hash \<and> ss_revoked_at r = None)
                 (\<lambda>r. r\<lparr>ss_revoked_at := Some (rfc3339 now)\<rparr>)) w of
           (Inl _, w) \<Rightarrow> (Inl (ErrOther ''store: revoke idp session by token''), w)
         | (Inr _, w) \<Rightarrow> (Inr (), w)))"

lemma session_reads [simp, frame_simps]:
  "w_db (snd (generate_raw_token w)) = w_db w"
  "w_db (snd (get_idp_session_by_token x t w)) = w_db w"
  by (simp_all add: generate_raw_token_def get_idp_session_by_token_def Let_def case_prod_beta split: op_splits)

context db_invariant
begin

lemma create_idp_session [wf_intros]: "I (w_db w) \<Longrightarrow> I (w_db (snd (create_idp_session x pid w)))"
  unfolding create_idp_session_def
  by (auto simp: case_prod_beta Let_def intro!: execs split: op_splits)

lemma revoke_idp_sessions_for_principal [wf_intros]:
  "I (w_db w) \<Longrightarrow> I (w_db (snd (revoke_idp_sessions_for_principal pid w)))"
  unfolding revoke_idp_sessions_for_principal_def
  by (auto simp: case_prod_beta intro!: execs split: op_splits)

lemma revoke_idp_session_by_token [wf_intros]:
  "I (w_db w) \<Longrightarrow> I (w_db (snd (revoke_idp_session_by_token x t w)))"
  unfolding revoke_idp_session_by_token_def
  by (auto simp: case_prod_beta Let_def intro!: execs split: op_splits)

end

end
