(* ===== verification/Json.thy ===== *)
theory Json
  imports GoTime
begin

text \<open>
  Go's \<^verbatim>\<open>encoding/json\<close>: values, the text \<^verbatim>\<open>Marshal\<close> writes (with its HTML-safe escapes) and the
  decoder, and that decoding what was written gives the value back. Integers are kept as integers;
  any other number literal as its text. Strings are bytes: both directions copy well-formed UTF-8 and put the replacement
  character U+FFFD in the place of every byte that is not part of it (\<^verbatim>\<open>utf8.DecodeRune\<close>).
\<close>

datatype json =
    JNull | JBool bool | JNum int | JLit string | JStr string | JArr "json list"
  | JObj "(string \<times> json) list"

subsection \<open>UTF-8\<close>

definition utf8 :: "nat \<Rightarrow> string" where
  "utf8 u =
     (if u < 0x80 then [char_of u]
      else if u < 0x800 then [char_of (0xC0 + u div 64), char_of (0x80 + u mod 64)]
      else if u < 0x10000 then
        [char_of (0xE0 + u div 4096), char_of (0x80 + u div 64 mod 64), char_of (0x80 + u mod 64)]
      else [char_of (0xF0 + u div 262144), char_of (0x80 + u div 4096 mod 64),
            char_of (0x80 + u div 64 mod 64), char_of (0x80 + u mod 64)])"

definition byte_in :: "nat \<Rightarrow> nat \<Rightarrow> char \<Rightarrow> bool" where
  "byte_in lo hi c \<longleftrightarrow> lo \<le> of_char c \<and> of_char c \<le> hi"

text \<open>The number of bytes the first byte announces, and the range of the second: no overlong forms, no surrogates, at most U+10FFFF.\<close>

definition rune_bytes :: "char \<Rightarrow> nat" where
  "rune_bytes c = (if \<not> digit7 c then 1 else if byte_in 0xC2 0xDF c then 2 else if byte_in 0xE0 0xEF c then 3
     else if byte_in 0xF0 0xF4 c then 4 else 0)"

definition second_byte :: "char \<Rightarrow> char \<Rightarrow> bool" where
  "second_byte c d = (if c = CHR 0xE0 then byte_in 0xA0 0xBF d else if c = CHR 0xED then byte_in 0x80 0x9F d
     else if c = CHR 0xF0 then byte_in 0x90 0xBF d else if c = CHR 0xF4 then byte_in 0x80 0x8F d
     else byte_in 0x80 0xBF d)"

text \<open>The length of the character at the front of a string, 0 when its first byte does not begin one.\<close>

definition rune_len :: "string \<Rightarrow> nat" where
  "rune_len s =
     (case s of
        [] \<Rightarrow> 0
      | c # t \<Rightarrow>
          if \<not> digit7 c then 1
          else if rune_bytes c \<noteq> 0 \<and> rune_bytes c \<le> length s \<and> second_byte c (hd t) \<and>
                  (\<forall>d \<in> set (take (rune_bytes c - 2) (tl t)). byte_in 0x80 0xBF d)
          then rune_bytes c else 0)"

text \<open>What is left of a string that has been written and read, and when that is the string itself.\<close>

function to_valid :: "string \<Rightarrow> string" where
  "to_valid [] = []"
| "to_valid (c # s) =
     (case rune_len (c # s) of
        0 \<Rightarrow> utf8 0xFFFD @ to_valid s
      | Suc m \<Rightarrow> c # take m s @ to_valid (drop m s))"
  by pat_completeness auto
termination by (relation "measure length") auto

function valid_utf8 :: "string \<Rightarrow> bool" where
  "valid_utf8 [] = True"
| "valid_utf8 (c # s) = (case rune_len (c # s) of 0 \<Rightarrow> False | Suc m \<Rightarrow> valid_utf8 (drop m s))"
  by pat_completeness auto
termination by (relation "measure length") auto

lemma to_valid_id: "valid_utf8 s \<Longrightarrow> to_valid s = s"
  by (induction s rule: valid_utf8.induct) (auto split: nat.splits)

lemma rune_len_ascii: "\<not> digit7 c \<Longrightarrow> rune_len (c # s) = 1"
  by (simp add: rune_len_def)

lemma ascii_valid: "(\<forall>c \<in> set s. \<not> digit7 c) \<Longrightarrow> valid_utf8 s"
  by (induction s) (simp_all add: rune_len_ascii)

lemma rune_len_length: "rune_len (c # s) = Suc m \<Longrightarrow> m \<le> length s"
  by (auto simp: rune_len_def split: if_splits)

lemma rune_len_prefix: "rune_len (c # s) = Suc m \<Longrightarrow> rune_len (c # take m s @ q) = Suc m"
  by (cases s; cases m) (auto simp: rune_len_def rune_bytes_def min_def split: if_splits)

subsection \<open>Writing\<close>

definition json_escape :: "char \<Rightarrow> string" where
  "json_escape c =
     (if c = CHR 0x22 then [CHR 0x5C, CHR 0x22]
      else if c = CHR 0x5C then [CHR 0x5C, CHR 0x5C]
      else if c = CHR 0x08 then [CHR 0x5C, CHR ''b'']
      else if c = CHR 0x0C then [CHR 0x5C, CHR ''f'']
      else if c = CHR 0x0A then [CHR 0x5C, CHR ''n'']
      else if c = CHR 0x0D then [CHR 0x5C, CHR ''r'']
      else if c = CHR 0x09 then [CHR 0x5C, CHR ''t'']
      else if c < CHR '' '' \<or> c = CHR ''<'' \<or> c = CHR ''>'' \<or> c = CHR ''&''
        then [CHR 0x5C, CHR ''u'', CHR ''0'', CHR ''0''] @ hex_encode [c]
      else [c])"

text \<open>A whole character; the two line separators of Unicode are escaped as well.\<close>

definition json_rune :: "string \<Rightarrow> string" where
  "json_rune u =
     (if u = utf8 0x2028 then CHR 0x5C # ''u2028'' else if u = utf8 0x2029 then CHR 0x5C # ''u2029''
      else case u of [c] \<Rightarrow> json_escape c | _ \<Rightarrow> u)"

function json_body :: "string \<Rightarrow> string" where
  "json_body [] = []"
| "json_body (c # s) =
     (case rune_len (c # s) of
        0 \<Rightarrow> CHR 0x5C # ''ufffd'' @ json_body s
      | Suc m \<Rightarrow> json_rune (c # take m s) @ json_body (drop m s))"
  by pat_completeness auto
termination by (relation "measure length") auto

definition json_string :: "string \<Rightarrow> string" where
  "json_string s = CHR 0x22 # json_body s @ [CHR 0x22]"

definition show_int :: "int \<Rightarrow> string" where
  "show_int n = (if n < 0 then CHR ''-'' # decimal (nat (- n)) else decimal (nat n))"

fun json_text :: "json \<Rightarrow> string" where
  "json_text JNull = ''null''"
| "json_text (JBool b) = (if b then ''true'' else ''false'')"
| "json_text (JNum n) = show_int n"
| "json_text (JLit s) = s"
| "json_text (JStr s) = json_string s"
| "json_text (JArr js) = ''['' @ join '','' (map json_text js) @ '']''"
| "json_text (JObj kvs) = ''{'' @ join '','' (map (\<lambda>(k, v). json_string k @ '':'' @ json_text v) kvs) @ ''}''"

subsection \<open>Reading\<close>

definition json_space :: "char \<Rightarrow> bool" where
  "json_space c \<longleftrightarrow> c = CHR '' '' \<or> c = CHR 0x09 \<or> c = CHR 0x0A \<or> c = CHR 0x0D"

definition skip_space :: "string \<Rightarrow> string" where
  "skip_space s = dropWhile json_space s"

definition hex_val :: "char \<Rightarrow> nat option" where
  "hex_val c =
     (if CHR ''0'' \<le> c \<and> c \<le> CHR ''9'' then Some (of_char c - 48)
      else if CHR ''a'' \<le> c \<and> c \<le> CHR ''f'' then Some (of_char c - 87)
      else if CHR ''A'' \<le> c \<and> c \<le> CHR ''F'' then Some (of_char c - 55) else None)"

definition hex4 :: "char \<Rightarrow> char \<Rightarrow> char \<Rightarrow> char \<Rightarrow> nat option" where
  "hex4 a b c d =
     (case (hex_val a, hex_val b, hex_val c, hex_val d) of
        (Some i, Some j, Some k, Some l) \<Rightarrow> Some (((i * 16 + j) * 16 + k) * 16 + l)
      | _ \<Rightarrow> None)"

definition simple_escape :: "char \<Rightarrow> char option" where
  "simple_escape e =
     (if e = CHR 0x22 \<or> e = CHR 0x5C \<or> e = CHR ''/'' then Some e
      else if e = CHR ''b'' then Some (CHR 0x08)
      else if e = CHR ''f'' then Some (CHR 0x0C)
      else if e = CHR ''n'' then Some (CHR 0x0A)
      else if e = CHR ''r'' then Some (CHR 0x0D)
      else if e = CHR ''t'' then Some (CHR 0x09) else None)"

text \<open>The low half of a surrogate pair at the start of the text.\<close>

definition low_surrogate :: "string \<Rightarrow> (nat \<times> string) option" where
  "low_surrogate s =
     (case s of
        x # y # a # b # c # d # r \<Rightarrow>
          (if x = CHR 0x5C \<and> y = CHR ''u'' then
             (case hex4 a b c d of
                Some v \<Rightarrow> if 0xDC00 \<le> v \<and> v < 0xE000 then Some (v, r) else None
              | None \<Rightarrow> None)
           else None)
      | _ \<Rightarrow> None)"

lemma low_surrogate_shorter: "low_surrogate s = Some (v, r) \<Longrightarrow> length r < length s"
  by (auto simp: low_surrogate_def split: list.splits if_splits option.splits)

text \<open>The characters of a string up to its closing quote, and the rest.\<close>

function json_chars :: "string \<Rightarrow> (string \<times> string) option" where
  "json_chars [] = None"
| "json_chars (c # s) =
     (if c = CHR 0x22 then Some ([], s)
      else if c = CHR 0x5C then
        (case s of
           [] \<Rightarrow> None
         | e # t \<Rightarrow>
             (case simple_escape e of
                Some x \<Rightarrow> map_option (\<lambda>(v, r). (x # v, r)) (json_chars t)
              | None \<Rightarrow>
                  (case t of
                     a # b # c # d # t' \<Rightarrow>
                       (case (if e = CHR ''u'' then hex4 a b c d else None) of
                          None \<Rightarrow> None
                        | Some u \<Rightarrow>
                            if 0xD800 \<le> u \<and> u < 0xE000 then
                              (case (if u < 0xDC00 then low_surrogate t' else None) of
                                 Some (l, t'') \<Rightarrow>
                                   map_option (\<lambda>(v, r). (utf8 (0x10000 + (u - 0xD800) * 1024 + (l - 0xDC00)) @ v, r))
                                     (json_chars t'')
                               | None \<Rightarrow> map_option (\<lambda>(v, r). (utf8 0xFFFD @ v, r)) (json_chars t'))
                            else map_option (\<lambda>(v, r). (utf8 u @ v, r)) (json_chars t'))
                   | _ \<Rightarrow> None)))
      else if c < CHR '' '' then None
      else
        (case rune_len (c # s) of
           0 \<Rightarrow> map_option (\<lambda>(v, r). (utf8 0xFFFD @ v, r)) (json_chars s)
         | Suc m \<Rightarrow> map_option (\<lambda>(v, r). (c # take m s @ v, r)) (json_chars (drop m s))))"
  by pat_completeness auto
termination
  by (relation "measure length") (auto dest: low_surrogate_shorter split: if_splits)

text \<open>A number: optional minus, no leading zero; an integer when no fraction or exponent follows.\<close>

definition json_digits :: "string \<Rightarrow> string \<times> string" where
  "json_digits s = (takeWhile is_digit s, dropWhile is_digit s)"

definition number_value :: "string \<Rightarrow> nat" where
  "number_value ds = foldl (\<lambda>a c. 10 * a + (of_char c - 48)) 0 ds"

definition json_fraction :: "string \<Rightarrow> string \<times> string" where
  "json_fraction r =
     (case r of
        c # q \<Rightarrow> if c = CHR ''.'' then (CHR ''.'' # fst (json_digits q), snd (json_digits q)) else ([], r)
      | [] \<Rightarrow> ([], []))"

definition json_exponent :: "string \<Rightarrow> string \<times> string" where
  "json_exponent r =
     (case r of
        c # q \<Rightarrow>
          if c = CHR ''e'' \<or> c = CHR ''E'' then
            (case q of
               d # q' \<Rightarrow>
                 if d = CHR ''+'' \<or> d = CHR ''-'' then
                   (c # d # fst (json_digits q'), snd (json_digits q'))
                 else (c # fst (json_digits q), snd (json_digits q))
             | [] \<Rightarrow> ([c], []))
          else ([], r)
      | [] \<Rightarrow> ([], []))"

definition json_unsigned :: "string \<Rightarrow> string \<Rightarrow> (json \<times> string) option" where
  "json_unsigned sign s =
     (case json_digits s of (ds, r) \<Rightarrow>
        if ds = [] \<or> (length ds > 1 \<and> hd ds = CHR ''0'') then None
        else
          (case json_fraction r of (frac, r1) \<Rightarrow>
             (case json_exponent r1 of (ex, r2) \<Rightarrow>
                if frac = [CHR ''.''] \<or> (ex \<noteq> [] \<and> \<not> is_digit (last ex)) then None
                else if frac = [] \<and> ex = [] then
                  Some (JNum (if sign = [] then int (number_value ds) else - int (number_value ds)), r2)
                else Some (JLit (sign @ ds @ frac @ ex), r2))))"

definition json_number :: "string \<Rightarrow> (json \<times> string) option" where
  "json_number s =
     (case s of
        c # t \<Rightarrow> if c = CHR ''-'' then json_unsigned ''-'' t else json_unsigned [] s
      | [] \<Rightarrow> None)"

definition strip_word :: "string \<Rightarrow> string \<Rightarrow> json \<Rightarrow> (json \<times> string) option" where
  "strip_word word s j = (if prefix word s then Some (j, drop (length word) s) else None)"

text \<open>
  The decoder, with fuel for the nesting. A value of \<open>n\<close> characters needs at most \<open>n\<close>, so the length of the input is
  enough (\<open>json_fuel_enough\<close> in theory \<open>JsonFuel\<close>).
\<close>

fun json_value :: "nat \<Rightarrow> string \<Rightarrow> (json \<times> string) option"
  and json_elems :: "nat \<Rightarrow> string \<Rightarrow> (json list \<times> string) option"
  and json_members :: "nat \<Rightarrow> string \<Rightarrow> ((string \<times> json) list \<times> string) option" where
  "json_value 0 s = None"
| "json_value (Suc n) s =
     (case skip_space s of
        [] \<Rightarrow> None
      | c # t \<Rightarrow>
          if c = CHR ''n'' then strip_word ''null'' (c # t) JNull
          else if c = CHR ''t'' then strip_word ''true'' (c # t) (JBool True)
          else if c = CHR ''f'' then strip_word ''false'' (c # t) (JBool False)
          else if c = CHR 0x22 then map_option (\<lambda>(v, r). (JStr v, r)) (json_chars t)
          else if c = CHR ''['' then
            (case skip_space t of
               [] \<Rightarrow> None
             | d # u \<Rightarrow>
                 if d = CHR '']'' then Some (JArr [], u)
                 else map_option (\<lambda>(js, r). (JArr js, r)) (json_elems n t))
          else if c = CHR ''{'' then
            (case skip_space t of
               [] \<Rightarrow> None
             | d # u \<Rightarrow>
                 if d = CHR ''}'' then Some (JObj [], u)
                 else map_option (\<lambda>(kvs, r). (JObj kvs, r)) (json_members n t))
          else json_number (c # t))"
| "json_elems 0 s = None"
| "json_elems (Suc n) s =
     (case json_value n s of
        None \<Rightarrow> None
      | Some (j, r) \<Rightarrow>
          (case skip_space r of
             [] \<Rightarrow> None
           | c # t \<Rightarrow>
               if c = CHR '']'' then Some ([j], t)
               else if c = CHR '','' then map_option (\<lambda>(js, q). (j # js, q)) (json_elems n t)
               else None))"
| "json_members 0 s = None"
| "json_members (Suc n) s =
     (case skip_space s of
        [] \<Rightarrow> None
      | c # t \<Rightarrow>
          if c \<noteq> CHR 0x22 then None
          else
            (case json_chars t of
               None \<Rightarrow> None
             | Some (k, r) \<Rightarrow>
                 (case skip_space r of
                    [] \<Rightarrow> None
                  | d # u \<Rightarrow>
                      if d \<noteq> CHR '':'' then None
                      else
                        (case json_value n u of
                           None \<Rightarrow> None
                         | Some (v, q) \<Rightarrow>
                             (case skip_space q of
                                [] \<Rightarrow> None
                              | e # p \<Rightarrow>
                                  if e = CHR ''}'' then Some ([(k, v)], p)
                                  else if e = CHR '','' then
                                    map_option (\<lambda>(kvs, z). ((k, v) # kvs, z)) (json_members n p)
                                  else None)))))"

text \<open>
  \<^verbatim>\<open>json.Unmarshal\<close> wants nothing but space after the value; \<^verbatim>\<open>Decoder.Decode\<close> reads the first value.
\<close>

definition json_decode :: "string \<Rightarrow> json option" where
  "json_decode s = map_option fst (json_value (length s + 1) s)"

definition json_unmarshal :: "string \<Rightarrow> json option" where
  "json_unmarshal s =
     (case json_value (length s + 1) s of
        Some (j, r) \<Rightarrow> if skip_space r = [] then Some j else None
      | None \<Rightarrow> None)"

subsection \<open>Decoding what was written\<close>


lemma hex_val_digit: "n < 16 \<Longrightarrow> hex_val (hex_digit n) = Some n"
  by (cases "n < 10") (simp_all add: hex_val_def hex_digit_def less_eq_char_def)

lemma of_char_lt: "(of_char c :: nat) < 256" by simp

lemma hex4_hex_encode:
  "hex4 (CHR ''0'') (CHR ''0'') (hex_digit (of_char c div 16)) (hex_digit (of_char c mod 16)) = Some (of_char c)"
proof -
  have "(of_char c :: nat) div 16 < 16" using of_char_lt [of c] by linarith
  moreover have "(of_char c :: nat) mod 16 < 16" by simp
  ultimately show ?thesis
    by (simp add: hex4_def hex_val_digit) (simp add: hex_val_def less_eq_char_def)
qed

lemma json_chars_escape:
  assumes "\<not> digit7 c"
  shows "json_chars (json_escape c @ s) = map_option (\<lambda>(v, r). (c # v, r)) (json_chars s)"
proof -
  have u: "utf8 (of_char c) = [c]" if "of_char c < (128::nat)"
    using that by (simp add: utf8_def)
  have lt: "of_char c < (128 :: nat)" if "c < CHR '' '' \<or> c = CHR ''<'' \<or> c = CHR ''>'' \<or> c = CHR ''&''"
    using that by (auto simp: less_char_def)
  show ?thesis
    using u lt hex4_hex_encode [of c]
    by (auto simp: json_escape_def simple_escape_def hex_encode_def rune_len_ascii [OF assms])
qed

lemma digit7_raw: "digit7 c \<Longrightarrow> c \<noteq> CHR 0x22 \<and> c \<noteq> CHR 0x5C \<and> \<not> c < CHR '' ''"
  by (cases c) (auto simp: less_char_def of_char_def)

text \<open>A character of several bytes is copied, or escaped by its number.\<close>

lemma json_chars_rune:
  assumes "rune_len (c # s) = Suc m"
  shows "json_chars (json_rune (c # take m s) @ t) = map_option (\<lambda>(v, r). (c # take m s @ v, r)) (json_chars t)"
proof (cases "digit7 c")
  case False
  then have "m = 0" using assms rune_len_ascii [of c s] by simp
  moreover have "[c] \<noteq> utf8 0x2028" "[c] \<noteq> utf8 0x2029" by (simp_all add: utf8_def)
  ultimately show ?thesis using json_chars_escape [OF False] by (simp add: json_rune_def)
next
  case True
  then have "m \<noteq> 0" using assms by (auto simp: rune_len_def rune_bytes_def split: if_splits)
  then obtain d u where u: "take m s = d # u" using rune_len_length [OF assms] by (cases "take m s") auto
  have raw: "json_chars (c # take m s @ t) = map_option (\<lambda>(v, r). (c # take m s @ v, r)) (json_chars t)"
    using digit7_raw [OF True] rune_len_prefix [OF assms, of t] rune_len_length [OF assms] by simp
  have sep: "json_chars (CHR 0x5C # ''u2028'' @ t) = map_option (\<lambda>(v, r). (utf8 0x2028 @ v, r)) (json_chars t)"
    "json_chars (CHR 0x5C # ''u2029'' @ t) = map_option (\<lambda>(v, r). (utf8 0x2029 @ v, r)) (json_chars t)"
    by (simp_all add: simple_escape_def hex4_def hex_val_def less_eq_char_def)
  have ne: "utf8 0x2029 \<noteq> utf8 0x2028" by (simp add: utf8_def)
  have esc: "json_chars (json_rune u @ t) = map_option (\<lambda>(v, r). (u @ v, r)) (json_chars t)"
    if "u = utf8 0x2028 \<or> u = utf8 0x2029" for u
    using that ne sep by (auto simp: json_rune_def simp del: json_chars.simps)
  show ?thesis
  proof (cases "c # take m s = utf8 0x2028 \<or> c # take m s = utf8 0x2029")
    case True
    from esc [OF this] show ?thesis by (simp only: append_Cons)
  next
    case False
    then have "json_rune (c # take m s) = c # take m s" using u by (simp add: json_rune_def)
    then show ?thesis using raw by simp
  qed
qed

lemma json_chars_string: "json_chars (json_body s @ CHR 0x22 # r) = Some (to_valid s, r)"
proof (induction s rule: json_body.induct)
  case (2 c s)
  have bad: "json_chars (CHR 0x5C # ''ufffd'' @ t) = map_option (\<lambda>(v, r). (utf8 0xFFFD @ v, r)) (json_chars t)" for t
    by (simp add: simple_escape_def hex4_def hex_val_def less_eq_char_def)
  show ?case
    using 2 bad json_chars_rune [of c s] by (cases "rune_len (c # s)") simp_all
qed simp


declare to_valid.simps(2) [simp del] valid_utf8.simps(2) [simp del] json_body.simps(2) [simp del]

text \<open>Decimal numbers.\<close>

lemma dig_value: "m < 10 \<Longrightarrow> of_char (dig (int m)) = 48 + m"
  by (simp add: dig_def)

lemma decimal_digits: "decimal n \<noteq> [] \<and> (\<forall>c \<in> set (decimal n). is_digit c)"
proof (induction n rule: decimal.induct)
  case (1 n)
  show ?case
  proof (cases "n < 10")
    case True
    then show ?thesis by (simp add: decimal.simps)
  next
    case False
    have "decimal n = decimal (n div 10) @ [dig (int (n mod 10))]"
      using False by (subst decimal.simps) simp
    then show ?thesis using 1 [OF False] by auto
  qed
qed

lemma number_value_snoc: "number_value (ds @ [c]) = 10 * number_value ds + (of_char c - 48)"
  by (simp add: number_value_def)

lemma number_value_decimal: "number_value (decimal n) = n"
proof (induction n rule: decimal.induct)
  case (1 n)
  show ?case
  proof (cases "n < 10")
    case True
    then show ?thesis by (simp add: decimal.simps number_value_def dig_value)
  next
    case False
    have "decimal n = decimal (n div 10) @ [dig (int (n mod 10))]"
      using False by (subst decimal.simps) simp
    then have "number_value (decimal n) = 10 * number_value (decimal (n div 10)) + n mod 10"
      by (simp only: number_value_snoc) (simp add: dig_value)
    also have "\<dots> = 10 * (n div 10) + n mod 10" using 1 [OF False] by simp
    also have "\<dots> = n" by simp
    finally show ?thesis .
  qed
qed

lemma decimal_no_leading_zero: "0 < n \<Longrightarrow> hd (decimal n) \<noteq> CHR ''0''"
proof (induction n rule: decimal.induct)
  case (1 n)
  show ?case
  proof (cases "n < 10")
    case True
    have "of_char (dig (int n)) \<noteq> (of_char (CHR ''0'') :: nat)" using True 1(2) by (simp add: dig_value)
    then have "dig (int n) \<noteq> CHR ''0''" by metis
    then show ?thesis using True by (simp add: decimal.simps)
  next
    case False
    have "decimal n = decimal (n div 10) @ [dig (int (n mod 10))]"
      using False by (subst decimal.simps) simp
    then show ?thesis using 1 False decimal_digits [of "n div 10"] by simp
  qed
qed

lemma decimal_length: "length (decimal n) > 1 \<Longrightarrow> 0 < n"
  by (cases n) (auto simp: decimal.simps)

definition stops :: "string \<Rightarrow> bool" where
  "stops r \<longleftrightarrow> (case r of [] \<Rightarrow> True
     | c # _ \<Rightarrow> \<not> is_digit c \<and> c \<noteq> CHR ''.'' \<and> c \<noteq> CHR ''e'' \<and> c \<noteq> CHR ''E'')"

lemma json_digits_decimal: "stops r \<Longrightarrow> json_digits (decimal n @ r) = (decimal n, r)"
  using decimal_digits [of n]
  by (cases r) (auto simp: json_digits_def stops_def)

lemma json_unsigned_digits:
  assumes "ds \<noteq> []" "\<not> (1 < length ds \<and> hd ds = CHR ''0'')" "json_digits (ds @ r) = (ds, r)" "stops r"
  shows "json_unsigned sign (ds @ r) =
    Some (JNum (if sign = [] then int (number_value ds) else - int (number_value ds)), r)"
proof -
  have "json_fraction r = ([], r)" "json_exponent r = ([], r)"
    using assms(4) by (cases r; simp add: stops_def json_fraction_def json_exponent_def)+
  then show ?thesis using assms(1-3) by (simp add: json_unsigned_def)
qed

lemma decimal_hd: "hd (decimal n) \<noteq> CHR ''-'' \<and> \<not> (1 < length (decimal n) \<and> hd (decimal n) = CHR ''0'')"
proof -
  have "is_digit (hd (decimal n))" using decimal_digits [of n] by auto
  then have "hd (decimal n) \<noteq> CHR ''-''" by (auto simp: is_digit_def less_eq_char_def)
  then show ?thesis using decimal_length [of n] decimal_no_leading_zero [of n] by blast
qed

lemma json_number_show: 
  assumes "stops r" shows "json_number (show_int n @ r) = Some (JNum n, r)"
proof -
  have u: "json_unsigned sign (decimal m @ r) = Some (JNum (if sign = [] then int m else - int m), r)" for sign m
    using json_unsigned_digits [OF conjunct1 [OF decimal_digits] conjunct2 [OF decimal_hd]
        json_digits_decimal [OF assms] assms]
    by (simp add: number_value_decimal)
  obtain c ds where d: "decimal (nat n) = c # ds" using decimal_digits [of "nat n"] by (cases "decimal (nat n)") auto
  have "c \<noteq> CHR ''-''" using decimal_hd [of "nat n"] d by simp
  then show ?thesis using u [of "[]" "nat n"] u [of "''-''" "nat (- n)"] d
    by (simp add: show_int_def json_number_def)
qed

text \<open>Values.\<close>

fun plain :: "json \<Rightarrow> bool" where
  "plain (JLit s) = False"
| "plain (JArr js) = (\<forall>j \<in> set js. plain j)"
| "plain (JObj kvs) = (\<forall>kv \<in> set kvs. plain (snd kv))"
| "plain _ = True"

text \<open>A value as it comes back: every string, keys included, as well-formed UTF-8.\<close>

fun coerce :: "json \<Rightarrow> json" where
  "coerce (JStr s) = JStr (to_valid s)"
| "coerce (JArr js) = JArr (map coerce js)"
| "coerce (JObj kvs) = JObj (map (\<lambda>(k, v). (to_valid k, coerce v)) kvs)"
| "coerce j = j"

lemma stops_sep [simp]: "stops (CHR '','' # r)" "stops (CHR '']'' # r)" "stops (CHR ''}'' # r)" "stops []"
  by (simp_all add: stops_def is_digit_def less_eq_char_def)

lemma skip_space_stay [simp]: "\<not> json_space c \<Longrightarrow> skip_space (c # s) = c # s"
  by (simp add: skip_space_def)

lemma json_space_simps [simp]:
  "\<not> json_space (CHR '','')" "\<not> json_space (CHR '']'')" "\<not> json_space (CHR ''}'')" "\<not> json_space (CHR '':'')"
  "\<not> json_space (CHR ''['')" "\<not> json_space (CHR ''{'')" "\<not> json_space (CHR 0x22)" "\<not> json_space (CHR ''n'')"
  "\<not> json_space (CHR ''t'')" "\<not> json_space (CHR ''f'')"
  by (simp_all add: json_space_def)

text \<open>The first character of a written value decides its kind.\<close>

lemma show_int_hd:
  obtains c ds where "show_int n = c # ds" "\<not> json_space c"
    "c \<notin> set ''ntf[{]}:,'' \<and> c \<noteq> CHR 0x22"
proof -
  obtain c ds where s: "show_int n = c # ds" and c: "is_digit c \<or> c = CHR ''-''"
    using decimal_digits [of "nat n"] decimal_digits [of "nat (- n)"]
    by (cases "show_int n") (auto simp: show_int_def split: if_splits)
  from c have "\<not> json_space c" "c \<notin> set ''ntf[{]}:,'' \<and> c \<noteq> CHR 0x22"
    by (auto simp: json_space_def is_digit_def less_eq_char_def)
  with s that show thesis by blast
qed

lemma json_text_hd:
  assumes "plain j"
  obtains c t where "json_text j = c # t" "\<not> json_space c" "c \<notin> set '']}:,''"
proof (cases j)
  case (JNum n)
  then show ?thesis using show_int_hd [of n] that by (metis json_text.simps(3) list.set_intros(2))
next
  case (JBool b)
  then show ?thesis using that by (cases b) auto
qed (use assms that in \<open>auto simp: json_string_def split: if_splits\<close>)


definition reads :: "json \<Rightarrow> bool" where
  "reads j \<longleftrightarrow> (\<forall>n r. length (json_text j) < n \<longrightarrow> stops r \<longrightarrow> json_value n (json_text j @ r) = Some (coerce j, r))"

lemma readsD: "reads j \<Longrightarrow> length (json_text j) < n \<Longrightarrow> stops r \<Longrightarrow> json_value n (json_text j @ r) = Some (coerce j, r)"
  by (simp add: reads_def)

lemma json_elems_read:
  "js \<noteq> [] \<Longrightarrow> (\<And>j. j \<in> set js \<Longrightarrow> reads j) \<Longrightarrow> length (join '','' (map json_text js)) + 1 < m \<Longrightarrow>
   json_elems m (join '','' (map json_text js) @ CHR '']'' # r) = Some (map coerce js, r)"
proof (induction js arbitrary: m)
  case (Cons j js)
  obtain k where m: "m = Suc k" using Cons.prems(3) by (cases m) auto
  have j: "reads j" using Cons.prems(2) by simp
  show ?case
  proof (cases js)
    case Nil
    then show ?thesis using readsD [OF j, of k "CHR '']'' # r"] Cons.prems(3) m by simp
  next
    case (Cons j' js')
    let ?rest = "join '','' (map json_text js)"
    have t: "join '','' (map json_text (j # js)) = json_text j @ CHR '','' # ?rest"
      using Cons by simp
    have "json_elems k (?rest @ CHR '']'' # r) = Some (map coerce js, r)"
      using Cons.IH [of k] Cons.prems(2,3) m t Cons by simp
    moreover have "json_value k (json_text j @ CHR '','' # ?rest @ CHR '']'' # r) =
        Some (coerce j, CHR '','' # ?rest @ CHR '']'' # r)"
      using readsD [OF j, of k] Cons.prems(3) m t by simp
    ultimately show ?thesis unfolding t m by simp
  qed
qed simp

abbreviation member_text :: "string \<times> json \<Rightarrow> string" where
  "member_text kv \<equiv> (case kv of (k, v) \<Rightarrow> json_string k @ '':'' @ json_text v)"

lemma json_members_read:
  "kvs \<noteq> [] \<Longrightarrow> (\<And>k v. (k, v) \<in> set kvs \<Longrightarrow> reads v) \<Longrightarrow> length (join '','' (map member_text kvs)) + 1 < m \<Longrightarrow>
   json_members m (join '','' (map member_text kvs) @ CHR ''}'' # r) = Some (map (\<lambda>(k, v). (to_valid k, coerce v)) kvs, r)"
proof (induction kvs arbitrary: m)
  case (Cons kv kvs)
  obtain k v where kv: "kv = (k, v)" by (cases kv)
  obtain n where m: "m = Suc n" using Cons.prems(3) by (cases m) auto
  have v: "reads v" using Cons.prems(2) [of k v] kv by simp
  have ks: "json_string k @ q = CHR 0x22 # json_body k @ CHR 0x22 # q" for q
    by (simp add: json_string_def)
  show ?case
  proof (cases kvs)
    case Nil
    have t: "join '','' (map member_text (kv # kvs)) @ CHR ''}'' # r =
       json_string k @ CHR '':'' # json_text v @ CHR ''}'' # r" using Nil kv by simp
    have l: "length (json_text v) < n" using Cons.prems(3) m Nil kv by simp
    show ?thesis unfolding t m ks
      using readsD [OF v l, of "CHR ''}'' # r"] Nil kv by (simp add: json_chars_string)
  next
    case (Cons kv' kvs')
    let ?rest = "join '','' (map member_text kvs)"
    have t: "join '','' (map member_text (kv # kvs)) @ CHR ''}'' # r =
       json_string k @ CHR '':'' # json_text v @ CHR '','' # ?rest @ CHR ''}'' # r"
      using Cons kv by simp
    have len: "length (join '','' (map member_text (kv # kvs))) =
        length (json_string k) + 1 + length (json_text v) + 1 + length ?rest"
      using Cons kv by simp
    have l: "length (json_text v) < n" and l': "length ?rest + 1 < n"
      using Cons.prems(3) m len by simp_all
    have IH: "json_members n (?rest @ CHR ''}'' # r) = Some (map (\<lambda>(k, v). (to_valid k, coerce v)) kvs, r)"
    proof (rule Cons.IH)
      show "kvs \<noteq> []" using Cons by simp
      show "length ?rest + 1 < n" by (rule l')
    qed (use Cons.prems(2) in auto)
    show ?thesis unfolding t m ks
      using readsD [OF v l, of "CHR '','' # ?rest @ CHR ''}'' # r"] IH kv by (simp add: json_chars_string)
  qed
qed simp

lemma reads_plain: "plain j \<Longrightarrow> reads j"
proof (induction j)
  case (JNum x)
  show ?case unfolding reads_def
  proof (intro allI impI)
    fix n r assume "length (json_text (JNum x)) < n" and r: "stops r"
    then obtain m where n: "n = Suc m" by (cases n) auto
    obtain c ds where s: "show_int x = c # ds" "\<not> json_space c" "c \<notin> set ''ntf[{]}:,'' \<and> c \<noteq> CHR 0x22"
      by (rule show_int_hd)
    have "json_number (c # ds @ r) = Some (JNum x, r)" using json_number_show [OF r, of x] s(1) by simp
    then show "json_value n (json_text (JNum x) @ r) = Some (coerce (JNum x), r)"
      unfolding n using s by simp
  qed
next
  case (JStr s)
  show ?case unfolding reads_def
  proof (intro allI impI)
    fix n r assume "length (json_text (JStr s)) < n"
    then obtain m where n: "n = Suc m" by (cases n) auto
    have "json_text (JStr s) @ r = CHR 0x22 # json_body s @ CHR 0x22 # r"
      by (simp add: json_string_def)
    then show "json_value n (json_text (JStr s) @ r) = Some (coerce (JStr s), r)"
      unfolding n by (simp add: json_chars_string)
  qed
next
  case (JArr js)
  show ?case unfolding reads_def
  proof (intro allI impI)
    fix n r assume l: "length (json_text (JArr js)) < n"
    then obtain m where n: "n = Suc m" by (cases n) auto
    show "json_value n (json_text (JArr js) @ r) = Some (coerce (JArr js), r)"
    proof (cases "js = []")
      case True
      then show ?thesis by (simp add: n)
    next
      case False
      let ?t = "join '','' (map json_text js)"
      obtain j js' where js: "js = j # js'" using False by (cases js) auto
      obtain c u where c: "json_text j = c # u" "\<not> json_space c" "c \<notin> set '']}:,''"
        by (rule json_text_hd [of j]) (use JArr.prems js in simp)
      have hd: "\<exists>u'. ?t = c # u'" using c(1) js by (cases js') auto
      then obtain u' where u': "?t = c # u'" by blast
      have "json_elems m (?t @ CHR '']'' # r) = Some (map coerce js, r)"
        by (rule json_elems_read) (use False JArr l n in auto)
      then show ?thesis unfolding n using u' c by simp
    qed
  qed
next
  case (JObj kvs)
  show ?case unfolding reads_def
  proof (intro allI impI)
    fix n r assume l: "length (json_text (JObj kvs)) < n"
    then obtain m where n: "n = Suc m" by (cases n) auto
    show "json_value n (json_text (JObj kvs) @ r) = Some (coerce (JObj kvs), r)"
    proof (cases "kvs = []")
      case True
      then show ?thesis by (simp add: n)
    next
      case False
      let ?t = "join '','' (map member_text kvs)"
      obtain k v kvs' where kvs: "kvs = (k, v) # kvs'" using False by (cases kvs) auto
      have "\<exists>u'. ?t = CHR 0x22 # u'" using kvs by (cases kvs') (auto simp: json_string_def)
      then obtain u' where u': "?t = CHR 0x22 # u'" by blast
      have "json_members m (?t @ CHR ''}'' # r) = Some (map (\<lambda>(k, v). (to_valid k, coerce v)) kvs, r)"
        by (rule json_members_read) (use False JObj l n in \<open>fastforce+\<close>)
      then show ?thesis unfolding n using u' by simp
    qed
  qed
qed (auto simp: reads_def strip_word_def elim!: less_natE)

lemma json_unmarshal_text: "plain j \<Longrightarrow> json_unmarshal (json_text j) = Some (coerce j)"
  using readsD [OF reads_plain, of j "length (json_text j) + 1" "[]"]
  by (simp add: json_unmarshal_def skip_space_def)

end
