(* ===== verification/Base64.thy ===== *)
theory Base64
  imports Prelude
begin

text \<open>
  \<^verbatim>\<open>base64.StdEncoding\<close>: encoding, decoding (padded; the unused bits of the last character are not
  checked) and their round trip.
\<close>

definition base64_alphabet :: string where
  "base64_alphabet = ''ABCDEFGHIJKLMNOPQRSTUVWXYZabcdefghijklmnopqrstuvwxyz0123456789+/''"

fun index_in :: "string \<Rightarrow> char \<Rightarrow> nat option" where
  "index_in [] c = None"
| "index_in (x # xs) c = (if x = c then Some 0 else map_option Suc (index_in xs c))"

definition b64 :: "char \<Rightarrow> nat option" where
  "b64 c = index_in base64_alphabet c"

definition b64_char :: "nat \<Rightarrow> char" where
  "b64_char n = base64_alphabet ! n"

fun base64_encode :: "bytes \<Rightarrow> string" where
  "base64_encode [] = []"
| "base64_encode [a] =
     (let i = of_char a in [b64_char (i div 4), b64_char (i mod 4 * 16), CHR ''='', CHR ''=''])"
| "base64_encode [a, b] =
     (let i = of_char a; j = of_char b in
      [b64_char (i div 4), b64_char (i mod 4 * 16 + j div 16), b64_char (j mod 16 * 4), CHR ''=''])"
| "base64_encode (a # b # c # r) =
     (let i = of_char a; j = of_char b; k = of_char c in
      b64_char (i div 4) # b64_char (i mod 4 * 16 + j div 16) # b64_char (j mod 16 * 4 + k div 64)
      # b64_char (k mod 64) # base64_encode r)"

fun base64_decode :: "string \<Rightarrow> bytes option" where
  "base64_decode s =
     (case s of
        [] \<Rightarrow> Some []
      | a # b # c # d # rest \<Rightarrow>
          (case (b64 a, b64 b) of
             (Some i, Some j) \<Rightarrow>
               (let x = char_of (i * 4 + j div 16) in
                case (b64 c, b64 d) of
                  (Some k, Some l) \<Rightarrow>
                    map_option (\<lambda>t. x # char_of (j mod 16 * 16 + k div 4) # char_of (k mod 4 * 64 + l) # t)
                      (base64_decode rest)
                | (Some k, None) \<Rightarrow>
                    if d = CHR ''='' \<and> rest = [] then Some [x, char_of (j mod 16 * 16 + k div 4)] else None
                | (None, None) \<Rightarrow>
                    if c = CHR ''='' \<and> d = CHR ''='' \<and> rest = [] then Some [x] else None
                | _ \<Rightarrow> None)
           | _ \<Rightarrow> None)
      | _ \<Rightarrow> None)"

declare base64_decode.simps [simp del]

lemma b64_char: "n < 64 \<Longrightarrow> b64 (b64_char n) = Some n"
proof -
  assume "n < 64"
  moreover have "list_all (\<lambda>n. b64 (b64_char n) = Some n) [0..<64]"
    unfolding b64_def b64_char_def base64_alphabet_def by code_simp
  ultimately show ?thesis by (simp add: list_all_iff)
qed

text \<open>The encoded text is ASCII, without line breaks.\<close>

definition b64_text_char :: "char \<Rightarrow> bool" where
  "b64_text_char c \<longleftrightarrow> \<not> digit7 c \<and> c \<noteq> CHR 0x0A \<and> c \<noteq> CHR 0x0D"

lemma b64_char_text: "n < 64 \<Longrightarrow> b64_text_char (b64_char n)"
proof -
  assume "n < 64"
  moreover have "list_all (\<lambda>n. b64_text_char (b64_char n)) [0..<64]" by code_simp
  ultimately show ?thesis by (simp add: list_all_iff)
qed

lemma b64_pad: "b64 (CHR ''='') = None"
  unfolding b64_def base64_alphabet_def by code_simp

lemma byte_bounds:
  "(of_char a :: nat) div 4 < 64" "(of_char a :: nat) mod 4 * 16 < 64"
  "(of_char a :: nat) mod 4 * 16 + of_char b div 16 < 64" "(of_char b :: nat) mod 16 * 4 < 64"
  "(of_char b :: nat) mod 16 * 4 + of_char c div 64 < 64" "(of_char c :: nat) mod 64 < 64"
proof -
  have a: "(of_char a :: nat) < 256" and b: "(of_char b :: nat) < 256" and c: "(of_char c :: nat) < 256"
    by simp_all
  have m: "(of_char a :: nat) mod 4 < 4" "(of_char b :: nat) mod 16 < 16" by simp_all
  have d: "(of_char b :: nat) div 16 < 16" using b by (rule less_mult_imp_div_less [of _ 16 16, simplified])
  have e: "(of_char c :: nat) div 64 < 4" using c by (rule less_mult_imp_div_less [of _ 4 64, simplified])
  show "(of_char a :: nat) div 4 < 64" using a by (rule less_mult_imp_div_less [of _ 64 4, simplified])
  show "(of_char a :: nat) mod 4 * 16 < 64" using m by linarith
  show "(of_char a :: nat) mod 4 * 16 + of_char b div 16 < 64" using m d by linarith
  show "(of_char b :: nat) mod 16 * 4 < 64" using m by linarith
  show "(of_char b :: nat) mod 16 * 4 + of_char c div 64 < 64" using m e by linarith
  show "(of_char c :: nat) mod 64 < 64" by simp
qed

lemma regroup:
  fixes i j k :: nat
  assumes "j < 256" "k < 256"
  shows "i div 4 * 4 + (i mod 4 * 16 + j div 16) div 16 = i"
    and "(i mod 4 * 16 + j div 16) mod 16 * 16 + (j mod 16 * 4 + k div 64) div 4 = j"
    and "(j mod 16 * 4 + k div 64) mod 4 * 64 + k mod 64 = k"
proof -
  have d: "j div 16 < 16" using assms(1) by (rule less_mult_imp_div_less [of _ 16 16, simplified])
  have e: "k div 64 < 4" using assms(2) by (rule less_mult_imp_div_less [of _ 4 64, simplified])
  have "(i mod 4 * 16 + j div 16) div 16 = i mod 4" using d by simp
  then show "i div 4 * 4 + (i mod 4 * 16 + j div 16) div 16 = i" by simp
  have "(i mod 4 * 16 + j div 16) mod 16 = j div 16" using d by simp
  moreover have "(j mod 16 * 4 + k div 64) div 4 = j mod 16" using e by simp
  ultimately show "(i mod 4 * 16 + j div 16) mod 16 * 16 + (j mod 16 * 4 + k div 64) div 4 = j" by simp
  have "(j mod 16 * 4 + k div 64) mod 4 = k div 64" using e by simp
  then show "(j mod 16 * 4 + k div 64) mod 4 * 64 + k mod 64 = k" by simp
qed

lemma of_char_256: "(of_char c :: nat) < 256"
  by simp

lemma base64_roundtrip: "base64_decode (base64_encode bs) = Some bs"
proof (induction bs rule: base64_encode.induct)
  case 1
  then show ?case by (simp add: base64_decode.simps)
next
  case (2 a)
  have "(of_char a :: nat) div 4 * 4 + of_char a mod 4 * 16 div 16 = of_char a" by simp
  then show ?case
    by (simp add: Let_def base64_decode.simps [of "_ # _"] b64_char byte_bounds b64_pad)
next
  case (3 a b)
  have "(of_char a :: nat) div 4 * 4 + (of_char a mod 4 * 16 + of_char b div 16) div 16 = of_char a"
    "((of_char a :: nat) mod 4 * 16 + of_char b div 16) mod 16 * 16 + of_char b mod 16 * 4 div 4 = of_char b"
    using regroup(1,2) [of "of_char b" 0 "of_char a"] by simp_all
  then show ?case
    by (simp only: base64_encode.simps Let_def)
      (simp only: base64_decode.simps [of "_ # _"] list.case b64_char byte_bounds b64_pad prod.case
        option.case Let_def if_True simp_thms char_of_char)
next
  case (4 a b c r)
  note g = regroup(1,2) [of "of_char b" "of_char c" "of_char a", OF of_char_256 of_char_256]
    regroup(3) [of "of_char b" "of_char c", OF of_char_256 of_char_256]
  show ?case
    by (simp only: base64_encode.simps Let_def)
      (simp only: base64_decode.simps [of "_ # _"] list.case b64_char byte_bounds prod.case
        option.case Let_def g char_of_char 4 option.map)
qed

lemma base64_text: "c \<in> set (base64_encode bs) \<Longrightarrow> b64_text_char c"
proof (induction bs rule: base64_encode.induct)
  case (4 a b e r)
  then show ?case using byte_bounds b64_char_text by (auto simp: Let_def)
qed (use byte_bounds b64_char_text in \<open>auto simp: Let_def b64_text_char_def\<close>)

text \<open>The decoder skips line breaks.\<close>

definition base64_read :: "string \<Rightarrow> bytes option" where
  "base64_read s = base64_decode (filter (\<lambda>c. c \<noteq> CHR 0x0A \<and> c \<noteq> CHR 0x0D) s)"

lemma base64_read_encode: "base64_read (base64_encode bs) = Some bs"
proof -
  have "filter (\<lambda>c. c \<noteq> CHR 0x0A \<and> c \<noteq> CHR 0x0D) (base64_encode bs) = base64_encode bs"
    using base64_text [of _ bs] by (auto simp: b64_text_char_def filter_id_conv)
  then show ?thesis by (simp add: base64_read_def base64_roundtrip)
qed

end
