(* ===== verification/Http.thy ===== *)
theory Http
  imports Json Base64
begin

text \<open>
  Requests and responses as the handlers see them: the parts of Go's \<^verbatim>\<open>net/http\<close>,
  \<^verbatim>\<open>encoding/json\<close> and \<^verbatim>\<open>net/url\<close> they use. The body of a response is a JSON value, a text or the
  name of the page template with the data it is rendered from (its fields as an object).
\<close>

subsection \<open>Decoding into structs\<close>

text \<open>
  Decoding into a struct: a key matches a field whatever its case, the last match wins, \<^verbatim>\<open>null\<close>
  leaves the field as it is, and a value of another type is an error (\<open>None\<close>). The field starts
  out as the zero value.
\<close>

fun assign_string :: "string \<Rightarrow> (string \<times> json) list \<Rightarrow> string \<Rightarrow> string option" where
  "assign_string field [] v = Some v"
| "assign_string field ((k, j) # kvs) v =
     (if to_lower k = to_lower field then
        (case j of
           JStr s \<Rightarrow> assign_string field kvs s
         | JNull \<Rightarrow> assign_string field kvs v
         | _ \<Rightarrow> None)
      else assign_string field kvs v)"

definition decode_string :: "string \<Rightarrow> string \<Rightarrow> string option" where
  "decode_string field body =
     (case json_decode body of
        Some (JObj kvs) \<Rightarrow> assign_string field kvs ''''
      | Some JNull \<Rightarrow> Some ''''
      | _ \<Rightarrow> None)"

text \<open>\<^verbatim>\<open>fmt.Sprintf("%v", x)\<close> on a decoded value.\<close>

fun show_v :: "json \<Rightarrow> string" where
  "show_v JNull = ''<nil>''"
| "show_v (JBool b) = (if b then ''true'' else ''false'')"
| "show_v (JNum n) = show_int n"
| "show_v (JLit s) = s"
| "show_v (JStr s) = s"
| "show_v (JArr js) = ''['' @ join '' '' (map show_v js) @ '']''"
| "show_v (JObj kvs) =
     ''map['' @ join '' '' (map (\<lambda>(k, v). k @ '':'' @ v)
        (sort_key fst (map (\<lambda>(k, v). (k, show_v v)) kvs))) @ '']''"

text \<open>\<^verbatim>\<open>%q\<close>: a double-quoted Go string literal (multi-byte characters are left as they are).\<close>

definition quote_char :: "char \<Rightarrow> string" where
  "quote_char c =
     (if c = CHR 0x22 then [CHR 0x5C, CHR 0x22]
      else if c = CHR 0x5C then [CHR 0x5C, CHR 0x5C]
      else if c = CHR 0x07 then [CHR 0x5C, CHR ''a'']
      else if c = CHR 0x08 then [CHR 0x5C, CHR ''b'']
      else if c = CHR 0x0C then [CHR 0x5C, CHR ''f'']
      else if c = CHR 0x0A then [CHR 0x5C, CHR ''n'']
      else if c = CHR 0x0D then [CHR 0x5C, CHR ''r'']
      else if c = CHR 0x09 then [CHR 0x5C, CHR ''t'']
      else if c = CHR 0x0B then [CHR 0x5C, CHR ''v'']
      else if c < CHR '' '' \<or> c = CHR 0x7F then CHR 0x5C # CHR ''x'' # hex_encode [c]
      else [c])"

definition quote_go :: "string \<Rightarrow> string" where
  "quote_go s = CHR 0x22 # concat (map quote_char s) @ [CHR 0x22]"

subsection \<open>Requests\<close>

record request =
  rq_method :: string
  rq_path :: string
  rq_uri :: string
  rq_query :: "(string \<times> string) list"
  rq_form :: "(string \<times> string) list option"
  rq_headers :: "(string \<times> string) list"
  rq_cookies :: "(string \<times> string) list"
  rq_remote :: string
  rq_body :: string

text \<open>\<^verbatim>\<open>url.Values.Get\<close>, \<^verbatim>\<open>Header.Get\<close> (canonical names): the first value, or the empty string.\<close>

definition values_get :: "(string \<times> string) list \<Rightarrow> string \<Rightarrow> string" where
  "values_get kvs k = (case map_of kvs k of None \<Rightarrow> '''' | Some v \<Rightarrow> v)"

definition query_get :: "request \<Rightarrow> string \<Rightarrow> string" where
  "query_get r k = values_get (rq_query r) k"

definition header_get :: "request \<Rightarrow> string \<Rightarrow> string" where
  "header_get r k = values_get (rq_headers r) k"

text \<open>\<^verbatim>\<open>ParseForm\<close> succeeded when \<open>rq_form\<close> is there; \<^verbatim>\<open>FormValue\<close> prefers the body to the query.\<close>

definition form_value :: "request \<Rightarrow> string \<Rightarrow> string" where
  "form_value r k =
     (case map_of (case rq_form r of None \<Rightarrow> [] | Some f \<Rightarrow> f) k of
        Some v \<Rightarrow> v
      | None \<Rightarrow> query_get r k)"

definition cookie_get :: "request \<Rightarrow> string \<Rightarrow> string option" where
  "cookie_get r k = map_of (rq_cookies r) k"

text \<open>\<^verbatim>\<open>Request.BasicAuth\<close>: standard base64 with padding, user and password split at the first colon.\<close>

definition basic_auth :: "request \<Rightarrow> (string \<times> string) option" where
  "basic_auth r =
     (let h = header_get r ''Authorization'' in
      if to_lower (take 6 h) \<noteq> ''basic '' then None
      else
        (case base64_decode (drop 6 h) of
           None \<Rightarrow> None
         | Some c \<Rightarrow>
             if CHR '':'' \<in> set c then Some (before (CHR '':'') c, after (CHR '':'') c) else None))"

subsection \<open>Responses\<close>

datatype same_site = SameSiteLax | SameSiteNone

record cookie =
  ck_name :: string
  ck_value :: string
  ck_domain :: string
  ck_path :: string
  ck_http_only :: bool
  ck_secure :: bool
  ck_same_site :: same_site
  ck_max_age :: int

datatype body = NoBody | Text string | Json json | Page string json

record response =
  rs_status :: nat
  rs_headers :: "(string \<times> string) list"
  rs_cookies :: "cookie list"
  rs_body :: body

text \<open>The messages are UTF-8: \<open>dashed\<close> joins two texts with an em dash between spaces.\<close>

definition dashed :: "string \<Rightarrow> string \<Rightarrow> string" where
  "dashed a b = a @ '' '' @ [CHR 0xE2, CHR 0x80, CHR 0x94] @ '' '' @ b"

definition http_error :: "nat \<Rightarrow> string \<Rightarrow> response" where
  "http_error status msg =
     \<lparr>rs_status = status,
      rs_headers = [(''Content-Type'', ''text/plain; charset=utf-8''), (''X-Content-Type-Options'', ''nosniff'')],
      rs_cookies = [], rs_body = Text msg\<rparr>"

definition json_response :: "nat \<Rightarrow> json \<Rightarrow> response" where
  "json_response status j =
     \<lparr>rs_status = status, rs_headers = [(''Content-Type'', ''application/json'')], rs_cookies = [],
      rs_body = Json j\<rparr>"

definition empty_response :: "nat \<Rightarrow> response" where
  "empty_response status = \<lparr>rs_status = status, rs_headers = [], rs_cookies = [], rs_body = NoBody\<rparr>"

definition http_redirect :: "string \<Rightarrow> nat \<Rightarrow> response" where
  "http_redirect location status =
     \<lparr>rs_status = status, rs_headers = [(''Location'', location)], rs_cookies = [], rs_body = NoBody\<rparr>"

text \<open>
  Headers set before the rest of the response: a header the rest sets again takes the later value.
\<close>

definition add_headers :: "(string \<times> string) list \<Rightarrow> response \<Rightarrow> response" where
  "add_headers hs rs =
     rs\<lparr>rs_headers := filter (\<lambda>(k, v). k \<notin> set (map fst (rs_headers rs))) hs @ rs_headers rs\<rparr>"

definition add_cookies :: "cookie list \<Rightarrow> response \<Rightarrow> response" where
  "add_cookies cs rs = rs\<lparr>rs_cookies := cs @ rs_cookies rs\<rparr>"

definition location_of :: "response \<Rightarrow> string option" where
  "location_of rs = map_of (rs_headers rs) ''Location''"

text \<open>\<^verbatim>\<open>writeTokenError\<close> (\<^verbatim>\<open>machine_credentials.go\<close>).\<close>

record token_error_response =
  ter_error :: string
  ter_description :: string

definition encode_token_error :: "token_error_response \<Rightarrow> json" where
  "encode_token_error e =
     JObj ((''error'', JStr (ter_error e))
       # (if ter_description e = '''' then [] else [(''error_description'', JStr (ter_description e))]))"

definition write_token_error :: "nat \<Rightarrow> string \<Rightarrow> string \<Rightarrow> response" where
  "write_token_error status err_code description =
     add_headers (if status = 401 then [(''WWW-Authenticate'', ''Bearer realm=\"aithne\"'')] else [])
       (json_response status (encode_token_error \<lparr>ter_error = err_code, ter_description = description\<rparr>))"

text \<open>\<^verbatim>\<open>renderErrorPage\<close> (\<^verbatim>\<open>error_page.go\<close>).\<close>

definition retry_transient :: string where
  "retry_transient = ''Try again in a moment.''"

definition retry_unlikely :: string where
  "retry_unlikely = ''Retrying won'' @ [CHR 0x27] @ ''t help. Contact the administrator for help.''"

definition single_quoted :: "string \<Rightarrow> string" where
  "single_quoted s = CHR 0x27 # s @ [CHR 0x27]"

definition error_page_csp :: string where
  "error_page_csp = ''default-src '' @ single_quoted ''none'' @ ''; style-src '' @ single_quoted ''self''
     @ ''; img-src '' @ single_quoted ''self'' @ ''; frame-ancestors '' @ single_quoted ''none''"

record error_page_data =
  ep_title :: string
  ep_message :: string
  ep_retry_guidance :: string

definition error_page_fields :: "error_page_data \<Rightarrow> (string \<times> json) list" where
  "error_page_fields d =
     [(''Title'', JStr (ep_title d)), (''Message'', JStr (ep_message d)),
      (''RetryGuidance'', JStr (ep_retry_guidance d))]"

definition render_error_page :: "nat \<Rightarrow> string \<Rightarrow> string \<Rightarrow> string \<Rightarrow> response" where
  "render_error_page status title message retry_guidance =
     \<lparr>rs_status = status,
      rs_headers = [(''Content-Security-Policy'', error_page_csp),
                    (''Content-Type'', ''text/html; charset=utf-8'')],
      rs_cookies = [], rs_body = Page ''error.html'' (JObj (error_page_fields
        \<lparr>ep_title = title, ep_message = message, ep_retry_guidance = retry_guidance\<rparr>))\<rparr>"

subsection \<open>Query strings\<close>

text \<open>\<^verbatim>\<open>url.QueryEscape\<close> and \<^verbatim>\<open>Values.Encode\<close> (keys in order, every key set once).\<close>

definition upper_hex :: "nat \<Rightarrow> char" where
  "upper_hex n = char_of (if n < 10 then 48 + n else 55 + n)"

definition query_unreserved :: "char \<Rightarrow> bool" where
  "query_unreserved c \<longleftrightarrow>
     c \<in> set ''ABCDEFGHIJKLMNOPQRSTUVWXYZabcdefghijklmnopqrstuvwxyz0123456789-_.~''"

definition query_escape :: "string \<Rightarrow> string" where
  "query_escape s =
     concat (map (\<lambda>c. if query_unreserved c then [c] else if c = CHR '' '' then ''+''
                      else [CHR ''%'', upper_hex (of_char c div 16), upper_hex (of_char c mod 16)]) s)"

definition values_encode :: "(string \<times> string) list \<Rightarrow> string" where
  "values_encode kvs =
     join ''&'' (map (\<lambda>(k, v). query_escape k @ ''='' @ query_escape v) (sort_key fst kvs))"

lemmas response_defs = http_error_def json_response_def empty_response_def http_redirect_def
  add_headers_def add_cookies_def write_token_error_def render_error_page_def

lemma response_status [simp]:
  "rs_status (http_error n m) = n"
  "rs_status (json_response n j) = n"
  "rs_status (empty_response n) = n"
  "rs_status (http_redirect l n) = n"
  "rs_status (add_headers hs rs) = rs_status rs"
  "rs_status (add_cookies cs rs) = rs_status rs"
  "rs_status (write_token_error n c d) = n"
  "rs_status (render_error_page n a b c) = n"
  by (simp_all add: response_defs)

lemma response_cookies [simp]:
  "rs_cookies (http_error n m) = []"
  "rs_cookies (json_response n j) = []"
  "rs_cookies (empty_response n) = []"
  "rs_cookies (http_redirect l n) = []"
  "rs_cookies (add_headers hs rs) = rs_cookies rs"
  "rs_cookies (add_cookies cs rs) = cs @ rs_cookies rs"
  "rs_cookies (write_token_error n c d) = []"
  "rs_cookies (render_error_page n a b c) = []"
  by (simp_all add: response_defs)

lemma response_location [simp]:
  "location_of (http_error n m) = None"
  "location_of (json_response n j) = None"
  "location_of (empty_response n) = None"
  "location_of (http_redirect l n) = Some l"
  "location_of (add_cookies cs rs) = location_of rs"
  "location_of (write_token_error n c d) = None"
  "location_of (render_error_page n a b c) = None"
  by (simp_all add: response_defs location_of_def)

end
