(* ===== verification/Token.thy ===== *)
theory Token
  imports StoreKeys StoreSessions Http
begin

text \<open>
  \<^verbatim>\<open>token/token.go\<close>: minting and parsing session tokens and ID tokens, the verification key set
  and its endpoint, and the two cookies. The JOSE library is a parameter; its documented behaviour
  is in \<open>jose_complete\<close> (a token signed with a key of the set, for the expected issuer and
  audience and within its validity, parses to its claims) and \<open>jose_sound\<close> (what parses has the
  expected issuer and audience, is not expired and is signed with a key of the set).
\<close>

definition default_session_ttl :: time where "default_session_ttl = 15 * minute"
definition verification_window :: time where "verification_window = 30 * minute"

definition claim_principal_class :: string where "claim_principal_class = ''principal_class''"
definition claim_scopes :: string where "claim_scopes = ''scopes''"
definition claim_oidc_scopes :: string where "claim_oidc_scopes = ''oidc_scopes''"

text \<open>A JWT payload: the registered claims (dates in whole seconds) and the others by name.\<close>

record jwt =
  jw_iss :: string
  jw_sub :: string
  jw_aud :: "string list"
  jw_iat :: int
  jw_exp :: int
  jw_jti :: string
  jw_other :: "(string \<times> json) list"

type_synonym key_set = "(string \<times> bytes) list"

record jose =
  jx_public :: "bytes \<Rightarrow> bytes option"
  jx_is_ec :: "bytes \<Rightarrow> bool"
  jx_sign :: "bytes \<Rightarrow> string \<Rightarrow> jwt \<Rightarrow> string option"
  jx_jwk :: "string \<Rightarrow> bytes \<Rightarrow> json"
  jx_parse :: "key_set \<Rightarrow> string \<Rightarrow> string \<Rightarrow> time \<Rightarrow> string \<Rightarrow> jwt option"

definition jose_complete :: "jose \<Rightarrow> bool" where
  "jose_complete j \<longleftrightarrow>
     (\<forall>der pub kid t tok ks iss aud now.
        jx_sign j der kid t = Some tok \<and> jx_public j der = Some pub \<and> map_of ks kid = Some pub \<and>
        jw_iss t = iss \<and> aud \<in> set (jw_aud t) \<and> jw_iat t \<le> unix_seconds now \<and> unix_seconds now < jw_exp t
        \<longrightarrow> jx_parse j ks iss aud now tok = Some t)"

definition jose_sound :: "jose \<Rightarrow> bool" where
  "jose_sound j \<longleftrightarrow>
     (\<forall>ks iss aud now tok t. jx_parse j ks iss aud now tok = Some t \<longrightarrow>
        jw_iss t = iss \<and> aud \<in> set (jw_aud t) \<and> unix_seconds now < jw_exp t \<and>
        (\<exists>kid pub der. (kid, pub) \<in> set ks \<and> jx_public j der = Some pub \<and> jx_sign j der kid t = Some tok))"

record session_claims =
  sc_subject :: string
  sc_principal_class :: string
  sc_scopes :: "string list"
  sc_oidc_scopes :: "string list"
  sc_issued_at :: time
  sc_expires_at :: time
  sc_jwt_id :: string

definition string_array :: "string list \<Rightarrow> json" where
  "string_array ss = JArr (map JStr ss)"

definition mint_session ::
  "jose \<Rightarrow> principal \<Rightarrow> string list \<Rightarrow> signing_key \<Rightarrow> string \<Rightarrow> string \<Rightarrow> time \<Rightarrow> string list \<Rightarrow>
   world \<Rightarrow> (err + string) \<times> world" where
  "mint_session j p scopes key issuer audience ttl0 oidc_scopes w =
     (let ttl = (if ttl0 \<le> 0 then default_session_ttl else ttl0) in
      if jx_public j (k_private_key key) = None then (Inl (ErrOther ''token: parse signing key''), w)
      else if \<not> jx_is_ec j (k_private_key key) then
        (Inl (ErrOther ''token: expected *ecdsa.PrivateKey''), w)
      else
        (case time_now w of (now, w) \<Rightarrow>
           (case uuid_new w of (jti, w) \<Rightarrow>
              (let tok = \<lparr>jw_iss = issuer, jw_sub = p_external_id p, jw_aud = [audience],
                          jw_iat = unix_seconds now, jw_exp = unix_seconds (now + ttl), jw_jti = jti,
                          jw_other = [(claim_principal_class, JStr (p_class p)),
                                      (claim_scopes, string_array scopes),
                                      (claim_oidc_scopes, string_array oidc_scopes)]\<rparr> in
               case jx_sign j (k_private_key key) (k_id key) tok of
                 None \<Rightarrow> (Inl (ErrOther ''token: sign JWT''), w)
               | Some signed \<Rightarrow> (Inr signed, w)))))"

definition string_slice_claim :: "jwt \<Rightarrow> string \<Rightarrow> string list" where
  "string_slice_claim tok claim_name =
     (case map_of (jw_other tok) claim_name of
        None \<Rightarrow> []
      | Some (JArr js) \<Rightarrow> map show_v js
      | Some _ \<Rightarrow> [])"

definition claims_of :: "jwt \<Rightarrow> session_claims" where
  "claims_of tok =
     \<lparr>sc_subject = jw_sub tok,
      sc_principal_class = (case map_of (jw_other tok) claim_principal_class of
        None \<Rightarrow> '''' | Some pc \<Rightarrow> show_v pc),
      sc_scopes = string_slice_claim tok claim_scopes,
      sc_oidc_scopes = string_slice_claim tok claim_oidc_scopes,
      sc_issued_at = second * jw_iat tok,
      sc_expires_at = second * jw_exp tok,
      sc_jwt_id = jw_jti tok\<rparr>"

definition parse_session ::
  "jose \<Rightarrow> string \<Rightarrow> key_set \<Rightarrow> string \<Rightarrow> string \<Rightarrow> world \<Rightarrow> (err + session_claims) \<times> world" where
  "parse_session j token_str ks issuer audience w =
     (case time_now w of (now, w) \<Rightarrow>
        (case jx_parse j ks issuer audience now token_str of
           None \<Rightarrow> (Inl (ErrOther ''token: parse session''), w)
         | Some tok \<Rightarrow> (Inr (claims_of tok), w)))"

text \<open>Every key by its identifier; a set refuses the same key twice.\<close>

fun build_key_set_from :: "jose \<Rightarrow> key_set \<Rightarrow> signing_key list \<Rightarrow> err + key_set" where
  "build_key_set_from j ks [] = Inr ks"
| "build_key_set_from j ks (k # rest) =
     (case jx_public j (k_private_key k) of
        None \<Rightarrow> Inl (ErrOther ''token: parse key'')
      | Some pub \<Rightarrow>
          if (k_id k, pub) \<in> set ks then Inl (ErrOther ''token: add key to set'')
          else build_key_set_from j (ks @ [(k_id k, pub)]) rest)"

definition build_verification_key_set :: "jose \<Rightarrow> signing_key list \<Rightarrow> err + key_set" where
  "build_verification_key_set j keys = build_key_set_from j [] keys"

definition key_set_json :: "jose \<Rightarrow> key_set \<Rightarrow> json" where
  "key_set_json j ks = JObj [(''keys'', JArr (map (\<lambda>(kid, pub). jx_jwk j kid pub) ks))]"

definition jwks_handler :: "jose \<Rightarrow> (err + signing_key list) \<Rightarrow> response" where
  "jwks_handler j keys =
     (case keys of
        Inl _ \<Rightarrow> http_error 500 ''failed to load signing keys''
      | Inr ks \<Rightarrow>
          (case build_verification_key_set j ks of
             Inl _ \<Rightarrow> http_error 500 ''failed to build JWKS''
           | Inr set_ \<Rightarrow>
               \<lparr>rs_status = 200, rs_headers = [(''Content-Type'', ''application/json''),
                                             (''Cache-Control'', ''public, max-age=300'')],
                rs_cookies = [], rs_body = Json (key_set_json j set_)\<rparr>))"

definition mint_id_token ::
  "jose \<Rightarrow> principal \<Rightarrow> string \<Rightarrow> string \<Rightarrow> string list \<Rightarrow> string \<Rightarrow> signing_key \<Rightarrow> string \<Rightarrow> time \<Rightarrow>
   world \<Rightarrow> (err + string) \<times> world" where
  "mint_id_token j p client_id nonce scopes email key issuer ttl0 w =
     (let ttl = (if ttl0 \<le> 0 then default_session_ttl else ttl0) in
      if jx_public j (k_private_key key) = None then
        (Inl (ErrOther ''token: parse signing key for id_token''), w)
      else if \<not> jx_is_ec j (k_private_key key) then
        (Inl (ErrOther ''token: expected *ecdsa.PrivateKey for id_token''), w)
      else
        (case time_now w of (now, w) \<Rightarrow>
           (case uuid_new w of (jti, w) \<Rightarrow>
              (let tok = \<lparr>jw_iss = issuer, jw_sub = p_external_id p, jw_aud = [client_id],
                          jw_iat = unix_seconds now, jw_exp = unix_seconds (now + ttl), jw_jti = jti,
                          jw_other = [(claim_principal_class, JStr (p_class p)),
                                      (claim_scopes, string_array scopes)]
                            @ (if nonce \<noteq> '''' then [(''nonce'', JStr nonce)] else [])
                            @ (if email \<noteq> '''' then [(''email'', JStr email)] else [])\<rparr> in
               case jx_sign j (k_private_key key) (k_id key) tok of
                 None \<Rightarrow> (Inl (ErrOther ''token: sign id_token''), w)
               | Some signed \<Rightarrow> (Inr signed, w)))))"

subsection \<open>Cookies\<close>

definition cookie_domain :: "string \<Rightarrow> string" where
  "cookie_domain environment = (if environment = ''development'' then '''' else ''l42.eu'')"

definition cookie_same_site :: "string \<Rightarrow> same_site" where
  "cookie_same_site environment = (if environment = ''development'' then SameSiteLax else SameSiteNone)"

definition session_cookie_name :: string where "session_cookie_name = ''aithne_session''"
definition idp_session_cookie_name :: string where "idp_session_cookie_name = ''aithne_idp_session''"

definition seconds_of :: "time \<Rightarrow> int" where
  "seconds_of t = t div second"

definition set_session_cookie :: "string \<Rightarrow> string \<Rightarrow> cookie" where
  "set_session_cookie token_str environment =
     \<lparr>ck_name = session_cookie_name, ck_value = token_str, ck_domain = cookie_domain environment,
      ck_path = ''/'', ck_http_only = True, ck_secure = (environment \<noteq> ''development''),
      ck_same_site = cookie_same_site environment, ck_max_age = seconds_of default_session_ttl\<rparr>"

definition clear_session_cookie :: "string \<Rightarrow> cookie" where
  "clear_session_cookie environment =
     \<lparr>ck_name = session_cookie_name, ck_value = '''', ck_domain = cookie_domain environment,
      ck_path = ''/'', ck_http_only = True, ck_secure = (environment \<noteq> ''development''),
      ck_same_site = cookie_same_site environment, ck_max_age = -1\<rparr>"

definition set_idp_session_cookie :: "string \<Rightarrow> string \<Rightarrow> cookie" where
  "set_idp_session_cookie raw_token environment =
     \<lparr>ck_name = idp_session_cookie_name, ck_value = raw_token, ck_domain = cookie_domain environment,
      ck_path = ''/auth/remint'', ck_http_only = True, ck_secure = (environment \<noteq> ''development''),
      ck_same_site = cookie_same_site environment, ck_max_age = seconds_of idp_session_ttl\<rparr>"

definition clear_idp_session_cookie :: "string \<Rightarrow> cookie" where
  "clear_idp_session_cookie environment =
     \<lparr>ck_name = idp_session_cookie_name, ck_value = '''', ck_domain = cookie_domain environment,
      ck_path = ''/auth/remint'', ck_http_only = True, ck_secure = (environment \<noteq> ''development''),
      ck_same_site = cookie_same_site environment, ck_max_age = -1\<rparr>"

subsection \<open>Facts\<close>

lemmas db_distrib = if_distrib [of "\<lambda>x. w_db (snd x)"] option.case_distrib [of "\<lambda>x. w_db (snd x)"]
  sum.case_distrib [of "\<lambda>x. w_db (snd x)"]

lemma mint_session_frame [simp, frame_simps]: "w_db (snd (mint_session j p sc k i a ttl os w)) = w_db w"
  unfolding mint_session_def Let_def case_prod_beta
  by (simp only: db_distrib snd_conv prim_frames if_cancel option.case_eq_if)

lemma mint_id_token_frame [simp, frame_simps]: "w_db (snd (mint_id_token j p c n sc e k i ttl w)) = w_db w"
  unfolding mint_id_token_def Let_def case_prod_beta
  by (simp only: db_distrib snd_conv prim_frames if_cancel option.case_eq_if)

lemma parse_session_frame [simp, frame_simps]: "w_db (snd (parse_session j t ks i a w)) = w_db w"
  unfolding parse_session_def case_prod_beta
  by (simp only: db_distrib snd_conv prim_frames if_cancel option.case_eq_if)

lemma map_show_v_JStr [simp]: "map (show_v \<circ> JStr) ss = ss"
  by (induction ss) auto

text \<open>The claims a freshly minted session token carries.\<close>

lemma mint_session_InrD:
  assumes "fst (mint_session j p scopes key iss aud ttl0 oidc w) = Inr tok"
  defines "now \<equiv> fst (time_now w)" and "ttl \<equiv> (if ttl0 \<le> 0 then default_session_ttl else ttl0)"
  obtains t where "jx_sign j (k_private_key key) (k_id key) t = Some tok"
    "jw_iss t = iss" "jw_aud t = [aud]" "jw_iat t = unix_seconds now" "jw_exp t = unix_seconds (now + ttl)"
    "sc_subject (claims_of t) = p_external_id p" "sc_principal_class (claims_of t) = p_class p"
    "sc_scopes (claims_of t) = scopes" "sc_oidc_scopes (claims_of t) = oidc"
    "jx_public j (k_private_key key) \<noteq> None"
proof -
  let ?t = "\<lparr>jw_iss = iss, jw_sub = p_external_id p, jw_aud = [aud],
             jw_iat = unix_seconds now, jw_exp = unix_seconds (now + ttl),
             jw_jti = fst (uuid_new (snd (time_now w))),
             jw_other = [(claim_principal_class, JStr (p_class p)), (claim_scopes, string_array scopes),
                         (claim_oidc_scopes, string_array oidc)]\<rparr>"
  have "jx_sign j (k_private_key key) (k_id key) ?t = Some tok" "jx_public j (k_private_key key) \<noteq> None"
    using assms(1) unfolding now_def ttl_def
    by (auto simp: mint_session_def Let_def case_prod_beta split: if_splits option.splits)
  then show thesis
    by (intro that [of ?t])
      (simp_all add: claims_of_def string_slice_claim_def string_array_def claim_scopes_def
        claim_oidc_scopes_def claim_principal_class_def)
qed

end
