(* ===== verification/StoreOidc.thy ===== *)
theory StoreOidc
  imports StoreSessions
begin

text \<open>
  \<^verbatim>\<open>store/oidc.go\<close>: registered relying parties and single-use authorization codes.
\<close>

record oidc_client =
  o_id :: string
  o_secret_hash :: string
  o_redirect_uris :: "string list"
  o_client_name :: string
  o_created_at :: time

record oidc_auth_code =
  ac_code_hash :: string
  ac_client_id :: string
  ac_principal_id :: string
  ac_redirect_uri :: string
  ac_scope :: string
  ac_nonce :: string
  ac_expires_at :: time
  ac_created_at :: time

fun any_equal :: "string list \<Rightarrow> string \<Rightarrow> bool" where
  "any_equal [] uri = False"
| "any_equal (r # rs) uri = (if r = uri then True else any_equal rs uri)"

definition has_redirect_uri :: "oidc_client \<Rightarrow> string \<Rightarrow> bool" where
  "has_redirect_uri c uri = any_equal (o_redirect_uris c) uri"

lemma any_equal_iff [simp]: "any_equal rs uri \<longleftrightarrow> uri \<in> set rs"
  by (induction rs) auto

definition read_oidc_client :: "client_row \<Rightarrow> err + oidc_client" where
  "read_oidc_client r =
     (case parse_time (cl_created_at r) of
        None \<Rightarrow> Inl (ErrOther ''store: parse oidc client created_at'')
      | Some t \<Rightarrow> Inr \<lparr>o_id = cl_id r, o_secret_hash = cl_secret_hash r,
                       o_redirect_uris = cl_redirect_uris r, o_client_name = cl_client_name r,
                       o_created_at = t\<rparr>)"

definition scan_oidc_client :: "string + client_row option \<Rightarrow> err + oidc_client" where
  "scan_oidc_client q =
     (case q of
        Inl _ \<Rightarrow> Inl (ErrOther ''store: scan oidc client'')
      | Inr None \<Rightarrow> Inl ErrNotFound
      | Inr (Some r) \<Rightarrow> read_oidc_client r)"

definition create_oidc_client ::
  "string \<Rightarrow> string \<Rightarrow> string \<Rightarrow> string list \<Rightarrow> world \<Rightarrow> (err + oidc_client) \<times> world" where
  "create_oidc_client client_id secret_hash client_name redirect_uris w =
     (case time_now w of (now, w) \<Rightarrow>
        (case db_exec (insert_client \<lparr>cl_id = client_id, cl_secret_hash = secret_hash,
                 cl_redirect_uris = redirect_uris, cl_client_name = client_name,
                 cl_created_at = rfc3339 now\<rparr>) w of
           (Inl msg, w) \<Rightarrow>
             (Inl (if is_unique_violation msg then ErrDuplicate
                   else ErrOther ''store: create oidc client''), w)
         | (Inr _, w) \<Rightarrow>
             (Inr \<lparr>o_id = client_id, o_secret_hash = secret_hash, o_redirect_uris = redirect_uris,
                   o_client_name = client_name, o_created_at = now\<rparr>, w)))"

definition get_oidc_client :: "string \<Rightarrow> world \<Rightarrow> (err + oidc_client) \<times> world" where
  "get_oidc_client client_id w =
     (case db_query (\<lambda>db. select_first (\<lambda>r. cl_id r = client_id) (clients db)) w of
        (q, w) \<Rightarrow> (scan_oidc_client q, w))"

definition upsert_oidc_client ::
  "string \<Rightarrow> string \<Rightarrow> string \<Rightarrow> string list \<Rightarrow> world \<Rightarrow> (err + oidc_client) \<times> world" where
  "upsert_oidc_client client_id secret_hash client_name redirect_uris w =
     (case time_now w of (now, w) \<Rightarrow>
        (case db_exec (upsert_client \<lparr>cl_id = client_id, cl_secret_hash = secret_hash,
                 cl_redirect_uris = redirect_uris, cl_client_name = client_name,
                 cl_created_at = rfc3339 now\<rparr>) w of
           (Inl _, w) \<Rightarrow> (Inl (ErrOther ''store: upsert oidc client''), w)
         | (Inr _, w) \<Rightarrow> get_oidc_client client_id w))"

definition list_oidc_clients :: "world \<Rightarrow> (err + oidc_client list) \<times> world" where
  "list_oidc_clients w =
     (case db_query (\<lambda>db. sort_key cl_created_at (clients db)) w of
        (Inl _, w) \<Rightarrow> (Inl (ErrOther ''store: list oidc clients''), w)
      | (Inr rows, w) \<Rightarrow> (traverse read_oidc_client rows, w))"

definition delete_oidc_client :: "string \<Rightarrow> world \<Rightarrow> (err + unit) \<times> world" where
  "delete_oidc_client client_id w =
     (case db_exec (delete_clients (\<lambda>r. cl_id r = client_id)) w of
        (Inl _, w) \<Rightarrow> (Inl (ErrOther ''store: delete oidc client''), w)
      | (Inr n, w) \<Rightarrow> (if n = 0 then Inl ErrNotFound else Inr (), w))"

definition create_oidc_auth_code ::
  "crypto \<Rightarrow> string \<Rightarrow> string \<Rightarrow> string \<Rightarrow> string \<Rightarrow> string \<Rightarrow> string \<Rightarrow> time \<Rightarrow> world \<Rightarrow>
   (err + unit) \<times> world" where
  "create_oidc_auth_code x raw_code client_id principal_id redirect_uri scope nonce expires_at w =
     (let code_hash = hash_token x raw_code in
      case time_now w of (now, w) \<Rightarrow>
        (case db_exec (insert_code \<lparr>cd_code_hash = code_hash, cd_client_id = client_id,
                 cd_principal_id = principal_id, cd_redirect_uri = redirect_uri, cd_scope = scope,
                 cd_nonce = nonce, cd_expires_at = rfc3339 expires_at, cd_created_at = rfc3339 now,
                 cd_used_at = None\<rparr>) w of
           (Inl _, w) \<Rightarrow> (Inl (ErrOther ''store: create oidc auth code''), w)
         | (Inr _, w) \<Rightarrow> (Inr (), w)))"

text \<open>
  The part \<^verbatim>\<open>GetOIDCAuthCode\<close> and \<^verbatim>\<open>ConsumeOIDCAuthCode\<close> share, written out in both: read the
  two timestamps of a row and refuse a used row.
\<close>

definition read_auth_code :: "code_row \<Rightarrow> err + oidc_auth_code" where
  "read_auth_code r =
     (case parse_time (cd_expires_at r) of
        None \<Rightarrow> Inl (ErrOther ''store: parse auth code expires_at'')
      | Some exp_time \<Rightarrow>
          (case parse_time (cd_created_at r) of
             None \<Rightarrow> Inl (ErrOther ''store: parse auth code created_at'')
           | Some created_time \<Rightarrow>
               if cd_used_at r \<noteq> None then Inl ErrAuthCodeUsed
               else Inr \<lparr>ac_code_hash = cd_code_hash r, ac_client_id = cd_client_id r,
                         ac_principal_id = cd_principal_id r, ac_redirect_uri = cd_redirect_uri r,
                         ac_scope = cd_scope r, ac_nonce = cd_nonce r, ac_expires_at = exp_time,
                         ac_created_at = created_time\<rparr>))"

definition get_oidc_auth_code :: "crypto \<Rightarrow> string \<Rightarrow> world \<Rightarrow> (err + oidc_auth_code) \<times> world" where
  "get_oidc_auth_code x raw_code w =
     (let code_hash = hash_token x raw_code in
      case db_query (\<lambda>db. select_first (\<lambda>r. cd_code_hash r = code_hash) (auth_codes db)) w of
        (Inl _, w) \<Rightarrow> (Inl (ErrOther ''store: get oidc auth code''), w)
      | (Inr None, w) \<Rightarrow> (Inl ErrNotFound, w)
      | (Inr (Some r), w) \<Rightarrow>
          (case read_auth_code r of
             Inl e \<Rightarrow> (Inl e, w)
           | Inr ac \<Rightarrow>
               (case time_now w of (now, w) \<Rightarrow>
                  (if now > ac_expires_at ac then Inl ErrAuthCodeExpired else Inr ac, w))))"

definition consume_oidc_auth_code :: "crypto \<Rightarrow> string \<Rightarrow> world \<Rightarrow> (err + oidc_auth_code) \<times> world" where
  "consume_oidc_auth_code x raw_code w =
     (let code_hash = hash_token x raw_code in
      case db_begin w of
        (Inl _, w) \<Rightarrow> (Inl (ErrOther ''store: begin tx''), w)
      | (Inr db0, w) \<Rightarrow>
          (case db_query (\<lambda>db. select_first (\<lambda>r. cd_code_hash r = code_hash) (auth_codes db)) w of
             (Inl _, w) \<Rightarrow> (Inl (ErrOther ''store: scan auth code''), rollback db0 w)
           | (Inr None, w) \<Rightarrow> (Inl ErrNotFound, rollback db0 w)
           | (Inr (Some r), w) \<Rightarrow>
               (case read_auth_code r of
                  Inl e \<Rightarrow> (Inl e, rollback db0 w)
                | Inr ac \<Rightarrow>
                    (case time_now w of (now1, w) \<Rightarrow>
                       if now1 > ac_expires_at ac then (Inl ErrAuthCodeExpired, rollback db0 w)
                       else
                         (case time_now w of (now, w) \<Rightarrow>
                            (case db_exec (update_codes
                                     (\<lambda>r. cd_code_hash r = code_hash \<and> cd_used_at r = None)
                                     (\<lambda>r. r\<lparr>cd_used_at := Some (rfc3339 now)\<rparr>)) w of
                               (Inl _, w) \<Rightarrow>
                                 (Inl (ErrOther ''store: consume auth code update''), rollback db0 w)
                             | (Inr n, w) \<Rightarrow>
                                 if n = 0 then (Inl ErrAuthCodeUsed, rollback db0 w)
                                 else
                                   (case db_commit db0 w of
                                      (Inl _, w) \<Rightarrow> (Inl (ErrOther ''store: commit consume auth code''), w)
                                    | (Inr _, w) \<Rightarrow> (Inr ac, w))))))))"

definition generate_raw_code :: "world \<Rightarrow> (err + string) \<times> world" where
  "generate_raw_code w =
     (case rand_read 32 w of
        (None, w) \<Rightarrow> (Inl (ErrOther ''store: generate random code''), w)
      | (Some b, w) \<Rightarrow> (Inr (hex_encode b), w))"

lemma oidc_reads [simp, frame_simps]:
  "w_db (snd (get_oidc_client i w)) = w_db w"
  "w_db (snd (list_oidc_clients w)) = w_db w"
  "w_db (snd (get_oidc_auth_code x c w)) = w_db w"
  "w_db (snd (generate_raw_code w)) = w_db w"
  by (simp_all add: get_oidc_client_def list_oidc_clients_def get_oidc_auth_code_def generate_raw_code_def
      Let_def case_prod_beta split: op_splits)

context db_invariant
begin

lemma create_oidc_client [wf_intros]: "I (w_db w) \<Longrightarrow> I (w_db (snd (create_oidc_client i h n u w)))"
  unfolding create_oidc_client_def
  by (auto simp: case_prod_beta intro!: execs split: op_splits)

lemma upsert_oidc_client [wf_intros]: "I (w_db w) \<Longrightarrow> I (w_db (snd (upsert_oidc_client i h n u w)))"
  unfolding upsert_oidc_client_def
  by (auto simp: case_prod_beta intro!: execs split: op_splits)

lemma create_oidc_auth_code [wf_intros]:
  "I (w_db w) \<Longrightarrow> I (w_db (snd (create_oidc_auth_code x c ci p u s n t w)))"
  unfolding create_oidc_auth_code_def
  by (auto simp: case_prod_beta Let_def intro!: execs split: op_splits)

lemma consume_oidc_auth_code [wf_intros]:
  "I (w_db w) \<Longrightarrow> I (w_db (snd (consume_oidc_auth_code x c w)))"
  using db_begin_InrD [of w]
  unfolding consume_oidc_auth_code_def
  by (auto simp: case_prod_beta Let_def intro!: commit execs split: op_splits)

end

context db_purge_invariant
begin

lemma delete_oidc_client: "I (w_db w) \<Longrightarrow> I (w_db (snd (delete_oidc_client i w)))"
  unfolding delete_oidc_client_def
  by (auto simp: case_prod_beta intro!: exec_del_client split: op_splits)

end

end
