(* ===== verification/Sweeping.thy ===== *)
theory Sweeping
  imports GoTime
begin

text \<open>
  The interface of an in-memory table that a background ticker sweeps: operations are stamped with
  the time they read from the clock, and a sweep may run between any two of them. The contract is
  that a sweep is not observable. It is met by the rate limiters and by the store of pending
  WebAuthn ceremonies.
\<close>

datatype 'op event = Op time 'op | Sweep time

fun event_time :: "'op event \<Rightarrow> time" where
  "event_time (Op t x) = t"
| "event_time (Sweep t) = t"

fun is_op :: "'op event \<Rightarrow> bool" where
  "is_op (Op t x) = True"
| "is_op (Sweep t) = False"

text \<open>The outputs of the operations of a schedule, run from a state, and the final state.\<close>

fun run_events ::
  "(time \<Rightarrow> 'op \<Rightarrow> 's \<Rightarrow> 'out \<times> 's) \<Rightarrow> (time \<Rightarrow> 's \<Rightarrow> 's) \<Rightarrow> 'op event list \<Rightarrow> 's \<Rightarrow> 'out list \<times> 's" where
  "run_events stp swp [] s = ([], s)"
| "run_events stp swp (Op t x # es) s =
     (case stp t x s of (r, s') \<Rightarrow> case run_events stp swp es s' of (rs, s'') \<Rightarrow> (r # rs, s''))"
| "run_events stp swp (Sweep t # es) s = run_events stp swp es (swp t s)"

lemma run_events_Op:
  "fst (run_events stp swp (Op t x # es) s) =
     fst (stp t x s) # fst (run_events stp swp es (snd (stp t x s)))"
  by (simp split: prod.splits)

text \<open>Clock readings never go back.\<close>

definition timed :: "time \<Rightarrow> 'op event list \<Rightarrow> bool" where
  "timed t0 es \<longleftrightarrow> sorted (t0 # map event_time es)"

lemma timed_Nil [simp]: "timed t0 []"
  by (simp add: timed_def)

lemma timed_Cons [simp]: "timed t0 (e # es) \<longleftrightarrow> t0 \<le> event_time e \<and> timed (event_time e) es"
  by (auto simp: timed_def)

lemma timed_later: "timed t es \<Longrightarrow> t0 \<le> t \<Longrightarrow> timed t0 es"
  by (auto simp: timed_def)

lemma timed_filter: "timed t0 es \<Longrightarrow> timed t0 (filter p es)"
  by (induction es arbitrary: t0) (auto intro: timed_later)

locale swept_table =
  fixes stp :: "time \<Rightarrow> 'op \<Rightarrow> 's \<Rightarrow> 'out \<times> 's"
    and swp :: "time \<Rightarrow> 's \<Rightarrow> 's"
    and view :: "time \<Rightarrow> 's \<Rightarrow> 'v"
  assumes view_output: "view t s = view t s' \<Longrightarrow> fst (stp t x s) = fst (stp t x s')"
    and view_step: "view t s = view t s' \<Longrightarrow> view t (snd (stp t x s)) = view t (snd (stp t x s'))"
    and view_later: "view t s = view t s' \<Longrightarrow> t \<le> t' \<Longrightarrow> view t' s = view t' s'"
    and view_sweep: "t \<le> t' \<Longrightarrow> view t' (swp t s) = view t' s"
begin

lemma run_view_cong:
  "timed t es \<Longrightarrow> view t s = view t s' \<Longrightarrow>
   fst (run_events stp swp (filter is_op es) s) = fst (run_events stp swp es s')"
proof (induction es arbitrary: t s s')
  case Nil
  then show ?case by simp
next
  case (Cons e es)
  show ?case
  proof (cases e)
    case (Op u x)
    then have u: "t \<le> u" "timed u es" using Cons.prems(1) by simp_all
    have v: "view u s = view u s'" using view_later [OF Cons.prems(2) u(1)] .
    have "fst (run_events stp swp (filter is_op es) (snd (stp u x s))) =
          fst (run_events stp swp es (snd (stp u x s')))"
      using Cons.IH [OF u(2) view_step [OF v]] .
    with view_output [OF v, of x] Op show ?thesis by (auto split: prod.splits)
  next
    case (Sweep u)
    then have u: "t \<le> u" "timed u es" using Cons.prems(1) by simp_all
    have "view u s = view u (swp u s')"
      using view_later [OF Cons.prems(2) u(1)] view_sweep [of u u s'] by simp
    from Cons.IH [OF u(2) this] Sweep show ?thesis by simp
  qed
qed

lemma sweeps_unobservable:
  "timed t es \<Longrightarrow> fst (run_events stp swp (filter is_op es) s) = fst (run_events stp swp es s)"
  by (rule run_view_cong) auto

end

end
