(* ===== verification/GoUrl.thy ===== *)
theory GoUrl
  imports Prelude
begin

text \<open>
  The part of Go's standard library that reads URLs: \<^verbatim>\<open>net/url.Parse\<close> with
  \<^verbatim>\<open>URL.Hostname\<close> and \<^verbatim>\<open>URL.Port\<close> (as of Go 1.26, which rejects bracketed hosts that are not
  IPv6 addresses and a second colon in the host of an http or https URL), and
  \<^verbatim>\<open>net.ParseIP\<close> with \<^verbatim>\<open>IP.IsLoopback\<close>. \<^verbatim>\<open>isAllowedRedirect\<close>, \<^verbatim>\<open>setCORSHeaders\<close>,
  \<^verbatim>\<open>isLoopbackRedirectURI\<close> and \<^verbatim>\<open>deriveRPID\<close> decide on what this parser returns, so its exact
  behaviour on odd inputs is what their safety rests on. An error is \<open>None\<close>. The fields of
  \<^verbatim>\<open>url.URL\<close> the program never reads (user, query, fragment) are only checked for validity.
\<close>

subsection \<open>Hexadecimal and percent escapes\<close>

definition is_hex :: "char \<Rightarrow> bool" where
  "is_hex c \<longleftrightarrow> (CHR ''0'' \<le> c \<and> c \<le> CHR ''9'') \<or> (CHR ''a'' \<le> c \<and> c \<le> CHR ''f'')
     \<or> (CHR ''A'' \<le> c \<and> c \<le> CHR ''F'')"

definition unhex :: "char \<Rightarrow> nat" where
  "unhex c =
     (if CHR ''0'' \<le> c \<and> c \<le> CHR ''9'' then of_char c - 48
      else if CHR ''a'' \<le> c \<and> c \<le> CHR ''f'' then of_char c - 87
      else if CHR ''A'' \<le> c \<and> c \<le> CHR ''F'' then of_char c - 55 else 0)"

definition is_alpha :: "char \<Rightarrow> bool" where
  "is_alpha c \<longleftrightarrow> (CHR ''a'' \<le> c \<and> c \<le> CHR ''z'') \<or> (CHR ''A'' \<le> c \<and> c \<le> CHR ''Z'')"

definition is_num :: "char \<Rightarrow> bool" where
  "is_num c \<longleftrightarrow> CHR ''0'' \<le> c \<and> c \<le> CHR ''9''"

datatype url_part = PathPart | FragmentPart | UserPart | HostPart | ZonePart

text \<open>\<^verbatim>\<open>shouldEscape(c, encodeHost)\<close>.\<close>

definition escape_in_host :: "char \<Rightarrow> bool" where
  "escape_in_host c \<longleftrightarrow>
     \<not> (is_alpha c \<or> is_num c \<or> c \<in> set ''!$&'' \<or> c = CHR 0x27 \<or> c \<in> set ''()*+,;=:[]<>'' \<or> c = CHR 0x22
        \<or> c \<in> set ''-_.~'')"

fun unescape :: "url_part \<Rightarrow> string \<Rightarrow> string option" where
  "unescape p [] = Some []"
| "unescape p (c # s) =
     (if c = CHR ''%'' then
        (case s of
           a # b # r \<Rightarrow>
             (let v = char_of (16 * unhex a + unhex b) in
              if \<not> (is_hex a \<and> is_hex b) then None
              else if p = HostPart \<and> unhex a < 8 \<and> [a, b] \<noteq> ''25'' then None
              else if p = ZonePart \<and> [a, b] \<noteq> ''25'' \<and> v \<noteq> CHR '' '' \<and> escape_in_host v then None
              else map_option (\<lambda>t. v # t) (unescape p r))
         | _ \<Rightarrow> None)
      else if (p = HostPart \<or> p = ZonePart) \<and> c < CHR 0x80 \<and> escape_in_host c then None
      else map_option (\<lambda>t. c # t) (unescape p s))"

subsection \<open>net/netip.ParseAddr\<close>

definition v4_octet :: "string \<Rightarrow> nat option" where
  "v4_octet s =
     (if s = [] \<or> length s > 3 \<or> \<not> (\<forall>c \<in> set s. is_num c) \<or> (length s > 1 \<and> hd s = CHR ''0'') then None
      else let v = foldl (\<lambda>a c. 10 * a + (of_char c - 48)) 0 s in if v > 255 then None else Some v)"

definition parse_v4 :: "string \<Rightarrow> nat list option" where
  "parse_v4 s =
     (case map v4_octet (split_on (CHR ''.'') s) of
        [Some a, Some b, Some c, Some d] \<Rightarrow> Some [a, b, c, d] | _ \<Rightarrow> None)"

definition hex_value :: "string \<Rightarrow> nat" where
  "hex_value s = foldl (\<lambda>a c. 16 * a + unhex c) 0 s"

text \<open>
  The loop of \<^verbatim>\<open>parseIPv6\<close>: the bytes so far, where the ellipsis was, and the rest of the text.
  The result is the same triple when the loop ends.
\<close>

function v6_loop :: "nat list \<Rightarrow> nat option \<Rightarrow> string \<Rightarrow> (nat list \<times> nat option \<times> string) option" where
  "v6_loop ip ell s =
     (if length ip \<ge> 16 then Some (ip, ell, s)
      else
        (let ds = takeWhile is_hex s; r = dropWhile is_hex s;
             ip' = ip @ [hex_value ds div 256, hex_value ds mod 256] in
         if ds = [] \<or> length ds > 4 then None
         else
           (case r of
              [] \<Rightarrow> Some (ip', ell, [])
            | c # r' \<Rightarrow>
                if c = CHR ''.'' then
                  (if ell = None \<and> length ip \<noteq> 12 \<or> length ip + 4 > 16 then None
                   else map_option (\<lambda>q. (ip @ q, ell, [])) (parse_v4 s))
                else if c \<noteq> CHR '':'' \<or> r' = [] then None
                else if hd r' = CHR '':'' then
                  (if ell \<noteq> None then None
                   else if tl r' = [] then Some (ip', Some (length ip'), [])
                   else v6_loop ip' (Some (length ip')) (tl r'))
                else v6_loop ip' ell r')))"
  by pat_completeness auto
termination
  by (relation "measure (\<lambda>(ip, _, _). 16 - length ip)") auto

declare v6_loop.simps [simp del]

definition v6_expand :: "nat list \<Rightarrow> nat option \<Rightarrow> nat list option" where
  "v6_expand ip ell =
     (case ell of
        None \<Rightarrow> if length ip < 16 then None else Some ip
      | Some e \<Rightarrow>
          if length ip < 16 then Some (take e ip @ replicate (16 - length ip) 0 @ drop e ip) else None)"

text \<open>The sixteen bytes of an IPv6 address and whether it has a zone.\<close>

definition parse_v6 :: "string \<Rightarrow> (nat list \<times> bool) option" where
  "parse_v6 s0 =
     (let zoned = CHR ''%'' \<in> set s0; s = before (CHR ''%'') s0 in
      if zoned \<and> after (CHR ''%'') s0 = [] then None
      else if s = ''::'' then Some (replicate 16 0, zoned)
      else
        (case (if prefix ''::'' s then v6_loop [] (Some 0) (drop 2 s) else v6_loop [] None s) of
           Some (ip, ell, []) \<Rightarrow> map_option (\<lambda>b. (b, zoned)) (v6_expand ip ell)
         | _ \<Rightarrow> None))"

datatype ip_addr = V4 "nat list" | V6 "nat list" bool

definition parse_addr :: "string \<Rightarrow> ip_addr option" where
  "parse_addr s =
     (case List.find (\<lambda>c. c \<in> set ''.:%'') s of
        Some c \<Rightarrow>
          (if c = CHR ''.'' then map_option V4 (parse_v4 s)
           else if c = CHR '':'' then map_option (\<lambda>(b, z). V6 b z) (parse_v6 s)
           else None)
      | None \<Rightarrow> None)"

text \<open>
  \<^verbatim>\<open>net.ParseIP(s)\<close> followed by \<^verbatim>\<open>IsLoopback\<close>: 127.0.0.0/8, also in its IPv4-mapped form, or ::1;
  addresses with a zone are not accepted.
\<close>

definition is_loopback_ip :: "string \<Rightarrow> bool" where
  "is_loopback_ip s =
     (case parse_addr s of
        Some (V4 b) \<Rightarrow> hd b = 127
      | Some (V6 b z) \<Rightarrow>
          \<not> z \<and> (if take 12 b = replicate 10 0 @ [255, 255] then b ! 12 = 127
                 else b = replicate 15 0 @ [1])
      | None \<Rightarrow> False)"

subsection \<open>net/url.Parse\<close>

record url =
  u_scheme :: string
  u_opaque :: string
  u_host :: string
  u_path :: string

definition empty_url :: url where
  "empty_url = \<lparr>u_scheme = [], u_opaque = [], u_host = [], u_path = []\<rparr>"

text \<open>\<^verbatim>\<open>getScheme\<close>: the scheme and the rest, or an error for a leading colon.\<close>

definition scheme_char :: "char \<Rightarrow> bool" where
  "scheme_char c \<longleftrightarrow> is_alpha c \<or> is_num c \<or> c \<in> set ''+-.''"

definition get_scheme :: "string \<Rightarrow> (string \<times> string) option" where
  "get_scheme s =
     (let p = takeWhile scheme_char s; r = dropWhile scheme_char s in
      if p = [] then (case r of c # _ \<Rightarrow> if c = CHR '':'' then None else Some ([], s) | [] \<Rightarrow> Some ([], s))
      else if \<not> is_alpha (hd p) then Some ([], s)
      else (case r of c # r' \<Rightarrow> if c = CHR '':'' then Some (p, r') else Some ([], s) | [] \<Rightarrow> Some ([], s)))"

text \<open>\<^verbatim>\<open>validOptionalPort\<close>: empty, or a colon and digits (possibly none).\<close>

definition valid_optional_port :: "string \<Rightarrow> bool" where
  "valid_optional_port s = (case s of [] \<Rightarrow> True | c # r \<Rightarrow> c = CHR '':'' \<and> (\<forall>d \<in> set r. is_num d))"

definition valid_userinfo :: "string \<Rightarrow> bool" where
  "valid_userinfo s \<longleftrightarrow>
     (\<forall>c \<in> set s. is_alpha c \<or> is_num c \<or> c \<in> set ''-._:~!$&'' \<or> c = CHR 0x27 \<or> c \<in> set ''()*+,;=%@'')"

definition userinfo_ok :: "string \<Rightarrow> bool" where
  "userinfo_ok s \<longleftrightarrow> valid_userinfo s \<and>
     (if CHR '':'' \<in> set s
      then unescape UserPart (before (CHR '':'') s) \<noteq> None \<and> unescape UserPart (after (CHR '':'') s) \<noteq> None
      else unescape UserPart s \<noteq> None)"

text \<open>The first position where \<^verbatim>\<open>%25\<close> starts, as the text before it and the text from it on.\<close>

fun split_zone :: "string \<Rightarrow> string \<times> string" where
  "split_zone [] = ([], [])"
| "split_zone (c # s) =
     (if prefix ''%25'' (c # s) then ([], c # s) else (case split_zone s of (a, b) \<Rightarrow> (c # a, b)))"

definition parse_bracket_host :: "string \<Rightarrow> string option" where
  "parse_bracket_host host =
     (let inner_on = after_last (CHR ''['') host in
      if CHR '']'' \<notin> set inner_on then None
      else
        (let colon_port = after_last (CHR '']'') inner_on; hostname = before_last (CHR '']'') inner_on in
         if \<not> valid_optional_port colon_port then None
         else
           (case split_zone hostname of (hpart, zpart) \<Rightarrow>
              (case (unescape HostPart hpart, unescape ZonePart zpart) of
                 (Some h, Some z) \<Rightarrow>
                   (case parse_addr (h @ z) of
                      Some (V6 _ _) \<Rightarrow> Some (''['' @ h @ z @ '']'' @ colon_port)
                    | _ \<Rightarrow> None)
               | _ \<Rightarrow> None))))"

definition parse_host :: "string \<Rightarrow> string \<Rightarrow> string option" where
  "parse_host scheme host =
     (if CHR ''['' \<in> set host then parse_bracket_host host
      else if CHR '':'' \<in> set host \<and>
              ((scheme = ''http'' \<or> scheme = ''https'') \<and> CHR '':'' \<in> set (after (CHR '':'') host)
               \<or> \<not> valid_optional_port (CHR '':'' # after_last (CHR '':'') host)) then None
      else unescape HostPart host)"

definition parse_authority :: "string \<Rightarrow> string \<Rightarrow> string option" where
  "parse_authority scheme a =
     (if CHR ''@'' \<in> set a then
        (case parse_host scheme (after_last (CHR ''@'') a) of
           None \<Rightarrow> None
         | Some h \<Rightarrow> if userinfo_ok (before_last (CHR ''@'') a) then Some h else None)
      else parse_host scheme a)"

definition has_ctl_byte :: "string \<Rightarrow> bool" where
  "has_ctl_byte s \<longleftrightarrow> (\<exists>c \<in> set s. c < CHR '' '' \<or> c = CHR 0x7F)"

text \<open>What follows the scheme, without the query.\<close>

definition strip_query :: "string \<Rightarrow> string" where
  "strip_query s = before (CHR ''?'') s"

definition parse_no_fragment :: "string \<Rightarrow> url option" where
  "parse_no_fragment raw =
     (if has_ctl_byte raw then None
      else if raw = ''*'' then Some (empty_url\<lparr>u_path := ''*''\<rparr>)
      else
        (case get_scheme raw of
           None \<Rightarrow> None
         | Some (sch, rest0) \<Rightarrow>
             (let scheme = to_lower sch; rest = strip_query rest0 in
              if \<not> prefix ''/'' rest \<and> scheme \<noteq> [] then
                Some (empty_url\<lparr>u_scheme := scheme, u_opaque := rest\<rparr>)
              else if \<not> prefix ''/'' rest \<and> CHR '':'' \<in> set (before (CHR ''/'') rest) then None
              else if prefix ''//'' rest \<and> (scheme \<noteq> [] \<or> \<not> prefix ''///'' rest) then
                (let a = drop 2 rest; authority = takeWhile (\<lambda>c. c \<noteq> CHR ''/'') a;
                     path = dropWhile (\<lambda>c. c \<noteq> CHR ''/'') a in
                 case parse_authority scheme authority of
                   None \<Rightarrow> None
                 | Some h \<Rightarrow>
                     map_option (\<lambda>p. empty_url\<lparr>u_scheme := scheme, u_host := h, u_path := p\<rparr>)
                       (unescape PathPart path))
              else map_option (\<lambda>p. empty_url\<lparr>u_scheme := scheme, u_path := p\<rparr>) (unescape PathPart rest))))"

definition url_parse :: "string \<Rightarrow> url option" where
  "url_parse raw =
     (case parse_no_fragment (before (CHR ''#'') raw) of
        None \<Rightarrow> None
      | Some u \<Rightarrow> if unescape FragmentPart (after (CHR ''#'') raw) = None then None else Some u)"

text \<open>\<^verbatim>\<open>URL.Hostname\<close> and \<^verbatim>\<open>URL.Port\<close>: split a valid port off, strip the brackets.\<close>

definition split_host_port :: "string \<Rightarrow> string \<times> string" where
  "split_host_port hp =
     (let (h, p) = (if CHR '':'' \<in> set hp \<and> valid_optional_port (CHR '':'' # after_last (CHR '':'') hp)
                    then (before_last (CHR '':'') hp, after_last (CHR '':'') hp) else (hp, [])) in
      (if prefix ''['' h \<and> suffix '']'' h then butlast (tl h) else h, p))"

definition url_hostname :: "url \<Rightarrow> string" where
  "url_hostname u = fst (split_host_port (u_host u))"

definition url_port :: "url \<Rightarrow> string" where
  "url_port u = snd (split_host_port (u_host u))"

text \<open>The host that \<^verbatim>\<open>net.SplitHostPort\<close> returns, or an error.\<close>

definition net_split_host :: "string \<Rightarrow> string option" where
  "net_split_host hp =
     (if CHR '':'' \<notin> set hp then None
      else if hd hp = CHR ''['' then
        (let inner = before (CHR '']'') (tl hp); r = after (CHR '']'') hp in
         if CHR '']'' \<notin> set hp then None
         else if r = [] then None
         else if hd r \<noteq> CHR '':'' \<or> CHR '':'' \<in> set (tl r) then None
         else if CHR ''['' \<in> set (tl hp) then None
         else if CHR '']'' \<in> set r then None
         else Some inner)
      else
        (let host = before_last (CHR '':'') hp in
         if CHR '':'' \<in> set host then None
         else if CHR ''['' \<in> set hp \<or> CHR '']'' \<in> set hp then None
         else Some host))"

subsection \<open>URLs of plain characters\<close>

text \<open>
  What the parser returns for a URL put together from a scheme, a host of letters, digits, dots and
  hyphens, an optional port and a path without escapes.
\<close>

definition plain_host :: "string \<Rightarrow> bool" where
  "plain_host h \<longleftrightarrow> h \<noteq> [] \<and> (\<forall>c \<in> set h. is_alpha c \<or> is_num c \<or> c = CHR ''.'' \<or> c = CHR ''-'')"

definition plain_path :: "string \<Rightarrow> bool" where
  "plain_path p \<longleftrightarrow> (p = [] \<or> hd p = CHR ''/'') \<and>
     (\<forall>c \<in> set p. CHR '' '' \<le> c \<and> c \<noteq> CHR 0x7F \<and> c \<noteq> CHR ''%'' \<and> c \<noteq> CHR ''#'' \<and> c \<noteq> CHR ''?'')"

lemma before_all: "c \<notin> set s \<Longrightarrow> before c s = s \<and> after c s = []"
  by simp

lemma plain_host_not:
  assumes "plain_host h" and "\<not> (is_alpha c \<or> is_num c \<or> c = CHR ''.'' \<or> c = CHR ''-'')"
  shows "c \<notin> set h"
  using assms unfolding plain_host_def by auto

lemma plain_host_chars [simp]:
  assumes "plain_host h"
  shows "CHR ''%'' \<notin> set h" "CHR ''#'' \<notin> set h" "CHR ''?'' \<notin> set h" "CHR '':'' \<notin> set h"
    "CHR ''/'' \<notin> set h" "CHR ''@'' \<notin> set h" "CHR ''['' \<notin> set h"
  by (rule plain_host_not [OF assms]; code_simp)+

lemma unescape_host_id:
  "(\<forall>c \<in> set h. c \<noteq> CHR ''%'' \<and> \<not> escape_in_host c) \<Longrightarrow> unescape HostPart h = Some h"
  by (induction h) auto

lemma unescape_other_id:
  "CHR ''%'' \<notin> set p \<Longrightarrow> q \<noteq> HostPart \<Longrightarrow> q \<noteq> ZonePart \<Longrightarrow> unescape q p = Some p"
  by (induction p) auto

lemma digits_not: "\<forall>d \<in> set ds. is_num d \<Longrightarrow> \<not> is_num c \<Longrightarrow> c \<notin> set ds"
  by blast

lemma valid_optional_port_cases:
  assumes "valid_optional_port port"
  obtains "port = []" | ds where "port = CHR '':'' # ds" "\<forall>d \<in> set ds. is_num d" "CHR '':'' \<notin> set ds"
    "CHR ''/'' \<notin> set ds" "CHR ''@'' \<notin> set ds" "CHR ''['' \<notin> set ds" "CHR ''%'' \<notin> set ds"
    "CHR ''#'' \<notin> set ds" "CHR ''?'' \<notin> set ds"
proof (cases port)
  case Nil
  then show thesis by (rule that(1))
next
  case (Cons c ds)
  with assms have c: "c = CHR '':''" and n: "\<forall>d \<in> set ds. is_num d"
    by (simp_all add: valid_optional_port_def)
  show thesis
    by (rule that(2) [of ds]; (simp add: Cons c n)?; rule digits_not [OF n]; code_simp)
qed

lemma host_char_ok: "is_alpha c \<or> is_num c \<or> c = CHR ''.'' \<or> c = CHR ''-'' \<or> c = CHR '':'' \<Longrightarrow> \<not> escape_in_host c"
  unfolding escape_in_host_def by auto

lemma plain_char_ge: "is_alpha c \<or> is_num c \<or> c = CHR ''.'' \<or> c = CHR ''-'' \<or> c = CHR '':'' \<Longrightarrow> CHR '' '' \<le> c \<and> c \<noteq> CHR 0x7F"
proof -
  assume a: "is_alpha c \<or> is_num c \<or> c = CHR ''.'' \<or> c = CHR ''-'' \<or> c = CHR '':''"
  have "(48::nat) \<le> of_char c \<and> (of_char c :: nat) \<le> 122 \<or> c = CHR ''.'' \<or> c = CHR ''-''"
    using a unfolding is_alpha_def is_num_def less_eq_char_def by auto
  then show ?thesis
    by (auto simp: less_eq_char_def)
qed

lemma after_last_sep [simp]: "c \<notin> set b \<Longrightarrow> after_last c (a @ c # b) = b"
  by (simp add: after_last_def)

lemma before_last_sep [simp]: "c \<notin> set b \<Longrightarrow> before_last c (a @ c # b) = a"
  by (simp add: before_last_def)

lemma host_port_chars:
  assumes "plain_host h" and "valid_optional_port port" and "c \<in> set (h @ port)"
  shows "is_alpha c \<or> is_num c \<or> c = CHR ''.'' \<or> c = CHR ''-'' \<or> c = CHR '':''"
  using assms(3) assms(1)
  by (cases rule: valid_optional_port_cases [OF assms(2)]) (auto simp: plain_host_def)

lemma unescape_host_port:
  assumes "plain_host h" and "valid_optional_port port"
  shows "unescape HostPart (h @ port) = Some (h @ port)"
proof (rule unescape_host_id, rule ballI)
  fix c assume "c \<in> set (h @ port)"
  then have *: "is_alpha c \<or> is_num c \<or> c = CHR ''.'' \<or> c = CHR ''-'' \<or> c = CHR '':''"
    by (rule host_port_chars [OF assms])
  then have "c \<noteq> CHR ''%''" by (auto simp: is_alpha_def is_num_def less_eq_char_def)
  with host_char_ok [OF *] show "c \<noteq> CHR ''%'' \<and> \<not> escape_in_host c" by simp
qed

lemma parse_authority_plain:
  assumes "plain_host h" and "valid_optional_port port"
  shows "parse_authority sch (h @ port) = Some (h @ port)"
  using assms unescape_host_port [OF assms]
  by (cases rule: valid_optional_port_cases [OF assms(2)])
    (auto simp: parse_authority_def parse_host_def valid_optional_port_def)

lemma split_host_port_plain:
  assumes "plain_host h" and "valid_optional_port port"
  shows "split_host_port (h @ port) = (h, drop 1 port)"
proof -
  have "\<not> prefix ''['' h" using assms(1) by (cases h) (auto simp: plain_host_def is_alpha_def is_num_def less_eq_char_def)
  then show ?thesis using assms(1)
    by (cases rule: valid_optional_port_cases [OF assms(2)])
      (auto simp: split_host_port_def valid_optional_port_def Let_def)
qed

lemma plain_path_not: 
  assumes "plain_path p"
  shows "CHR ''%'' \<notin> set p" "CHR ''#'' \<notin> set p" "CHR ''?'' \<notin> set p"
  using assms unfolding plain_path_def by auto

lemma takeWhile_authority:
  assumes "plain_host h" and "valid_optional_port port" and "plain_path p"
  shows "takeWhile (\<lambda>c. c \<noteq> CHR ''/'') (h @ port @ p) = h @ port"
    and "dropWhile (\<lambda>c. c \<noteq> CHR ''/'') (h @ port @ p) = p"
proof -
  have n: "\<forall>c \<in> set (h @ port). c \<noteq> CHR ''/''"
    using assms(1) by (cases rule: valid_optional_port_cases [OF assms(2)]) auto
  have p: "p = [] \<or> hd p = CHR ''/''" using assms(3) by (simp add: plain_path_def)
  show "takeWhile (\<lambda>c. c \<noteq> CHR ''/'') (h @ port @ p) = h @ port"
    using takeWhile_append2 [of "h @ port" "\<lambda>c. c \<noteq> CHR ''/''" p] n p by (cases p) auto
  show "dropWhile (\<lambda>c. c \<noteq> CHR ''/'') (h @ port @ p) = p"
    using dropWhile_append2 [of "h @ port" "\<lambda>c. c \<noteq> CHR ''/''" p] n p by (cases p) auto
qed

lemma authority_chars:
  assumes "plain_host h" and "valid_optional_port port" and "plain_path p"
  shows "\<not> has_ctl_byte (h @ port @ p)" "CHR ''#'' \<notin> set (h @ port @ p)" "CHR ''?'' \<notin> set (h @ port @ p)"
proof -
  have "CHR '' '' \<le> c \<and> c \<noteq> CHR 0x7F" if "c \<in> set (h @ port @ p)" for c
  proof (cases "c \<in> set p")
    case True then show ?thesis using assms(3) unfolding plain_path_def by blast
  next
    case False then have "c \<in> set (h @ port)" using that by auto
    then show ?thesis using plain_char_ge host_port_chars [OF assms(1,2)] by blast
  qed
  then show "\<not> has_ctl_byte (h @ port @ p)"
    unfolding has_ctl_byte_def by (meson leD)
  show "CHR ''#'' \<notin> set (h @ port @ p)" "CHR ''?'' \<notin> set (h @ port @ p)"
    using assms(1) plain_path_not [OF assms(3)]
    by (cases rule: valid_optional_port_cases [OF assms(2)]; simp)+
qed

lemma has_ctl_byte_append: "has_ctl_byte (a @ b) \<longleftrightarrow> has_ctl_byte a \<or> has_ctl_byte b"
  by (auto simp: has_ctl_byte_def)

lemma parse_absolute_body:
  assumes h: "plain_host h" "valid_optional_port port" "plain_path p"
    and scheme: "get_scheme (pre @ ''//'' @ h @ port @ p) = Some (sch, ''//'' @ h @ port @ p)"
    and pre: "\<not> has_ctl_byte pre" "CHR ''#'' \<notin> set pre"
  shows "url_parse (pre @ ''//'' @ h @ port @ p) =
           Some \<lparr>u_scheme = to_lower sch, u_opaque = [], u_host = h @ port, u_path = p\<rparr>"
proof -
  let ?b = "h @ port @ p"
  obtain c h' where hc: "h = c # h'" "c \<noteq> CHR ''/''"
    using h(1) plain_host_chars(5) [OF h(1)] by (cases h) (auto simp: plain_host_def)
  have ctl: "\<not> has_ctl_byte (pre @ ''//'' @ ?b)"
    using pre(1) authority_chars(1) [OF h] unfolding has_ctl_byte_append by (simp add: has_ctl_byte_def)
  have noh: "CHR ''#'' \<notin> set (pre @ ''//'' @ ?b)"
    using pre(2) authority_chars(2) [OF h] by simp
  have q: "strip_query (''//'' @ ?b) = ''//'' @ ?b"
    unfolding strip_query_def using authority_chars(3) [OF h] by (intro before_no_sep) simp
  have star: "pre @ ''//'' @ ?b \<noteq> ''*''" by (cases pre) auto
  have np: "\<not> prefix ''///'' (''//'' @ ?b)" using hc by simp
  have d2: "drop 2 (''//'' @ ?b) = ?b" by simp
  have "parse_no_fragment (pre @ ''//'' @ ?b) =
     Some \<lparr>u_scheme = to_lower sch, u_opaque = [], u_host = h @ port, u_path = p\<rparr>"
    unfolding parse_no_fragment_def Let_def scheme option.case prod.case q
    unfolding d2 takeWhile_authority [OF h] parse_authority_plain [OF h(1,2)]
    using ctl star np
    by (simp add: unescape_other_id plain_path_not [OF h(3)] empty_url_def)
  then show ?thesis using before_all [OF noh] by (simp add: url_parse_def)
qed

lemma url_parse_https:
  assumes "plain_host h" "valid_optional_port port" "plain_path p"
  shows "url_parse (''https://'' @ h @ port @ p) =
           Some \<lparr>u_scheme = ''https'', u_opaque = [], u_host = h @ port, u_path = p\<rparr>"
proof -
  have "get_scheme (''https:'' @ ''//'' @ h @ port @ p) = Some (''https'', ''//'' @ h @ port @ p)"
    by (simp add: get_scheme_def scheme_char_def is_alpha_def is_num_def less_eq_char_def)
  from parse_absolute_body [OF assms this] show ?thesis
    by (simp add: has_ctl_byte_def to_lower_def lower_char_def less_char_def less_eq_char_def)
qed

lemma url_parse_http:
  assumes "plain_host h" "valid_optional_port port" "plain_path p"
  shows "url_parse (''http://'' @ h @ port @ p) =
           Some \<lparr>u_scheme = ''http'', u_opaque = [], u_host = h @ port, u_path = p\<rparr>"
proof -
  have "get_scheme (''http:'' @ ''//'' @ h @ port @ p) = Some (''http'', ''//'' @ h @ port @ p)"
    by (simp add: get_scheme_def scheme_char_def is_alpha_def is_num_def less_eq_char_def)
  from parse_absolute_body [OF assms this] show ?thesis
    by (simp add: has_ctl_byte_def to_lower_def lower_char_def less_char_def less_eq_char_def)
qed

lemma url_parse_no_scheme:
  assumes "plain_host h" "valid_optional_port port" "plain_path p"
  shows "url_parse (''//'' @ h @ port @ p) =
           Some \<lparr>u_scheme = '''', u_opaque = [], u_host = h @ port, u_path = p\<rparr>"
proof -
  have "get_scheme ([] @ ''//'' @ h @ port @ p) = Some ('''', ''//'' @ h @ port @ p)"
    by (simp add: get_scheme_def scheme_char_def is_alpha_def is_num_def less_eq_char_def)
  from parse_absolute_body [OF assms this] show ?thesis
    by (simp add: has_ctl_byte_def to_lower_def)
qed

end
