(* ===== verification/RateLimit.thy ===== *)
theory RateLimit
  imports Sweeping GoUrl
begin

text \<open>
  \<^verbatim>\<open>ratelimit.go\<close>: the fixed-window rate limiter in front of the token endpoint, the ceremony
  endpoints and the grant check, with its background sweep, and the extraction of the client
  address. Calls are atomic (each holds the limiter's mutex) and are stamped with the clock reading
  \<^verbatim>\<open>now\<close>; counts are unbounded integers (a Go \<^verbatim>\<open>int\<close> would need 2^63 requests in one window to
  wrap).
\<close>

record window_entry =
  we_count :: int
  we_start :: time

record keyed_limiter =
  rl_entries :: "string \<rightharpoonup> window_entry"
  rl_limit :: int
  rl_window :: time

definition new_keyed_limiter :: "int \<Rightarrow> time \<Rightarrow> keyed_limiter" where
  "new_keyed_limiter limit window = \<lparr>rl_entries = Map.empty, rl_limit = limit, rl_window = window\<rparr>"

definition token_endpoint_limit :: int where "token_endpoint_limit = 60"
definition token_endpoint_window :: time where "token_endpoint_window = minute"
definition ceremony_begin_limit :: int where "ceremony_begin_limit = 10"
definition ceremony_begin_window :: time where "ceremony_begin_window = minute"
definition grants_check_limit :: int where "grants_check_limit = 60"
definition grants_check_window :: time where "grants_check_window = minute"

definition allow :: "time \<Rightarrow> string \<Rightarrow> keyed_limiter \<Rightarrow> (bool \<times> int) \<times> keyed_limiter" where
  "allow now key rl =
     (case rl_entries rl key of
        None \<Rightarrow>
          ((True, 1), rl\<lparr>rl_entries := (rl_entries rl)(key \<mapsto> \<lparr>we_count = 1, we_start = now\<rparr>)\<rparr>)
      | Some e \<Rightarrow>
          if now - we_start e > rl_window rl then
            ((True, 1), rl\<lparr>rl_entries := (rl_entries rl)(key \<mapsto> \<lparr>we_count = 1, we_start = now\<rparr>)\<rparr>)
          else
            (let e' = e\<lparr>we_count := we_count e + 1\<rparr> in
             ((we_count e' \<le> rl_limit rl, we_count e'), rl\<lparr>rl_entries := (rl_entries rl)(key \<mapsto> e')\<rparr>)))"

definition sweep_limiter :: "time \<Rightarrow> keyed_limiter \<Rightarrow> keyed_limiter" where
  "sweep_limiter now rl =
     (let cutoff = now - rl_window rl in
      rl\<lparr>rl_entries := (\<lambda>k. case rl_entries rl k of
             None \<Rightarrow> None
           | Some e \<Rightarrow> if we_start e < cutoff then None else Some e)\<rparr>)"

definition client_ip :: "string \<Rightarrow> string \<Rightarrow> string" where
  "client_ip x_real_ip remote_addr =
     (if x_real_ip \<noteq> '''' then x_real_ip
      else (case net_split_host remote_addr of None \<Rightarrow> remote_addr | Some host \<Rightarrow> host))"

subsection \<open>A sweep is not observable\<close>

text \<open>What a limiter still knows at time \<open>t\<close>: its live windows.\<close>

definition live_entries :: "time \<Rightarrow> keyed_limiter \<Rightarrow> (string \<rightharpoonup> window_entry) \<times> int \<times> time" where
  "live_entries t rl =
     (\<lambda>k. case rl_entries rl k of
        None \<Rightarrow> None
      | Some e \<Rightarrow> if t - we_start e > rl_window rl then None else Some e, rl_limit rl, rl_window rl)"

lemma live_entries_key:
  "live_entries t rl = (m, n, w) \<Longrightarrow>
   m k = (case rl_entries rl k of None \<Rightarrow> None
          | Some e \<Rightarrow> if t - we_start e > w then None else Some e)
   \<and> rl_limit rl = n \<and> rl_window rl = w"
  by (auto simp: live_entries_def)

text \<open>\<open>allow\<close> as a function of the live windows only.\<close>

definition allow_live :: "time \<Rightarrow> window_entry option \<Rightarrow> int \<Rightarrow> (bool \<times> int) \<times> window_entry" where
  "allow_live now e limit =
     (case e of
        None \<Rightarrow> ((True, 1), \<lparr>we_count = 1, we_start = now\<rparr>)
      | Some e \<Rightarrow> ((we_count e + 1 \<le> limit, we_count e + 1), e\<lparr>we_count := we_count e + 1\<rparr>))"

lemma allow_eq_live:
  "allow now k rl =
     (case allow_live now (fst (live_entries now rl) k) (rl_limit rl) of
        (r, e) \<Rightarrow> (r, rl\<lparr>rl_entries := (rl_entries rl)(k \<mapsto> e)\<rparr>))"
  by (auto simp: allow_def allow_live_def live_entries_def Let_def split: option.splits)

lemma live_entries_upd:
  "live_entries t (rl\<lparr>rl_entries := (rl_entries rl)(k \<mapsto> e)\<rparr>) =
     ((fst (live_entries t rl))(k := if t - we_start e > rl_window rl then None else Some e),
      rl_limit rl, rl_window rl)"
  by (auto simp: live_entries_def fun_eq_iff split: option.splits)

lemma live_entries_later:
  "t \<le> t' \<Longrightarrow> live_entries t' rl =
     (\<lambda>k. case fst (live_entries t rl) k of
        None \<Rightarrow> None
      | Some e \<Rightarrow> if t' - we_start e > rl_window rl then None else Some e, rl_limit rl, rl_window rl)"
  by (auto simp: live_entries_def fun_eq_iff split: option.splits)

lemma live_entries_config: "live_entries t a = live_entries t b \<Longrightarrow> rl_limit a = rl_limit b \<and> rl_window a = rl_window b"
  by (simp add: live_entries_def)

lemma live_entries_sweep: "t \<le> t' \<Longrightarrow> live_entries t' (sweep_limiter t rl) = live_entries t' rl"
  by (auto simp: live_entries_def sweep_limiter_def Let_def fun_eq_iff split: option.splits)

interpretation limiter: swept_table allow sweep_limiter live_entries
proof
  fix t :: time and s s' :: keyed_limiter and x :: string
  assume v: "live_entries t s = live_entries t s'"
  show "fst (allow t x s) = fst (allow t x s')"
    using v live_entries_config [OF v] by (simp add: allow_eq_live split: prod.splits)
  show "live_entries t (snd (allow t x s)) = live_entries t (snd (allow t x s'))"
    using v live_entries_config [OF v] by (simp add: allow_eq_live live_entries_upd split: prod.splits)
next
  fix t t' :: time and s s' :: keyed_limiter
  assume v: "live_entries t s = live_entries t s'" and "t \<le> t'"
  then show "live_entries t' s = live_entries t' s'"
    using live_entries_config [OF v] by (simp add: live_entries_later cong: option.case_cong)
qed (rule live_entries_sweep)

subsection \<open>The reference: one key's requests alone\<close>

text \<open>
  The decisions a key gets, computed from the times of its own requests only: the state is the
  start of the current window and the number of requests in it.
\<close>

fun window_decisions :: "int \<Rightarrow> time \<Rightarrow> (int \<times> time) option \<Rightarrow> time list \<Rightarrow> bool list" where
  "window_decisions limit window st [] = []"
| "window_decisions limit window None (t # ts) =
     True # window_decisions limit window (Some (1, t)) ts"
| "window_decisions limit window (Some (c, s)) (t # ts) =
     (if t - s > window then True # window_decisions limit window (Some (1, t)) ts
      else (c + 1 \<le> limit) # window_decisions limit window (Some (c + 1, s)) ts)"

text \<open>The times and the decisions of the requests of key \<open>k\<close> in a schedule without sweeps.\<close>

fun key_times :: "string \<Rightarrow> string event list \<Rightarrow> time list" where
  "key_times k [] = []"
| "key_times k (Op t x # es) = (if x = k then t # key_times k es else key_times k es)"
| "key_times k (Sweep t # es) = key_times k es"

fun key_outputs :: "string \<Rightarrow> string event list \<Rightarrow> 'out list \<Rightarrow> 'out list" where
  "key_outputs k (Op t x # es) (r # rs) = (if x = k then r # key_outputs k es rs else key_outputs k es rs)"
| "key_outputs k (Sweep t # es) rs = key_outputs k es rs"
| "key_outputs k _ _ = []"

definition decisions :: "string \<Rightarrow> string event list \<Rightarrow> keyed_limiter \<Rightarrow> bool list" where
  "decisions k es rl = map fst (key_outputs k es (fst (run_events allow sweep_limiter es rl)))"

definition entry_state :: "keyed_limiter \<Rightarrow> string \<Rightarrow> (int \<times> time) option" where
  "entry_state rl k = map_option (\<lambda>e. (we_count e, we_start e)) (rl_entries rl k)"

lemma allow_other_key: "k \<noteq> x \<Longrightarrow> entry_state (snd (allow t x rl)) k = entry_state rl k"
  by (auto simp: allow_def entry_state_def Let_def split: option.splits)

lemma allow_config [simp]:
  "rl_limit (snd (allow t x rl)) = rl_limit rl" "rl_window (snd (allow t x rl)) = rl_window rl"
  by (auto simp: allow_def Let_def split: option.splits)

lemma decisions_no_sweep:
  "list_all is_op es \<Longrightarrow>
   map fst (key_outputs k es (fst (run_events allow sweep_limiter es rl))) =
     window_decisions (rl_limit rl) (rl_window rl) (entry_state rl k) (key_times k es)"
proof (induction es arbitrary: rl)
  case Nil
  then show ?case by simp
next
  case (Cons e es)
  then obtain t x where e: "e = Op t x" by (cases e) auto
  let ?rl = "snd (allow t x rl)"
  have IH: "map fst (key_outputs k es (fst (run_events allow sweep_limiter es ?rl))) =
     window_decisions (rl_limit rl) (rl_window rl) (entry_state ?rl k) (key_times k es)"
    using Cons.IH [of ?rl] Cons.prems by simp
  show ?case
  proof (cases "x = k")
    case False
    then show ?thesis using IH e allow_other_key [of k x t rl]
      by (simp add: run_events_Op del: run_events.simps)
  next
    case True
    have step: "window_decisions (rl_limit rl) (rl_window rl) (entry_state rl k) (t # key_times k es) =
       fst (fst (allow t k rl)) #
         window_decisions (rl_limit rl) (rl_window rl) (entry_state (snd (allow t k rl)) k) (key_times k es)"
      by (auto simp: allow_def entry_state_def Let_def split: option.splits)
    then show ?thesis using IH e True by (simp add: run_events_Op del: run_events.simps)
  qed
qed

lemma key_times_filter [simp]: "key_times k (filter is_op es) = key_times k es"
  by (induction k es rule: key_times.induct) auto

lemma key_outputs_filter [simp]:
  "key_outputs k (filter is_op es) rs = key_outputs k es rs"
proof (induction es arbitrary: rs)
  case (Cons e es)
  then show ?case by (cases e; cases rs) auto
qed simp

lemma decisions_reference:
  "timed t0 es \<Longrightarrow> decisions k es rl =
     window_decisions (rl_limit rl) (rl_window rl) (entry_state rl k) (key_times k es)"
  using decisions_no_sweep [of "filter is_op es" k rl] limiter.sweeps_unobservable [of t0 es rl]
  by (simp add: decisions_def list_all_iff)

lemma entry_state_new [simp]: "entry_state (new_keyed_limiter n w) k = None"
  by (simp add: entry_state_def new_keyed_limiter_def)

subsection \<open>How many requests get through\<close>

definition allowed_within :: "time \<Rightarrow> time \<Rightarrow> time list \<Rightarrow> bool list \<Rightarrow> nat" where
  "allowed_within a b ts ds = length (filter (\<lambda>(t, d). d \<and> a \<le> t \<and> t \<le> b) (zip ts ds))"

lemma allowed_within_Nil [simp]: "allowed_within a b [] ds = 0"
  by (simp add: allowed_within_def)

lemma allowed_within_Cons [simp]:
  "allowed_within a b (t # ts) (d # ds) =
     (if d \<and> a \<le> t \<and> t \<le> b then 1 else 0) + allowed_within a b ts ds"
  by (simp add: allowed_within_def)

lemma allowed_after_end:
  "sorted (t # ts) \<Longrightarrow> b < t \<Longrightarrow> allowed_within a b ts ds = 0"
proof (induction ts arbitrary: ds t)
  case (Cons u ts)
  then show ?case by (cases ds) (auto simp: allowed_within_def)
qed simp

lemma allowed_in_window:
  assumes "sorted ts" "a \<le> s" "1 \<le> c" "1 \<le> L" "limit \<le> L" "0 \<le> w"
  shows "int (allowed_within a (a + w) ts (window_decisions limit w (Some (c, s)) ts)) \<le> max 0 (L - c)"
  using assms
proof (induction ts arbitrary: c)
  case (Cons t ts)
  show ?case
  proof (cases "t - s > w")
    case True
    then have "a + w < t" using Cons.prems by simp
    then show ?thesis using True Cons.prems allowed_after_end [of t ts "a + w"] by simp
  next
    case False
    then show ?thesis using Cons.IH [of "c + 1"] Cons.prems by (auto split: if_splits)
  qed
qed simp

lemma allowed_two_windows:
  assumes "sorted ts" "\<forall>t \<in> set ts. a \<le> t" "1 \<le> c" "1 \<le> L" "limit \<le> L" "0 \<le> w"
  shows "int (allowed_within a (a + w) ts (window_decisions limit w (Some (c, s)) ts)) \<le> max 0 (L - c) + L"
  using assms
proof (induction ts arbitrary: c)
  case (Cons t ts)
  show ?case
  proof (cases "t - s > w")
    case True
    have "int (allowed_within a (a + w) ts (window_decisions limit w (Some (1, t)) ts)) \<le> max 0 (L - 1)"
      using Cons.prems by (intro allowed_in_window) auto
    then show ?thesis using True Cons.prems by auto
  next
    case False
    then show ?thesis using Cons.IH [of "c + 1"] Cons.prems by (auto split: if_splits)
  qed
qed simp

lemma allowed_bound:
  assumes "sorted ts" "1 \<le> L" "limit \<le> L" "0 \<le> w" "\<forall>c s. st = Some (c, s) \<longrightarrow> 1 \<le> c"
  shows "int (allowed_within a (a + w) ts (window_decisions limit w st ts)) \<le> 2 * L"
  using assms
proof (induction ts arbitrary: st)
  case (Cons t ts)
  show ?case
  proof (cases "a \<le> t")
    case False
    obtain d st' where "window_decisions limit w st (t # ts) = d # window_decisions limit w st' ts"
      and "\<forall>c s. st' = Some (c, s) \<longrightarrow> 1 \<le> c"
      using Cons.prems(5) by (cases st) (force split: if_splits)+
    then show ?thesis using Cons.IH [of st'] Cons.prems False by simp
  next
    case True
    then have ge: "\<forall>u \<in> set (t # ts). a \<le> u" using Cons.prems(1) by auto
    show ?thesis
    proof (cases st)
      case None
      have "int (allowed_within a (a + w) ts (window_decisions limit w (Some (1, t)) ts)) \<le> max 0 (L - 1)"
        using Cons.prems True by (intro allowed_in_window) auto
      then show ?thesis using None Cons.prems by auto
    next
      case (Some p)
      then obtain c s where st: "st = Some (c, s)" "1 \<le> c" using Cons.prems(5) by (cases p) auto
      show ?thesis
        using allowed_two_windows [OF Cons.prems(1) ge st(2) Cons.prems(2,3,4), of s] st Cons.prems(2) by simp
    qed
  qed
qed simp

text \<open>A key whose requests never exceed the limit in any window-length span is never refused.\<close>

definition recent :: "time \<Rightarrow> time \<Rightarrow> time list \<Rightarrow> int" where
  "recent w t ts = int (length (filter (\<lambda>u. t - w \<le> u \<and> u \<le> t) ts))"

lemma recent_append: "recent w t (a @ b) = recent w t a + recent w t b"
  by (simp add: recent_def)

lemma never_refused:
  assumes "sorted (past @ ts)" "0 \<le> w"
    and "\<forall>n < length ts. recent w (ts ! n) (past @ take (Suc n) ts) \<le> limit"
    and "\<forall>c s. st = Some (c, s) \<longrightarrow> c \<le> int (length (filter (\<lambda>u. s \<le> u) past)) \<and> 1 \<le> c"
  shows "\<forall>d \<in> set (window_decisions limit w st ts). d"
  using assms
proof (induction ts arbitrary: past st)
  case (Cons t ts)
  have rest: "\<forall>n < length ts. recent w (ts ! n) ((past @ [t]) @ take (Suc n) ts) \<le> limit"
    using Cons.prems(3) by (force dest: spec [of _ "Suc _"])
  have now: "recent w t (past @ [t]) \<le> limit" using Cons.prems(3) by force
  have srt: "sorted ((past @ [t]) @ ts)" using Cons.prems(1) by simp
  have IH: "\<forall>d \<in> set (window_decisions limit w (Some (c, s)) ts). d"
    if "c \<le> int (length (filter (\<lambda>u. s \<le> u) (past @ [t])))" "1 \<le> c" for c s
    using Cons.IH [OF srt Cons.prems(2) rest, of "Some (c, s)"] that by auto
  have fresh: "\<forall>d \<in> set (window_decisions limit w (Some (1, t)) ts). d"
    by (rule IH) simp_all
  show ?case
  proof (cases st)
    case None
    then show ?thesis using fresh by simp
  next
    case (Some p)
    then obtain c s where st: "st = Some (c, s)" by (cases p) simp
    then have c: "c \<le> int (length (filter (\<lambda>u. s \<le> u) past))" "1 \<le> c" using Cons.prems(4) by simp_all
    show ?thesis
    proof (cases "t - s > w")
      case True
      then show ?thesis using fresh st by simp
    next
      case False
      have past: "\<forall>u \<in> set past. u \<le> t" using Cons.prems(1) by (auto simp: sorted_append)
      have "length (filter (\<lambda>u. s \<le> u) past) \<le> length (filter (\<lambda>u. t - w \<le> u \<and> u \<le> t) past)"
        using past False by (induction past) auto
      then have "c + 1 \<le> recent w t (past @ [t])"
        using c Cons.prems(2) by (simp add: recent_def)
      with now have ok: "c + 1 \<le> limit" by linarith
      have "filter (\<lambda>u. s \<le> u) past \<noteq> []" using c by auto
      then have "s \<le> t" using past by (auto simp: filter_empty_conv)
      then have "\<forall>d \<in> set (window_decisions limit w (Some (c + 1, s)) ts). d"
        using c by (intro IH) simp_all
      then show ?thesis using st False ok by simp
    qed
  qed
qed simp

subsection \<open>Properties\<close>

text \<open>The requests of two clients, with a sweep between them: an example schedule.\<close>

definition demo_schedule :: "string event list" where
  "demo_schedule = [Op 0 ''a'', Op 1 ''b'', Op 5 ''a'', Op 6 ''a'', Sweep 7, Op 20 ''a'']"

text \<open>C26: The limiter treats every client as if it were alone and swept tables were never forgotten: whatever the other
  clients' requests and whenever the background sweep runs, the decisions a client gets are those of a fixed-window
  counter over the times of its own requests.\<close>

theorem limiter_per_client:
  assumes "timed t0 es"
  shows "decisions k es (new_keyed_limiter limit window) = window_decisions limit window None (key_times k es)"
  using decisions_reference [OF assms, of k "new_keyed_limiter limit window"] by (simp add: new_keyed_limiter_def entry_state_def)

theorem limiter_per_client_witness:
  "decisions ''a'' demo_schedule (new_keyed_limiter 2 10) = [True, True, False, True]"
proof -
  have "timed 0 demo_schedule" "window_decisions 2 10 None (key_times ''a'' demo_schedule) = [True, True, False, True]"
    by code_simp+
  then show ?thesis using limiter_per_client [of 0 demo_schedule "''a''" 2 10] by simp
qed

text \<open>C25: The limit bounds what gets through: in any span of time as long as the window, a client is allowed at most twice
  the limit, whatever the order of requests and sweeps.\<close>

theorem limiter_bound:
  assumes "timed t0 es" "1 \<le> limit" "0 \<le> window"
  shows "int (allowed_within a (a + window) (key_times k es) (decisions k es (new_keyed_limiter limit window))) \<le> 2 * limit"
proof -
  have "sorted (key_times k es) \<and> (\<forall>t \<in> set (key_times k es). t0 \<le> t)"
    using assms(1) by (induction k es arbitrary: t0 rule: key_times.induct) force+
  then show ?thesis
    using decisions_reference [OF assms(1), of k "new_keyed_limiter limit window"] assms(2,3)
      allowed_bound [of "key_times k es" limit limit window None a]
    by (simp add: new_keyed_limiter_def entry_state_def)
qed

theorem limiter_bound_witness:
  "int (allowed_within 0 10 (key_times ''a'' demo_schedule) (decisions ''a'' demo_schedule (new_keyed_limiter 2 10))) \<le> 4"
proof -
  have "timed 0 demo_schedule" by code_simp
  then show ?thesis using limiter_bound [of 0 demo_schedule 2 10 0 "''a''"] by simp
qed

text \<open>C27: A client that keeps to the limit is never refused: if at each of its requests no more than the limit of its
  requests, that one included, fall in the window before it, every one of them is allowed.\<close>

theorem limiter_admits:
  assumes "timed t0 es" "0 \<le> window"
    "\<forall>n < length (key_times k es). recent window (key_times k es ! n) (take (Suc n) (key_times k es)) \<le> limit"
  shows "\<forall>d \<in> set (decisions k es (new_keyed_limiter limit window)). d"
proof -
  have "sorted (key_times k es) \<and> (\<forall>t \<in> set (key_times k es). t0 \<le> t)"
    using assms(1) by (induction k es arbitrary: t0 rule: key_times.induct) force+
  then show ?thesis
    using decisions_reference [OF assms(1), of k "new_keyed_limiter limit window"] assms(2,3)
      never_refused [of "[]" "key_times k es" window limit None]
    by (simp add: new_keyed_limiter_def entry_state_def)
qed

theorem limiter_admits_witness: "False \<notin> set (decisions ''a'' demo_schedule (new_keyed_limiter 3 10))"
proof -
  have "timed 0 demo_schedule" "\<forall>n < length (key_times ''a'' demo_schedule).
    recent 10 (key_times ''a'' demo_schedule ! n) (take (Suc n) (key_times ''a'' demo_schedule)) \<le> 3" by code_simp+
  then show ?thesis using limiter_admits [of 0 demo_schedule 10 "''a''" 3] by auto
qed

end
