(* ===== verification/MachineCredentials.thy ===== *)
theory MachineCredentials
  imports Token StoreGrants StoreOidc RateLimit
begin

text \<open>
  \<^verbatim>\<open>machine_credentials.go\<close>: the token endpoint's client-credentials grant for agents, and the
  provisioning and revocation of machine keys. \<open>env\<close> holds what the handlers close over: the
  libraries, the store's key-encryption key and the configuration.
\<close>

record env =
  en_crypto :: crypto
  en_jose :: jose
  en_kek :: bytes
  en_issuer :: string
  en_environment :: string
  en_app_origin :: string

definition token_audience :: string where "token_audience = ''l42.eu''"

definition hash_machine_key :: "crypto \<Rightarrow> string \<Rightarrow> string" where
  "hash_machine_key x raw_secret = hex_encode (cx_sha256 x raw_secret)"

text \<open>The loop with the \<open>seen\<close> map of \<^verbatim>\<open>parseScopeParam\<close>.\<close>

fun dedup_from :: "string list \<Rightarrow> string list \<Rightarrow> string list" where
  "dedup_from seen [] = []"
| "dedup_from seen (p # ps) =
     (if p \<in> set seen then dedup_from seen ps else p # dedup_from (p # seen) ps)"

definition parse_scope_param :: "string \<Rightarrow> string list" where
  "parse_scope_param s = (let parts = go_fields s in if length parts = 0 then [] else dedup_from [] parts)"

definition to_set :: "string list \<Rightarrow> string set" where
  "to_set ss = set ss"

text \<open>The search for a matching key: other types and revoked keys are skipped.\<close>

fun machine_key_matches :: "string \<Rightarrow> credential list \<Rightarrow> bool" where
  "machine_key_matches h [] = False"
| "machine_key_matches h (c # cs) =
     (if c_type c \<noteq> type_machine_key then machine_key_matches h cs
      else if c_revoked_at c \<noteq> None then machine_key_matches h cs
      else if c_data c = h then True
      else machine_key_matches h cs)"

text \<open>
  The effective scopes: all that is granted when none is requested, otherwise what is requested, or
  the first requested scope that is not granted.
\<close>

definition effective_scopes :: "string list \<Rightarrow> string list \<Rightarrow> string + string list" where
  "effective_scopes granted requested =
     (if length requested > 0 then
        (case List.find (\<lambda>sc. sc \<notin> to_set granted) requested of
           Some sc \<Rightarrow> Inl sc
         | None \<Rightarrow> Inr requested)
      else Inr granted)"

definition invalid_client :: response where
  "invalid_client = write_token_error 401 ''invalid_client'' ''invalid client_id or client_secret''"

definition server_error :: response where
  "server_error = write_token_error 500 ''server_error'' ''internal error''"

definition token_success :: "string \<Rightarrow> string list \<Rightarrow> response" where
  "token_success token_str effective =
     json_response 200 (JObj ([(''access_token'', JStr token_str), (''token_type'', JStr ''Bearer''),
         (''expires_in'', JNum (seconds_of default_session_ttl))]
       @ (if join '' '' effective = '''' then [] else [(''scope'', JStr (join '' '' effective))])))"

definition rate_limited :: response where
  "rate_limited =
     (let retry_after = show_int (seconds_of token_endpoint_window) in
      add_headers [(''Retry-After'', retry_after)]
        (write_token_error 429 ''rate_limited''
           (dashed ''too many authentication attempts for this client''
              (''retry after '' @ retry_after @ '' seconds''))))"

text \<open>\<^verbatim>\<open>handleClientCredentialsGrant\<close> after the rate limit.\<close>

definition client_credentials_issue ::
  "env \<Rightarrow> string \<Rightarrow> string \<Rightarrow> string \<Rightarrow> world \<Rightarrow> response \<times> world" where
  "client_credentials_issue en client_id client_secret scope w =
     (case get_principal_by_external_id class_agent client_id w of
        (Inl _, w) \<Rightarrow> (invalid_client, w)
      | (Inr p, w) \<Rightarrow>
          (case list_credentials_by_principal (p_id p) w of
             (Inl _, w) \<Rightarrow> (server_error, w)
           | (Inr creds, w) \<Rightarrow>
               (let secret_hash = hash_machine_key (en_crypto en) client_secret in
                if \<not> machine_key_matches secret_hash creds then (invalid_client, w)
                else
                  (case get_active_scopes (p_id p) (en_environment en) w of
                     (Inl _, w) \<Rightarrow> (server_error, w)
                   | (Inr granted, w) \<Rightarrow>
                       (case effective_scopes granted (parse_scope_param scope) of
                          Inl sc \<Rightarrow>
                            (write_token_error 400 ''invalid_scope''
                               (''scope '' @ quote_go sc @ '' is not granted to this principal in ''
                                @ en_environment en), w)
                        | Inr effective \<Rightarrow>
                            (case get_or_create_active_signing_key (en_crypto en) (en_kek en) w of
                               (Inl _, w) \<Rightarrow> (server_error, w)
                             | (Inr key, w) \<Rightarrow>
                                 (case mint_session (en_jose en) p effective key (en_issuer en)
                                         token_audience 0 [] w of
                                    (Inl _, w) \<Rightarrow> (server_error, w)
                                  | (Inr token_str, w) \<Rightarrow> (token_success token_str effective, w))))))))"

text \<open>Handlers that share a limiter return it with the response, next to the world.\<close>

definition handle_client_credentials_grant ::
  "env \<Rightarrow> request \<Rightarrow> keyed_limiter \<Rightarrow> world \<Rightarrow> (response \<times> keyed_limiter) \<times> world" where
  "handle_client_credentials_grant en r rl w =
     (let client_id = form_value r ''client_id''; client_secret = form_value r ''client_secret'' in
      if client_id = '''' \<or> client_secret = '''' then
        ((write_token_error 401 ''invalid_client'' ''client_id and client_secret are required'', rl), w)
      else
        (let limit_key = (if client_id = '''' then client_ip (header_get r ''X-Real-Ip'') (rq_remote r)
                          else client_id) in
         case time_now w of (now, w) \<Rightarrow>
           (case allow now limit_key rl of ((ok, count), rl) \<Rightarrow>
              if \<not> ok then ((rate_limited, rl), w)
              else
                (case client_credentials_issue en client_id client_secret (form_value r ''scope'') w of
                   (rs, w) \<Rightarrow> ((rs, rl), w)))))"

definition method_not_allowed :: response where
  "method_not_allowed = http_error 405 ''405 Method Not Allowed''"

definition internal_error :: response where
  "internal_error = http_error 500 ''500 Internal Server Error''"

definition key_note :: string where
  "key_note = dashed ''Store client_secret in lucos_creds immediately''
     ''it is shown only once and not stored by aithne.''"

text \<open>\<^verbatim>\<open>time.Time\<close> in JSON: RFC 3339, with the fraction of the second when there is one.\<close>

definition strip_zeros :: "string \<Rightarrow> string" where
  "strip_zeros s = rev (dropWhile (\<lambda>c. c = CHR ''0'') (rev s))"

definition pad9 :: "nat \<Rightarrow> string" where
  "pad9 n = replicate (9 - length (decimal n)) (CHR ''0'') @ decimal n"

definition json_time :: "time \<Rightarrow> json" where
  "json_time t =
     (let ns = nat (t mod second); s = rfc3339 t in
      JStr (if ns = 0 then s else butlast s @ ''.'' @ strip_zeros (pad9 ns) @ ''Z''))"

definition machine_key_hash_len :: nat where "machine_key_hash_len = 64"

text \<open>Find or create the agent, as both outcomes of the lookup continue the same way.\<close>

definition find_or_create_agent :: "string \<Rightarrow> world \<Rightarrow> (err + principal) \<times> world" where
  "find_or_create_agent slug w =
     (case get_principal_by_external_id class_agent slug w of
        (Inr p, w) \<Rightarrow> (Inr p, w)
      | (Inl e, w) \<Rightarrow>
          if e \<noteq> ErrNotFound then (Inl e, w) else create_principal class_agent slug w)"

record create_machine_key_request =
  cmr_agent_slug :: string

definition decode_machine_key_request :: "string \<Rightarrow> create_machine_key_request option" where
  "decode_machine_key_request body =
     map_option (\<lambda>s. \<lparr>cmr_agent_slug = s\<rparr>) (decode_string ''agent_slug'' body)"

record create_machine_key_response =
  cmp_client_id :: string
  cmp_client_secret :: string
  cmp_principal_id :: string
  cmp_credential_id :: string
  cmp_created_at :: time
  cmp_note :: string

definition encode_machine_key_response :: "create_machine_key_response \<Rightarrow> json" where
  "encode_machine_key_response d =
     JObj [(''client_id'', JStr (cmp_client_id d)), (''client_secret'', JStr (cmp_client_secret d)),
       (''principal_id'', JStr (cmp_principal_id d)), (''credential_id'', JStr (cmp_credential_id d)),
       (''created_at'', json_time (cmp_created_at d)), (''note'', JStr (cmp_note d))]"

definition handle_admin_machine_keys :: "env \<Rightarrow> request \<Rightarrow> world \<Rightarrow> response \<times> world" where
  "handle_admin_machine_keys en r w =
     (if rq_method r \<noteq> ''POST'' then (method_not_allowed, w)
      else
        (case decode_machine_key_request (rq_body r) of
           None \<Rightarrow> (http_error 400 ''400 Bad Request: invalid JSON body'', w)
         | Some req \<Rightarrow>
             let slug = cmr_agent_slug req in
             if slug = '''' then (http_error 400 ''400 Bad Request: agent_slug is required'', w)
             else
               (case find_or_create_agent slug w of
                  (Inl _, w) \<Rightarrow> (internal_error, w)
                | (Inr p, w) \<Rightarrow>
                    (case uuid_new w of (raw_secret, w) \<Rightarrow>
                       (let secret_hash = hash_machine_key (en_crypto en) raw_secret in
                        if length secret_hash \<noteq> machine_key_hash_len then (internal_error, w)
                        else
                          (case create_credential (p_id p) type_machine_key secret_hash
                                  (''machine_key:'' @ slug) w of
                             (Inl _, w) \<Rightarrow> (internal_error, w)
                           | (Inr cred, w) \<Rightarrow>
                               (json_response 201 (encode_machine_key_response
                                  \<lparr>cmp_client_id = slug, cmp_client_secret = raw_secret,
                                   cmp_principal_id = p_id p, cmp_credential_id = c_id cred,
                                   cmp_created_at = c_created_at cred, cmp_note = key_note\<rparr>), w)))))))"

text \<open>\<open>claims\<close> are those the scope middleware put into the request's context.\<close>

definition handle_admin_machine_key_by_id ::
  "request \<Rightarrow> session_claims \<Rightarrow> world \<Rightarrow> response \<times> world" where
  "handle_admin_machine_key_by_id r claims w =
     (if rq_method r \<noteq> ''DELETE'' then (method_not_allowed, w)
      else
        (let i = trim_prefix (rq_path r) ''/admin/machine-keys/'' in
         if i = '''' then (http_error 400 (dashed ''400 Bad Request'' ''credential ID required''), w)
         else
           (case revoke_credential i (sc_subject claims) w of
              (Inl ErrNotFound, w) \<Rightarrow> (http_error 404 ''404 Not Found'', w)
            | (Inl ErrCredentialRevoked, w) \<Rightarrow>
                (http_error 409 (dashed ''409 Conflict'' ''credential is already revoked''), w)
            | (Inl _, w) \<Rightarrow> (internal_error, w)
            | (Inr _, w) \<Rightarrow> (empty_response 204, w))))"

subsection \<open>Effects on the database\<close>

context db_invariant
begin

lemma client_credentials_issue [wf_intros]:
  "I (w_db w) \<Longrightarrow> I (w_db (snd (client_credentials_issue en i s sc w)))"
  unfolding client_credentials_issue_def
  by (rule inv_rules get_or_create_active_signing_key | assumption | simp only: frame_simps)+

lemma handle_client_credentials_grant [wf_intros]:
  "I (w_db w) \<Longrightarrow> I (w_db (snd (handle_client_credentials_grant en r rl w)))"
  unfolding handle_client_credentials_grant_def
  by (auto simp: Let_def case_prod_beta intro!: client_credentials_issue)

lemma find_or_create_agent [wf_intros]: "I (w_db w) \<Longrightarrow> I (w_db (snd (find_or_create_agent slug w)))"
  unfolding find_or_create_agent_def
  by (rule inv_rules create_principal | assumption | simp only: frame_simps)+

lemma handle_admin_machine_keys [wf_intros]:
  "I (w_db w) \<Longrightarrow> I (w_db (snd (handle_admin_machine_keys en r w)))"
  unfolding handle_admin_machine_keys_def
  by (rule inv_rules find_or_create_agent create_credential | assumption | simp only: frame_simps)+

lemma handle_admin_machine_key_by_id [wf_intros]:
  "I (w_db w) \<Longrightarrow> I (w_db (snd (handle_admin_machine_key_by_id r c w)))"
  unfolding handle_admin_machine_key_by_id_def
  by (rule inv_rules revoke_credential | assumption | simp only: frame_simps)+

end

end
