(* ===== verification/Pages.thy ===== *)
theory Pages
  imports StoreGrants MachineCredentials
begin

text \<open>
  What the server-rendered pages share: the per-request nonce and Content-Security-Policy
  (\<^verbatim>\<open>generateNonce\<close> in \<^verbatim>\<open>main.go\<close>, \<^verbatim>\<open>applyPageCSP\<close> in \<^verbatim>\<open>enrolment.go\<close>), the security headers of every
  response, the two pages that only show a template, and the client of the contacts service.
\<close>

subsection \<open>The data of the pages\<close>

text \<open>The structs handed to the templates, and their fields as the template sees them.\<close>

record login_page_data =
  lpd_nonce :: string

record privacy_page_data =
  ppd_nonce :: string

record access_denied_page_data =
  adp_nonce :: string

record home_page_data =
  hpd_logged_in :: bool
  hpd_is_admin :: bool
  hpd_display_name :: string
  hpd_display_name_available :: bool
  hpd_nonce :: string

definition login_page_fields :: "login_page_data \<Rightarrow> (string \<times> json) list" where
  "login_page_fields d = [(''Nonce'', JStr (lpd_nonce d))]"

definition privacy_page_fields :: "privacy_page_data \<Rightarrow> (string \<times> json) list" where
  "privacy_page_fields d = [(''Nonce'', JStr (ppd_nonce d))]"

definition access_denied_page_fields :: "access_denied_page_data \<Rightarrow> (string \<times> json) list" where
  "access_denied_page_fields d = [(''Nonce'', JStr (adp_nonce d))]"

definition home_page_fields :: "home_page_data \<Rightarrow> (string \<times> json) list" where
  "home_page_fields d =
     [(''LoggedIn'', JBool (hpd_logged_in d)), (''IsAdmin'', JBool (hpd_is_admin d)),
      (''DisplayName'', JStr (hpd_display_name d)),
      (''DisplayNameAvailable'', JBool (hpd_display_name_available d)), (''Nonce'', JStr (hpd_nonce d))]"

subsection \<open>Nonce and policy\<close>

definition raw_url_char :: "char \<Rightarrow> char" where
  "raw_url_char c = (if c = CHR ''+'' then CHR ''-'' else if c = CHR ''/'' then CHR ''_'' else c)"

definition raw_url_encode :: "bytes \<Rightarrow> string" where
  "raw_url_encode b = map raw_url_char (filter (\<lambda>c. c \<noteq> CHR ''='') (base64_encode b))"

definition generate_nonce :: "world \<Rightarrow> (err + string) \<times> world" where
  "generate_nonce w =
     (case rand_read 16 w of
        (None, w) \<Rightarrow> (Inl (ErrOther ''rand''), w)
      | (Some b, w) \<Rightarrow> (Inr (raw_url_encode b), w))"

definition page_csp :: "string \<Rightarrow> string" where
  "page_csp nonce =
     join ''; ''
       [''default-src '' @ single_quoted ''none'',
        ''script-src '' @ single_quoted (''nonce-'' @ nonce),
        ''style-src '' @ single_quoted ''self'',
        ''img-src '' @ single_quoted ''self'' @ '' data:'',
        ''connect-src '' @ single_quoted ''self'' @ '' https://am.l42.eu'',
        ''form-action '' @ single_quoted ''self'',
        ''base-uri '' @ single_quoted ''none'',
        ''frame-ancestors '' @ single_quoted ''none'']"

text \<open>The nonce and the headers it sets.\<close>

definition apply_page_csp :: "world \<Rightarrow> (err + string \<times> (string \<times> string) list) \<times> world" where
  "apply_page_csp w =
     (case generate_nonce w of
        (Inl e, w) \<Rightarrow> (Inl e, w)
      | (Inr nonce, w) \<Rightarrow>
          (Inr (nonce, [(''Content-Security-Policy'', page_csp nonce),
                        (''Content-Type'', ''text/html; charset=utf-8'')]), w))"

definition page :: "nat \<Rightarrow> (string \<times> string) list \<Rightarrow> string \<Rightarrow> (string \<times> json) list \<Rightarrow> response" where
  "page status hs template data =
     \<lparr>rs_status = status, rs_headers = hs, rs_cookies = [], rs_body = Page template (JObj data)\<rparr>"

definition secure_headers :: "response \<Rightarrow> response" where
  "secure_headers rs =
     add_headers [(''X-Frame-Options'', ''DENY''), (''X-Content-Type-Options'', ''nosniff''),
       (''Referrer-Policy'', ''strict-origin-when-cross-origin'')] rs"

definition something_went_wrong :: "string \<Rightarrow> response" where
  "something_went_wrong message = render_error_page 500 ''Something went wrong'' message retry_transient"

definition apostrophe :: string where "apostrophe = [CHR 0x27]"

definition handle_login_page :: "request \<Rightarrow> world \<Rightarrow> response \<times> world" where
  "handle_login_page r w =
     (if rq_method r \<noteq> ''GET'' then (method_not_allowed, w)
      else
        (case apply_page_csp w of
           (Inl _, w) \<Rightarrow>
             (something_went_wrong (''We couldn'' @ apostrophe @ ''t load the sign-in page just then.''), w)
         | (Inr (nonce, hs), w) \<Rightarrow> (page 200 hs ''login.html'' (login_page_fields \<lparr>lpd_nonce = nonce\<rparr>), w)))"

definition handle_privacy_page :: "request \<Rightarrow> world \<Rightarrow> response \<times> world" where
  "handle_privacy_page r w =
     (if rq_method r \<noteq> ''GET'' then (method_not_allowed, w)
      else
        (case apply_page_csp w of
           (Inl _, w) \<Rightarrow> (internal_error, w)
         | (Inr (nonce, hs), w) \<Rightarrow> (page 200 hs ''privacy.html'' (privacy_page_fields \<lparr>ppd_nonce = nonce\<rparr>), w)))"

subsection \<open>The contacts service\<close>

text \<open>
  The service itself is a parameter: its answer to a GET of a URL with a bearer key, as a status and
  a body, or \<open>None\<close> when the request fails.
\<close>

record contacts_client =
  cc_origin :: string
  cc_key :: string
  cc_do :: "string \<Rightarrow> string \<Rightarrow> (nat \<times> string) option"

record contact_info =
  ci_display_name :: string
  ci_primary_email :: string

definition trim_slashes :: "string \<Rightarrow> string" where
  "trim_slashes s = rev (dropWhile (\<lambda>c. c = CHR ''/'') (rev s))"

definition new_contacts_client ::
  "string \<Rightarrow> string \<Rightarrow> (string \<Rightarrow> string \<Rightarrow> (nat \<times> string) option) \<Rightarrow> contacts_client" where
  "new_contacts_client origin key service =
     \<lparr>cc_origin = trim_slashes origin, cc_key = key, cc_do = service\<rparr>"

definition path_escape :: "string \<Rightarrow> string" where
  "path_escape s =
     concat (map (\<lambda>c. if query_unreserved c \<or> c \<in> set ''$&+=:@'' then [c]
                      else [CHR ''%'', upper_hex (of_char c div 16), upper_hex (of_char c mod 16)]) s)"

text \<open>\<^verbatim>\<open>payload[k].(string)\<close> of a decoded object (the last of equal keys wins).\<close>

definition string_field :: "(string \<times> json) list \<Rightarrow> string \<Rightarrow> string" where
  "string_field kvs k = (case map_of (rev kvs) k of Some (JStr s) \<Rightarrow> s | _ \<Rightarrow> '''')"

definition contact_of :: "string \<Rightarrow> (string \<times> json) list \<Rightarrow> contact_info" where
  "contact_of contact_id payload =
     (let name = string_field payload ''name'' in
      \<lparr>ci_display_name = (if name = '''' then contact_id else name),
       ci_primary_email = string_field payload ''primary_email''\<rparr>)"

definition contacts_get :: "contacts_client \<Rightarrow> string \<Rightarrow> err + contact_info" where
  "contacts_get c contact_id =
     (let req_url = cc_origin c @ ''/people/'' @ path_escape contact_id in
      if url_parse req_url = None then Inl (ErrOther ''contacts: build request'')
      else
        (case cc_do c req_url (cc_key c) of
           None \<Rightarrow> Inl (ErrOther ''contacts: request failed'')
         | Some (status, text) \<Rightarrow>
             if status = 404 then Inl ErrNotFound
             else if status \<noteq> 200 then Inl (ErrOther ''contacts: unexpected status'')
             else
               (case json_decode text of
                  Some (JObj kvs) \<Rightarrow> Inr (contact_of contact_id kvs)
                | Some JNull \<Rightarrow> Inr (contact_of contact_id [])
                | _ \<Rightarrow> Inl (ErrOther ''contacts: decode response''))))"

record contact_list_item =
  li_id :: int
  li_name :: string

fun assign_int :: "string \<Rightarrow> (string \<times> json) list \<Rightarrow> int \<Rightarrow> int option" where
  "assign_int field [] v = Some v"
| "assign_int field ((k, j) # kvs) v =
     (if to_lower k = to_lower field then
        (case j of
           JNum n \<Rightarrow> if - (2 ^ 63) \<le> n \<and> n < 2 ^ 63 then assign_int field kvs n else None
         | JNull \<Rightarrow> assign_int field kvs v
         | _ \<Rightarrow> None)
      else assign_int field kvs v)"

definition decode_item :: "json \<Rightarrow> contact_list_item option" where
  "decode_item j =
     (case j of
        JNull \<Rightarrow> Some \<lparr>li_id = 0, li_name = ''''\<rparr>
      | JObj kvs \<Rightarrow>
          (case (assign_int ''id'' kvs 0, assign_string ''name'' kvs '''') of
             (Some i, Some n) \<Rightarrow> Some \<lparr>li_id = i, li_name = n\<rparr>
           | _ \<Rightarrow> None)
      | _ \<Rightarrow> None)"

fun decode_items :: "json list \<Rightarrow> contact_list_item list option" where
  "decode_items [] = Some []"
| "decode_items (j # js) =
     (case decode_item j of
        None \<Rightarrow> None
      | Some i \<Rightarrow> map_option (\<lambda>is. i # is) (decode_items js))"

text \<open>
  \<^verbatim>\<open>List\<close>: the error tells a body that does not decode from every other failure. A body \<^verbatim>\<open>null\<close> gives
  a nil slice, which is written back as \<^verbatim>\<open>null\<close>.
\<close>

datatype list_error = DecodeFailure | Unreachable

definition contacts_list :: "contacts_client \<Rightarrow> list_error + contact_list_item list option" where
  "contacts_list c =
     (let req_url = cc_origin c @ ''/people/all'' in
      if url_parse req_url = None then Inl Unreachable
      else
        (case cc_do c req_url (cc_key c) of
           None \<Rightarrow> Inl Unreachable
         | Some (status, text) \<Rightarrow>
             if status \<noteq> 200 then Inl Unreachable
             else
               (case json_decode text of
                  Some (JArr js) \<Rightarrow>
                    (case decode_items js of None \<Rightarrow> Inl DecodeFailure | Some is \<Rightarrow> Inr (Some is))
                | Some JNull \<Rightarrow> Inr None
                | _ \<Rightarrow> Inl DecodeFailure)))"

definition item_json :: "contact_list_item \<Rightarrow> json" where
  "item_json i = JObj [(''id'', JNum (li_id i)), (''name'', JStr (li_name i))]"

definition handle_admin_contacts :: "contacts_client \<Rightarrow> request \<Rightarrow> response" where
  "handle_admin_contacts c r =
     (if rq_method r \<noteq> ''GET'' then method_not_allowed
      else
        (case contacts_list c of
           Inl DecodeFailure \<Rightarrow>
             http_error 502 (dashed ''502 Bad Gateway'' ''contacts service returned unparseable response'')
         | Inl Unreachable \<Rightarrow> http_error 502 (dashed ''502 Bad Gateway'' ''could not reach contacts service'')
         | Inr None \<Rightarrow> json_response 200 JNull
         | Inr (Some is) \<Rightarrow> json_response 200 (JArr (map item_json is))))"

lemma page_frames [simp, frame_simps]:
  "w_db (snd (generate_nonce w)) = w_db w"
  "w_db (snd (apply_page_csp w)) = w_db w"
  by (simp_all add: generate_nonce_def apply_page_csp_def case_prod_beta split: op_splits)

end
