(* ===== verification/Oidc.thy ===== *)
theory Oidc
  imports Pages
begin

text \<open>
  \<^verbatim>\<open>oidc.go\<close>: the discovery document, the authorization endpoint, the authorization-code grant and
  the userinfo endpoint, and the dispatch of the token endpoint (\<^verbatim>\<open>machine_credentials.go\<close>).
\<close>

definition auth_code_ttl :: time where "auth_code_ttl = 5 * minute"

definition oidc_scopes :: "string list" where
  "oidc_scopes = [''openid'', ''profile'', ''email'']"

record oidc_discovery =
  od_issuer :: string
  od_authorization_endpoint :: string
  od_token_endpoint :: string
  od_userinfo_endpoint :: string
  od_jwks_uri :: string
  od_scopes_supported :: "string list"
  od_response_types_supported :: "string list"
  od_grant_types_supported :: "string list"
  od_subject_types_supported :: "string list"
  od_id_token_signing_alg_values_supported :: "string list"
  od_token_endpoint_auth_methods_supported :: "string list"
  od_claims_supported :: "string list"

definition encode_discovery :: "oidc_discovery \<Rightarrow> json" where
  "encode_discovery d =
     JObj [(''issuer'', JStr (od_issuer d)),
       (''authorization_endpoint'', JStr (od_authorization_endpoint d)),
       (''token_endpoint'', JStr (od_token_endpoint d)),
       (''userinfo_endpoint'', JStr (od_userinfo_endpoint d)),
       (''jwks_uri'', JStr (od_jwks_uri d)),
       (''scopes_supported'', string_array (od_scopes_supported d)),
       (''response_types_supported'', string_array (od_response_types_supported d)),
       (''grant_types_supported'', string_array (od_grant_types_supported d)),
       (''subject_types_supported'', string_array (od_subject_types_supported d)),
       (''id_token_signing_alg_values_supported'', string_array (od_id_token_signing_alg_values_supported d)),
       (''token_endpoint_auth_methods_supported'', string_array (od_token_endpoint_auth_methods_supported d)),
       (''claims_supported'', string_array (od_claims_supported d))]"

definition discovery_document :: "string \<Rightarrow> oidc_discovery" where
  "discovery_document issuer =
     \<lparr>od_issuer = issuer,
      od_authorization_endpoint = issuer @ ''/oauth2/authorize'',
      od_token_endpoint = issuer @ ''/oauth2/token'',
      od_userinfo_endpoint = issuer @ ''/oauth2/userinfo'',
      od_jwks_uri = issuer @ ''/.well-known/jwks.json'',
      od_scopes_supported = oidc_scopes,
      od_response_types_supported = [''code''],
      od_grant_types_supported = [''authorization_code'', ''client_credentials''],
      od_subject_types_supported = [''public''],
      od_id_token_signing_alg_values_supported = [''ES256''],
      od_token_endpoint_auth_methods_supported = [''client_secret_post'', ''client_secret_basic''],
      od_claims_supported = [''iss'', ''sub'', ''aud'', ''exp'', ''iat'', ''jti'', ''nonce'',
        ''principal_class'', ''name'', ''email'', ''scopes'']\<rparr>"

definition handle_open_id_configuration :: "string \<Rightarrow> request \<Rightarrow> response" where
  "handle_open_id_configuration issuer r =
     (if rq_method r \<noteq> ''GET'' then method_not_allowed
      else add_headers [(''Cache-Control'', ''public, max-age=3600'')]
        (json_response 200 (encode_discovery (discovery_document issuer))))"

text \<open>
  The steps every verifying handler takes: load the verification keys, build the set, parse the
  token. A failure of the first two is the server's, of the last the token's.
\<close>

datatype verified = KeysUnavailable | BadToken | Verified session_claims

definition verify_session :: "env \<Rightarrow> string \<Rightarrow> world \<Rightarrow> verified \<times> world" where
  "verify_session en token_str w =
     (case list_verification_keys (en_crypto en) (en_kek en) verification_window w of
        (Inl _, w) \<Rightarrow> (KeysUnavailable, w)
      | (Inr keys, w) \<Rightarrow>
          (case build_verification_key_set (en_jose en) keys of
             Inl _ \<Rightarrow> (KeysUnavailable, w)
           | Inr key_set \<Rightarrow>
               (case parse_session (en_jose en) token_str key_set (en_issuer en) token_audience w of
                  (Inl _, w) \<Rightarrow> (BadToken, w)
                | (Inr claims, w) \<Rightarrow> (Verified claims, w))))"

subsection \<open>The authorization endpoint\<close>

definition sign_in_failed :: response where
  "sign_in_failed =
     something_went_wrong (''We couldn'' @ apostrophe @ ''t complete your sign-in just then.'')"

definition link_incomplete :: response where
  "link_incomplete = render_error_page 400 ''Sign-in link incomplete''
     ''This sign-in link is missing information it needs to continue.'' retry_unlikely"

definition app_not_recognised :: response where
  "app_not_recognised = render_error_page 400 ''App not recognised''
     (''This app isn'' @ apostrophe @ ''t registered to sign in with lucOS.'') retry_unlikely"

definition app_mismatch :: response where
  "app_mismatch = render_error_page 400 ''App configuration mismatch''
     (''This app is registered with lucOS, but tried to send you back to an address lucOS doesn''
        @ apostrophe @ ''t recognise for it.'') retry_unlikely"

definition state_param :: "string \<Rightarrow> (string \<times> string) list" where
  "state_param state = (if state = '''' then [] else [(''state'', state)])"

definition redirect_error :: "string \<Rightarrow> string \<Rightarrow> string \<Rightarrow> string \<Rightarrow> response" where
  "redirect_error redirect_uri state err_code description =
     http_redirect (redirect_uri @ ''?'' @ values_encode ([(''error'', err_code)]
       @ (if description = '''' then [] else [(''error_description'', description)])
       @ state_param state)) 302"

definition login_redirect :: "request \<Rightarrow> response" where
  "login_redirect r = http_redirect (''/auth/login?next='' @ query_escape (rq_uri r)) 302"

text \<open>Phase 4: a code for the principal the session names.\<close>

definition issue_auth_code :: "env \<Rightarrow> request \<Rightarrow> session_claims \<Rightarrow> world \<Rightarrow> response \<times> world" where
  "issue_auth_code en r claims w =
     (let redirect_uri = query_get r ''redirect_uri''; state = query_get r ''state'' in
      case get_principal_by_external_id (sc_principal_class claims) (sc_subject claims) w of
        (Inl ErrNotFound, w) \<Rightarrow>
          (redirect_error redirect_uri state ''server_error'' ''principal not found'', w)
      | (Inl _, w) \<Rightarrow> (sign_in_failed, w)
      | (Inr p, w) \<Rightarrow>
          (case generate_raw_code w of
             (Inl _, w) \<Rightarrow> (sign_in_failed, w)
           | (Inr raw_code, w) \<Rightarrow>
               (case time_now w of (now, w) \<Rightarrow>
                  (case create_oidc_auth_code (en_crypto en) raw_code (query_get r ''client_id'') (p_id p)
                          redirect_uri (query_get r ''scope'') (query_get r ''nonce'')
                          (now + auth_code_ttl) w of
                     (Inl _, w) \<Rightarrow> (sign_in_failed, w)
                   | (Inr _, w) \<Rightarrow>
                       (http_redirect (redirect_uri @ ''?''
                          @ values_encode ([(''code'', raw_code)] @ state_param state)) 302, w)))))"

definition handle_authorize :: "env \<Rightarrow> request \<Rightarrow> world \<Rightarrow> response \<times> world" where
  "handle_authorize en r w =
     (if rq_method r \<noteq> ''GET'' then (method_not_allowed, w)
      else
        (let client_id = query_get r ''client_id''; redirect_uri = query_get r ''redirect_uri'';
             state = query_get r ''state'' in
         if client_id = '''' then (link_incomplete, w)
         else
           (case get_oidc_client client_id w of
              (Inl ErrNotFound, w) \<Rightarrow> (app_not_recognised, w)
            | (Inl _, w) \<Rightarrow> (sign_in_failed, w)
            | (Inr client, w) \<Rightarrow>
                if redirect_uri = '''' then (link_incomplete, w)
                else if \<not> has_redirect_uri client redirect_uri then (app_mismatch, w)
                else if query_get r ''response_type'' \<noteq> ''code'' then
                  (redirect_error redirect_uri state ''unsupported_response_type''
                     ''only response_type=code is supported'', w)
                else if ''openid'' \<notin> set (parse_scope_param (query_get r ''scope'')) then
                  (redirect_error redirect_uri state ''invalid_scope'' ''scope must include openid'', w)
                else
                  (case cookie_get r session_cookie_name of
                     None \<Rightarrow> (login_redirect r, w)
                   | Some cookie \<Rightarrow>
                       (case verify_session en cookie w of (v, w) \<Rightarrow>
                          (case v of
                             KeysUnavailable \<Rightarrow> (sign_in_failed, w)
                           | BadToken \<Rightarrow> (login_redirect r, w)
                           | Verified claims \<Rightarrow> issue_auth_code en r claims w))))))"

subsection \<open>The authorization-code grant\<close>

definition hash_oidc_secret :: "crypto \<Rightarrow> string \<Rightarrow> string" where
  "hash_oidc_secret x raw_secret = hex_encode (cx_sha256 x raw_secret)"

text \<open>The scopes of the access token, and the OIDC scopes that gate its claims.\<close>

definition narrowed_scopes :: "string list \<Rightarrow> string list \<Rightarrow> string list" where
  "narrowed_scopes granted requested = filter (\<lambda>sc. sc \<in> to_set granted) requested"

definition requested_oidc_scopes :: "string list \<Rightarrow> string list" where
  "requested_oidc_scopes requested = filter (\<lambda>sc. sc \<in> to_set oidc_scopes) requested"

definition email_claim :: "contacts_client option \<Rightarrow> principal \<Rightarrow> string list \<Rightarrow> string" where
  "email_claim contacts p oidc =
     (case contacts of
        None \<Rightarrow> ''''
      | Some c \<Rightarrow>
          if p_class p = class_human \<and> ''email'' \<in> set oidc then
            (case contacts_get c (p_external_id p) of Inl _ \<Rightarrow> '''' | Inr info \<Rightarrow> ci_primary_email info)
          else '''')"

definition tokens_response :: "string \<Rightarrow> string \<Rightarrow> response" where
  "tokens_response access_token id_token =
     add_headers [(''Cache-Control'', ''no-store''), (''Pragma'', ''no-cache'')]
       (json_response 200 (JObj [(''access_token'', JStr access_token),
          (''expires_in'', JNum (seconds_of default_session_ttl)),
          (''id_token'', JStr id_token), (''token_type'', JStr ''Bearer'')]))"

text \<open>After the code is consumed: load the principal, narrow the scopes, mint both tokens.\<close>

definition auth_code_issue ::
  "env \<Rightarrow> contacts_client option \<Rightarrow> string \<Rightarrow> oidc_auth_code \<Rightarrow> world \<Rightarrow> response \<times> world" where
  "auth_code_issue en contacts client_id auth_code w =
     (case get_principal_by_id (ac_principal_id auth_code) w of
        (Inl ErrNotFound, w) \<Rightarrow> (write_token_error 500 ''server_error'' ''principal not found'', w)
      | (Inl _, w) \<Rightarrow> (server_error, w)
      | (Inr p, w) \<Rightarrow>
          (case get_active_scopes (p_id p) (en_environment en) w of
             (Inl _, w) \<Rightarrow> (server_error, w)
           | (Inr granted, w) \<Rightarrow>
               (let requested = parse_scope_param (ac_scope auth_code);
                    effective = narrowed_scopes granted requested;
                    oidc = requested_oidc_scopes requested;
                    email = email_claim contacts p oidc in
                case get_or_create_active_signing_key (en_crypto en) (en_kek en) w of
                  (Inl _, w) \<Rightarrow> (server_error, w)
                | (Inr key, w) \<Rightarrow>
                    (case mint_session (en_jose en) p effective key (en_issuer en) token_audience 0 oidc w of
                       (Inl _, w) \<Rightarrow> (server_error, w)
                     | (Inr access_token, w) \<Rightarrow>
                         (case mint_id_token (en_jose en) p client_id (ac_nonce auth_code) effective email
                                 key (en_issuer en) 0 w of
                            (Inl _, w) \<Rightarrow> (server_error, w)
                          | (Inr id_token, w) \<Rightarrow> (tokens_response access_token id_token, w))))))"

definition invalid_grant :: "string \<Rightarrow> response" where
  "invalid_grant description = write_token_error 400 ''invalid_grant'' description"

definition code_expired :: response where
  "code_expired = invalid_grant ''authorization code has expired''"

definition code_used :: response where
  "code_used = invalid_grant ''authorization code has already been used''"

text \<open>Everything after the rate limit; the code is looked at before it is consumed.\<close>

definition auth_code_exchange ::
  "env \<Rightarrow> contacts_client option \<Rightarrow> string \<Rightarrow> string \<Rightarrow> string \<Rightarrow> string \<Rightarrow> world \<Rightarrow> response \<times> world" where
  "auth_code_exchange en contacts code client_id client_secret redirect_uri w =
     (case get_oidc_client client_id w of
        (Inl ErrNotFound, w) \<Rightarrow> (invalid_client, w)
      | (Inl _, w) \<Rightarrow> (server_error, w)
      | (Inr client, w) \<Rightarrow>
          if hash_oidc_secret (en_crypto en) client_secret \<noteq> o_secret_hash client then (invalid_client, w)
          else
            (case get_oidc_auth_code (en_crypto en) code w of
               (Inl ErrNotFound, w) \<Rightarrow> (invalid_grant ''unknown authorization code'', w)
             | (Inl ErrAuthCodeExpired, w) \<Rightarrow> (code_expired, w)
             | (Inl ErrAuthCodeUsed, w) \<Rightarrow> (code_used, w)
             | (Inl _, w) \<Rightarrow> (server_error, w)
             | (Inr pending, w) \<Rightarrow>
                 if ac_client_id pending \<noteq> client_id then (invalid_grant ''client_id mismatch'', w)
                 else if ac_redirect_uri pending \<noteq> redirect_uri then
                   (invalid_grant ''redirect_uri mismatch'', w)
                 else
                   (case consume_oidc_auth_code (en_crypto en) code w of
                      (Inl ErrAuthCodeExpired, w) \<Rightarrow> (code_expired, w)
                    | (Inl ErrAuthCodeUsed, w) \<Rightarrow> (code_used, w)
                    | (Inl _, w) \<Rightarrow> (server_error, w)
                    | (Inr auth_code, w) \<Rightarrow> auth_code_issue en contacts client_id auth_code w)))"

text \<open>The client's credentials: the form's, or the header's when the form has none.\<close>

definition client_credentials :: "request \<Rightarrow> (string \<times> string) option" where
  "client_credentials r =
     (let client_id = form_value r ''client_id''; client_secret = form_value r ''client_secret'' in
      case basic_auth r of
        None \<Rightarrow> Some (client_id, client_secret)
      | Some (basic_id, basic_secret) \<Rightarrow>
          if client_id \<noteq> '''' \<or> client_secret \<noteq> '''' then None else Some (basic_id, basic_secret))"

definition handle_auth_code_grant ::
  "env \<Rightarrow> contacts_client option \<Rightarrow> request \<Rightarrow> keyed_limiter \<Rightarrow> world \<Rightarrow> (response \<times> keyed_limiter) \<times> world"
  where
  "handle_auth_code_grant en contacts r rl w =
     (let code = form_value r ''code''; redirect_uri = form_value r ''redirect_uri'' in
      case client_credentials r of
        None \<Rightarrow>
          ((write_token_error 400 ''invalid_request''
              ''client credentials must be sent via either HTTP Basic Auth or the request body, not both'',
            rl), w)
      | Some (client_id, client_secret) \<Rightarrow>
          if code = '''' \<or> client_id = '''' \<or> client_secret = '''' \<or> redirect_uri = '''' then
            ((write_token_error 400 ''invalid_request''
                ''code, client_id, client_secret, and redirect_uri are required'', rl), w)
          else
            (let limit_key = (if client_id = '''' then client_ip (header_get r ''X-Real-Ip'') (rq_remote r)
                              else client_id) in
             case time_now w of (now, w) \<Rightarrow>
               (case allow now limit_key rl of ((ok, count), rl) \<Rightarrow>
                  if \<not> ok then ((rate_limited, rl), w)
                  else
                    (case auth_code_exchange en contacts code client_id client_secret redirect_uri w of
                       (rs, w) \<Rightarrow> ((rs, rl), w)))))"

definition handle_oauth2_token ::
  "env \<Rightarrow> contacts_client option \<Rightarrow> request \<Rightarrow> keyed_limiter \<Rightarrow> world \<Rightarrow> (response \<times> keyed_limiter) \<times> world"
  where
  "handle_oauth2_token en contacts r rl w =
     (if rq_method r \<noteq> ''POST'' then ((method_not_allowed, rl), w)
      else if rq_form r = None then
        ((write_token_error 400 ''invalid_request'' ''could not parse form body'', rl), w)
      else
        (let grant_type = form_value r ''grant_type'' in
         if grant_type = ''client_credentials'' then handle_client_credentials_grant en r rl w
         else if grant_type = ''authorization_code'' then handle_auth_code_grant en contacts r rl w
         else
           ((write_token_error 400 ''unsupported_grant_type''
               (''unsupported grant_type '' @ quote_go grant_type
                @ ''; supported: client_credentials, authorization_code''), rl), w)))"

subsection \<open>The userinfo endpoint\<close>

definition bearer_challenge :: string where
  "bearer_challenge = ''Bearer realm=\"aithne\"''"

definition bearer_token :: "request \<Rightarrow> string option" where
  "bearer_token r =
     (let auth_header = header_get r ''Authorization'' in
      if prefix ''Bearer '' auth_header then Some (trim_prefix auth_header ''Bearer '') else None)"

definition profile_claims :: "contacts_client option \<Rightarrow> session_claims \<Rightarrow> (string \<times> json) list" where
  "profile_claims contacts claims =
     (case contacts of
        None \<Rightarrow> []
      | Some c \<Rightarrow>
          if sc_principal_class claims \<noteq> class_human then []
          else
            (case contacts_get c (sc_subject claims) of
               Inl _ \<Rightarrow> []
             | Inr info \<Rightarrow>
                 (if ''email'' \<in> set (sc_oidc_scopes claims) \<and> ci_primary_email info \<noteq> ''''
                  then [(''email'', JStr (ci_primary_email info))] else [])
                 @ (if ''profile'' \<in> set (sc_oidc_scopes claims) \<and> ci_display_name info \<noteq> ''''
                    then [(''name'', JStr (ci_display_name info))] else [])))"

definition handle_userinfo :: "env \<Rightarrow> contacts_client option \<Rightarrow> request \<Rightarrow> world \<Rightarrow> response \<times> world" where
  "handle_userinfo en contacts r w =
     (if rq_method r \<noteq> ''GET'' \<and> rq_method r \<noteq> ''POST'' then (method_not_allowed, w)
      else
        (case bearer_token r of
           None \<Rightarrow>
             (add_headers [(''WWW-Authenticate'', bearer_challenge)]
                (http_error 401 (dashed ''401 Unauthorized'' ''missing Bearer token'')), w)
         | Some token_str \<Rightarrow>
             (case verify_session en token_str w of (v, w) \<Rightarrow>
                (case v of
                   KeysUnavailable \<Rightarrow> (internal_error, w)
                 | BadToken \<Rightarrow>
                     (add_headers [(''WWW-Authenticate'', bearer_challenge @ '', error=\"invalid_token\"'')]
                        (http_error 401 (dashed ''401 Unauthorized'' ''invalid or expired token'')), w)
                 | Verified claims \<Rightarrow>
                     (json_response 200 (JObj (profile_claims contacts claims
                        @ [(''principal_class'', JStr (sc_principal_class claims)),
                           (''scopes'', string_array (sc_scopes claims)),
                           (''sub'', JStr (sc_subject claims))])), w)))))"

subsection \<open>Effects on the database\<close>

lemma verify_session_frame [simp, frame_simps]: "w_db (snd (verify_session en t w)) = w_db w"
  unfolding verify_session_def case_prod_beta
  by (simp add: list_verification_keys_def case_prod_beta Let_def split: op_splits)

lemma handle_userinfo_frame [simp, frame_simps]: "w_db (snd (handle_userinfo en c r w)) = w_db w"
  by (simp add: handle_userinfo_def case_prod_beta split: option.splits verified.splits)

context db_invariant
begin

lemma inv_verified:
  "I (w_db (snd a)) \<Longrightarrow> I (w_db (snd b)) \<Longrightarrow> (\<And>c. I (w_db (snd (f c)))) \<Longrightarrow>
   I (w_db (snd (case v of KeysUnavailable \<Rightarrow> a | BadToken \<Rightarrow> b | Verified c \<Rightarrow> f c)))"
  by (cases v) simp_all

lemma issue_auth_code [wf_intros]: "I (w_db w) \<Longrightarrow> I (w_db (snd (issue_auth_code en r c w)))"
  unfolding issue_auth_code_def
  by (rule inv_rules create_oidc_auth_code | assumption | simp only: frame_simps)+

lemma handle_authorize [wf_intros]: "I (w_db w) \<Longrightarrow> I (w_db (snd (handle_authorize en r w)))"
  unfolding handle_authorize_def
  by (rule inv_rules inv_verified issue_auth_code | assumption | simp only: frame_simps)+

lemma auth_code_issue [wf_intros]: "I (w_db w) \<Longrightarrow> I (w_db (snd (auth_code_issue en c i ac w)))"
  unfolding auth_code_issue_def
  by (rule inv_rules get_or_create_active_signing_key | assumption | simp only: frame_simps)+

lemma auth_code_exchange [wf_intros]:
  "I (w_db w) \<Longrightarrow> I (w_db (snd (auth_code_exchange en c code i s u w)))"
  unfolding auth_code_exchange_def
  by (rule inv_rules auth_code_issue consume_oidc_auth_code | assumption | simp only: frame_simps)+

lemma handle_auth_code_grant [wf_intros]:
  "I (w_db w) \<Longrightarrow> I (w_db (snd (handle_auth_code_grant en c r rl w)))"
  unfolding handle_auth_code_grant_def
  by (auto simp: Let_def case_prod_beta intro!: auth_code_exchange split: option.splits)

lemma handle_oauth2_token [wf_intros]:
  "I (w_db w) \<Longrightarrow> I (w_db (snd (handle_oauth2_token en c r rl w)))"
  unfolding handle_oauth2_token_def
  by (auto simp: Let_def intro!: handle_auth_code_grant handle_client_credentials_grant)

end

end
