(* ===== verification/Redirect.thy ===== *)
theory Redirect
  imports GoUrl
begin

text \<open>
  \<^verbatim>\<open>redirect.go\<close>: which \<open>next\<close> targets the login and logout handlers may redirect to, and the
  origin check of \<^verbatim>\<open>remint.go\<close> (\<^verbatim>\<open>setCORSHeaders\<close> with \<^verbatim>\<open>l42euOriginRe\<close>). The regular
  expression is matched by derivatives; \<open>re_matches_iff\<close> gives its language.
\<close>

subsection \<open>Redirect targets\<close>

definition is_dev_localhost_url :: "url \<Rightarrow> bool" where
  "is_dev_localhost_url u =
     (if u_scheme u \<noteq> ''http'' then False
      else url_hostname u = ''localhost'' \<or> url_hostname u = ''127.0.0.1'')"

definition is_allowed_redirect :: "string \<Rightarrow> string \<Rightarrow> bool" where
  "is_allowed_redirect next_url environment =
     (if next_url = '''' then False
      else
        (case url_parse next_url of
           None \<Rightarrow> False
         | Some u \<Rightarrow>
             if u_scheme u = '''' \<and> u_host u \<noteq> '''' then False
             else if u_host u = '''' then
               u_path u \<noteq> '''' \<and> \<not> prefix ''//'' (u_path u) \<and> \<not> prefix [CHR 0x5C] (u_path u)
             else if u_scheme u \<noteq> ''http'' \<and> u_scheme u \<noteq> ''https'' then False
             else if environment = ''development'' \<and> is_dev_localhost_url u then True
             else url_hostname u = ''l42.eu'' \<or> suffix ''.l42.eu'' (url_hostname u)))"

subsection \<open>The origin pattern\<close>

datatype re = REmpty | REps | RChars "char list" | RSeq re re | RAlt re re | RStar re

fun re_nullable :: "re \<Rightarrow> bool" where
  "re_nullable REmpty = False"
| "re_nullable REps = True"
| "re_nullable (RChars cs) = False"
| "re_nullable (RSeq r s) = (re_nullable r \<and> re_nullable s)"
| "re_nullable (RAlt r s) = (re_nullable r \<or> re_nullable s)"
| "re_nullable (RStar r) = True"

fun re_deriv :: "char \<Rightarrow> re \<Rightarrow> re" where
  "re_deriv c REmpty = REmpty"
| "re_deriv c REps = REmpty"
| "re_deriv c (RChars cs) = (if c \<in> set cs then REps else REmpty)"
| "re_deriv c (RSeq r s) =
     (if re_nullable r then RAlt (RSeq (re_deriv c r) s) (re_deriv c s) else RSeq (re_deriv c r) s)"
| "re_deriv c (RAlt r s) = RAlt (re_deriv c r) (re_deriv c s)"
| "re_deriv c (RStar r) = RSeq (re_deriv c r) (RStar r)"

fun re_matches :: "re \<Rightarrow> string \<Rightarrow> bool" where
  "re_matches r [] = re_nullable r"
| "re_matches r (c # s) = re_matches (re_deriv c r) s"

fun re_literal :: "string \<Rightarrow> re" where
  "re_literal [] = REps"
| "re_literal (c # s) = RSeq (RChars [c]) (re_literal s)"

definition alnum_chars :: string where
  "alnum_chars = ''abcdefghijklmnopqrstuvwxyz0123456789''"

definition label_re :: re where
  "label_re = RSeq (RChars alnum_chars) (RStar (RChars (CHR ''-'' # alnum_chars)))"

definition l42eu_origin_re :: re where
  "l42eu_origin_re =
     RSeq (re_literal ''https://'')
       (RSeq label_re (RSeq (RStar (RSeq (re_literal ''.'') label_re)) (re_literal ''.l42.eu'')))"

text \<open>
  \<^verbatim>\<open>setCORSHeaders\<close> on the request's \<^verbatim>\<open>Origin\<close> header: the response headers it sets when the
  request may go on, or the refusal (status 403).
\<close>

type_synonym headers = "(string \<times> string) list"

definition cors_headers :: "string \<Rightarrow> headers" where
  "cors_headers origin =
     [(''Access-Control-Allow-Origin'', origin), (''Access-Control-Allow-Credentials'', ''true''),
      (''Vary'', ''Origin'')]"

definition set_cors_headers :: "string \<Rightarrow> string \<Rightarrow> string \<Rightarrow> nat + headers" where
  "set_cors_headers origin app_origin environment =
     (if origin = '''' \<or> origin = app_origin then Inr []
      else if re_matches l42eu_origin_re origin then Inr (cors_headers origin)
      else if environment = ''development'' then
        (case url_parse origin of
           None \<Rightarrow> Inl 403
         | Some u \<Rightarrow>
             if url_port u \<noteq> '''' \<and> is_dev_localhost_url u then Inr (cors_headers origin) else Inl 403)
      else Inl 403)"

subsection \<open>The language of a pattern\<close>

inductive_set star_lang :: "string set \<Rightarrow> string set" for A where
  star_Nil: "[] \<in> star_lang A"
| star_App: "a \<in> A \<Longrightarrow> b \<in> star_lang A \<Longrightarrow> a @ b \<in> star_lang A"

fun re_lang :: "re \<Rightarrow> string set" where
  "re_lang REmpty = {}"
| "re_lang REps = {[]}"
| "re_lang (RChars cs) = {[c] | c. c \<in> set cs}"
| "re_lang (RSeq r s) = {a @ b | a b. a \<in> re_lang r \<and> b \<in> re_lang s}"
| "re_lang (RAlt r s) = re_lang r \<union> re_lang s"
| "re_lang (RStar r) = star_lang (re_lang r)"

lemma re_nullable_iff: "re_nullable r \<longleftrightarrow> [] \<in> re_lang r"
  by (induction r) (auto intro: star_Nil)

lemma star_lang_Cons:
  "c # s \<in> star_lang A \<longleftrightarrow> (\<exists>a b. s = a @ b \<and> c # a \<in> A \<and> b \<in> star_lang A)" (is "_ \<longleftrightarrow> ?R s")
proof
  show "c # s \<in> star_lang A \<Longrightarrow> ?R s"
  proof (induction "c # s" arbitrary: s rule: star_lang.induct)
    case (star_App a b)
    then show ?case by (cases a) (auto simp: append_eq_Cons_conv)
  qed
next
  assume "?R s"
  then show "c # s \<in> star_lang A" using star_App [of "c # _" A] by fastforce
qed

lemma re_deriv_iff: "s \<in> re_lang (re_deriv c r) \<longleftrightarrow> c # s \<in> re_lang r"
proof (induction r arbitrary: s)
  case (RSeq r1 r2)
  show ?case
    by (auto simp: RSeq.IH re_nullable_iff append_eq_Cons_conv Cons_eq_append_conv)
next
  case (RStar r)
  then show ?case by (auto simp: star_lang_Cons)
qed auto

lemma re_matches_iff: "re_matches r s \<longleftrightarrow> s \<in> re_lang r"
  by (induction s arbitrary: r) (simp_all add: re_nullable_iff re_deriv_iff)

lemma re_lang_literal [simp]: "re_lang (re_literal s) = {s}"
  by (induction s) auto

lemma star_lang_set: "s \<in> star_lang A \<Longrightarrow> (\<And>a. a \<in> A \<Longrightarrow> set a \<subseteq> C) \<Longrightarrow> set s \<subseteq> C"
  by (induction rule: star_lang.induct) auto

lemma label_re_set:
  assumes "s \<in> re_lang label_re"
  shows "s \<noteq> [] \<and> set s \<subseteq> insert (CHR ''-'') (set alnum_chars)"
proof -
  from assms obtain a b where s: "s = a # b" "a \<in> set alnum_chars"
    and b: "b \<in> star_lang (re_lang (RChars (CHR ''-'' # alnum_chars)))"
    by (auto simp: label_re_def)
  have "set b \<subseteq> insert (CHR ''-'') (set alnum_chars)"
    using b by (rule star_lang_set) auto
  with s show ?thesis by auto
qed

text \<open>Bytes of an origin the pattern matches, after the scheme.\<close>

definition host_chars :: string where
  "host_chars = CHR ''.'' # CHR ''-'' # alnum_chars"

lemma l42eu_origin_shape:
  assumes "re_matches l42eu_origin_re origin"
  obtains h where "origin = ''https://'' @ h" "suffix ''.l42.eu'' h" "set h \<subseteq> set host_chars"
    "h \<noteq> ''.l42.eu''"
proof -
  have "origin \<in> re_lang l42eu_origin_re" using assms by (simp add: re_matches_iff)
  then obtain l m where o: "origin = ''https://'' @ (l @ m @ ''.l42.eu'')"
    and l: "l \<in> re_lang label_re"
    and m: "m \<in> star_lang (re_lang (RSeq (re_literal ''.'') label_re))"
    by (auto simp: l42eu_origin_re_def)
  have "set m \<subseteq> set host_chars"
    using m by (rule star_lang_set) (use label_re_set in \<open>fastforce simp: host_chars_def\<close>)
  moreover have "set l \<subseteq> set host_chars" "l \<noteq> []"
    using label_re_set [OF l] by (auto simp: host_chars_def)
  moreover have "set ''.l42.eu'' \<subseteq> set host_chars" by (simp add: host_chars_def alnum_chars_def)
  ultimately show thesis
    using that [of "l @ m @ ''.l42.eu''"] o by (auto simp: suffix_def)
qed

subsection \<open>What the two checks accept\<close>

lemma allowed_https:
  assumes "plain_host h" "valid_optional_port port" "plain_path p"
  shows "is_allowed_redirect (''https://'' @ h @ port @ p) env \<longleftrightarrow> h = ''l42.eu'' \<or> suffix ''.l42.eu'' h"
proof -
  have "h \<noteq> []" using assms(1) by (simp add: plain_host_def)
  then show ?thesis
    by (simp only: is_allowed_redirect_def url_parse_https [OF assms])
      (simp add: is_dev_localhost_url_def url_hostname_def split_host_port_plain [OF assms(1,2)])
qed

lemma allowed_http:
  assumes "plain_host h" "valid_optional_port port" "plain_path p"
  shows "is_allowed_redirect (''http://'' @ h @ port @ p) env \<longleftrightarrow>
     h = ''l42.eu'' \<or> suffix ''.l42.eu'' h
     \<or> env = ''development'' \<and> (h = ''localhost'' \<or> h = ''127.0.0.1'')"
proof -
  have "h \<noteq> []" using assms(1) by (simp add: plain_host_def)
  then show ?thesis
    by (simp only: is_allowed_redirect_def url_parse_http [OF assms])
      (auto simp: is_dev_localhost_url_def url_hostname_def split_host_port_plain [OF assms(1,2)])
qed

lemma not_allowed_protocol_relative:
  assumes "plain_host h" "valid_optional_port port" "plain_path p"
  shows "\<not> is_allowed_redirect (''//'' @ h @ port @ p) env"
proof -
  have "h \<noteq> []" using assms(1) by (simp add: plain_host_def)
  then show ?thesis
    by (simp only: is_allowed_redirect_def url_parse_no_scheme [OF assms]) simp
qed

lemma host_chars_plain: "h \<noteq> [] \<Longrightarrow> set h \<subseteq> set host_chars \<Longrightarrow> plain_host h"
proof -
  assume h: "h \<noteq> []" "set h \<subseteq> set host_chars"
  have "\<forall>c \<in> set host_chars. is_alpha c \<or> is_num c \<or> c = CHR ''.'' \<or> c = CHR ''-''"
    by code_simp
  with h show "plain_host h" unfolding plain_host_def by blast
qed

text \<open>A target accepted in production never leaves the domain: every way to be accepted.\<close>

lemma allowed_redirect_cases:
  assumes "is_allowed_redirect s env"
  obtains (path) u where "url_parse s = Some u" "u_host u = []" "u_path u \<noteq> []"
      "\<not> prefix ''//'' (u_path u)" "\<not> prefix [CHR 0x5C] (u_path u)"
    | (dev) u where "url_parse s = Some u" "env = ''development''" "u_scheme u = ''http''"
      "url_hostname u \<in> {''localhost'', ''127.0.0.1''}"
    | (domain) u where "url_parse s = Some u" "u_scheme u \<in> {''http'', ''https''}"
      "url_hostname u = ''l42.eu'' \<or> suffix ''.l42.eu'' (url_hostname u)"
proof -
  from assms obtain u where u: "url_parse s = Some u" by (auto simp: is_allowed_redirect_def split: if_splits option.splits)
  show thesis
  proof (cases "u_host u = []")
    case True
    show ?thesis by (rule path [OF u True]) (use assms u True in \<open>simp_all add: is_allowed_redirect_def split: if_splits\<close>)
  next
    case False
    show ?thesis
    proof (cases "env = ''development'' \<and> is_dev_localhost_url u")
      case True
      then show ?thesis by (intro dev [OF u]) (auto simp: is_dev_localhost_url_def split: if_splits)
    next
      case no: False
      show ?thesis by (rule domain [OF u]) (use assms u False no in \<open>simp_all add: is_allowed_redirect_def split: if_splits\<close>)
    qed
  qed
qed

subsection \<open>Properties\<close>

text \<open>C23: Where a login may return to: a URL with the scheme https, a plain host name, an optional port and path is accepted
  exactly when the host is l42.eu or below it; the same with http, except that in development localhost and 127.0.0.1
  are accepted too; and without a scheme it is refused.\<close>

theorem redirect_hosts:
  assumes "plain_host h" "valid_optional_port port" "plain_path p"
  shows "(is_allowed_redirect (''https://'' @ h @ port @ p) env \<longleftrightarrow> h = ''l42.eu'' \<or> suffix ''.l42.eu'' h) \<and>
    (is_allowed_redirect (''http://'' @ h @ port @ p) env \<longleftrightarrow> h = ''l42.eu'' \<or> suffix ''.l42.eu'' h \<or>
       env = ''development'' \<and> (h = ''localhost'' \<or> h = ''127.0.0.1'')) \<and>
    \<not> is_allowed_redirect (''//'' @ h @ port @ p) env"
  by (intro conjI allowed_https allowed_http not_allowed_protocol_relative assms)

theorem redirect_hosts_witness:
  "is_allowed_redirect ''https://a.l42.eu:8080/x'' ''production'' \<and> \<not> is_allowed_redirect ''https://al42.eu/x'' ''production''"
proof -
  have "plain_host ''a.l42.eu''" "plain_host ''al42.eu''" "valid_optional_port '':8080''" "valid_optional_port ''''" "plain_path ''/x''"
    "suffix ''.l42.eu'' ''a.l42.eu''" "\<not> suffix ''.l42.eu'' ''al42.eu''" by code_simp+
  then show ?thesis
    using redirect_hosts [of "''a.l42.eu''" "'':8080''" "''/x''" "''production''"] redirect_hosts [of "''al42.eu''" "''''" "''/x''" "''production''"] by simp
qed

text \<open>C24: Cross-origin re-minting is no wider than the redirects: an origin other than the app's own that is granted access in
  production is an https URL of a host below l42.eu that a login might return to, and the only origin named in the
  response.\<close>

theorem cors_within_redirects:
  assumes "set_cors_headers origin app_origin env = Inr hs" "env \<noteq> ''development''" "origin \<noteq> ''''" "origin \<noteq> app_origin"
  shows "hs = cors_headers origin \<and> is_allowed_redirect origin env \<and>
    (\<exists>h. origin = ''https://'' @ h \<and> suffix ''.l42.eu'' h \<and> set h \<subseteq> set host_chars)"
proof -
  have re: "re_matches l42eu_origin_re origin" and hs: "hs = cors_headers origin"
    using assms by (auto simp: set_cors_headers_def split: if_splits)
  obtain h where h: "origin = ''https://'' @ h" "suffix ''.l42.eu'' h" "set h \<subseteq> set host_chars" "h \<noteq> ''.l42.eu''"
    by (rule l42eu_origin_shape [OF re])
  then have "plain_host h" by (intro host_chars_plain) auto
  moreover have "valid_optional_port ''''" "plain_path ''''" by code_simp+
  ultimately have "is_allowed_redirect origin env" using allowed_https [of h "''''" "''''" env] h by simp
  with hs h show ?thesis by blast
qed

theorem cors_within_redirects_witness:
  "is_allowed_redirect ''https://a-1.l42.eu'' ''production''"
proof -
  have "set_cors_headers ''https://a-1.l42.eu'' ''https://a'' ''production'' = Inr (cors_headers ''https://a-1.l42.eu'')"
    by code_simp
  then show ?thesis using cors_within_redirects [of "''https://a-1.l42.eu''" "''https://a''" "''production''"] by simp
qed

text \<open>
  The branch for targets without a host accepts more than paths on this site: a path that starts with a slash and a
  backslash, which browsers read as the start of another host, an empty host after two slashes, and other schemes.
\<close>

lemma redirect_host_empty_cases:
  "is_allowed_redirect (CHR ''/'' # CHR 0x5C # ''evil.com'') ''production''"
  "is_allowed_redirect ''http:/evil.com'' ''production''"
  "is_allowed_redirect ''//u@/p'' ''production''"
  "is_allowed_redirect ''javascript:/x'' ''production''"
  by code_simp+

end
