(* ===== verification/Remint.thy ===== *)
theory Remint
  imports Oidc Redirect
begin

text \<open>
  \<^verbatim>\<open>remint.go\<close>: the silent re-mint endpoint. A valid IdP session of a principal that still exists
  and still has an active passkey gets a fresh access token, with the scopes granted now.
\<close>

definition unauthorized :: "string \<Rightarrow> response" where
  "unauthorized reason = http_error 401 (dashed ''401 Unauthorized'' reason)"

definition origin_refused :: response where
  "origin_refused = http_error 403 (dashed ''403 Forbidden'' ''origin not allowed'')"

definition handle_re_mint_preflight :: "request \<Rightarrow> string \<Rightarrow> response" where
  "handle_re_mint_preflight r environment =
     (case set_cors_headers (header_get r ''Origin'') '''' environment of
        Inl _ \<Rightarrow> origin_refused
      | Inr hs \<Rightarrow>
          add_headers (hs @ [(''Access-Control-Allow-Methods'', ''POST, OPTIONS''),
              (''Access-Control-Allow-Headers'', ''Content-Type''), (''Access-Control-Max-Age'', ''86400'')])
            (empty_response 204))"

text \<open>The loop with \<^verbatim>\<open>hasActiveCredential\<close>.\<close>

fun has_active_credential :: "credential list \<Rightarrow> bool" where
  "has_active_credential [] = False"
| "has_active_credential (c # cs) =
     (if c_type c = type_webauthn \<and> credential_is_active c then True else has_active_credential cs)"

text \<open>From the session cookie to the fresh token, after the origin check.\<close>

definition re_mint :: "env \<Rightarrow> request \<Rightarrow> world \<Rightarrow> response \<times> world" where
  "re_mint en r w =
     (case cookie_get r idp_session_cookie_name of
        None \<Rightarrow> (unauthorized ''no IdP session'', w)
      | Some cookie \<Rightarrow>
          (case get_idp_session_by_token (en_crypto en) cookie w of
             (Inl ErrIDPSessionRevoked, w) \<Rightarrow> (unauthorized ''IdP session revoked'', w)
           | (Inl ErrIDPSessionExpired, w) \<Rightarrow> (unauthorized ''IdP session expired'', w)
           | (Inl ErrNotFound, w) \<Rightarrow> (unauthorized ''IdP session not found'', w)
           | (Inl _, w) \<Rightarrow> (internal_error, w)
           | (Inr sess, w) \<Rightarrow>
               (case get_principal_by_id (s_principal_id sess) w of
                  (Inl ErrNotFound, w) \<Rightarrow> (unauthorized ''principal not found'', w)
                | (Inl _, w) \<Rightarrow> (internal_error, w)
                | (Inr p, w) \<Rightarrow>
                    (case list_credentials_by_principal (p_id p) w of
                       (Inl _, w) \<Rightarrow> (internal_error, w)
                     | (Inr creds, w) \<Rightarrow>
                         if \<not> has_active_credential creds then (unauthorized ''no active credential'', w)
                         else
                           (case get_active_scopes (p_id p) (en_environment en) w of
                              (Inl _, w) \<Rightarrow> (internal_error, w)
                            | (Inr scopes, w) \<Rightarrow>
                                (case get_or_create_active_signing_key (en_crypto en) (en_kek en) w of
                                   (Inl _, w) \<Rightarrow> (internal_error, w)
                                 | (Inr key, w) \<Rightarrow>
                                     (case mint_session (en_jose en) p scopes key (en_issuer en)
                                             token_audience default_session_ttl [] w of
                                        (Inl _, w) \<Rightarrow> (internal_error, w)
                                      | (Inr tok, w) \<Rightarrow>
                                          (add_cookies [set_session_cookie tok (en_environment en)]
                                             (json_response 200 (JObj [(''ok'', JBool True)])), w))))))))"

definition handle_re_mint :: "env \<Rightarrow> request \<Rightarrow> world \<Rightarrow> response \<times> world" where
  "handle_re_mint en r w =
     (if rq_method r = ''OPTIONS'' then (handle_re_mint_preflight r (en_environment en), w)
      else if rq_method r \<noteq> ''POST'' then (method_not_allowed, w)
      else
        (case set_cors_headers (header_get r ''Origin'') (en_app_origin en) (en_environment en) of
           Inl _ \<Rightarrow> (origin_refused, w)
         | Inr hs \<Rightarrow> (case re_mint en r w of (rs, w) \<Rightarrow> (add_headers hs rs, w))))"

lemma has_active_credential_iff [simp]:
  "has_active_credential cs \<longleftrightarrow> (\<exists>c \<in> set cs. c_type c = type_webauthn \<and> credential_is_active c)"
  by (induction cs) auto

context db_invariant
begin

lemma re_mint [wf_intros]: "I (w_db w) \<Longrightarrow> I (w_db (snd (re_mint en r w)))"
  unfolding re_mint_def
  by (rule inv_rules get_or_create_active_signing_key | assumption | simp only: frame_simps)+

lemma handle_re_mint [wf_intros]: "I (w_db w) \<Longrightarrow> I (w_db (snd (handle_re_mint en r w)))"
  unfolding handle_re_mint_def
  by (rule inv_rules re_mint | assumption | simp only: frame_simps)+

end

end
