(* ===== verification/WebauthnCred.thy ===== *)
theory WebauthnCred
  imports StorePrincipals Http "HOL-Library.Word"
begin

text \<open>
  \<^verbatim>\<open>store/webauthn_credential.go\<close>: the JSON form in which a passkey is stored in the data column of
  a credential, its validation, and the round trip.
\<close>

text \<open>
  The library's \<^verbatim>\<open>Credential\<close>, its flags and its authenticator taken together. What the store's code does not touch is
  there as well, because it is what storage loses: the attestation type, the attestation (opaque, empty for the zero value),
  two flags, the clone warning and the attachment.
\<close>

record wcredential =
  wc_id :: bytes
  wc_public_key :: bytes
  wc_attestation_type :: string
  wc_transports :: "string list"
  wc_user_present :: bool
  wc_user_verified :: bool
  wc_backup_eligible :: bool
  wc_backup_state :: bool
  wc_aaguid :: bytes
  wc_sign_count :: "32 word"
  wc_clone_warning :: bool
  wc_attachment :: string
  wc_attestation :: "bytes list"

record credential_data =
  d_credential_id :: bytes
  d_public_key :: bytes
  d_sign_count :: "32 word"
  d_aaguid :: bytes
  d_transports :: "string list"
  d_backup_eligible :: bool
  d_backup_state :: bool

text \<open>The struct's JSON encoding: byte slices in base64, \<^verbatim>\<open>transports\<close> left out when empty.\<close>

definition encode_data :: "credential_data \<Rightarrow> json" where
  "encode_data d =
     JObj ([(''credential_id'', JStr (base64_encode (d_credential_id d))),
            (''public_key'', JStr (base64_encode (d_public_key d))),
            (''sign_count'', JNum (uint (d_sign_count d))),
            (''aaguid'', JStr (base64_encode (d_aaguid d)))]
        @ (if d_transports d = [] then [] else [(''transports'', JArr (map JStr (d_transports d)))])
        @ [(''backup_eligible'', JBool (d_backup_eligible d)), (''backup_state'', JBool (d_backup_state d))])"

text \<open>
  Decoding one value into a field: \<^verbatim>\<open>null\<close> sets a slice to nil and leaves a number or flag alone. A byte slice is read from
  base64 or from an array of numbers.
\<close>

fun to_byte_list :: "json list \<Rightarrow> bytes option" where
  "to_byte_list [] = Some []"
| "to_byte_list (j # js) =
     (case (case j of JNull \<Rightarrow> Some (CHR 0x00) | JNum n \<Rightarrow> if 0 \<le> n \<and> n < 256 then Some (char_of (nat n)) else None
            | _ \<Rightarrow> None) of
        None \<Rightarrow> None
      | Some c \<Rightarrow> map_option (\<lambda>cs. c # cs) (to_byte_list js))"

definition to_bytes :: "json \<Rightarrow> bytes option" where
  "to_bytes j = (case j of JNull \<Rightarrow> Some [] | JStr s \<Rightarrow> base64_read s | JArr js \<Rightarrow> to_byte_list js | _ \<Rightarrow> None)"

definition to_uint32 :: "32 word \<Rightarrow> json \<Rightarrow> 32 word option" where
  "to_uint32 old j =
     (case j of
        JNull \<Rightarrow> Some old
      | JNum n \<Rightarrow> if 0 \<le> n \<and> n < 2 ^ 32 then Some (word_of_int n) else None
      | _ \<Rightarrow> None)"

definition to_bool :: "bool \<Rightarrow> json \<Rightarrow> bool option" where
  "to_bool old j = (case j of JNull \<Rightarrow> Some old | JBool b \<Rightarrow> Some b | _ \<Rightarrow> None)"

definition to_text :: "json \<Rightarrow> string option" where
  "to_text j = (case j of JNull \<Rightarrow> Some '''' | JStr s \<Rightarrow> Some s | _ \<Rightarrow> None)"

fun to_texts :: "json list \<Rightarrow> string list option" where
  "to_texts [] = Some []"
| "to_texts (j # js) =
     (case to_text j of None \<Rightarrow> None | Some s \<Rightarrow> map_option (\<lambda>ss. s # ss) (to_texts js))"

definition to_strings :: "json \<Rightarrow> string list option" where
  "to_strings j = (case j of JNull \<Rightarrow> Some [] | JArr js \<Rightarrow> to_texts js | _ \<Rightarrow> None)"

fun decode_data :: "(string \<times> json) list \<Rightarrow> credential_data \<Rightarrow> credential_data option" where
  "decode_data [] d = Some d"
| "decode_data ((k, j) # kvs) d =
     (let f = to_lower k in
      case (if f = ''credential_id'' then map_option (\<lambda>b. d\<lparr>d_credential_id := b\<rparr>) (to_bytes j)
            else if f = ''public_key'' then map_option (\<lambda>b. d\<lparr>d_public_key := b\<rparr>) (to_bytes j)
            else if f = ''sign_count'' then map_option (\<lambda>n. d\<lparr>d_sign_count := n\<rparr>) (to_uint32 (d_sign_count d) j)
            else if f = ''aaguid'' then map_option (\<lambda>b. d\<lparr>d_aaguid := b\<rparr>) (to_bytes j)
            else if f = ''transports'' then map_option (\<lambda>t. d\<lparr>d_transports := t\<rparr>) (to_strings j)
            else if f = ''backup_eligible'' then
              map_option (\<lambda>b. d\<lparr>d_backup_eligible := b\<rparr>) (to_bool (d_backup_eligible d) j)
            else if f = ''backup_state'' then
              map_option (\<lambda>b. d\<lparr>d_backup_state := b\<rparr>) (to_bool (d_backup_state d) j)
            else Some d) of
        None \<Rightarrow> None
      | Some d' \<Rightarrow> decode_data kvs d')"

definition zero_data :: credential_data where
  "zero_data = \<lparr>d_credential_id = [], d_public_key = [], d_sign_count = 0, d_aaguid = [],
     d_transports = [], d_backup_eligible = False, d_backup_state = False\<rparr>"

definition marshal_webauthn_credential :: "wcredential \<Rightarrow> err + bytes" where
  "marshal_webauthn_credential c =
     (if length (wc_id c) = 0 then Inl ErrInvalidCredentialData
      else if length (wc_public_key c) = 0 then Inl ErrInvalidCredentialData
      else if length (wc_aaguid c) = 0 then Inl ErrInvalidCredentialData
      else
        Inr (json_text (encode_data \<lparr>d_credential_id = wc_id c, d_public_key = wc_public_key c,
               d_sign_count = wc_sign_count c, d_aaguid = wc_aaguid c, d_transports = wc_transports c,
               d_backup_eligible = wc_backup_eligible c, d_backup_state = wc_backup_state c\<rparr>)))"

definition unmarshal_webauthn_credential :: "bytes \<Rightarrow> err + wcredential" where
  "unmarshal_webauthn_credential dat =
     (case (case json_unmarshal dat of
              Some (JObj kvs) \<Rightarrow> decode_data kvs zero_data
            | Some JNull \<Rightarrow> Some zero_data
            | _ \<Rightarrow> None) of
        None \<Rightarrow> Inl ErrInvalidCredentialData
      | Some d \<Rightarrow>
          if length (d_credential_id d) = 0 then Inl ErrInvalidCredentialData
          else if length (d_public_key d) = 0 then Inl ErrInvalidCredentialData
          else if length (d_aaguid d) = 0 then Inl ErrInvalidCredentialData
          else Inr \<lparr>wc_id = d_credential_id d, wc_public_key = d_public_key d, wc_attestation_type = '''',
                    wc_transports = d_transports d, wc_user_present = False, wc_user_verified = False,
                    wc_backup_eligible = d_backup_eligible d, wc_backup_state = d_backup_state d,
                    wc_aaguid = d_aaguid d, wc_sign_count = d_sign_count d, wc_clone_warning = False,
                    wc_attachment = '''', wc_attestation = []\<rparr>)"

lemma to_texts_JStr [simp]: "to_texts (map JStr ss) = Some ss"
  by (induction ss) (simp_all add: to_text_def)

lemma plain_encode_data: "plain (encode_data d)"
  by (simp add: encode_data_def)

lemma field_names:
  "to_lower ''credential_id'' = ''credential_id''" "to_lower ''public_key'' = ''public_key''"
  "to_lower ''sign_count'' = ''sign_count''" "to_lower ''aaguid'' = ''aaguid''"
  "to_lower ''transports'' = ''transports''" "to_lower ''backup_eligible'' = ''backup_eligible''"
  "to_lower ''backup_state'' = ''backup_state''"
  by code_simp+

lemma decode_encode_data:
  "encode_data d = JObj kvs \<Longrightarrow> decode_data kvs zero_data = Some d"
  using unsigned_less [of "d_sign_count d", where ?'a = int] unsigned_greater_eq [of "d_sign_count d"]
  by (auto simp: encode_data_def field_names to_bytes_def to_uint32_def to_bool_def to_strings_def
      base64_read_encode zero_data_def)

lemma base64_valid: "to_valid (base64_encode bs) = base64_encode bs"
  using base64_text [of _ bs] by (intro to_valid_id ascii_valid) (auto simp: b64_text_char_def)

lemma field_names_valid:
  "to_valid ''credential_id'' = ''credential_id''" "to_valid ''public_key'' = ''public_key''"
  "to_valid ''sign_count'' = ''sign_count''" "to_valid ''aaguid'' = ''aaguid''"
  "to_valid ''transports'' = ''transports''" "to_valid ''backup_eligible'' = ''backup_eligible''"
  "to_valid ''backup_state'' = ''backup_state''"
  by code_simp+

text \<open>Of a credential's data only the transports are text, and can change on the way.\<close>

lemma coerce_encode_data: "coerce (encode_data d) = encode_data (d\<lparr>d_transports := map to_valid (d_transports d)\<rparr>)"
  by (simp add: encode_data_def base64_valid field_names_valid comp_def)

lemma unmarshal_marshal:
  assumes "marshal_webauthn_credential c = Inr dat"
  shows "unmarshal_webauthn_credential dat = Inr (c\<lparr>wc_transports := map to_valid (wc_transports c),
    wc_attestation_type := '''', wc_user_present := False, wc_user_verified := False, wc_clone_warning := False,
    wc_attachment := '''', wc_attestation := []\<rparr>)"
proof -
  let ?d = "\<lparr>d_credential_id = wc_id c, d_public_key = wc_public_key c,
               d_sign_count = wc_sign_count c, d_aaguid = wc_aaguid c, d_transports = wc_transports c,
               d_backup_eligible = wc_backup_eligible c, d_backup_state = wc_backup_state c\<rparr>"
  let ?d' = "?d\<lparr>d_transports := map to_valid (wc_transports c)\<rparr>"
  have c: "wc_id c \<noteq> []" "wc_public_key c \<noteq> []" "wc_aaguid c \<noteq> []" and dat: "dat = json_text (encode_data ?d)"
    using assms by (auto simp: marshal_webauthn_credential_def split: if_splits)
  obtain kvs where kvs: "encode_data ?d' = JObj kvs" by (simp add: encode_data_def)
  have "json_unmarshal dat = Some (encode_data ?d')"
    using json_unmarshal_text [OF plain_encode_data, of ?d] by (simp add: dat coerce_encode_data)
  then show ?thesis using c decode_encode_data [OF kvs] kvs
    by (simp add: unmarshal_webauthn_credential_def)
qed

text \<open>C40: What a stored passkey keeps: the identifier, public key, AAGUID, sign count, transports and the two backup flags
  are read back as they were written (a transport that is not well-formed UTF-8 with U+FFFD for each stray byte); the
  attestation type, the attestation, the user-present and user-verified flags, the clone warning and the attachment are not
  stored and come back as zero values. A credential is refused exactly when its identifier, public key or AAGUID is
  empty.\<close>

theorem passkey_roundtrip:
  "case marshal_webauthn_credential c of
     Inr dat \<Rightarrow>
       unmarshal_webauthn_credential dat = Inr
         \<lparr>wc_id = wc_id c, wc_public_key = wc_public_key c, wc_attestation_type = '''',
          wc_transports = map to_valid (wc_transports c), wc_user_present = False, wc_user_verified = False,
          wc_backup_eligible = wc_backup_eligible c, wc_backup_state = wc_backup_state c, wc_aaguid = wc_aaguid c,
          wc_sign_count = wc_sign_count c, wc_clone_warning = False, wc_attachment = '''', wc_attestation = []\<rparr> \<and>
       ((\<forall>t \<in> set (wc_transports c). valid_utf8 t) \<longrightarrow> map to_valid (wc_transports c) = wc_transports c) \<and>
       wc_id c \<noteq> [] \<and> wc_public_key c \<noteq> [] \<and> wc_aaguid c \<noteq> []
   | Inl e \<Rightarrow> e = ErrInvalidCredentialData \<and> (wc_id c = [] \<or> wc_public_key c = [] \<or> wc_aaguid c = [])"
  using unmarshal_marshal [of c] map_idI [of "wc_transports c" to_valid] to_valid_id
  by (cases "marshal_webauthn_credential c") (auto simp: marshal_webauthn_credential_def split: if_splits)

definition demo_passkey :: wcredential where
  "demo_passkey = \<lparr>wc_id = ''i'', wc_public_key = ''p'', wc_attestation_type = ''packed'', wc_transports = [''usb'', [CHR 0xFF]],
     wc_user_present = True, wc_user_verified = True, wc_backup_eligible = True, wc_backup_state = False, wc_aaguid = ''a'',
     wc_sign_count = 7, wc_clone_warning = False, wc_attachment = ''platform'', wc_attestation = [''o'']\<rparr>"

theorem passkey_roundtrip_witness:
  "case marshal_webauthn_credential demo_passkey of Inl e \<Rightarrow> False | Inr dat \<Rightarrow>
     (case unmarshal_webauthn_credential dat of Inl e \<Rightarrow> False
      | Inr c \<Rightarrow> wc_sign_count c = 7 \<and> wc_transports c = [''usb'', [CHR 0xEF, CHR 0xBF, CHR 0xBD]] \<and> \<not> wc_user_present c)"
proof -
  have usb: "to_valid ''usb'' = ''usb''" "to_valid [CHR 0xFF] = [CHR 0xEF, CHR 0xBF, CHR 0xBD]"
    by (simp_all add: to_valid.simps rune_len_def rune_bytes_def byte_in_def utf8_def char_of_def bit_0)
  obtain dat where dat: "marshal_webauthn_credential demo_passkey = Inr dat"
    by (simp add: marshal_webauthn_credential_def demo_passkey_def)
  note read = passkey_roundtrip [of demo_passkey, unfolded dat sum.case, THEN conjunct1]
  show ?thesis unfolding dat sum.case read by (simp add: demo_passkey_def usb)
qed

text \<open>
  What is read from the data column is never a credential without an identifier, public key or AAGUID, and nothing but a
  JSON object is read as a credential at all.
\<close>

lemma passkey_reads_complete:
  assumes "unmarshal_webauthn_credential dat = Inr c"
  shows "wc_id c \<noteq> [] \<and> wc_public_key c \<noteq> [] \<and> wc_aaguid c \<noteq> [] \<and> \<not> wc_clone_warning c \<and>
    (\<exists>kvs. json_unmarshal dat = Some (JObj kvs))"
  using assms unfolding unmarshal_webauthn_credential_def
  by (auto split: option.splits if_splits json.splits simp: zero_data_def)

end
