(* ===== verification/Ceremony.thy ===== *)
theory Ceremony
  imports Sweeping
begin

text \<open>
  \<^verbatim>\<open>webauthn.go\<close>: the in-memory store of pending WebAuthn ceremonies, with its opportunistic and
  background sweeps. The session data of the WebAuthn library is opaque. The refinement at the end
  says what the store promises: a \<open>take\<close> returns what the latest \<open>put\<close> under its key stored if no
  other \<open>take\<close> came between and at most a minute has passed, and nothing otherwise.
\<close>

definition challenge_ttl :: time where "challenge_ttl = 60 * second"

record ceremony_entry =
  ce_data :: bytes
  ce_expires_at :: time

record enrol_entry =
  ee_data :: bytes
  ee_contact_id :: string
  ee_expires_at :: time

record ceremony_store =
  cs_entries :: "string \<rightharpoonup> ceremony_entry"
  cs_enrol :: "string \<rightharpoonup> enrol_entry"

definition new_ceremony_store :: ceremony_store where
  "new_ceremony_store = \<lparr>cs_entries = Map.empty, cs_enrol = Map.empty\<rparr>"

text \<open>Deleting from a map the entries whose expiry \<open>now\<close> is after.\<close>

definition drop_expired :: "('e \<Rightarrow> time) \<Rightarrow> time \<Rightarrow> (string \<rightharpoonup> 'e) \<Rightarrow> (string \<rightharpoonup> 'e)" where
  "drop_expired expires now m =
     (\<lambda>k. case m k of None \<Rightarrow> None | Some e \<Rightarrow> if now > expires e then None else Some e)"

definition sweep_expired :: "time \<Rightarrow> ceremony_store \<Rightarrow> ceremony_store" where
  "sweep_expired now cs =
     cs\<lparr>cs_entries := drop_expired ce_expires_at now (cs_entries cs),
        cs_enrol := drop_expired ee_expires_at now (cs_enrol cs)\<rparr>"

text \<open>\<^verbatim>\<open>put\<close> and \<^verbatim>\<open>putEnrol\<close> read the clock twice: for the expiry, then for the clean-up.\<close>

definition put :: "time \<Rightarrow> time \<Rightarrow> string \<Rightarrow> bytes \<Rightarrow> ceremony_store \<Rightarrow> ceremony_store" where
  "put now1 now2 key dat cs =
     cs\<lparr>cs_entries := drop_expired ce_expires_at now2
          ((cs_entries cs)(key \<mapsto> \<lparr>ce_data = dat, ce_expires_at = now1 + challenge_ttl\<rparr>))\<rparr>"

definition take_ceremony :: "time \<Rightarrow> string \<Rightarrow> ceremony_store \<Rightarrow> bytes option \<times> ceremony_store" where
  "take_ceremony now key cs =
     (case cs_entries cs key of
        None \<Rightarrow> (None, cs)
      | Some e \<Rightarrow>
          (let cs = cs\<lparr>cs_entries := (cs_entries cs)(key := None)\<rparr> in
           if now > ce_expires_at e then (None, cs) else (Some (ce_data e), cs)))"

definition put_enrol :: "time \<Rightarrow> time \<Rightarrow> string \<Rightarrow> bytes \<Rightarrow> string \<Rightarrow> ceremony_store \<Rightarrow> ceremony_store" where
  "put_enrol now1 now2 token_hash dat contact_id cs =
     cs\<lparr>cs_enrol := drop_expired ee_expires_at now2
          ((cs_enrol cs)(token_hash \<mapsto> \<lparr>ee_data = dat, ee_contact_id = contact_id,
                                        ee_expires_at = now1 + challenge_ttl\<rparr>))\<rparr>"

definition take_enrol ::
  "time \<Rightarrow> string \<Rightarrow> ceremony_store \<Rightarrow> (bytes \<times> string) option \<times> ceremony_store" where
  "take_enrol now token_hash cs =
     (case cs_enrol cs token_hash of
        None \<Rightarrow> (None, cs)
      | Some e \<Rightarrow>
          (let cs = cs\<lparr>cs_enrol := (cs_enrol cs)(token_hash := None)\<rparr> in
           if now > ee_expires_at e then (None, cs) else (Some (ee_data e, ee_contact_id e), cs)))"

subsection \<open>Operations in sequence\<close>

text \<open>
  A put takes some time between its two readings of the clock, during which it holds the mutex: its time is that of the
  second reading, the delay gives the first.
\<close>

datatype ceremony_op =
    Put nat string bytes | Take string | PutEnrol nat string bytes string | TakeEnrol string

datatype ceremony_out = Stored | Taken "bytes option" | TakenEnrol "(bytes \<times> string) option"

fun ceremony_step :: "time \<Rightarrow> ceremony_op \<Rightarrow> ceremony_store \<Rightarrow> ceremony_out \<times> ceremony_store" where
  "ceremony_step now (Put delay k d) cs = (Stored, put (now - int delay) now k d cs)"
| "ceremony_step now (Take k) cs = (case take_ceremony now k cs of (r, cs) \<Rightarrow> (Taken r, cs))"
| "ceremony_step now (PutEnrol delay h d c) cs = (Stored, put_enrol (now - int delay) now h d c cs)"
| "ceremony_step now (TakeEnrol h) cs = (case take_enrol now h cs of (r, cs) \<Rightarrow> (TakenEnrol r, cs))"

definition live_view ::
  "time \<Rightarrow> ceremony_store \<Rightarrow> (string \<rightharpoonup> ceremony_entry) \<times> (string \<rightharpoonup> enrol_entry)" where
  "live_view t cs = (drop_expired ce_expires_at t (cs_entries cs), drop_expired ee_expires_at t (cs_enrol cs))"

lemma drop_expired_later:
  "t \<le> t' \<Longrightarrow> drop_expired f t' (drop_expired f t m) = drop_expired f t' m"
  by (auto simp: drop_expired_def fun_eq_iff split: option.splits)

lemma drop_expired_upd:
  "drop_expired f t (m(k \<mapsto> e)) = (drop_expired f t m)(k := if t > f e then None else Some e)"
  by (auto simp: drop_expired_def fun_eq_iff)

lemma drop_expired_del: "drop_expired f t (m(k := None)) = (drop_expired f t m)(k := None)"
  by (auto simp: drop_expired_def fun_eq_iff)

text \<open>A take looks at live entries only and leaves none under its key.\<close>

lemma take_live:
  "fst (take_ceremony t k cs) = map_option ce_data (fst (live_view t cs) k)"
  "live_view t (snd (take_ceremony t k cs)) = ((fst (live_view t cs))(k := None), snd (live_view t cs))"
  by (auto simp: take_ceremony_def live_view_def drop_expired_def fun_eq_iff Let_def split: option.splits)

lemma take_enrol_live:
  "fst (take_enrol t k cs) = map_option (\<lambda>e. (ee_data e, ee_contact_id e)) (snd (live_view t cs) k)"
  "live_view t (snd (take_enrol t k cs)) = (fst (live_view t cs), (snd (live_view t cs))(k := None))"
  by (auto simp: take_enrol_def live_view_def drop_expired_def fun_eq_iff Let_def split: option.splits)

lemma put_live:
  "live_view t (put u t k d cs) =
     ((fst (live_view t cs))(k := if t > u + challenge_ttl then None
        else Some \<lparr>ce_data = d, ce_expires_at = u + challenge_ttl\<rparr>), snd (live_view t cs))"
  by (simp add: put_def live_view_def drop_expired_later drop_expired_upd drop_expired_del)

lemma put_enrol_live:
  "live_view t (put_enrol u t h d c cs) = (fst (live_view t cs),
     (snd (live_view t cs))(h := if t > u + challenge_ttl then None
        else Some \<lparr>ee_data = d, ee_contact_id = c, ee_expires_at = u + challenge_ttl\<rparr>))"
  by (simp add: put_enrol_def live_view_def drop_expired_later drop_expired_upd drop_expired_del)

lemmas live_simps = take_live take_enrol_live put_live put_enrol_live

lemma live_view_later:
  "t \<le> t' \<Longrightarrow> live_view t' cs =
     (drop_expired ce_expires_at t' (fst (live_view t cs)), drop_expired ee_expires_at t' (snd (live_view t cs)))"
  by (simp add: live_view_def drop_expired_later)

lemma ceremony_step_view:
  assumes "live_view t s = live_view t s'"
  shows "fst (ceremony_step t x s) = fst (ceremony_step t x s')"
    and "live_view t (snd (ceremony_step t x s)) = live_view t (snd (ceremony_step t x s'))"
  using assms by (cases x; simp add: live_simps split_beta)+

interpretation ceremonies: swept_table ceremony_step sweep_expired live_view
proof
  fix t t' :: time and s s' :: ceremony_store
  assume "live_view t s = live_view t s'" and "t \<le> t'"
  then show "live_view t' s = live_view t' s'" by (simp add: live_view_later)
next
  fix t t' :: time and s :: ceremony_store
  assume "t \<le> t'"
  then show "live_view t' (sweep_expired t s) = live_view t' s"
    by (simp add: live_view_def sweep_expired_def drop_expired_later)
qed (rule ceremony_step_view, assumption)+

subsection \<open>The contract\<close>

text \<open>
  The ideal store forgets nothing by itself: it remembers under each key the latest thing stored
  and when, and a take removes it and refuses it when it is older than the limit.
\<close>

type_synonym ideal_store = "(string \<rightharpoonup> time \<times> bytes) \<times> (string \<rightharpoonup> time \<times> bytes \<times> string)"

fun ideal_step :: "time \<Rightarrow> ceremony_op \<Rightarrow> ideal_store \<Rightarrow> ceremony_out \<times> ideal_store" where
  "ideal_step now (Put delay k d) (m, n) = (Stored, (m(k \<mapsto> (now - int delay, d)), n))"
| "ideal_step now (Take k) (m, n) =
     (Taken (case m k of None \<Rightarrow> None | Some (t, d) \<Rightarrow> if now \<le> t + challenge_ttl then Some d else None),
      (m(k := None), n))"
| "ideal_step now (PutEnrol delay h d c) (m, n) = (Stored, (m, n(h \<mapsto> (now - int delay, d, c))))"
| "ideal_step now (TakeEnrol h) (m, n) =
     (TakenEnrol (case n h of None \<Rightarrow> None
        | Some (t, d, c) \<Rightarrow> if now \<le> t + challenge_ttl then Some (d, c) else None),
      (m, n(h := None)))"

definition ideal_live ::
  "time \<Rightarrow> ideal_store \<Rightarrow> (string \<rightharpoonup> ceremony_entry) \<times> (string \<rightharpoonup> enrol_entry)" where
  "ideal_live t mn =
     (\<lambda>k. case fst mn k of None \<Rightarrow> None
        | Some (u, d) \<Rightarrow> if t \<le> u + challenge_ttl
            then Some \<lparr>ce_data = d, ce_expires_at = u + challenge_ttl\<rparr> else None,
      \<lambda>h. case snd mn h of None \<Rightarrow> None
        | Some (u, d, c) \<Rightarrow> if t \<le> u + challenge_ttl
            then Some \<lparr>ee_data = d, ee_contact_id = c, ee_expires_at = u + challenge_ttl\<rparr> else None)"

lemma ideal_live_later:
  "t \<le> t' \<Longrightarrow> ideal_live t' mn =
     (drop_expired ce_expires_at t' (fst (ideal_live t mn)), drop_expired ee_expires_at t' (snd (ideal_live t mn)))"
  by (auto simp: ideal_live_def drop_expired_def fun_eq_iff split: option.splits)

lemma ideal_step_live:
  assumes "live_view t cs = ideal_live t mn"
  shows "fst (ceremony_step t x cs) = fst (ideal_step t x mn) \<and>
    live_view t (snd (ceremony_step t x cs)) = ideal_live t (snd (ideal_step t x mn))"
proof (cases mn)
  case (Pair m n)
  then show ?thesis using assms
    by (cases x) (auto simp: live_simps split_beta ideal_live_def fun_eq_iff challenge_ttl_def second_def
        split: option.splits)
qed

lemma ceremony_refines:
  "timed t es \<Longrightarrow> list_all is_op es \<Longrightarrow> live_view t cs = ideal_live t mn \<Longrightarrow>
   fst (run_events ceremony_step sweep_expired es cs) = fst (run_events ideal_step (\<lambda>t s. s) es mn)"
proof (induction es arbitrary: t cs mn)
  case (Cons e es)
  then obtain u x where e: "e = Op u x" by (cases e) auto
  have v: "live_view u cs = ideal_live u mn"
    using Cons.prems e by (simp add: live_view_later [of t u] ideal_live_later [of t u])
  have "fst (run_events ceremony_step sweep_expired es (snd (ceremony_step u x cs))) =
        fst (run_events ideal_step (\<lambda>t s. s) es (snd (ideal_step u x mn)))"
    using Cons.prems e ideal_step_live [OF v, of x] by (intro Cons.IH [of u]) auto
  then show ?case using e ideal_step_live [OF v, of x]
    by (simp add: run_events_Op del: run_events.simps)
qed simp

lemma run_ideal_filter:
  "fst (run_events ideal_step (\<lambda>t s. s) (filter is_op es) mn) = fst (run_events ideal_step (\<lambda>t s. s) es mn)"
proof (induction es arbitrary: mn)
  case (Cons e es)
  then show ?case
    by (cases e) (simp_all add: run_events_Op del: run_events.simps(2))
qed simp

subsection \<open>Properties\<close>

text \<open>C28: The ceremony store implements its contract: whatever the interleaving of puts, takes and background sweeps, the
  results are those of an ideal store that forgets nothing by itself, in which a take returns the latest data put under
  its key, once, and only for sixty seconds from the first clock reading of the put.\<close>

theorem ceremony_store_refines:
  assumes "timed t0 es"
  shows "fst (run_events ceremony_step sweep_expired es new_ceremony_store) =
    fst (run_events ideal_step (\<lambda>t s. s) es (Map.empty, Map.empty))"
proof -
  have "live_view t0 new_ceremony_store = ideal_live t0 (Map.empty, Map.empty)"
    by (simp add: live_view_def ideal_live_def new_ceremony_store_def drop_expired_def)
  then show ?thesis
    using ceremony_refines [OF timed_filter [OF assms, of is_op]] ceremonies.sweeps_unobservable [OF assms]
    by (simp add: list_all_iff run_ideal_filter)
qed

definition demo_ceremonies :: "ceremony_op event list" where
  "demo_ceremonies = [Op 0 (Put 0 ''k'' ''d''), Sweep 5, Op (60 * second) (Take ''k''), Op (60 * second) (Take ''k''),
     Op (60 * second) (PutEnrol 5 ''h'' ''e'' ''7''), Op (120 * second) (TakeEnrol ''h'')]"

theorem ceremony_store_refines_witness:
  "fst (run_events ceremony_step sweep_expired demo_ceremonies new_ceremony_store) =
     [Stored, Taken (Some ''d''), Taken None, Stored, TakenEnrol None]"
proof -
  have "timed 0 demo_ceremonies" "fst (run_events ideal_step (\<lambda>t s. s) demo_ceremonies (Map.empty, Map.empty)) =
     [Stored, Taken (Some ''d''), Taken None, Stored, TakenEnrol None]" by code_simp+
  then show ?thesis using ceremony_store_refines [of 0 demo_ceremonies] by simp
qed

end
