(* ===== verification/Login.thy ===== *)
theory Login
  imports Remint WebauthnCred Ceremony
begin

text \<open>
  \<^verbatim>\<open>webauthn.go\<close>: the passkey login. The WebAuthn library is a parameter: it begins a ceremony from a
  user and 32 random bytes, giving the options for the browser and opaque session data, and it
  verifies the answer to a ceremony, giving the credential that was used, with its new counters.
\<close>

record webauthn_user =
  wu_principal :: principal
  wu_credentials :: "wcredential list"
  wu_display_name :: string

definition webauthn_id :: "webauthn_user \<Rightarrow> bytes" where
  "webauthn_id u = p_id (wu_principal u)"

definition webauthn_name :: "webauthn_user \<Rightarrow> string" where
  "webauthn_name u =
     (if wu_display_name u \<noteq> '''' then wu_display_name u else p_external_id (wu_principal u))"

definition webauthn_display_name :: "webauthn_user \<Rightarrow> string" where
  "webauthn_display_name u =
     (if wu_display_name u \<noteq> '''' then wu_display_name u else p_external_id (wu_principal u))"

text \<open>
  What the library asks of a user (the methods of its \<^verbatim>\<open>User\<close> interface), and the library.
  \<open>wa_user_handle\<close> is the user handle of an answer, when the library gets as far as calling the
  handler; \<open>wa_finish_discoverable\<close> gets the user the handler returned, if it was called.
\<close>

type_synonym user_view = "bytes \<times> string \<times> string \<times> wcredential list"

definition user_view :: "webauthn_user \<Rightarrow> user_view" where
  "user_view u = (webauthn_id u, webauthn_name u, webauthn_display_name u, wu_credentials u)"

record webauthn =
  wa_begin_login :: "user_view \<Rightarrow> bytes option \<Rightarrow> ((string \<times> json) list \<times> bytes) option"
  wa_begin_discoverable :: "bytes option \<Rightarrow> ((string \<times> json) list \<times> bytes) option"
  wa_finish_login :: "user_view \<Rightarrow> bytes \<Rightarrow> request \<Rightarrow> wcredential option"
  wa_user_handle :: "bytes \<Rightarrow> request \<Rightarrow> bytes option"
  wa_finish_discoverable :: "user_view option \<Rightarrow> bytes \<Rightarrow> request \<Rightarrow> wcredential option"
  wa_begin_registration :: "user_view \<Rightarrow> bytes option \<Rightarrow> (json \<times> bytes) option"
  wa_finish_registration :: "user_view \<Rightarrow> bytes \<Rightarrow> request \<Rightarrow> wcredential option"

subsection \<open>Loading a user\<close>

fun usable_credentials :: "credential list \<Rightarrow> wcredential list" where
  "usable_credentials [] = []"
| "usable_credentials (c # cs) =
     (if c_type c \<noteq> type_webauthn then usable_credentials cs
      else if c_revoked_at c \<noteq> None then usable_credentials cs
      else
        (case unmarshal_webauthn_credential (c_data c) of
           Inl _ \<Rightarrow> usable_credentials cs
         | Inr wc \<Rightarrow> wc # usable_credentials cs))"

definition load_webauthn_user_by_principal :: "principal \<Rightarrow> world \<Rightarrow> (err + webauthn_user) \<times> world" where
  "load_webauthn_user_by_principal p w =
     (case list_credentials_by_principal (p_id p) w of
        (Inl e, w) \<Rightarrow> (Inl e, w)
      | (Inr creds, w) \<Rightarrow>
          (Inr \<lparr>wu_principal = p, wu_credentials = usable_credentials creds, wu_display_name = ''''\<rparr>, w))"

definition load_webauthn_user :: "string \<Rightarrow> world \<Rightarrow> (err + webauthn_user) \<times> world" where
  "load_webauthn_user contact_id w =
     (case get_principal_by_external_id class_human contact_id w of
        (Inl e, w) \<Rightarrow> (Inl e, w)
      | (Inr p, w) \<Rightarrow> load_webauthn_user_by_principal p w)"

subsection \<open>Beginning a login\<close>

definition ceremony_limited :: "string \<Rightarrow> response" where
  "ceremony_limited what =
     (let retry_after = show_int (seconds_of ceremony_begin_window) in
      add_headers [(''Retry-After'', retry_after)]
        (http_error 429 (dashed ''429 Too Many Requests''
           (''too many '' @ what @ '' attempts from this IP, retry after '' @ retry_after @ '' seconds''))))"

definition no_passkey :: response where
  "no_passkey = http_error 404 (dashed ''404 Not Found'' ''no passkey registered for this contact ID'')"

text \<open>Clock readings of the ceremony store's operations.\<close>

definition put_now :: "string \<Rightarrow> bytes \<Rightarrow> ceremony_store \<Rightarrow> world \<Rightarrow> ceremony_store \<times> world" where
  "put_now key dat cs w =
     (case time_now w of (now1, w) \<Rightarrow>
        (case time_now w of (now2, w) \<Rightarrow> (put now1 now2 key dat cs, w)))"

definition take_now :: "string \<Rightarrow> ceremony_store \<Rightarrow> world \<Rightarrow> (bytes option \<times> ceremony_store) \<times> world" where
  "take_now key cs w = (case time_now w of (now, w) \<Rightarrow> (take_ceremony now key cs, w))"

definition put_enrol_now ::
  "string \<Rightarrow> bytes \<Rightarrow> string \<Rightarrow> ceremony_store \<Rightarrow> world \<Rightarrow> ceremony_store \<times> world" where
  "put_enrol_now h dat contact_id cs w =
     (case time_now w of (now1, w) \<Rightarrow>
        (case time_now w of (now2, w) \<Rightarrow> (put_enrol now1 now2 h dat contact_id cs, w)))"

definition take_enrol_now ::
  "string \<Rightarrow> ceremony_store \<Rightarrow> world \<Rightarrow> ((bytes \<times> string) option \<times> ceremony_store) \<times> world" where
  "take_enrol_now h cs w = (case time_now w of (now, w) \<Rightarrow> (take_enrol now h cs, w))"

text \<open>
  After the rate limit. The discoverable branch adds the session token to the library's options
  (the response is a map, written with its keys in order).
\<close>

definition disco_key :: "string \<Rightarrow> string" where "disco_key session_id = ''login:disco:'' @ session_id"
definition login_key :: "string \<Rightarrow> string" where "login_key contact_id = ''login:'' @ contact_id"

definition with_session :: "(string \<times> json) list \<Rightarrow> string \<Rightarrow> json" where
  "with_session options session_id =
     JObj (sort_key fst ((''aithne_session'', JStr session_id)
       # filter (\<lambda>(k, v). k \<noteq> ''aithne_session'') options))"

definition login_begin ::
  "webauthn \<Rightarrow> string \<Rightarrow> ceremony_store \<Rightarrow> world \<Rightarrow> (response \<times> ceremony_store) \<times> world" where
  "login_begin wa contact_id cs w =
     (if contact_id = '''' then
        (case rand_read 32 w of (challenge, w) \<Rightarrow>
           (case wa_begin_discoverable wa challenge of
              None \<Rightarrow> ((internal_error, cs), w)
            | Some (options, session_data) \<Rightarrow>
                (case uuid_new w of (session_id, w) \<Rightarrow>
                   (case put_now (disco_key session_id) session_data cs w of (cs, w) \<Rightarrow>
                      ((json_response 200 (with_session options session_id), cs), w)))))
      else
        (case load_webauthn_user contact_id w of
           (Inl ErrNotFound, w) \<Rightarrow> ((no_passkey, cs), w)
         | (Inl _, w) \<Rightarrow> ((internal_error, cs), w)
         | (Inr user, w) \<Rightarrow>
             if length (wu_credentials user) = 0 then ((no_passkey, cs), w)
             else
               (case rand_read 32 w of (challenge, w) \<Rightarrow>
                  (case wa_begin_login wa (user_view user) challenge of
                     None \<Rightarrow> ((internal_error, cs), w)
                   | Some (options, session_data) \<Rightarrow>
                       (case put_now (login_key contact_id) session_data cs w of (cs, w) \<Rightarrow>
                          ((json_response 200 (JObj options), cs), w))))))"

record login_begin_request =
  lbr_contact_id :: string

definition decode_login_begin :: "string \<Rightarrow> login_begin_request option" where
  "decode_login_begin body =
     map_option (\<lambda>c. \<lparr>lbr_contact_id = c\<rparr>) (decode_string ''contact_id'' body)"

definition handle_login_begin ::
  "webauthn \<Rightarrow> request \<Rightarrow> ceremony_store \<Rightarrow> keyed_limiter \<Rightarrow> world \<Rightarrow>
   (response \<times> ceremony_store \<times> keyed_limiter) \<times> world" where
  "handle_login_begin wa r cs rl w =
     (if rq_method r \<noteq> ''POST'' then ((method_not_allowed, cs, rl), w)
      else
        (case time_now w of (now, w) \<Rightarrow>
           (case allow now (client_ip (header_get r ''X-Real-Ip'') (rq_remote r)) rl of ((ok, count), rl) \<Rightarrow>
              if \<not> ok then ((ceremony_limited ''login'', cs, rl), w)
              else
                (case decode_login_begin (rq_body r) of
                   None \<Rightarrow> ((http_error 400 (dashed ''400 Bad Request'' ''invalid JSON''), cs, rl), w)
                 | Some req \<Rightarrow>
                     (case login_begin wa (lbr_contact_id req) cs w of ((rs, cs), w) \<Rightarrow> ((rs, cs, rl), w))))))"

subsection \<open>Finishing a login\<close>

definition no_pending_login :: response where
  "no_pending_login =
     http_error 400 (dashed ''400 Bad Request'' ''no pending authentication (expired or not started)'')"

definition auth_failed :: response where
  "auth_failed = unauthorized ''authentication failed''"

definition principal_not_found :: response where
  "principal_not_found = http_error 404 (dashed ''404 Not Found'' ''principal not found'')"

text \<open>The handler given to \<^verbatim>\<open>FinishDiscoverableLogin\<close>.\<close>

definition discoverable_user :: "bytes \<Rightarrow> world \<Rightarrow> (err + webauthn_user) \<times> world" where
  "discoverable_user user_handle w =
     (case get_principal_by_id user_handle w of
        (Inl e, w) \<Rightarrow> (Inl e, w)
      | (Inr p, w) \<Rightarrow> load_webauthn_user_by_principal p w)"

definition finish_discoverable ::
  "webauthn \<Rightarrow> request \<Rightarrow> bytes \<Rightarrow> world \<Rightarrow> (response + webauthn_user \<times> wcredential) \<times> world" where
  "finish_discoverable wa r session_data w =
     (case wa_user_handle wa session_data r of
        None \<Rightarrow>
          (case wa_finish_discoverable wa None session_data r of
             None \<Rightarrow> (Inl auth_failed, w)
           | Some _ \<Rightarrow> (Inl internal_error, w))
      | Some user_handle \<Rightarrow>
          (case discoverable_user user_handle w of
             (Inl ErrNotFound, w) \<Rightarrow> (Inl principal_not_found, w)
           | (Inl _, w) \<Rightarrow> (Inl internal_error, w)
           | (Inr user, w) \<Rightarrow>
               (case wa_finish_discoverable wa (Some (user_view user)) session_data r of
                  None \<Rightarrow> (Inl auth_failed, w)
                | Some cred \<Rightarrow> (Inr (user, cred), w))))"

definition finish_explicit ::
  "webauthn \<Rightarrow> request \<Rightarrow> string \<Rightarrow> bytes \<Rightarrow> world \<Rightarrow> (response + webauthn_user \<times> wcredential) \<times> world" where
  "finish_explicit wa r contact_id session_data w =
     (case load_webauthn_user contact_id w of
        (Inl ErrNotFound, w) \<Rightarrow> (Inl principal_not_found, w)
      | (Inl _, w) \<Rightarrow> (Inl internal_error, w)
      | (Inr user, w) \<Rightarrow>
          (case wa_finish_login wa (user_view user) session_data r of
             None \<Rightarrow> (Inl auth_failed, w)
           | Some cred \<Rightarrow> (Inr (user, cred), w)))"

text \<open>Which stored credential matches, and its new data: nothing, an error, or both.\<close>

fun find_sign_count :: "wcredential \<Rightarrow> credential list \<Rightarrow> (err + (string \<times> bytes)) option" where
  "find_sign_count updated [] = None"
| "find_sign_count updated (c # cs) =
     (if c_type c \<noteq> type_webauthn then find_sign_count updated cs
      else if c_revoked_at c \<noteq> None then find_sign_count updated cs
      else
        (case unmarshal_webauthn_credential (c_data c) of
           Inl _ \<Rightarrow> find_sign_count updated cs
         | Inr wc \<Rightarrow>
             if wc_id wc = wc_id updated then
               (case marshal_webauthn_credential (wc\<lparr>wc_sign_count := wc_sign_count updated,
                       wc_user_present := wc_user_present updated, wc_user_verified := wc_user_verified updated,
                       wc_backup_eligible := wc_backup_eligible updated,
                       wc_backup_state := wc_backup_state updated\<rparr>) of
                  Inl _ \<Rightarrow> Some (Inl (ErrOther ''marshal updated credential''))
                | Inr new_data \<Rightarrow> Some (Inr (c_id c, new_data)))
             else find_sign_count updated cs))"

definition find_and_update_sign_count ::
  "webauthn_user \<Rightarrow> wcredential \<Rightarrow> world \<Rightarrow> (err + (string \<times> bytes) option) \<times> world" where
  "find_and_update_sign_count user updated w =
     (case list_credentials_by_principal (p_id (wu_principal user)) w of
        (Inl _, w) \<Rightarrow> (Inl (ErrOther ''list credentials for principal''), w)
      | (Inr creds, w) \<Rightarrow>
          (case find_sign_count updated creds of
             None \<Rightarrow> (Inr None, w)
           | Some (Inl e) \<Rightarrow> (Inl e, w)
           | Some (Inr found) \<Rightarrow> (Inr (Some found), w)))"

text \<open>Persisting the counter: failures are logged and the login goes on.\<close>

definition persist_sign_count :: "webauthn_user \<Rightarrow> wcredential \<Rightarrow> world \<Rightarrow> unit \<times> world" where
  "persist_sign_count user updated w =
     (case find_and_update_sign_count user updated w of
        (Inl _, w) \<Rightarrow> ((), w)
      | (Inr None, w) \<Rightarrow> ((), w)
      | (Inr (Some (cred_id, new_data)), w) \<Rightarrow>
          if cred_id = '''' then ((), w)
          else (case update_credential_data cred_id new_data w of (_, w) \<Rightarrow> ((), w)))"

definition login_target :: "request \<Rightarrow> string \<Rightarrow> string" where
  "login_target r environment =
     (let next_url = query_get r ''next'' in if is_allowed_redirect next_url environment then next_url else ''/'')"

text \<open>From the verified assertion on: clone check, counter, tokens and cookies.\<close>

definition login_succeed ::
  "env \<Rightarrow> request \<Rightarrow> webauthn_user \<Rightarrow> wcredential \<Rightarrow> world \<Rightarrow> response \<times> world" where
  "login_succeed en r user updated w =
     (if wc_clone_warning updated then
        (http_error 403 (dashed ''403 Forbidden''
           ''authenticator clone detected (sign count regression)''), w)
      else
        (case persist_sign_count user updated w of (_, w) \<Rightarrow>
           (let p = wu_principal user in
            case get_active_scopes (p_id p) (en_environment en) w of
              (Inl _, w) \<Rightarrow> (internal_error, w)
            | (Inr scopes, w) \<Rightarrow>
                (case get_or_create_active_signing_key (en_crypto en) (en_kek en) w of
                   (Inl _, w) \<Rightarrow> (internal_error, w)
                 | (Inr key, w) \<Rightarrow>
                     (case mint_session (en_jose en) p scopes key (en_issuer en) token_audience
                             default_session_ttl [] w of
                        (Inl _, w) \<Rightarrow> (internal_error, w)
                      | (Inr tok, w) \<Rightarrow>
                          (case create_idp_session (en_crypto en) (p_id p) w of (session, w) \<Rightarrow>
                             (add_cookies
                                (set_session_cookie tok (en_environment en)
                                 # (case session of
                                      Inl _ \<Rightarrow> []
                                    | Inr (idp_raw, _) \<Rightarrow> [set_idp_session_cookie idp_raw (en_environment en)]))
                                (json_response 200 (JObj [(''ok'', JBool True),
                                   (''redirect'', JStr (login_target r (en_environment en)))])), w)))))))"

definition handle_login_finish ::
  "env \<Rightarrow> webauthn \<Rightarrow> request \<Rightarrow> ceremony_store \<Rightarrow> world \<Rightarrow> (response \<times> ceremony_store) \<times> world" where
  "handle_login_finish en wa r cs w =
     (if rq_method r \<noteq> ''POST'' then ((method_not_allowed, cs), w)
      else
        (let contact_id = query_get r ''contact_id''; session_id = query_get r ''session'' in
         if contact_id = '''' \<and> session_id = '''' then
           ((http_error 400 (dashed ''400 Bad Request'' ''contact_id or session query param required''), cs), w)
         else
           (case take_now (if session_id \<noteq> '''' then disco_key session_id else login_key contact_id) cs w of
              ((None, cs), w) \<Rightarrow> ((no_pending_login, cs), w)
            | ((Some session_data, cs), w) \<Rightarrow>
                (case (if session_id \<noteq> '''' then finish_discoverable wa r session_data w
                       else finish_explicit wa r contact_id session_data w) of
                   (Inl rs, w) \<Rightarrow> ((rs, cs), w)
                 | (Inr (user, updated), w) \<Rightarrow>
                     (case login_succeed en r user updated w of (rs, w) \<Rightarrow> ((rs, cs), w))))))"

subsection \<open>Effects on the database\<close>

lemma ceremony_frames [simp, frame_simps]:
  "w_db (snd (put_now k d cs w)) = w_db w"
  "w_db (snd (take_now k cs w)) = w_db w"
  "w_db (snd (put_enrol_now h d c cs w)) = w_db w"
  "w_db (snd (take_enrol_now h cs w)) = w_db w"
  by (simp_all add: put_now_def take_now_def put_enrol_now_def take_enrol_now_def case_prod_beta)

lemma load_frames [simp, frame_simps]:
  "w_db (snd (load_webauthn_user_by_principal p w)) = w_db w"
  "w_db (snd (load_webauthn_user c w)) = w_db w"
  "w_db (snd (discoverable_user h w)) = w_db w"
  by (simp_all add: load_webauthn_user_by_principal_def load_webauthn_user_def discoverable_user_def
      case_prod_beta split: sum.splits)

lemma finish_frames [simp, frame_simps]:
  "w_db (snd (finish_discoverable wa r sd w)) = w_db w"
  "w_db (snd (finish_explicit wa r c sd w)) = w_db w"
  unfolding finish_discoverable_def finish_explicit_def
  by (simp_all add: case_prod_beta split: sum.splits option.splits err.splits)

lemma find_and_update_frame [simp, frame_simps]: "w_db (snd (find_and_update_sign_count u c w)) = w_db w"
  by (simp add: find_and_update_sign_count_def case_prod_beta split: sum.splits option.splits)

lemma login_begin_frame [simp, frame_simps]: "w_db (snd (login_begin wa c cs w)) = w_db w"
  unfolding login_begin_def
  by (simp add: case_prod_beta split: sum.splits option.splits err.splits)

lemma handle_login_begin_frame [simp, frame_simps]: "w_db (snd (handle_login_begin wa r cs rl w)) = w_db w"
  unfolding handle_login_begin_def
  by (simp add: case_prod_beta split: option.splits)

context db_invariant
begin

lemma persist_sign_count [wf_intros]: "I (w_db w) \<Longrightarrow> I (w_db (snd (persist_sign_count u c w)))"
  unfolding persist_sign_count_def
  by (auto simp: case_prod_beta intro!: update_credential_data split: sum.splits option.splits)

lemma login_succeed [wf_intros]: "I (w_db w) \<Longrightarrow> I (w_db (snd (login_succeed en r u c w)))"
  unfolding login_succeed_def
  by (rule inv_rules persist_sign_count get_or_create_active_signing_key create_idp_session | assumption
      | simp only: frame_simps)+

lemma handle_login_finish [wf_intros]: "I (w_db w) \<Longrightarrow> I (w_db (snd (handle_login_finish en wa r cs w)))"
  unfolding handle_login_finish_def
  by (auto simp: Let_def case_prod_beta intro!: login_succeed split: option.splits sum.splits)

end

end
