(* ===== verification/StoreInvites.thy ===== *)
theory StoreInvites
  imports StorePrincipals Crypto
begin

text \<open>
  \<^verbatim>\<open>store/enrolment_invite.go\<close> and the transaction of \<^verbatim>\<open>store/store.go\<close> that replaces a passkey
  and consumes the invite.
\<close>

definition invite_ttl :: time where "invite_ttl = 24 * hour"

record enrolment_invite =
  inv_token_hash :: string
  inv_contact_id :: string
  inv_created_by :: string
  inv_created_at :: time
  inv_expires_at :: time
  inv_used_at :: "time option"

definition invite_is_valid :: "enrolment_invite \<Rightarrow> time \<Rightarrow> bool" where
  "invite_is_valid i now \<longleftrightarrow> inv_used_at i = None \<and> now < inv_expires_at i"

definition read_invite :: "invite_row \<Rightarrow> err + enrolment_invite" where
  "read_invite r =
     (case parse_time (ir_created_at r) of
        None \<Rightarrow> Inl (ErrOther ''store: parse invite created_at'')
      | Some t1 \<Rightarrow>
          (case parse_time (ir_expires_at r) of
             None \<Rightarrow> Inl (ErrOther ''store: parse invite expires_at'')
           | Some t2 \<Rightarrow>
               (let i = \<lparr>inv_token_hash = ir_token_hash r, inv_contact_id = ir_contact_id r,
                         inv_created_by = ir_created_by r, inv_created_at = t1,
                         inv_expires_at = t2, inv_used_at = None\<rparr> in
                case ir_used_at r of
                  None \<Rightarrow> Inr i
                | Some s \<Rightarrow>
                    (case parse_time s of
                       None \<Rightarrow> Inl (ErrOther ''store: parse invite used_at'')
                     | Some t3 \<Rightarrow> Inr (i\<lparr>inv_used_at := Some t3\<rparr>)))))"

definition scan_invite :: "string + invite_row option \<Rightarrow> err + enrolment_invite" where
  "scan_invite q =
     (case q of
        Inl _ \<Rightarrow> Inl (ErrOther ''store: scan invite'')
      | Inr None \<Rightarrow> Inl ErrNotFound
      | Inr (Some r) \<Rightarrow> read_invite r)"

definition create_invite ::
  "crypto \<Rightarrow> string \<Rightarrow> string \<Rightarrow> string \<Rightarrow> world \<Rightarrow> (err + enrolment_invite) \<times> world" where
  "create_invite x raw_token contact_id created_by w =
     (let token_hash = hash_token x raw_token in
      case time_now w of (now, w) \<Rightarrow>
        (let expires_at = now + invite_ttl in
         case db_exec (insert_invite \<lparr>ir_token_hash = token_hash, ir_contact_id = contact_id,
                  ir_created_by = created_by, ir_created_at = rfc3339 now,
                  ir_expires_at = rfc3339 expires_at, ir_used_at = None\<rparr>) w of
           (Inl _, w) \<Rightarrow> (Inl (ErrOther ''store: create invite''), w)
         | (Inr _, w) \<Rightarrow>
             (Inr \<lparr>inv_token_hash = token_hash, inv_contact_id = contact_id,
                   inv_created_by = created_by, inv_created_at = now, inv_expires_at = expires_at,
                   inv_used_at = None\<rparr>, w)))"

definition get_invite_by_hash :: "string \<Rightarrow> world \<Rightarrow> (err + enrolment_invite) \<times> world" where
  "get_invite_by_hash token_hash w =
     (case db_query (\<lambda>db. select_first (\<lambda>r. ir_token_hash r = token_hash) (invites db)) w of
        (q, w) \<Rightarrow> (scan_invite q, w))"

definition get_invite_by_raw_token :: "crypto \<Rightarrow> string \<Rightarrow> world \<Rightarrow> (err + enrolment_invite) \<times> world" where
  "get_invite_by_raw_token x raw_token w =
     (let token_hash = hash_token x raw_token in
      case db_query (\<lambda>db. select_first (\<lambda>r. ir_token_hash r = token_hash) (invites db)) w of
        (q, w) \<Rightarrow>
          (case scan_invite q of
             Inl e \<Rightarrow> (Inl e, w)
           | Inr i \<Rightarrow>
               (case time_now w of (now, w) \<Rightarrow>
                  (if inv_used_at i \<noteq> None then Inl ErrInviteUsed
                   else if now > inv_expires_at i then Inl ErrInviteExpired
                   else Inr i, w))))"

definition revoke_invite_by_hash :: "string \<Rightarrow> world \<Rightarrow> (err + unit) \<times> world" where
  "revoke_invite_by_hash token_hash w =
     (case get_invite_by_hash token_hash w of
        (Inl e, w) \<Rightarrow> (Inl e, w)
      | (Inr i, w) \<Rightarrow>
          if inv_used_at i \<noteq> None then (Inl ErrInviteUsed, w)
          else
            (case time_now w of (now, w) \<Rightarrow>
               (case db_exec (update_invites (\<lambda>r. ir_token_hash r = token_hash \<and> ir_used_at r = None)
                        (\<lambda>r. r\<lparr>ir_used_at := Some (rfc3339 now)\<rparr>)) w of
                  (Inl _, w) \<Rightarrow> (Inl (ErrOther ''store: revoke invite''), w)
                | (Inr n, w) \<Rightarrow> (if n = 0 then Inl ErrInviteUsed else Inr (), w))))"

text \<open>
  \<^verbatim>\<open>ReplaceWebAuthnCredentialAndConsumeInvite\<close>: wipe, insert and consume in one transaction. Every
  early return runs the deferred rollback to the database the transaction began with.
\<close>

definition replace_webauthn_credential_and_consume_invite ::
  "crypto \<Rightarrow> string \<Rightarrow> string \<Rightarrow> bytes \<Rightarrow> string \<Rightarrow> world \<Rightarrow> (err + credential) \<times> world" where
  "replace_webauthn_credential_and_consume_invite x principal_id raw_token dat label w =
     (case db_begin w of
        (Inl _, w) \<Rightarrow> (Inl (ErrOther ''store: begin transaction''), w)
      | (Inr db0, w) \<Rightarrow>
          (case db_exec (delete_credentials
                   (\<lambda>r. cr_principal_id r = principal_id \<and> cr_type r = type_webauthn)) w of
             (Inl _, w) \<Rightarrow>
               (Inl (ErrOther ''store: delete existing webauthn credentials''), rollback db0 w)
           | (Inr _, w) \<Rightarrow>
               (case new_uuid w of
                  (None, w) \<Rightarrow> (Inl (ErrOther ''store: generate credential id''), rollback db0 w)
                | (Some i, w) \<Rightarrow>
                    (case time_now w of (now, w) \<Rightarrow>
                       (case db_exec (insert_credential \<lparr>cr_id = i, cr_principal_id = principal_id,
                                cr_type = type_webauthn, cr_data = dat, cr_label = label,
                                cr_created_at = rfc3339 now, cr_revoked_by = None,
                                cr_revoked_at = None\<rparr>) w of
                          (Inl _, w) \<Rightarrow> (Inl (ErrOther ''store: insert new credential''), rollback db0 w)
                        | (Inr _, w) \<Rightarrow>
                            (let token_hash = hash_token x raw_token in
                             case db_exec (update_invites
                                      (\<lambda>r. ir_token_hash r = token_hash \<and> ir_used_at r = None)
                                      (\<lambda>r. r\<lparr>ir_used_at := Some (rfc3339 now)\<rparr>)) w of
                               (Inl _, w) \<Rightarrow> (Inl (ErrOther ''store: consume invite''), rollback db0 w)
                             | (Inr n, w) \<Rightarrow>
                                 if n = 0 then (Inl ErrInviteUsed, rollback db0 w)
                                 else
                                   (case db_commit db0 w of
                                      (Inl _, w) \<Rightarrow> (Inl (ErrOther ''store: commit transaction''), w)
                                    | (Inr _, w) \<Rightarrow>
                                        (Inr \<lparr>c_id = i, c_principal_id = principal_id,
                                              c_type = type_webauthn, c_data = dat, c_label = label,
                                              c_created_at = now, c_revoked_by = None,
                                              c_revoked_at = None\<rparr>, w))))))))"

lemma invite_reads [simp, frame_simps]:
  "w_db (snd (get_invite_by_hash h w)) = w_db w"
  "w_db (snd (get_invite_by_raw_token x t w)) = w_db w"
  by (simp_all add: get_invite_by_hash_def get_invite_by_raw_token_def Let_def case_prod_beta split: op_splits)

context db_invariant
begin

lemma create_invite [wf_intros]: "I (w_db w) \<Longrightarrow> I (w_db (snd (create_invite x t c b w)))"
  unfolding create_invite_def
  by (auto simp: case_prod_beta Let_def intro!: execs split: op_splits)

lemma revoke_invite_by_hash [wf_intros]: "I (w_db w) \<Longrightarrow> I (w_db (snd (revoke_invite_by_hash h w)))"
  unfolding revoke_invite_by_hash_def
  by (auto simp: case_prod_beta intro!: execs split: op_splits)

lemma replace_webauthn [wf_intros]:
  assumes "I (w_db w)"
  shows "I (w_db (snd (replace_webauthn_credential_and_consume_invite x pid t dat lab w)))"
proof (cases "db_begin w")
  case (Pair b w1)
  have "w_db (snd (db_begin w)) = w_db w" by simp
  with Pair have w1: "w_db w1 = w_db w" by simp
  show ?thesis
  proof (cases b)
    case (Inr db0)
    with Pair db_begin_InrD [of w db0] have "db0 = w_db w" by simp
    with assms have db0: "I db0" by simp
    show ?thesis
      unfolding replace_webauthn_credential_and_consume_invite_def type_webauthn_def Let_def
      using Pair Inr w1 assms db0
      by (simp only: prod.case sum.case)
        (rule inv_rules commit execs | assumption | simp add: db0 w1 rollback_def)+
  qed (use Pair w1 assms in \<open>simp add: replace_webauthn_credential_and_consume_invite_def\<close>)
qed

end

end
