(* ===== verification/Enrolment.thy ===== *)
theory Enrolment
  imports Login StoreInvites
begin

text \<open>
  \<^verbatim>\<open>enrolment.go\<close>: invites for new passkeys and the invite-gated registration ceremony. The admin
  handlers get the claims the scope middleware verified and, for pages, the raw token.
\<close>

subsection \<open>Page data, request and response\<close>

record enrol_page_data =
  epd_token :: string
  epd_contact_id :: string
  epd_display_name :: string
  epd_display_name_available :: bool
  epd_is_recovery :: bool
  epd_nonce :: string

record enrol_error_page_data =
  eed_reason :: string
  eed_nonce :: string

record admin_enrol_page_data =
  aed_session_token :: string
  aed_nonce :: string

definition enrol_page_fields :: "enrol_page_data \<Rightarrow> (string \<times> json) list" where
  "enrol_page_fields d =
     [(''Token'', JStr (epd_token d)), (''ContactID'', JStr (epd_contact_id d)),
      (''DisplayName'', JStr (epd_display_name d)),
      (''DisplayNameAvailable'', JBool (epd_display_name_available d)),
      (''IsRecovery'', JBool (epd_is_recovery d)), (''Nonce'', JStr (epd_nonce d))]"

definition enrol_error_page_fields :: "enrol_error_page_data \<Rightarrow> (string \<times> json) list" where
  "enrol_error_page_fields d = [(''Reason'', JStr (eed_reason d)), (''Nonce'', JStr (eed_nonce d))]"

definition admin_enrol_page_fields :: "admin_enrol_page_data \<Rightarrow> (string \<times> json) list" where
  "admin_enrol_page_fields d =
     [(''SessionToken'', JStr (aed_session_token d)), (''Nonce'', JStr (aed_nonce d))]"

record create_invite_request =
  cir_contact_id :: string

definition decode_invite_request :: "string \<Rightarrow> create_invite_request option" where
  "decode_invite_request body =
     map_option (\<lambda>c. \<lparr>cir_contact_id = c\<rparr>) (decode_string ''contact_id'' body)"

record create_invite_response =
  cip_invite_url :: string
  cip_expires_at :: string
  cip_display_name :: string
  cip_token_hash :: string

definition encode_invite_response :: "create_invite_response \<Rightarrow> json" where
  "encode_invite_response d =
     JObj [(''invite_url'', JStr (cip_invite_url d)), (''expires_at'', JStr (cip_expires_at d)),
       (''display_name'', JStr (cip_display_name d)), (''token_hash'', JStr (cip_token_hash d))]"

subsection \<open>Administration\<close>

definition handle_admin_enrol_page :: "request \<Rightarrow> string \<Rightarrow> world \<Rightarrow> response \<times> world" where
  "handle_admin_enrol_page r raw_token w =
     (if rq_method r \<noteq> ''GET'' then (method_not_allowed, w)
      else
        (case apply_page_csp w of
           (Inl _, w) \<Rightarrow> (internal_error, w)
         | (Inr (nonce, hs), w) \<Rightarrow>
             (page 200 hs ''admin_enrol.html''
                (admin_enrol_page_fields \<lparr>aed_session_token = raw_token, aed_nonce = nonce\<rparr>), w)))"

text \<open>The get-or-create of the human principal, as \<^verbatim>\<open>handleAdminInvites\<close> and \<^verbatim>\<open>bootstrapInvite\<close> do it.\<close>

definition ensure_human :: "string \<Rightarrow> world \<Rightarrow> (err + principal) \<times> world" where
  "ensure_human contact_id w =
     (case get_principal_by_external_id class_human contact_id w of
        (Inl ErrNotFound, w) \<Rightarrow> create_principal class_human contact_id w
      | (Inl e, w) \<Rightarrow> (Inl e, w)
      | (Inr p, w) \<Rightarrow> (Inr p, w))"

definition handle_admin_invites ::
  "env \<Rightarrow> contacts_client \<Rightarrow> request \<Rightarrow> session_claims \<Rightarrow> world \<Rightarrow> response \<times> world" where
  "handle_admin_invites en contacts r claims w =
     (if rq_method r \<noteq> ''POST'' then (method_not_allowed, w)
      else
        (case decode_invite_request (rq_body r) of
           None \<Rightarrow> (http_error 400 (dashed ''400 Bad Request'' ''invalid JSON body''), w)
         | Some req \<Rightarrow>
             let contact_id = cir_contact_id req in
             if contact_id = '''' then
               (http_error 400 (dashed ''400 Bad Request'' ''contact_id is required''), w)
             else
               (case contacts_get contacts contact_id of
                  Inl ErrNotFound \<Rightarrow>
                    (http_error 422 (dashed ''422 Unprocessable Entity''
                       ''contact_id not found in lucos_contacts''), w)
                | Inl _ \<Rightarrow>
                    (http_error 503 (dashed ''503 Service Unavailable'' ''could not verify contact''), w)
                | Inr info \<Rightarrow>
                    (case ensure_human contact_id w of
                       (Inl _, w) \<Rightarrow> (internal_error, w)
                     | (Inr _, w) \<Rightarrow>
                         (case uuid_new w of (raw_token, w) \<Rightarrow>
                            (case create_invite (en_crypto en) raw_token contact_id (sc_subject claims) w of
                               (Inl _, w) \<Rightarrow> (internal_error, w)
                             | (Inr invitation, w) \<Rightarrow>
                                 (json_response 201 (encode_invite_response
                                    \<lparr>cip_invite_url = trim_slashes (en_app_origin en) @ ''/enrol?token='' @ raw_token,
                                     cip_expires_at = rfc3339 (inv_expires_at invitation),
                                     cip_display_name = ci_display_name info,
                                     cip_token_hash = inv_token_hash invitation\<rparr>), w)))))))"

definition handle_admin_invite_by_hash :: "request \<Rightarrow> world \<Rightarrow> response \<times> world" where
  "handle_admin_invite_by_hash r w =
     (if rq_method r \<noteq> ''DELETE'' then (method_not_allowed, w)
      else
        (let token_hash = trim_prefix (rq_path r) ''/admin/invites/'' in
         if token_hash = '''' then
           (http_error 400 (dashed ''400 Bad Request'' ''token hash required''), w)
         else
           (case revoke_invite_by_hash token_hash w of
              (Inl ErrNotFound, w) \<Rightarrow> (http_error 404 ''404 Not Found'', w)
            | (Inl ErrInviteUsed, w) \<Rightarrow>
                (http_error 409 (dashed ''409 Conflict'' ''invite has already been used or revoked''), w)
            | (Inl _, w) \<Rightarrow> (internal_error, w)
            | (Inr _, w) \<Rightarrow> (empty_response 204, w))))"

subsection \<open>The invitee's page\<close>

definition invite_unopened :: response where
  "invite_unopened =
     something_went_wrong (''We couldn'' @ apostrophe @ ''t open this invite just then.'')"

definition enrol_error :: "(string \<times> string) list \<Rightarrow> string \<Rightarrow> string \<Rightarrow> response" where
  "enrol_error hs nonce reason =
     page 200 hs ''enrol_error.html'' (enrol_error_page_fields \<lparr>eed_reason = reason, eed_nonce = nonce\<rparr>)"

fun has_webauthn :: "credential list \<Rightarrow> bool" where
  "has_webauthn [] = False"
| "has_webauthn (c # cs) = (if c_type c = type_webauthn then True else has_webauthn cs)"

text \<open>Re-enrolment, as far as the two lookups succeed.\<close>

definition is_recovery :: "string \<Rightarrow> world \<Rightarrow> bool \<times> world" where
  "is_recovery contact_id w =
     (case get_principal_by_external_id class_human contact_id w of
        (Inl _, w) \<Rightarrow> (False, w)
      | (Inr p, w) \<Rightarrow>
          (case list_credentials_by_principal (p_id p) w of
             (Inl _, w) \<Rightarrow> (False, w)
           | (Inr creds, w) \<Rightarrow> (has_webauthn creds, w)))"

definition handle_enrol_page ::
  "env \<Rightarrow> contacts_client \<Rightarrow> request \<Rightarrow> world \<Rightarrow> response \<times> world" where
  "handle_enrol_page en contacts r w =
     (if rq_method r \<noteq> ''GET'' then (method_not_allowed, w)
      else
        (case apply_page_csp w of
           (Inl _, w) \<Rightarrow> (invite_unopened, w)
         | (Inr (nonce, hs), w) \<Rightarrow>
             (let raw_token = query_get r ''token'' in
              if raw_token = '''' then (enrol_error hs nonce ''not_found'', w)
              else
                (case get_invite_by_raw_token (en_crypto en) raw_token w of
                   (Inl ErrNotFound, w) \<Rightarrow> (enrol_error hs nonce ''not_found'', w)
                 | (Inl ErrInviteExpired, w) \<Rightarrow> (enrol_error hs nonce ''expired'', w)
                 | (Inl ErrInviteUsed, w) \<Rightarrow> (enrol_error hs nonce ''used'', w)
                 | (Inl _, w) \<Rightarrow> (invite_unopened, w)
                 | (Inr invitation, w) \<Rightarrow>
                     (case is_recovery (inv_contact_id invitation) w of (recovery, w) \<Rightarrow>
                        (let info = contacts_get contacts (inv_contact_id invitation) in
                         (page 200 hs ''enrol.html''
                            (enrol_page_fields
                              \<lparr>epd_token = raw_token, epd_contact_id = inv_contact_id invitation,
                               epd_display_name = (case info of Inl _ \<Rightarrow> inv_contact_id invitation
                                                   | Inr i \<Rightarrow> ci_display_name i),
                               epd_display_name_available = is_ok info,
                               epd_is_recovery = recovery, epd_nonce = nonce\<rparr>), w)))))))"

subsection \<open>The registration ceremony\<close>

definition token_required :: response where
  "token_required = http_error 400 (dashed ''400 Bad Request'' ''token query param required'')"

definition invite_refused :: response where
  "invite_refused = unauthorized ''invite not found, expired, or already used''"

definition enrol_begin ::
  "env \<Rightarrow> webauthn \<Rightarrow> contacts_client \<Rightarrow> string \<Rightarrow> ceremony_store \<Rightarrow> world \<Rightarrow>
   (response \<times> ceremony_store) \<times> world" where
  "enrol_begin en wa contacts raw_token cs w =
     (case get_invite_by_raw_token (en_crypto en) raw_token w of
        (Inl ErrNotFound, w) \<Rightarrow> ((invite_refused, cs), w)
      | (Inl ErrInviteExpired, w) \<Rightarrow> ((invite_refused, cs), w)
      | (Inl ErrInviteUsed, w) \<Rightarrow> ((invite_refused, cs), w)
      | (Inl _, w) \<Rightarrow> ((internal_error, cs), w)
      | (Inr invitation, w) \<Rightarrow>
          (case get_principal_by_external_id class_human (inv_contact_id invitation) w of
             (Inl _, w) \<Rightarrow> ((internal_error, cs), w)
           | (Inr p, w) \<Rightarrow>
               (let display_name = (case contacts_get contacts (inv_contact_id invitation) of
                      Inl _ \<Rightarrow> inv_contact_id invitation | Inr info \<Rightarrow> ci_display_name info);
                    user = \<lparr>wu_principal = p, wu_credentials = [], wu_display_name = display_name\<rparr> in
                case rand_read 32 w of (challenge, w) \<Rightarrow>
                  (case wa_begin_registration wa (user_view user) challenge of
                     None \<Rightarrow> ((internal_error, cs), w)
                   | Some (creation, session_data) \<Rightarrow>
                       (case put_enrol_now (hash_token (en_crypto en) raw_token) session_data
                               (inv_contact_id invitation) cs w of
                          (cs, w) \<Rightarrow> ((json_response 200 creation, cs), w))))))"

definition handle_enrol_begin ::
  "env \<Rightarrow> webauthn \<Rightarrow> contacts_client \<Rightarrow> request \<Rightarrow> ceremony_store \<Rightarrow> keyed_limiter \<Rightarrow> world \<Rightarrow>
   (response \<times> ceremony_store \<times> keyed_limiter) \<times> world" where
  "handle_enrol_begin en wa contacts r cs rl w =
     (if rq_method r \<noteq> ''POST'' then ((method_not_allowed, cs, rl), w)
      else
        (case time_now w of (now, w) \<Rightarrow>
           (case allow now (client_ip (header_get r ''X-Real-Ip'') (rq_remote r)) rl of ((ok, count), rl) \<Rightarrow>
              if \<not> ok then ((ceremony_limited ''enrolment'', cs, rl), w)
              else
                (let raw_token = query_get r ''token'' in
                 if raw_token = '''' then ((token_required, cs, rl), w)
                 else
                   (case enrol_begin en wa contacts raw_token cs w of
                      ((rs, cs), w) \<Rightarrow> ((rs, cs, rl), w))))))"

text \<open>From the session data on: verify, validate, store.\<close>

definition enrol_register ::
  "env \<Rightarrow> webauthn \<Rightarrow> request \<Rightarrow> string \<Rightarrow> string \<Rightarrow> bytes \<Rightarrow> string \<Rightarrow> world \<Rightarrow> response \<times> world" where
  "enrol_register en wa r raw_token label session_data contact_id w =
     (case get_principal_by_external_id class_human contact_id w of
        (Inl _, w) \<Rightarrow> (internal_error, w)
      | (Inr p, w) \<Rightarrow>
          (let user = \<lparr>wu_principal = p, wu_credentials = [], wu_display_name = ''''\<rparr> in
           case wa_finish_registration wa (user_view user) session_data r of
             None \<Rightarrow> (http_error 400 (dashed ''400 Bad Request'' ''registration verification failed''), w)
           | Some cred \<Rightarrow>
               (case marshal_webauthn_credential cred of
                  Inl _ \<Rightarrow> (http_error 400 (dashed ''400 Bad Request'' ''invalid credential structure''), w)
                | Inr dat \<Rightarrow>
                    (case replace_webauthn_credential_and_consume_invite (en_crypto en) (p_id p) raw_token
                            dat label w of
                       (Inl _, w) \<Rightarrow> (internal_error, w)
                     | (Inr _, w) \<Rightarrow> (json_response 201 (JObj [(''ok'', JBool True)]), w)))))"

definition handle_enrol_finish ::
  "env \<Rightarrow> webauthn \<Rightarrow> request \<Rightarrow> ceremony_store \<Rightarrow> world \<Rightarrow> (response \<times> ceremony_store) \<times> world" where
  "handle_enrol_finish en wa r cs w =
     (if rq_method r \<noteq> ''POST'' then ((method_not_allowed, cs), w)
      else
        (let raw_token = query_get r ''token'';
             label = (if query_get r ''label'' = '''' then ''passkey'' else query_get r ''label'') in
         if raw_token = '''' then ((token_required, cs), w)
         else
           (case take_enrol_now (hash_token (en_crypto en) raw_token) cs w of
              ((None, cs), w) \<Rightarrow>
                ((http_error 400 (dashed ''400 Bad Request''
                    ''no pending enrolment (expired or begin not called)''), cs), w)
            | ((Some (session_data, contact_id), cs), w) \<Rightarrow>
                (case enrol_register en wa r raw_token label session_data contact_id w of
                   (rs, w) \<Rightarrow> ((rs, cs), w)))))"

subsection \<open>Effects on the database\<close>

lemma has_webauthn_iff [simp]: "has_webauthn cs \<longleftrightarrow> (\<exists>c \<in> set cs. c_type c = type_webauthn)"
  by (induction cs) auto

lemma is_recovery_frame [simp, frame_simps]: "w_db (snd (is_recovery c w)) = w_db w"
  by (simp add: is_recovery_def case_prod_beta split: sum.splits)

lemma handle_enrol_page_frame [simp, frame_simps]: "w_db (snd (handle_enrol_page en c r w)) = w_db w"
  unfolding handle_enrol_page_def
  by (simp add: case_prod_beta Let_def split: sum.splits err.splits)

lemma enrol_begin_frame [simp, frame_simps]: "w_db (snd (enrol_begin en wa c t cs w)) = w_db w"
  unfolding enrol_begin_def
  by (simp add: case_prod_beta Let_def split: sum.splits err.splits option.splits)

lemma handle_enrol_begin_frame [simp, frame_simps]:
  "w_db (snd (handle_enrol_begin en wa c r cs rl w)) = w_db w"
  unfolding handle_enrol_begin_def
  by (simp add: case_prod_beta Let_def)

context db_invariant
begin

lemma ensure_human [wf_intros]: "I (w_db w) \<Longrightarrow> I (w_db (snd (ensure_human c w)))"
  unfolding ensure_human_def
  by (rule inv_rules create_principal | assumption | simp only: frame_simps)+

lemma handle_admin_invites [wf_intros]: "I (w_db w) \<Longrightarrow> I (w_db (snd (handle_admin_invites en c r cl w)))"
  unfolding handle_admin_invites_def
  by (rule inv_rules ensure_human create_invite | assumption | simp only: frame_simps)+

lemma handle_admin_invite_by_hash [wf_intros]:
  "I (w_db w) \<Longrightarrow> I (w_db (snd (handle_admin_invite_by_hash r w)))"
  unfolding handle_admin_invite_by_hash_def
  by (rule inv_rules revoke_invite_by_hash | assumption | simp only: frame_simps)+

lemma enrol_register [wf_intros]:
  "I (w_db w) \<Longrightarrow> I (w_db (snd (enrol_register en wa r t l sd c w)))"
  unfolding enrol_register_def
  by (rule inv_rules replace_webauthn | assumption | simp only: frame_simps)+

lemma handle_enrol_finish [wf_intros]:
  "I (w_db w) \<Longrightarrow> I (w_db (snd (handle_enrol_finish en wa r cs w)))"
  unfolding handle_enrol_finish_def
  by (auto simp: Let_def case_prod_beta intro!: enrol_register split: option.splits)

end

end
