(* ===== verification/Startup.thy ===== *)
theory Startup
  imports Enrolment
begin

text \<open>
  \<^verbatim>\<open>main.go\<close>: what runs before the server listens (the scope vocabulary, the bootstrap of the first
  administrator, the reconcile of the OIDC clients) and the maintenance subcommands.
\<close>

subsection \<open>The scope vocabulary\<close>

text \<open>\<^verbatim>\<open>scope[:idx]\<close> for the first \<^verbatim>\<open>" #"\<close>, or all of it.\<close>

fun cut_comment :: "string \<Rightarrow> string" where
  "cut_comment [] = []"
| "cut_comment (c # cs) =
     (if c = CHR '' '' \<and> prefix ''#'' cs then [] else c # cut_comment cs)"

text \<open>One line: \<open>None\<close> when it declares no scope.\<close>

definition scope_of_line :: "string \<Rightarrow> string option" where
  "scope_of_line line =
     (let trimmed = trim_space line in
      if \<not> prefix ''- '' trimmed then None
      else
        (let scope = trim_space (cut_comment (trim_prefix trimmed ''- '')) in
         if scope = '''' then None else Some scope))"

definition parse_scopes_yaml :: "string \<Rightarrow> err + vocabulary" where
  "parse_scopes_yaml data =
     (let scopes = List.map_filter scope_of_line (split_on (CHR 0x0A) data) in
      if length scopes = 0 then Inl (ErrOther ''scopes.yaml: no scopes found'')
      else Inr (new_vocabulary scopes))"

subsection \<open>The first administrator\<close>

definition bootstrap_admin :: "env \<Rightarrow> vocabulary \<Rightarrow> string \<Rightarrow> world \<Rightarrow> unit \<times> world" where
  "bootstrap_admin en vocab contact_id w =
     (case ensure_human contact_id w of
        (Inl _, w) \<Rightarrow> ((), w)
      | (Inr p, w) \<Rightarrow>
          (case list_credentials_by_principal (p_id p) w of
             (Inl _, w) \<Rightarrow> ((), w)
           | (Inr creds, w) \<Rightarrow>
               if has_webauthn creds then ((), w)
               else
                 (case create_grant (p_id p) ''aithne:admin'' (en_environment en) ''bootstrap'' vocab w of
                    (_, w) \<Rightarrow> ((), w))))"

definition bootstrap_invite :: "env \<Rightarrow> string \<Rightarrow> world \<Rightarrow> (err + string) \<times> world" where
  "bootstrap_invite en contact_id w =
     (case ensure_human contact_id w of
        (Inl _, w) \<Rightarrow> (Inl (ErrOther ''bootstrap-invite: create or look up principal''), w)
      | (Inr _, w) \<Rightarrow>
          (case uuid_new w of (raw_token, w) \<Rightarrow>
             (case create_invite (en_crypto en) raw_token contact_id ''bootstrap-cli'' w of
                (Inl _, w) \<Rightarrow> (Inl (ErrOther ''bootstrap-invite: create invite''), w)
              | (Inr _, w) \<Rightarrow> (Inr (en_app_origin en @ ''/enrol?token='' @ raw_token), w))))"

subsection \<open>OIDC clients\<close>

record manifest_entry =
  me_client_id :: string
  me_client_name :: string
  me_redirect_uris :: "string list"

fun assign_strings :: "string \<Rightarrow> (string \<times> json) list \<Rightarrow> string list \<Rightarrow> string list option" where
  "assign_strings field [] v = Some v"
| "assign_strings field ((k, j) # kvs) v =
     (if to_lower k = to_lower field then
        (case to_strings j of None \<Rightarrow> None | Some ss \<Rightarrow> assign_strings field kvs ss)
      else assign_strings field kvs v)"

definition decode_entry :: "json \<Rightarrow> manifest_entry option" where
  "decode_entry j =
     (case j of
        JNull \<Rightarrow> Some \<lparr>me_client_id = '''', me_client_name = '''', me_redirect_uris = []\<rparr>
      | JObj kvs \<Rightarrow>
          (case (assign_string ''client_id'' kvs '''', assign_string ''client_name'' kvs '''',
                 assign_strings ''redirect_uris'' kvs []) of
             (Some i, Some n, Some us) \<Rightarrow>
               Some \<lparr>me_client_id = i, me_client_name = n, me_redirect_uris = us\<rparr>
           | _ \<Rightarrow> None)
      | _ \<Rightarrow> None)"

fun decode_entries :: "json list \<Rightarrow> manifest_entry list option" where
  "decode_entries [] = Some []"
| "decode_entries (j # js) =
     (case decode_entry j of None \<Rightarrow> None | Some e \<Rightarrow> map_option (\<lambda>es. e # es) (decode_entries js))"

definition parse_oidc_client_manifest :: "string \<Rightarrow> err + manifest_entry list" where
  "parse_oidc_client_manifest data =
     (case json_unmarshal data of
        Some (JArr js) \<Rightarrow>
          (case decode_entries js of
             None \<Rightarrow> Inl (ErrOther ''parse oidc_clients.json'')
           | Some es \<Rightarrow> Inr es)
      | Some JNull \<Rightarrow> Inr []
      | _ \<Rightarrow> Inl (ErrOther ''parse oidc_clients.json''))"

text \<open>One entry of \<^verbatim>\<open>CLIENT_KEYS\<close>; \<open>None\<close> when it is empty or malformed and skipped.\<close>

definition client_key_entry :: "string \<Rightarrow> (string \<times> string) option" where
  "client_key_entry raw_entry =
     (let entry = trim_space raw_entry in
      if entry = '''' then None
      else if CHR ''='' \<notin> set entry then None
      else if CHR '':'' \<notin> set (before (CHR ''='') entry) then None
      else
        (let client_system = trim_space (before (CHR '':'') (before (CHR ''='') entry));
             secret = trim_space (before (CHR ''|'') (after (CHR ''='') entry)) in
         if client_system = '''' \<or> secret = '''' then None else Some (client_system, secret)))"

fun collect_client_keys :: "string list \<Rightarrow> (string \<rightharpoonup> string) \<Rightarrow> (string \<rightharpoonup> string)" where
  "collect_client_keys [] m = m"
| "collect_client_keys (e # es) m =
     (case client_key_entry e of
        None \<Rightarrow> collect_client_keys es m
      | Some (client_system, secret) \<Rightarrow> collect_client_keys es (m(client_system \<mapsto> secret)))"

definition parse_client_keys_by_system :: "string \<Rightarrow> (string \<rightharpoonup> string)" where
  "parse_client_keys_by_system raw = collect_client_keys (split_on (CHR '';'') raw) Map.empty"

definition is_loopback_redirect_uri :: "string \<Rightarrow> bool" where
  "is_loopback_redirect_uri raw_uri =
     (case url_parse raw_uri of
        None \<Rightarrow> False
      | Some u \<Rightarrow>
          (let host = url_hostname u in if host = ''localhost'' then True else is_loopback_ip host))"

definition filter_redirect_uris_for_environment :: "string list \<Rightarrow> string \<Rightarrow> string list" where
  "filter_redirect_uris_for_environment redirect_uris environment =
     (if environment = ''development'' then redirect_uris
      else filter (\<lambda>uri. \<not> is_loopback_redirect_uri uri) redirect_uris)"

fun reconcile_entries ::
  "env \<Rightarrow> (string \<rightharpoonup> string) \<Rightarrow> manifest_entry list \<Rightarrow> world \<Rightarrow> unit \<times> world" where
  "reconcile_entries en secrets [] w = ((), w)"
| "reconcile_entries en secrets (e # es) w =
     (case secrets (me_client_id e) of
        None \<Rightarrow> reconcile_entries en secrets es w
      | Some secret \<Rightarrow>
          (let uris = filter_redirect_uris_for_environment (me_redirect_uris e) (en_environment en) in
           if length (me_redirect_uris e) > 0 \<and> length uris = 0 then reconcile_entries en secrets es w
           else
             (case upsert_oidc_client (me_client_id e) (hash_oidc_secret (en_crypto en) secret)
                     (me_client_name e) uris w of
                (_, w) \<Rightarrow> reconcile_entries en secrets es w)))"

definition reconcile_oidc_clients :: "env \<Rightarrow> string \<Rightarrow> string \<Rightarrow> world \<Rightarrow> unit \<times> world" where
  "reconcile_oidc_clients en manifest_json client_keys_raw w =
     (case parse_oidc_client_manifest manifest_json of
        Inl _ \<Rightarrow> ((), w)
      | Inr entries \<Rightarrow>
          if length entries = 0 then ((), w)
          else reconcile_entries en (parse_client_keys_by_system client_keys_raw) entries w)"

subsection \<open>The relying party\<close>

definition derive_rp_id :: "string \<Rightarrow> string" where
  "derive_rp_id app_origin =
     (case url_parse app_origin of
        None \<Rightarrow> ''l42.eu''
      | Some u \<Rightarrow>
          (let host = url_hostname u in
           if host = '''' then ''l42.eu''
           else if host = ''l42.eu'' \<or> suffix ''.l42.eu'' host then ''l42.eu''
           else host))"

subsection \<open>Maintenance subcommands\<close>

definition is_quote_wrapped :: "string \<Rightarrow> bool" where
  "is_quote_wrapped s \<longleftrightarrow> length s \<ge> 2 \<and> hd s = CHR 0x22 \<and> last s = CHR 0x22"

text \<open>
  \<^verbatim>\<open>runRekey\<close> and \<^verbatim>\<open>runMigrateKEK\<close>: the exit code. The old key is derived with SHA-256 by the first and is
  the raw bytes, cut or padded to 32, for the second.
\<close>

definition kek_arguments_ok :: "string \<Rightarrow> string \<Rightarrow> bool" where
  "kek_arguments_ok old_kek_str new_kek_str \<longleftrightarrow>
     old_kek_str \<noteq> '''' \<and> new_kek_str \<noteq> '''' \<and> \<not> is_quote_wrapped old_kek_str \<and>
     \<not> is_quote_wrapped new_kek_str"

definition run_rekey :: "crypto \<Rightarrow> string \<Rightarrow> string \<Rightarrow> world \<Rightarrow> nat \<times> world" where
  "run_rekey x old_kek_str new_kek_str w =
     (if \<not> kek_arguments_ok old_kek_str new_kek_str then (1, w)
      else
        (let old_kek = cx_sha256 x old_kek_str; new_kek = cx_sha256 x new_kek_str in
         if old_kek = new_kek then (0, w)
         else
           (case rekey_signing_keys x old_kek new_kek w of
              (Inl _, w) \<Rightarrow> (1, w)
            | (Inr _, w) \<Rightarrow> (0, w))))"

definition raw_kek :: "string \<Rightarrow> bytes" where
  "raw_kek s = take 32 (s @ replicate 32 (CHR 0x00))"

definition run_migrate_kek :: "crypto \<Rightarrow> string \<Rightarrow> string \<Rightarrow> world \<Rightarrow> nat \<times> world" where
  "run_migrate_kek x old_kek_str new_kek_str w =
     (if \<not> kek_arguments_ok old_kek_str new_kek_str then (1, w)
      else
        (case rekey_signing_keys x (raw_kek old_kek_str) (cx_sha256 x new_kek_str) w of
           (Inl _, w) \<Rightarrow> (1, w)
         | (Inr _, w) \<Rightarrow> (0, w)))"

subsection \<open>Starting up\<close>

definition signing_key_rotation_interval :: time where
  "signing_key_rotation_interval = 30 * (24 * hour)"

text \<open>
  The store's part of \<^verbatim>\<open>main\<close>, in order; an error ends the process. An empty bootstrap contact is an
  unset variable.
\<close>

definition start_up ::
  "env \<Rightarrow> vocabulary \<Rightarrow> string \<Rightarrow> string \<Rightarrow> string \<Rightarrow> world \<Rightarrow> (err + unit) \<times> world" where
  "start_up en vocab admin_contact_id manifest_json client_keys w =
     (case migrate_signing_key_encryption (en_crypto en) (en_kek en) w of
        (Inl e, w) \<Rightarrow> (Inl e, w)
      | (Inr _, w) \<Rightarrow>
          (case get_or_create_active_signing_key (en_crypto en) (en_kek en) w of
             (Inl e, w) \<Rightarrow> (Inl e, w)
           | (Inr _, w) \<Rightarrow>
               (case rotate_signing_key_if_older_than (en_crypto en) (en_kek en)
                       signing_key_rotation_interval w of
                  (Inl e, w) \<Rightarrow> (Inl e, w)
                | (Inr _, w) \<Rightarrow>
                    (case (if admin_contact_id = '''' then ((), w)
                           else bootstrap_admin en vocab admin_contact_id w) of
                       (_, w) \<Rightarrow>
                         (case reconcile_oidc_clients en manifest_json client_keys w of
                            (_, w) \<Rightarrow> (Inr (), w))))))"

subsection \<open>Effects on the database\<close>

context db_invariant
begin

lemma bootstrap_admin [wf_intros]: "I (w_db w) \<Longrightarrow> I (w_db (snd (bootstrap_admin en v c w)))"
  unfolding bootstrap_admin_def
  by (rule inv_rules ensure_human create_grant | assumption | simp only: frame_simps)+

lemma bootstrap_invite [wf_intros]: "I (w_db w) \<Longrightarrow> I (w_db (snd (bootstrap_invite en c w)))"
  unfolding bootstrap_invite_def
  by (rule inv_rules ensure_human create_invite | assumption | simp only: frame_simps)+

lemma reconcile_entries [wf_intros]: "I (w_db w) \<Longrightarrow> I (w_db (snd (reconcile_entries en s es w)))"
  by (induction es arbitrary: w) (auto simp: case_prod_beta Let_def upsert_oidc_client split: option.splits)

lemma reconcile_oidc_clients [wf_intros]:
  "I (w_db w) \<Longrightarrow> I (w_db (snd (reconcile_oidc_clients en m k w)))"
  unfolding reconcile_oidc_clients_def
  by (rule inv_rules reconcile_entries | assumption)+

lemma run_rekey [wf_intros]: "I (w_db w) \<Longrightarrow> I (w_db (snd (run_rekey x a b w)))"
  unfolding run_rekey_def by (rule inv_rules rekey_signing_keys | assumption)+

lemma run_migrate_kek [wf_intros]: "I (w_db w) \<Longrightarrow> I (w_db (snd (run_migrate_kek x a b w)))"
  unfolding run_migrate_kek_def by (rule inv_rules rekey_signing_keys | assumption)+

lemma start_up [wf_intros]: "I (w_db w) \<Longrightarrow> I (w_db (snd (start_up en v c m k w)))"
  unfolding start_up_def
  by (rule inv_rules migrate_signing_key_encryption get_or_create_active_signing_key
      rotate_signing_key_if_older_than bootstrap_admin reconcile_oidc_clients | assumption)+

end

end
