(* ===== verification/Admin.thy ===== *)
theory Admin
  imports Startup
begin

text \<open>
  \<^verbatim>\<open>main.go\<close>: the scope middleware, the administration of grants, agents, keys and sessions, the
  status endpoint, the home page and logout. A wrapped handler gets the verified claims (and, behind
  the cookie middleware, the raw token) as arguments instead of through the request's context.
\<close>

definition admin_scope :: string where "admin_scope = ''aithne:admin''"
definition read_scope :: string where "read_scope = ''aithne:read''"

subsection \<open>The scope middleware\<close>

text \<open>The two nested loops over the token's and the allowed scopes.\<close>

fun any_scope :: "string list \<Rightarrow> string list \<Rightarrow> bool" where
  "any_scope [] allowed = False"
| "any_scope (sc # scs) allowed = (if any_equal allowed sc then True else any_scope scs allowed)"

definition check_any_scope :: "env \<Rightarrow> string list \<Rightarrow> request \<Rightarrow> world \<Rightarrow> (response + session_claims) \<times> world"
  where
  "check_any_scope en allowed r w =
     (case bearer_token r of
        None \<Rightarrow> (Inl (unauthorized ''missing Bearer token''), w)
      | Some token_str \<Rightarrow>
          (case verify_session en token_str w of (v, w) \<Rightarrow>
             (case v of
                KeysUnavailable \<Rightarrow> (Inl internal_error, w)
              | BadToken \<Rightarrow> (Inl (unauthorized ''invalid or expired token''), w)
              | Verified claims \<Rightarrow>
                  if \<not> any_scope (sc_scopes claims) allowed then
                    (Inl (http_error 403 (dashed ''403 Forbidden''
                       (''one of ['' @ join '' '' allowed @ ''] required''))), w)
                  else (Inr claims, w))))"

definition require_any_scope ::
  "env \<Rightarrow> string list \<Rightarrow> (session_claims \<Rightarrow> request \<Rightarrow> world \<Rightarrow> response \<times> world) \<Rightarrow>
   request \<Rightarrow> world \<Rightarrow> response \<times> world" where
  "require_any_scope en allowed next_handler r w =
     (case check_any_scope en allowed r w of
        (Inl rs, w) \<Rightarrow> (rs, w)
      | (Inr claims, w) \<Rightarrow> next_handler claims r w)"

definition require_admin_scope ::
  "env \<Rightarrow> (session_claims \<Rightarrow> request \<Rightarrow> world \<Rightarrow> response \<times> world) \<Rightarrow> request \<Rightarrow> world \<Rightarrow>
   response \<times> world" where
  "require_admin_scope en next_handler r w = require_any_scope en [admin_scope] next_handler r w"

definition login_redirect_raw :: "request \<Rightarrow> response" where
  "login_redirect_raw r = http_redirect (''/auth/login?next='' @ rq_uri r) 302"

definition require_admin_scope_from_cookie ::
  "env \<Rightarrow> (session_claims \<Rightarrow> string \<Rightarrow> request \<Rightarrow> world \<Rightarrow> response \<times> world) \<Rightarrow> request \<Rightarrow> world \<Rightarrow>
   response \<times> world" where
  "require_admin_scope_from_cookie en next_handler r w =
     (case cookie_get r session_cookie_name of
        None \<Rightarrow> (login_redirect_raw r, w)
      | Some token_str \<Rightarrow>
          (case verify_session en token_str w of (v, w) \<Rightarrow>
             (case v of
                KeysUnavailable \<Rightarrow> (internal_error, w)
              | BadToken \<Rightarrow> (login_redirect_raw r, w)
              | Verified claims \<Rightarrow>
                  if \<not> any_equal (sc_scopes claims) admin_scope then
                    (case apply_page_csp w of
                       (Inl _, w) \<Rightarrow> (internal_error, w)
                     | (Inr (nonce, hs), w) \<Rightarrow>
                         (page 403 hs ''access_denied.html'' (access_denied_page_fields \<lparr>adp_nonce = nonce\<rparr>), w))
                  else next_handler claims token_str r w)))"

subsection \<open>Grants\<close>

record credential_json =
  cj_id :: string
  cj_label :: string
  cj_created_at :: string
  cj_revoked_by :: "string option"
  cj_revoked_at :: "string option"

definition credential_to_json :: "credential \<Rightarrow> credential_json" where
  "credential_to_json c =
     \<lparr>cj_id = c_id c, cj_label = c_label c, cj_created_at = rfc3339 (c_created_at c),
      cj_revoked_by = c_revoked_by c, cj_revoked_at = map_option rfc3339 (c_revoked_at c)\<rparr>"

record grant_json =
  gj_id :: string
  gj_principal_id :: string
  gj_scope :: string
  gj_environment :: string
  gj_granted_by :: string
  gj_granted_at :: string
  gj_revoked_by :: "string option"
  gj_revoked_at :: "string option"

definition grant_to_json :: "grant \<Rightarrow> grant_json" where
  "grant_to_json g =
     \<lparr>gj_id = g_id g, gj_principal_id = g_principal_id g, gj_scope = g_scope g,
      gj_environment = g_environment g, gj_granted_by = g_granted_by g,
      gj_granted_at = rfc3339 (g_granted_at g), gj_revoked_by = g_revoked_by g,
      gj_revoked_at = map_option rfc3339 (g_revoked_at g)\<rparr>"

definition optional_field :: "string \<Rightarrow> string option \<Rightarrow> (string \<times> json) list" where
  "optional_field k v = (case v of None \<Rightarrow> [] | Some s \<Rightarrow> [(k, JStr s)])"

definition encode_grant :: "grant_json \<Rightarrow> json" where
  "encode_grant j =
     JObj ([(''id'', JStr (gj_id j)), (''principal_id'', JStr (gj_principal_id j)),
            (''scope'', JStr (gj_scope j)), (''environment'', JStr (gj_environment j)),
            (''granted_by'', JStr (gj_granted_by j)), (''granted_at'', JStr (gj_granted_at j))]
       @ optional_field ''revoked_by'' (gj_revoked_by j) @ optional_field ''revoked_at'' (gj_revoked_at j))"

definition encode_credential :: "credential_json \<Rightarrow> json" where
  "encode_credential j =
     JObj ([(''id'', JStr (cj_id j)), (''label'', JStr (cj_label j)), (''created_at'', JStr (cj_created_at j))]
       @ optional_field ''revoked_by'' (cj_revoked_by j) @ optional_field ''revoked_at'' (cj_revoked_at j))"

record scope_status =
  st_scope :: string
  st_granted :: bool
  st_grant_id :: string

text \<open>The map \<^verbatim>\<open>active\<close>, filled in the order of the grants, then one entry per scope.\<close>

fun active_ids :: "grant_json list \<Rightarrow> (string \<rightharpoonup> string) \<Rightarrow> (string \<rightharpoonup> string)" where
  "active_ids [] m = m"
| "active_ids (g # gs) m = active_ids gs (if gj_revoked_at g = None then m(gj_scope g \<mapsto> gj_id g) else m)"

definition build_scope_statuses :: "string list \<Rightarrow> grant_json list \<Rightarrow> scope_status list" where
  "build_scope_statuses scopes gs =
     (let active = active_ids gs Map.empty in
      map (\<lambda>sc. \<lparr>st_scope = sc, st_granted = (active sc \<noteq> None),
                 st_grant_id = (case active sc of None \<Rightarrow> '''' | Some i \<Rightarrow> i)\<rparr>) scopes)"

definition encode_statuses :: "scope_status list \<Rightarrow> json" where
  "encode_statuses ss = JArr (map (\<lambda>s. JObj [(''Scope'', JStr (st_scope s)), (''Granted'', JBool (st_granted s)),
     (''GrantID'', JStr (st_grant_id s))]) ss)"

record admin_grants_page_data =
  gpd_nonce :: string
  gpd_session_token :: string
  gpd_scope_statuses :: "scope_status list"
  gpd_contact_id :: string
  gpd_contact_display_name :: string
  gpd_contact_name_available :: bool
  gpd_principal_id :: string
  gpd_lookup_error :: string

definition grants_page_fields :: "admin_grants_page_data \<Rightarrow> (string \<times> json) list" where
  "grants_page_fields d =
     [(''Nonce'', JStr (gpd_nonce d)), (''SessionToken'', JStr (gpd_session_token d)),
      (''ScopeStatuses'', encode_statuses (gpd_scope_statuses d)), (''ContactID'', JStr (gpd_contact_id d)),
      (''ContactDisplayName'', JStr (gpd_contact_display_name d)),
      (''ContactNameAvailable'', JBool (gpd_contact_name_available d)),
      (''PrincipalID'', JStr (gpd_principal_id d)), (''LookupError'', JStr (gpd_lookup_error d))]"

text \<open>The data of the grants page filled in for a contact, after the page's headers are set.\<close>

definition grants_page_data ::
  "env \<Rightarrow> vocabulary \<Rightarrow> contacts_client \<Rightarrow> string \<Rightarrow> admin_grants_page_data \<Rightarrow> world \<Rightarrow>
   admin_grants_page_data \<times> world" where
  "grants_page_data en vocab contacts contact_id d w =
     (case get_principal_by_external_id class_human contact_id w of
        (Inl ErrNotFound, w) \<Rightarrow>
          (d\<lparr>gpd_lookup_error := ''No principal found for contact ID '' @ quote_go contact_id @ ''.''\<rparr>, w)
      | (Inl _, w) \<Rightarrow> (d\<lparr>gpd_lookup_error := ''Could not look up principal. Try again.''\<rparr>, w)
      | (Inr p, w) \<Rightarrow>
          (let info = contacts_get contacts contact_id;
               d = d\<lparr>gpd_principal_id := p_id p,
                 gpd_contact_display_name := (case info of Inl _ \<Rightarrow> contact_id | Inr i \<Rightarrow> ci_display_name i),
                 gpd_contact_name_available := is_ok info\<rparr> in
           case list_grants (p_id p) (en_environment en) True w of
             (Inl _, w) \<Rightarrow> (d\<lparr>gpd_lookup_error := ''Could not load grants. Try again.''\<rparr>, w)
           | (Inr gs, w) \<Rightarrow>
               (d\<lparr>gpd_scope_statuses := build_scope_statuses (vocab_all vocab) (map grant_to_json gs)\<rparr>, w)))"

definition admin_grants_page ::
  "env \<Rightarrow> vocabulary \<Rightarrow> contacts_client \<Rightarrow> session_claims \<Rightarrow> string \<Rightarrow> request \<Rightarrow> world \<Rightarrow> response \<times> world"
  where
  "admin_grants_page en vocab contacts claims raw_token r w =
     (case apply_page_csp w of
        (Inl _, w) \<Rightarrow> (internal_error, w)
      | (Inr (nonce, hs), w) \<Rightarrow>
          (let contact_id = query_get r ''contact_id'';
               d = \<lparr>gpd_nonce = nonce, gpd_session_token = raw_token, gpd_scope_statuses = [], gpd_contact_id = contact_id,
                 gpd_contact_display_name = '''', gpd_contact_name_available = False, gpd_principal_id = '''',
                 gpd_lookup_error = ''''\<rparr> in
           if contact_id = '''' then (page 200 hs ''admin_grants.html'' (grants_page_fields d), w)
           else
             (case grants_page_data en vocab contacts contact_id d w of
                (d, w) \<Rightarrow> (page 200 hs ''admin_grants.html'' (grants_page_fields d), w))))"

definition list_grants_handler :: "session_claims \<Rightarrow> request \<Rightarrow> world \<Rightarrow> response \<times> world" where
  "list_grants_handler claims r w =
     (let principal_id = query_get r ''principal_id''; environment = query_get r ''environment'' in
      if principal_id = '''' then
        (http_error 400 (dashed ''400 Bad Request'' ''principal_id is required''), w)
      else
        (case list_grants principal_id environment True w of
           (Inl _, w) \<Rightarrow> (internal_error, w)
         | (Inr gs, w) \<Rightarrow> (json_response 200 (JArr (map (encode_grant \<circ> grant_to_json) gs)), w)))"

fun scope_granted :: "string \<Rightarrow> grant list \<Rightarrow> bool" where
  "scope_granted scope [] = False"
| "scope_granted scope (g # gs) = (if g_scope g = scope then True else scope_granted scope gs)"

definition check_limited :: response where
  "check_limited =
     (let retry_after = show_int (seconds_of grants_check_window) in
      add_headers [(''Retry-After'', retry_after)]
        (http_error 429 (dashed ''429 Too Many Requests''
           (''too many grants/check calls, retry after '' @ retry_after @ '' seconds''))))"

definition check_grant ::
  "session_claims \<Rightarrow> request \<Rightarrow> keyed_limiter \<Rightarrow> world \<Rightarrow> (response \<times> keyed_limiter) \<times> world" where
  "check_grant claims r rl w =
     (let principal_id = query_get r ''principal_id''; scope = query_get r ''scope'' in
      if principal_id = '''' then
        ((http_error 400 (dashed ''400 Bad Request'' ''principal_id is required''), rl), w)
      else if scope = '''' then ((http_error 400 (dashed ''400 Bad Request'' ''scope is required''), rl), w)
      else
        (case time_now w of (now, w) \<Rightarrow>
           (case allow now (sc_subject claims) rl of ((ok, count), rl) \<Rightarrow>
              if \<not> ok then ((check_limited, rl), w)
              else
                (case list_grants principal_id '''' True w of
                   (Inl _, w) \<Rightarrow> ((internal_error, rl), w)
                 | (Inr gs, w) \<Rightarrow>
                     ((json_response 200 (JObj [(''granted'', JBool (scope_granted scope gs))]), rl), w)))))"

text \<open>The environment of the request is read and ignored.\<close>

record create_grant_request =
  cgr_principal_id :: string
  cgr_scope :: string
  cgr_environment :: string

definition decode_grant_request :: "string \<Rightarrow> create_grant_request option" where
  "decode_grant_request body =
     (case (decode_string ''principal_id'' body, decode_string ''scope'' body, decode_string ''environment'' body) of
        (Some p, Some s, Some e) \<Rightarrow> Some \<lparr>cgr_principal_id = p, cgr_scope = s, cgr_environment = e\<rparr>
      | _ \<Rightarrow> None)"

definition create_grant_handler ::
  "env \<Rightarrow> vocabulary \<Rightarrow> session_claims \<Rightarrow> request \<Rightarrow> world \<Rightarrow> response \<times> world" where
  "create_grant_handler en vocab claims r w =
     (case decode_grant_request (rq_body r) of
        Some req \<Rightarrow>
          if cgr_principal_id req = '''' \<or> cgr_scope req = '''' then
            (http_error 400 (dashed ''400 Bad Request'' ''principal_id and scope are required''), w)
          else
            (case create_grant (cgr_principal_id req) (cgr_scope req) (en_environment en) (sc_subject claims) vocab w of
               (Inl ErrUnknownScope, w) \<Rightarrow>
                 (http_error 400 (dashed ''400 Bad Request'' ''unknown scope (not in vocabulary)''), w)
             | (Inl ErrNotFound, w) \<Rightarrow>
                 (http_error 404 (dashed ''404 Not Found'' ''principal_id not found''), w)
             | (Inl ErrDuplicate, w) \<Rightarrow>
                 (http_error 409 (dashed ''409 Conflict''
                    ''active grant already exists for this principal/scope/environment''), w)
             | (Inl _, w) \<Rightarrow> (internal_error, w)
             | (Inr g, w) \<Rightarrow> (json_response 201 (encode_grant (grant_to_json g)), w))
      | None \<Rightarrow> (http_error 400 (dashed ''400 Bad Request'' ''invalid JSON body''), w))"

definition handle_grant_by_id :: "session_claims \<Rightarrow> request \<Rightarrow> world \<Rightarrow> response \<times> world" where
  "handle_grant_by_id claims r w =
     (if rq_method r \<noteq> ''DELETE'' then (method_not_allowed, w)
      else
        (let i = trim_prefix (rq_path r) ''/admin/grants/'' in
         if i = '''' then (http_error 400 (dashed ''400 Bad Request'' ''grant ID required''), w)
         else
           (case revoke_grant i (sc_subject claims) w of
              (Inl ErrNotFound, w) \<Rightarrow> (http_error 404 ''404 Not Found'', w)
            | (Inl ErrGrantRevoked, w) \<Rightarrow>
                (http_error 409 (dashed ''409 Conflict'' ''grant is already revoked''), w)
            | (Inl _, w) \<Rightarrow> (internal_error, w)
            | (Inr _, w) \<Rightarrow> (empty_response 204, w))))"

definition handle_grants ::
  "env \<Rightarrow> vocabulary \<Rightarrow> contacts_client \<Rightarrow> request \<Rightarrow> world \<Rightarrow> response \<times> world" where
  "handle_grants en vocab contacts r w =
     (if rq_method r = ''GET'' then
        (if prefix ''Bearer '' (header_get r ''Authorization'')
         then require_admin_scope en list_grants_handler r w
         else require_admin_scope_from_cookie en (admin_grants_page en vocab contacts) r w)
      else if rq_method r = ''POST'' then require_admin_scope en (create_grant_handler en vocab) r w
      else (method_not_allowed, w))"

subsection \<open>Agents and principals\<close>

record admin_agents_page_data =
  apd_nonce :: string
  apd_session_token :: string
  apd_scope_statuses :: "scope_status list"
  apd_slug :: string
  apd_principal_id :: string
  apd_credentials :: "credential_json list"
  apd_lookup_error :: string

definition agents_page_fields :: "admin_agents_page_data \<Rightarrow> (string \<times> json) list" where
  "agents_page_fields d =
     [(''Nonce'', JStr (apd_nonce d)), (''SessionToken'', JStr (apd_session_token d)),
      (''ScopeStatuses'', encode_statuses (apd_scope_statuses d)), (''Slug'', JStr (apd_slug d)),
      (''PrincipalID'', JStr (apd_principal_id d)),
      (''Credentials'', JArr (map encode_credential (apd_credentials d))),
      (''LookupError'', JStr (apd_lookup_error d))]"

text \<open>Both lookups run; an error of the second overwrites that of the first.\<close>

definition agent_page_data ::
  "env \<Rightarrow> vocabulary \<Rightarrow> string \<Rightarrow> admin_agents_page_data \<Rightarrow> world \<Rightarrow> admin_agents_page_data \<times> world" where
  "agent_page_data en vocab slug d w =
     (case get_principal_by_external_id class_agent slug w of
        (Inl ErrNotFound, w) \<Rightarrow>
          (d\<lparr>apd_lookup_error := ''No agent principal found for slug '' @ quote_go slug @ ''.''\<rparr>, w)
      | (Inl _, w) \<Rightarrow> (d\<lparr>apd_lookup_error := ''Could not look up agent. Try again.''\<rparr>, w)
      | (Inr p, w) \<Rightarrow>
          (case list_credentials_by_principal (p_id p) w of (creds, w) \<Rightarrow>
             (let d = d\<lparr>apd_principal_id := p_id p\<rparr>;
                  d = (case creds of
                         Inl _ \<Rightarrow> d\<lparr>apd_lookup_error := ''Could not load credentials. Try again.''\<rparr>
                       | Inr cs \<Rightarrow> d\<lparr>apd_credentials :=
                           map credential_to_json (filter (\<lambda>c. c_type c = type_machine_key) cs)\<rparr>) in
              case list_grants (p_id p) (en_environment en) True w of
                (Inl _, w) \<Rightarrow> (d\<lparr>apd_lookup_error := ''Could not load grants. Try again.''\<rparr>, w)
              | (Inr gs, w) \<Rightarrow>
                  (d\<lparr>apd_scope_statuses := build_scope_statuses (vocab_all vocab) (map grant_to_json gs)\<rparr>, w))))"

definition admin_agents_page ::
  "env \<Rightarrow> vocabulary \<Rightarrow> session_claims \<Rightarrow> string \<Rightarrow> request \<Rightarrow> world \<Rightarrow> response \<times> world" where
  "admin_agents_page en vocab claims raw_token r w =
     (case apply_page_csp w of
        (Inl _, w) \<Rightarrow> (internal_error, w)
      | (Inr (nonce, hs), w) \<Rightarrow>
          (let slug = query_get r ''slug'';
               d = \<lparr>apd_nonce = nonce, apd_session_token = raw_token, apd_scope_statuses = [], apd_slug = slug,
                 apd_principal_id = '''', apd_credentials = [], apd_lookup_error = ''''\<rparr> in
           if slug = '''' then (page 200 hs ''admin_agents.html'' (agents_page_fields d), w)
           else
             (case agent_page_data en vocab slug d w of
                (d, w) \<Rightarrow> (page 200 hs ''admin_agents.html'' (agents_page_fields d), w))))"

record agent_json =
  aj_slug :: string
  aj_principal_id :: string

definition encode_agent :: "agent_json \<Rightarrow> json" where
  "encode_agent a = JObj [(''slug'', JStr (aj_slug a)), (''principal_id'', JStr (aj_principal_id a))]"

record human_principal_json =
  hj_contact_id :: string
  hj_principal_id :: string

definition encode_human_principal :: "human_principal_json \<Rightarrow> json" where
  "encode_human_principal h =
     JObj [(''contact_id'', JStr (hj_contact_id h)), (''principal_id'', JStr (hj_principal_id h))]"

definition list_agents :: "session_claims \<Rightarrow> request \<Rightarrow> world \<Rightarrow> response \<times> world" where
  "list_agents claims r w =
     (if rq_method r \<noteq> ''GET'' then (method_not_allowed, w)
      else
        (case list_principals [class_agent] w of
           (Inl _, w) \<Rightarrow> (internal_error, w)
         | (Inr ps, w) \<Rightarrow>
             (json_response 200 (JArr (map (\<lambda>p. encode_agent
                \<lparr>aj_slug = p_external_id p, aj_principal_id = p_id p\<rparr>) ps)), w)))"

definition list_human_principals :: "session_claims \<Rightarrow> request \<Rightarrow> world \<Rightarrow> response \<times> world" where
  "list_human_principals claims r w =
     (if rq_method r \<noteq> ''GET'' then (method_not_allowed, w)
      else
        (case list_principals [class_human] w of
           (Inl _, w) \<Rightarrow> (internal_error, w)
         | (Inr ps, w) \<Rightarrow>
             (json_response 200 (JArr (map (\<lambda>p. encode_human_principal
                \<lparr>hj_contact_id = p_external_id p, hj_principal_id = p_id p\<rparr>) ps)), w)))"

definition handle_agents :: "env \<Rightarrow> vocabulary \<Rightarrow> request \<Rightarrow> world \<Rightarrow> response \<times> world" where
  "handle_agents en vocab r w =
     (if rq_method r = ''GET'' then
        (if prefix ''Bearer '' (header_get r ''Authorization'')
         then require_admin_scope en list_agents r w
         else require_admin_scope_from_cookie en (admin_agents_page en vocab) r w)
      else (method_not_allowed, w))"

definition handle_rotate_signing_key :: "env \<Rightarrow> session_claims \<Rightarrow> request \<Rightarrow> world \<Rightarrow> response \<times> world" where
  "handle_rotate_signing_key en claims r w =
     (if rq_method r \<noteq> ''POST'' then (method_not_allowed, w)
      else
        (case rotate_signing_key (en_crypto en) (en_kek en) w of
           (Inl _, w) \<Rightarrow> (internal_error, w)
         | (Inr new_key, w) \<Rightarrow>
             (json_response 200 (JObj [(''new_key_id'', JStr (k_id new_key)), (''rotated'', JBool True)]), w)))"

definition bad_principal_path :: response where
  "bad_principal_path =
     http_error 400 (dashed ''400 Bad Request'' ''path must be /admin/principals/{id}/idp-sessions'')"

definition handle_admin_principal_actions :: "session_claims \<Rightarrow> request \<Rightarrow> world \<Rightarrow> response \<times> world" where
  "handle_admin_principal_actions claims r w =
     (let rest = trim_prefix (rq_path r) ''/admin/principals/'' in
      if CHR ''/'' \<notin> set rest \<or> before (CHR ''/'') rest = '''' then (bad_principal_path, w)
      else
        (let principal_id = before (CHR ''/'') rest; action = after (CHR ''/'') rest in
         if action = ''idp-sessions'' \<and> rq_method r = ''DELETE'' then
           (case revoke_idp_sessions_for_principal principal_id w of
              (Inl _, w) \<Rightarrow> (internal_error, w)
            | (Inr n, w) \<Rightarrow> (json_response 200 (JObj [(''revoked'', JNum (int n))]), w))
         else (http_error 404 ''404 Not Found'', w)))"

subsection \<open>Home page and logout\<close>

text \<open>The soft session check: any failure leaves the visitor logged out.\<close>

definition home_data ::
  "env \<Rightarrow> contacts_client \<Rightarrow> request \<Rightarrow> home_page_data \<Rightarrow> world \<Rightarrow> home_page_data \<times> world" where
  "home_data en contacts r d w =
     (case cookie_get r session_cookie_name of
        None \<Rightarrow> (d, w)
      | Some cookie \<Rightarrow>
          (case verify_session en cookie w of (v, w) \<Rightarrow>
             (case v of
                KeysUnavailable \<Rightarrow> (d, w)
              | BadToken \<Rightarrow> (d, w)
              | Verified claims \<Rightarrow>
                  (let info = contacts_get contacts (sc_subject claims) in
                   (d\<lparr>hpd_logged_in := True, hpd_is_admin := any_equal (sc_scopes claims) admin_scope,
                      hpd_display_name := (case info of Inl _ \<Rightarrow> sc_subject claims | Inr i \<Rightarrow> ci_display_name i),
                      hpd_display_name_available := is_ok info\<rparr>, w)))))"

definition handle_home_page :: "env \<Rightarrow> contacts_client \<Rightarrow> request \<Rightarrow> world \<Rightarrow> response \<times> world" where
  "handle_home_page en contacts r w =
     (if rq_method r \<noteq> ''GET'' then (method_not_allowed, w)
      else
        (case apply_page_csp w of
           (Inl _, w) \<Rightarrow> (internal_error, w)
         | (Inr (nonce, hs), w) \<Rightarrow>
             (case home_data en contacts r
                \<lparr>hpd_logged_in = False, hpd_is_admin = False, hpd_display_name = '''',
                 hpd_display_name_available = False, hpd_nonce = nonce\<rparr> w of
                (d, w) \<Rightarrow> (page 200 hs ''index.html'' (home_page_fields d), w))))"

definition revoke_cookie_session :: "env \<Rightarrow> request \<Rightarrow> world \<Rightarrow> unit \<times> world" where
  "revoke_cookie_session en r w =
     (case cookie_get r idp_session_cookie_name of
        None \<Rightarrow> ((), w)
      | Some cookie \<Rightarrow> (case revoke_idp_session_by_token (en_crypto en) cookie w of (_, w) \<Rightarrow> ((), w)))"

definition handle_logout :: "env \<Rightarrow> request \<Rightarrow> world \<Rightarrow> response \<times> world" where
  "handle_logout en r w =
     (if rq_method r \<noteq> ''POST'' then (method_not_allowed, w)
      else if header_get r ''Origin'' \<noteq> en_app_origin en then
        (http_error 403 (dashed ''403 Forbidden'' ''invalid origin''), w)
      else
        (case revoke_cookie_session en r w of (_, w) \<Rightarrow>
           (add_cookies [clear_session_cookie (en_environment en), clear_idp_session_cookie (en_environment en)]
              (http_redirect ''/'' 303), w)))"

subsection \<open>The status endpoint\<close>

definition max_signing_key_age :: time where
  "max_signing_key_age = signing_key_rotation_interval + 5 * (24 * hour)"

text \<open>\<^verbatim>\<open>int(d.Seconds())\<close> truncates towards zero; \<^verbatim>\<open>d.Round(time.Hour)\<close> of a positive duration, printed.\<close>

definition trunc_seconds :: "time \<Rightarrow> int" where
  "trunc_seconds d = (if d < 0 then - (seconds_of (- d)) else seconds_of d)"

definition show_hours :: "time \<Rightarrow> string" where
  "show_hours d = show_int ((d + hour div 2) div hour) @ ''h0m0s''"

definition err_text :: "err \<Rightarrow> string" where
  "err_text e = (case e of ErrOther s \<Rightarrow> s | _ \<Rightarrow> ''store: error'')"

definition check_json :: "bool \<Rightarrow> string \<Rightarrow> string option \<Rightarrow> json" where
  "check_json ok detail debug =
     JObj (optional_field ''debug'' debug @ [(''ok'', JBool ok), (''techDetail'', JStr detail)])"

definition metric_json :: "int \<Rightarrow> string \<Rightarrow> json" where
  "metric_json v detail = JObj [(''techDetail'', JStr detail), (''value'', JNum v)]"

definition db_detail :: string where
  "db_detail = ''Checks whether a connection to the SQLite credential store can be established''"

definition signing_key_detail :: string where
  "signing_key_detail = dashed ''Checks an active signing key exists and can be served via JWKS''
     ''estate-wide local token verification depends on it''"

definition signing_key_age_detail :: string where
  "signing_key_age_detail = ''Checks the active signing key has been rotated within the expected interval; aithne rotates only at startup, so an older key means the process has run too long without a deploy and should be restarted/rotated''"

definition key_count_detail :: string where
  "key_count_detail = ''Signing keys currently published in JWKS (active plus recently-retired within the verification window)''"

definition minus_sign :: string where "minus_sign = [CHR 0xE2, CHR 0x88, CHR 0x92]"

definition key_age_detail :: string where
  "key_age_detail = ''Age of the active signing key (last rotation = now '' @ minus_sign @ '' this); aithne rotates it at startup once older than the rotation interval''"

text \<open>The signing-key checks and the metrics, given the keys and, when one is active, its age.\<close>

definition key_checks ::
  "(err + signing_key list) \<Rightarrow> (signing_key \<times> time) option \<Rightarrow>
   (string \<times> json) list \<times> (string \<times> json) list" where
  "key_checks keys active =
     (case keys of
        Inl e \<Rightarrow> ([(''signing_key'', check_json False signing_key_detail (Some (err_text e)))], [])
      | Inr ks \<Rightarrow>
          (case active of
             None \<Rightarrow>
               ([(''signing_key'', check_json False signing_key_detail (Some (dashed
                    ''no active signing key in verification set'' ''JWKS would serve no usable key'')))], [])
           | Some (k, age) \<Rightarrow>
               ([(''signing_key'', check_json True signing_key_detail None),
                 (''signing_key_age'',
                    if age > max_signing_key_age
                    then check_json False signing_key_age_detail (Some (dashed
                           (''active signing key is '' @ show_hours age @ '' old (> ''
                              @ show_hours max_signing_key_age @ '')'')
                           ''rotation is overdue; restart aithne or rotate via the admin endpoint''))
                    else check_json True signing_key_age_detail None)],
                [(''active_signing_key_age_seconds'', metric_json (trunc_seconds age) key_age_detail),
                 (''signing_key_count'', metric_json (int (length ks)) key_count_detail)])))"

text \<open>The first active key of the list and, when there is one, its age.\<close>

definition active_key_age ::
  "(err + signing_key list) \<Rightarrow> world \<Rightarrow> (signing_key \<times> time) option \<times> world" where
  "active_key_age keys w =
     (case keys of
        Inl _ \<Rightarrow> (None, w)
      | Inr ks \<Rightarrow>
          (case select_first (\<lambda>k. k_status k = ''active'') ks of
             None \<Rightarrow> (None, w)
           | Some k \<Rightarrow> (case time_now w of (now, w) \<Rightarrow> (Some (k, now - k_created_at k), w))))"

record ci_info =
  ci_circle :: string

record info_response =
  ir_system :: string
  ir_checks :: "(string \<times> json) list"
  ir_metrics :: "(string \<times> json) list"
  ir_ci :: "ci_info option"
  ir_title :: string
  ir_version :: string

text \<open>Fields with \<^verbatim>\<open>omitempty\<close> are left out when they are nil or empty.\<close>

definition encode_info :: "info_response \<Rightarrow> json" where
  "encode_info d =
     JObj ([(''system'', JStr (ir_system d)), (''checks'', JObj (ir_checks d)), (''metrics'', JObj (ir_metrics d))]
       @ (case ir_ci d of None \<Rightarrow> [] | Some c \<Rightarrow> [(''ci'', JObj [(''circle'', JStr (ci_circle c))])])
       @ (if ir_title d = '''' then [] else [(''title'', JStr (ir_title d))])
       @ (if ir_version d = '''' then [] else [(''version'', JStr (ir_version d))]))"

definition handle_info :: "env \<Rightarrow> string \<Rightarrow> string \<Rightarrow> world \<Rightarrow> response \<times> world" where
  "handle_info en system version w =
     (case db_query (\<lambda>_. ()) w of (ping, w) \<Rightarrow>
        (let db_check = (case ping of Inl msg \<Rightarrow> check_json False db_detail (Some msg)
                         | Inr _ \<Rightarrow> check_json True db_detail None) in
         case list_verification_keys (en_crypto en) (en_kek en) verification_window w of (keys, w) \<Rightarrow>
           (case active_key_age keys w of (active, w) \<Rightarrow>
             (case key_checks keys active of (checks, metrics) \<Rightarrow>
              (json_response 200 (encode_info
                 \<lparr>ir_system = system, ir_checks = (''db'', db_check) # checks, ir_metrics = metrics,
                  ir_ci = Some \<lparr>ci_circle = ''gh/lucas42/lucos_aithne''\<rparr>, ir_title = ''Aithne'',
                  ir_version = version\<rparr>), w)))))"

subsection \<open>Effects on the database\<close>

lemma any_scope_iff [simp]: "any_scope scs allowed \<longleftrightarrow> (\<exists>sc \<in> set scs. sc \<in> set allowed)"
  by (induction scs) auto

lemma scope_granted_iff [simp]: "scope_granted sc gs \<longleftrightarrow> (\<exists>g \<in> set gs. g_scope g = sc)"
  by (induction gs) auto

lemma check_any_scope_frame [simp, frame_simps]: "w_db (snd (check_any_scope en a r w)) = w_db w"
  by (simp add: check_any_scope_def case_prod_beta split: option.splits verified.splits)

lemma page_data_frames [simp, frame_simps]:
  "w_db (snd (grants_page_data en v c i gd w)) = w_db w"
  "w_db (snd (agent_page_data en v i ad w)) = w_db w"
  "w_db (snd (home_data en c r hm w)) = w_db w"
  "w_db (snd (active_key_age keys w)) = w_db w"
  by (simp_all add: grants_page_data_def agent_page_data_def home_data_def active_key_age_def Let_def
      case_prod_beta split: sum.splits option.splits verified.splits err.splits)

lemma page_handler_frames [simp, frame_simps]:
  "w_db (snd (admin_grants_page en v c cl t r w)) = w_db w"
  "w_db (snd (admin_agents_page en v cl t r w)) = w_db w"
  "w_db (snd (list_grants_handler cl r w)) = w_db w"
  "w_db (snd (list_agents cl r w)) = w_db w"
  "w_db (snd (list_human_principals cl r w)) = w_db w"
  "w_db (snd (check_grant cl r rl w)) = w_db w"
  "w_db (snd (handle_home_page en c r w)) = w_db w"
  "w_db (snd (handle_admin_enrol_page r t w)) = w_db w"
  "w_db (snd (handle_login_page r w)) = w_db w"
  "w_db (snd (handle_privacy_page r w)) = w_db w"
  by (simp_all add: admin_grants_page_def admin_agents_page_def list_grants_handler_def list_agents_def
      list_human_principals_def check_grant_def handle_home_page_def handle_admin_enrol_page_def
      handle_login_page_def handle_privacy_page_def Let_def case_prod_beta split: sum.splits)

lemma handle_info_frame [simp, frame_simps]: "w_db (snd (handle_info en s v w)) = w_db w"
  by (simp add: handle_info_def Let_def case_prod_beta list_verification_keys_def split: sum.splits)

context db_invariant
begin

lemma require_any_scope:
  assumes "\<And>c r w. I (w_db w) \<Longrightarrow> I (w_db (snd (h c r w)))"
  shows "I (w_db w) \<Longrightarrow> I (w_db (snd (require_any_scope en a h r w)))"
  unfolding require_any_scope_def
  by (rule inv_rules assms | assumption | simp only: frame_simps)+

lemma require_admin_scope:
  assumes "\<And>c r w. I (w_db w) \<Longrightarrow> I (w_db (snd (h c r w)))"
  shows "I (w_db w) \<Longrightarrow> I (w_db (snd (require_admin_scope en h r w)))"
  unfolding require_admin_scope_def by (rule require_any_scope [OF assms])

lemma require_admin_scope_from_cookie:
  assumes "\<And>c t r w. I (w_db w) \<Longrightarrow> I (w_db (snd (h c t r w)))"
  shows "I (w_db w) \<Longrightarrow> I (w_db (snd (require_admin_scope_from_cookie en h r w)))"
  unfolding require_admin_scope_from_cookie_def
  by (auto simp: case_prod_beta intro!: assms split: option.splits sum.splits verified.splits)

lemma create_grant_handler [wf_intros]:
  "I (w_db w) \<Longrightarrow> I (w_db (snd (create_grant_handler en v c r w)))"
  unfolding create_grant_handler_def case_prod_conv
  by (rule inv_rules create_grant | assumption | simp only: frame_simps)+

lemma handle_grant_by_id [wf_intros]: "I (w_db w) \<Longrightarrow> I (w_db (snd (handle_grant_by_id c r w)))"
  unfolding handle_grant_by_id_def
  by (rule inv_rules revoke_grant | assumption | simp only: frame_simps)+

lemma handle_grants [wf_intros]: "I (w_db w) \<Longrightarrow> I (w_db (snd (handle_grants en v c r w)))"
  unfolding handle_grants_def
  by (rule inv_if require_admin_scope require_admin_scope_from_cookie create_grant_handler inv_ret | assumption
      | simp only: frame_simps)+

lemma handle_agents [wf_intros]: "I (w_db w) \<Longrightarrow> I (w_db (snd (handle_agents en v r w)))"
  unfolding handle_agents_def
  by (rule inv_if require_admin_scope require_admin_scope_from_cookie inv_ret | assumption
      | simp only: frame_simps)+

lemma handle_rotate_signing_key [wf_intros]:
  "I (w_db w) \<Longrightarrow> I (w_db (snd (handle_rotate_signing_key en c r w)))"
  unfolding handle_rotate_signing_key_def
  by (rule inv_rules rotate_signing_key | assumption | simp only: frame_simps)+

lemma handle_admin_principal_actions [wf_intros]:
  "I (w_db w) \<Longrightarrow> I (w_db (snd (handle_admin_principal_actions c r w)))"
  unfolding handle_admin_principal_actions_def
  by (rule inv_rules revoke_idp_sessions_for_principal | assumption | simp only: frame_simps)+

lemma revoke_cookie_session [wf_intros]: "I (w_db w) \<Longrightarrow> I (w_db (snd (revoke_cookie_session en r w)))"
  unfolding revoke_cookie_session_def
  by (rule inv_rules revoke_idp_session_by_token | assumption)+

lemma handle_logout [wf_intros]: "I (w_db w) \<Longrightarrow> I (w_db (snd (handle_logout en r w)))"
  unfolding handle_logout_def
  by (rule inv_rules revoke_cookie_session | assumption)+

end

end
