(* ===== verification/Server.thy ===== *)
theory Server
  imports Admin
begin

text \<open>
  The routes \<^verbatim>\<open>main\<close> registers (\<^verbatim>\<open>main.go\<close>) and the server as the composition of the handlers behind
  them, with the in-memory state they share. \<^verbatim>\<open>http.ServeMux\<close> prefers the longer pattern: an exact
  path over the subtree above it. Requests for a path the mux answers itself with a redirect (one
  that is not clean, or lacks a subtree's slash) are left out; what \<^verbatim>\<open>http.ServeFileFS\<close> answers for an
  embedded file is a field of the configuration.
\<close>

record config =
  cf_env :: env
  cf_system :: string
  cf_version :: string
  cf_vocab :: vocabulary
  cf_contacts :: contacts_client
  cf_webauthn :: webauthn
  cf_serve_file :: "string \<Rightarrow> request \<Rightarrow> response"

record server =
  sv_ceremonies :: ceremony_store
  sv_token_limiter :: keyed_limiter
  sv_ceremony_limiter :: keyed_limiter
  sv_check_limiter :: keyed_limiter

definition new_server :: server where
  "new_server =
     \<lparr>sv_ceremonies = new_ceremony_store,
      sv_token_limiter = new_keyed_limiter token_endpoint_limit token_endpoint_window,
      sv_ceremony_limiter = new_keyed_limiter ceremony_begin_limit ceremony_begin_window,
      sv_check_limiter = new_keyed_limiter grants_check_limit grants_check_window\<rparr>"

datatype route =
    RInfo | RJwks | RDiscovery | RHome | RPrivacy | RLoginPage | RLoginBegin | RLoginFinish | RLogout
  | RRemint | RAuthorize | RToken | RUserinfo | RGrants | RGrantsCheck | RGrantById | RAdminEnrol
  | RContacts | RHumanPrincipals | RInvites | RInviteByHash | RAgents | RMachineKeys | RMachineKeyById
  | RRotate | RPrincipalActions | REnrolPage | REnrolBegin | REnrolFinish
  | RStatic string

definition exact_routes :: "(string \<times> route) list" where
  "exact_routes =
     [(''/_info'', RInfo), (''/.well-known/jwks.json'', RJwks),
      (''/.well-known/openid-configuration'', RDiscovery), (''/'', RHome), (''/privacy'', RPrivacy),
      (''/auth/login'', RLoginPage), (''/auth/login/begin'', RLoginBegin),
      (''/auth/login/finish'', RLoginFinish), (''/auth/logout'', RLogout), (''/auth/remint'', RRemint),
      (''/oauth2/authorize'', RAuthorize), (''/oauth2/token'', RToken), (''/oauth2/userinfo'', RUserinfo),
      (''/admin/grants'', RGrants), (''/admin/grants/check'', RGrantsCheck), (''/admin/enrol'', RAdminEnrol),
      (''/admin/contacts'', RContacts), (''/admin/human-principals'', RHumanPrincipals),
      (''/admin/invites'', RInvites), (''/admin/agents'', RAgents), (''/admin/machine-keys'', RMachineKeys),
      (''/admin/rotate-signing-key'', RRotate), (''/enrol'', REnrolPage), (''/enrol/begin'', REnrolBegin),
      (''/enrol/finish'', REnrolFinish),
      (''/favicon.svg'', RStatic ''static/favicon.svg''), (''/favicon.ico'', RStatic ''static/favicon.svg''),
      (''/robots.txt'', RStatic ''static/robots.txt''), (''/lucos_navbar.js'', RStatic ''static/lucos_navbar.js''),
      (''/aithne.css'', RStatic ''static/aithne.css''), (''/aithne.js'', RStatic ''static/aithne.js'')]"

definition subtree_routes :: "(string \<times> route) list" where
  "subtree_routes =
     [(''/admin/grants/'', RGrantById), (''/admin/invites/'', RInviteByHash),
      (''/admin/machine-keys/'', RMachineKeyById), (''/admin/principals/'', RPrincipalActions)]"

definition route_of :: "string \<Rightarrow> route option" where
  "route_of path =
     (case map_of exact_routes path of
        Some rt \<Rightarrow> Some rt
      | None \<Rightarrow> map_option snd (List.find (\<lambda>(p, rt). prefix p path) subtree_routes))"

definition serve_static_file :: "(string \<Rightarrow> request \<Rightarrow> response) \<Rightarrow> string \<Rightarrow> request \<Rightarrow> response" where
  "serve_static_file serve_file path r =
     (if rq_method r \<noteq> ''GET'' then http_error 405 ''405 Method Not Allowed'' else serve_file path r)"

text \<open>Handlers that only use the database, by route.\<close>

definition serve_stateless :: "config \<Rightarrow> route \<Rightarrow> request \<Rightarrow> world \<Rightarrow> response \<times> world" where
  "serve_stateless cf rt r w =
     (let en = cf_env cf; contacts = cf_contacts cf in
      case rt of
        RInfo \<Rightarrow> handle_info en (cf_system cf) (cf_version cf) w
      | RJwks \<Rightarrow>
          (case list_verification_keys (en_crypto en) (en_kek en) verification_window w of
             (keys, w) \<Rightarrow> (jwks_handler (en_jose en) keys, w))
      | RDiscovery \<Rightarrow> (handle_open_id_configuration (en_issuer en) r, w)
      | RHome \<Rightarrow> handle_home_page en contacts r w
      | RPrivacy \<Rightarrow> handle_privacy_page r w
      | RLoginPage \<Rightarrow> handle_login_page r w
      | RLogout \<Rightarrow> handle_logout en r w
      | RRemint \<Rightarrow> handle_re_mint en r w
      | RAuthorize \<Rightarrow> handle_authorize en r w
      | RUserinfo \<Rightarrow> handle_userinfo en (Some contacts) r w
      | RGrants \<Rightarrow> handle_grants en (cf_vocab cf) contacts r w
      | RGrantById \<Rightarrow> require_admin_scope en handle_grant_by_id r w
      | RAdminEnrol \<Rightarrow>
          require_admin_scope_from_cookie en (\<lambda>claims raw_token r. handle_admin_enrol_page r raw_token) r w
      | RContacts \<Rightarrow> require_admin_scope en (\<lambda>claims r w. (handle_admin_contacts contacts r, w)) r w
      | RHumanPrincipals \<Rightarrow> require_admin_scope en list_human_principals r w
      | RInvites \<Rightarrow> require_admin_scope en (\<lambda>claims r. handle_admin_invites en contacts r claims) r w
      | RInviteByHash \<Rightarrow> require_admin_scope en (\<lambda>claims r. handle_admin_invite_by_hash r) r w
      | RAgents \<Rightarrow> handle_agents en (cf_vocab cf) r w
      | RMachineKeys \<Rightarrow> require_admin_scope en (\<lambda>claims r. handle_admin_machine_keys en r) r w
      | RMachineKeyById \<Rightarrow>
          require_admin_scope en (\<lambda>claims r. handle_admin_machine_key_by_id r claims) r w
      | RRotate \<Rightarrow> require_admin_scope en (handle_rotate_signing_key en) r w
      | RPrincipalActions \<Rightarrow> require_admin_scope en handle_admin_principal_actions r w
      | REnrolPage \<Rightarrow> handle_enrol_page en contacts r w
      | RStatic path \<Rightarrow> (serve_static_file (cf_serve_file cf) path r, w)
      | _ \<Rightarrow> (http_error 404 ''404 page not found'', w))"

definition grants_check_route ::
  "env \<Rightarrow> request \<Rightarrow> keyed_limiter \<Rightarrow> world \<Rightarrow> (response \<times> keyed_limiter) \<times> world" where
  "grants_check_route en r rl w =
     (case check_any_scope en [admin_scope, read_scope] r w of
        (Inl rs, w) \<Rightarrow> ((rs, rl), w)
      | (Inr claims, w) \<Rightarrow> check_grant claims r rl w)"

definition dispatch :: "config \<Rightarrow> route \<Rightarrow> request \<Rightarrow> server \<Rightarrow> world \<Rightarrow> (response \<times> server) \<times> world" where
  "dispatch cf rt r sv w =
     (let en = cf_env cf; wa = cf_webauthn cf; contacts = cf_contacts cf in
      case rt of
        RToken \<Rightarrow>
          (case handle_oauth2_token en (Some contacts) r (sv_token_limiter sv) w of
             ((rs, rl), w) \<Rightarrow> ((rs, sv\<lparr>sv_token_limiter := rl\<rparr>), w))
      | RGrantsCheck \<Rightarrow>
          (case grants_check_route en r (sv_check_limiter sv) w of
             ((rs, rl), w) \<Rightarrow> ((rs, sv\<lparr>sv_check_limiter := rl\<rparr>), w))
      | RLoginBegin \<Rightarrow>
          (case handle_login_begin wa r (sv_ceremonies sv) (sv_ceremony_limiter sv) w of
             ((rs, cs, rl), w) \<Rightarrow> ((rs, sv\<lparr>sv_ceremonies := cs, sv_ceremony_limiter := rl\<rparr>), w))
      | RLoginFinish \<Rightarrow>
          (case handle_login_finish en wa r (sv_ceremonies sv) w of
             ((rs, cs), w) \<Rightarrow> ((rs, sv\<lparr>sv_ceremonies := cs\<rparr>), w))
      | REnrolBegin \<Rightarrow>
          (case handle_enrol_begin en wa contacts r (sv_ceremonies sv) (sv_ceremony_limiter sv) w of
             ((rs, cs, rl), w) \<Rightarrow> ((rs, sv\<lparr>sv_ceremonies := cs, sv_ceremony_limiter := rl\<rparr>), w))
      | REnrolFinish \<Rightarrow>
          (case handle_enrol_finish en wa r (sv_ceremonies sv) w of
             ((rs, cs), w) \<Rightarrow> ((rs, sv\<lparr>sv_ceremonies := cs\<rparr>), w))
      | _ \<Rightarrow> (case serve_stateless cf rt r w of (rs, w) \<Rightarrow> ((rs, sv), w)))"

text \<open>\<^verbatim>\<open>withRequestLogger\<close> draws an identifier for each request, for its log lines.\<close>

definition with_request_logger :: "(world \<Rightarrow> 'a \<times> world) \<Rightarrow> world \<Rightarrow> 'a \<times> world" where [simp]:
  "with_request_logger next w = (case uuid_new w of (_, w) \<Rightarrow> next w)"

text \<open>The logger wraps the security headers, which wrap the mux.\<close>

definition serve :: "config \<Rightarrow> request \<Rightarrow> server \<Rightarrow> world \<Rightarrow> (response \<times> server) \<times> world" where
  "serve cf r sv w =
     with_request_logger (\<lambda>w.
       case route_of (rq_path r) of
         None \<Rightarrow> ((secure_headers (http_error 404 ''404 page not found''), sv), w)
       | Some rt \<Rightarrow> (case dispatch cf rt r sv w of ((rs, sv), w) \<Rightarrow> ((secure_headers rs, sv), w))) w"

text \<open>The background goroutines: the ceremony store and the three limiters sweep on their tickers.\<close>

definition sweep_ceremonies :: "server \<Rightarrow> world \<Rightarrow> server \<times> world" where
  "sweep_ceremonies sv w =
     (case time_now w of (now, w) \<Rightarrow> (sv\<lparr>sv_ceremonies := sweep_expired now (sv_ceremonies sv)\<rparr>, w))"

definition sweep_limiters :: "server \<Rightarrow> world \<Rightarrow> server \<times> world" where
  "sweep_limiters sv w =
     (case time_now w of (t1, w) \<Rightarrow>
        (case time_now w of (t2, w) \<Rightarrow>
           (case time_now w of (t3, w) \<Rightarrow>
              (sv\<lparr>sv_token_limiter := sweep_limiter t1 (sv_token_limiter sv),
                  sv_ceremony_limiter := sweep_limiter t2 (sv_ceremony_limiter sv),
                  sv_check_limiter := sweep_limiter t3 (sv_check_limiter sv)\<rparr>, w))))"

datatype activity = Request request | SweepCeremonies | SweepLimiters

fun run_server :: "config \<Rightarrow> activity list \<Rightarrow> server \<Rightarrow> world \<Rightarrow> (response list \<times> server) \<times> world" where
  "run_server cf [] sv w = (([], sv), w)"
| "run_server cf (Request r # acts) sv w =
     (case serve cf r sv w of ((rs, sv), w) \<Rightarrow>
        (case run_server cf acts sv w of ((rss, sv), w) \<Rightarrow> ((rs # rss, sv), w)))"
| "run_server cf (SweepCeremonies # acts) sv w =
     (case sweep_ceremonies sv w of (sv, w) \<Rightarrow> run_server cf acts sv w)"
| "run_server cf (SweepLimiters # acts) sv w =
     (case sweep_limiters sv w of (sv, w) \<Rightarrow> run_server cf acts sv w)"

subsection \<open>Invariants\<close>

lemma sweeps_frame [simp, frame_simps]:
  "w_db (snd (sweep_ceremonies sv w)) = w_db w"
  "w_db (snd (sweep_limiters sv w)) = w_db w"
  by (simp_all add: sweep_ceremonies_def sweep_limiters_def case_prod_beta)

lemma grants_check_frame [simp, frame_simps]: "w_db (snd (grants_check_route en r rl w)) = w_db w"
  by (simp add: grants_check_route_def case_prod_beta split: sum.splits)

context db_invariant
begin

lemma serve_stateless [wf_intros]: "I (w_db w) \<Longrightarrow> I (w_db (snd (serve_stateless cf rt r w)))"
  unfolding serve_stateless_def Let_def
  by (cases rt)
    (simp_all add: case_prod_beta handle_logout handle_re_mint handle_authorize handle_grants
      handle_agents require_admin_scope require_admin_scope_from_cookie handle_grant_by_id
      handle_admin_invites handle_admin_invite_by_hash handle_admin_machine_keys
      handle_admin_machine_key_by_id handle_rotate_signing_key handle_admin_principal_actions)

lemma dispatch [wf_intros]: "I (w_db w) \<Longrightarrow> I (w_db (snd (dispatch cf rt r sv w)))"
  unfolding dispatch_def Let_def
  by (cases rt)
    (simp_all add: case_prod_beta handle_oauth2_token handle_login_finish handle_enrol_finish serve_stateless)

lemma serve [wf_intros]: "I (w_db w) \<Longrightarrow> I (w_db (snd (serve cf r sv w)))"
  unfolding serve_def by (auto simp: case_prod_beta intro!: dispatch split: option.splits)

lemma run_server [wf_intros]: "I (w_db w) \<Longrightarrow> I (w_db (snd (run_server cf acts sv w)))"
proof (induction acts arbitrary: sv w)
  case (Cons act acts)
  then show ?case by (cases act) (simp_all add: case_prod_beta serve)
qed simp

end

end
