(* ===== verification/Migration.thy ===== *)
theory Migration
  imports Database
begin

text \<open>
  Opening the database (\<^verbatim>\<open>Open\<close>, \<^verbatim>\<open>buildDSN\<close>, \<^verbatim>\<open>migrate\<close> and \<^verbatim>\<open>addColumnIfNotExists\<close> of \<^verbatim>\<open>store/store.go\<close>): the
  statements that bring the catalog of a database file, new or left by an older version, to the schema the rest of the
  store relies on. A catalog lists the tables of the file, with their columns and rows, and the indexes; how its rows are
  those of \<open>Database\<close> is stated in \<open>MigrationContract\<close>. A statement can fail for a reason the file does not show (a full
  disk): one flag per call says whether it does.
\<close>

subsection \<open>The catalog\<close>

text \<open>\<open>References t c True\<close> is REFERENCES t(c) ON DELETE CASCADE.\<close>

datatype col_constraint =
    Primary_Key | Not_Null | Check_In "string list" | References string string bool | Default string

record column =
  co_name :: string
  co_type :: string
  co_constraints :: "col_constraint list"

record table_def =
  tb_name :: string
  tb_columns :: "column list"
  tb_unique :: "string list list"

text \<open>A table of a file: a row lists its values in the order of the columns, \<open>None\<close> for NULL.\<close>

record sql_table = table_def +
  tb_rows :: "string option list list"

definition new_table :: "table_def \<Rightarrow> sql_table" where
  "new_table t = \<lparr>tb_name = tb_name t, tb_columns = tb_columns t, tb_unique = tb_unique t, tb_rows = []\<rparr>"

record index_def =
  ix_name :: string
  ix_table :: string
  ix_columns :: "string list"
  ix_unique :: bool
  ix_where_null :: "string option"

record catalog =
  ct_tables :: "sql_table list"
  ct_indexes :: "index_def list"
  ct_foreign_keys :: bool

record db_file =
  df_catalog :: catalog
  df_faults :: "bool list"

text \<open>
  The statements: those \<^verbatim>\<open>migrate\<close> issues (with IF NOT EXISTS), and the ones that would lose or move data. An added column
  is declared by its name and type alone.
\<close>

datatype ddl =
    Pragma_Foreign_Keys
  | Create_Table table_def
  | Create_Index index_def
  | Add_Column string column
  | Drop_Table string
  | Rename_Table string string

text \<open>Names are compared without regard to case.\<close>

definition same_name :: "string \<Rightarrow> string \<Rightarrow> bool" where
  "same_name a b \<longleftrightarrow> to_lower a = to_lower b"

definition find_table :: "string \<Rightarrow> catalog \<Rightarrow> sql_table option" where
  "find_table n c = List.find (\<lambda>t. same_name (tb_name t) n) (ct_tables c)"

definition has_column :: "string \<Rightarrow> 'a table_def_scheme \<Rightarrow> bool" where
  "has_column n t \<longleftrightarrow> (\<exists>col \<in> set (tb_columns t). same_name (co_name col) n)"

definition has_index :: "string \<Rightarrow> catalog \<Rightarrow> bool" where
  "has_index n c \<longleftrightarrow> (\<exists>i \<in> set (ct_indexes c). same_name (ix_name i) n)"

definition index_columns :: "index_def \<Rightarrow> string list" where
  "index_columns i = ix_columns i @ (case ix_where_null i of None \<Rightarrow> [] | Some n \<Rightarrow> [n])"

text \<open>The value of a row in a column, NULL where there is no such column.\<close>

definition row_value :: "sql_table \<Rightarrow> string option list \<Rightarrow> string \<Rightarrow> string option" where
  "row_value t r n =
     (case map_of (zip (map (to_lower \<circ> co_name) (tb_columns t)) r) (to_lower n) of None \<Rightarrow> None | Some v \<Rightarrow> v)"

text \<open>The keys of the rows an index covers; a key with a NULL in it is equal to no other.\<close>

definition index_keys :: "index_def \<Rightarrow> sql_table \<Rightarrow> string option list list" where
  "index_keys i t = map (\<lambda>r. map (row_value t r) (ix_columns i))
     (filter (\<lambda>r. case ix_where_null i of None \<Rightarrow> True | Some n \<Rightarrow> row_value t r n = None) (tb_rows t))"

definition index_violated :: "index_def \<Rightarrow> sql_table \<Rightarrow> bool" where
  "index_violated i t \<longleftrightarrow> ix_unique i \<and> \<not> distinct (filter (\<lambda>k. None \<notin> set k) (index_keys i t))"

text \<open>CREATE TABLE IF NOT EXISTS, CREATE [UNIQUE] INDEX IF NOT EXISTS and ALTER TABLE ADD COLUMN.\<close>

definition create_table :: "table_def \<Rightarrow> catalog \<Rightarrow> string + catalog" where
  "create_table t c =
     (if find_table (tb_name t) c \<noteq> None then Inr c
      else if has_index (tb_name t) c then Inl (''there is already an index named '' @ tb_name t)
      else Inr (c\<lparr>ct_tables := ct_tables c @ [new_table t]\<rparr>))"

definition create_index :: "index_def \<Rightarrow> catalog \<Rightarrow> string + catalog" where
  "create_index i c =
     (case find_table (ix_table i) c of
        None \<Rightarrow> Inl (''no such table: main.'' @ ix_table i)
      | Some t \<Rightarrow>
          if find_table (ix_name i) c \<noteq> None then Inl (''there is already a table named '' @ ix_name i)
          else if has_index (ix_name i) c then Inr c
          else if \<exists>n \<in> set (index_columns i). \<not> has_column n t then Inl (''no such column in '' @ ix_table i)
          else if index_violated i t then Inl (unique_failed (ix_name i))
          else Inr (c\<lparr>ct_indexes := ct_indexes c @ [i]\<rparr>))"

fun alter_table :: "string \<Rightarrow> (sql_table \<Rightarrow> sql_table) \<Rightarrow> sql_table list \<Rightarrow> sql_table list" where
  "alter_table n f [] = []"
| "alter_table n f (t # ts) = (if same_name (tb_name t) n then f t # ts else t # alter_table n f ts)"

definition with_column :: "column \<Rightarrow> sql_table \<Rightarrow> sql_table" where
  "with_column col t = t\<lparr>tb_columns := tb_columns t @ [col], tb_rows := map (\<lambda>r. r @ [None]) (tb_rows t)\<rparr>"

definition add_column :: "string \<Rightarrow> column \<Rightarrow> catalog \<Rightarrow> string + catalog" where
  "add_column n col c =
     (case find_table n c of
        None \<Rightarrow> Inl (''no such table: '' @ n)
      | Some t \<Rightarrow>
          if has_column (co_name col) t then Inl (''duplicate column name: '' @ co_name col)
          else Inr (c\<lparr>ct_tables := alter_table n (with_column col) (ct_tables c)\<rparr>))"

text \<open>
  DROP TABLE, which deletes the rows that refer to the table and its indexes with it, and ALTER TABLE RENAME TO, which the
  references follow.
\<close>

definition refers_to :: "string \<Rightarrow> column \<Rightarrow> bool" where
  "refers_to n col \<longleftrightarrow> (\<exists>k \<in> set (co_constraints col). case k of References t _ _ \<Rightarrow> same_name t n | _ \<Rightarrow> False)"

definition drop_table :: "string \<Rightarrow> catalog \<Rightarrow> string + catalog" where
  "drop_table n c =
     (if find_table n c = None then Inl (''no such table: '' @ n)
      else Inr (c\<lparr>ct_tables :=
          map (\<lambda>t. if ct_foreign_keys c
                   then t\<lparr>tb_rows := filter (\<lambda>r. \<forall>col \<in> set (tb_columns t). refers_to n col \<longrightarrow> row_value t r (co_name col) = None)
                            (tb_rows t)\<rparr> else t)
            (filter (\<lambda>t. \<not> same_name (tb_name t) n) (ct_tables c)),
        ct_indexes := filter (\<lambda>i. \<not> same_name (ix_table i) n) (ct_indexes c)\<rparr>))"

definition rename_reference :: "string \<Rightarrow> string \<Rightarrow> col_constraint \<Rightarrow> col_constraint" where
  "rename_reference n m k = (case k of References t col casc \<Rightarrow> References (if same_name t n then m else t) col casc | _ \<Rightarrow> k)"

definition rename_table :: "string \<Rightarrow> string \<Rightarrow> catalog \<Rightarrow> string + catalog" where
  "rename_table n m c =
     (if find_table n c = None then Inl (''no such table: '' @ n)
      else if find_table m c \<noteq> None \<or> has_index m c then Inl (''there is already another table or index with this name: '' @ m)
      else Inr (c\<lparr>ct_tables := map (\<lambda>t. t\<lparr>tb_name := (if same_name (tb_name t) n then m else tb_name t),
             tb_columns := map (\<lambda>col. col\<lparr>co_constraints := map (rename_reference n m) (co_constraints col)\<rparr>) (tb_columns t)\<rparr>)
               (ct_tables c),
           ct_indexes := map (\<lambda>i. i\<lparr>ix_table := (if same_name (ix_table i) n then m else ix_table i)\<rparr>) (ct_indexes c)\<rparr>))"

definition apply_ddl :: "ddl \<Rightarrow> catalog \<Rightarrow> string + catalog" where
  "apply_ddl stm c =
     (case stm of
        Pragma_Foreign_Keys \<Rightarrow> Inr (c\<lparr>ct_foreign_keys := True\<rparr>)
      | Create_Table t \<Rightarrow> create_table t c
      | Create_Index i \<Rightarrow> create_index i c
      | Add_Column n col \<Rightarrow> add_column n col c
      | Drop_Table n \<Rightarrow> drop_table n c
      | Rename_Table n m \<Rightarrow> rename_table n m c)"

definition exec_ddl :: "ddl \<Rightarrow> db_file \<Rightarrow> (string + unit) \<times> db_file" where
  "exec_ddl stm f =
     (case df_faults f of
        True # fs \<Rightarrow> (Inl io_failed, f\<lparr>df_faults := fs\<rparr>)
      | fs \<Rightarrow>
          (case apply_ddl stm (df_catalog f) of
             Inl msg \<Rightarrow> (Inl msg, f\<lparr>df_faults := tl fs\<rparr>)
           | Inr c \<Rightarrow> (Inr (), f\<lparr>df_catalog := c, df_faults := tl fs\<rparr>)))"

subsection \<open>The schema\<close>

abbreviation text_col :: "string \<Rightarrow> col_constraint list \<Rightarrow> column" where
  "text_col n cs \<equiv> \<lparr>co_name = n, co_type = ''TEXT'', co_constraints = cs\<rparr>"

abbreviation blob_col :: "string \<Rightarrow> col_constraint list \<Rightarrow> column" where
  "blob_col n cs \<equiv> \<lparr>co_name = n, co_type = ''BLOB'', co_constraints = cs\<rparr>"

abbreviation date_col :: "string \<Rightarrow> col_constraint list \<Rightarrow> column" where
  "date_col n cs \<equiv> \<lparr>co_name = n, co_type = ''DATETIME'', co_constraints = cs\<rparr>"

abbreviation now_default :: col_constraint where
  "now_default \<equiv> Default ''datetime(now)''"

definition principals_table :: table_def where
  "principals_table = \<lparr>tb_name = ''principals'', tb_columns =
     [text_col ''id'' [Primary_Key], text_col ''class'' [Not_Null, Check_In [''human'', ''agent'']],
      text_col ''external_id'' [Not_Null], date_col ''created_at'' [Not_Null, now_default]],
     tb_unique = [[''class'', ''external_id'']]\<rparr>"

definition credentials_table :: table_def where
  "credentials_table = \<lparr>tb_name = ''credentials'', tb_columns =
     [text_col ''id'' [Primary_Key], text_col ''principal_id'' [Not_Null, References ''principals'' ''id'' True],
      text_col ''type'' [Not_Null, Check_In [''webauthn'', ''machine_key'']], blob_col ''data'' [Not_Null],
      text_col ''label'' [Not_Null, Default ''''], date_col ''created_at'' [Not_Null, now_default]], tb_unique = []\<rparr>"

definition signing_keys_table :: table_def where
  "signing_keys_table = \<lparr>tb_name = ''signing_keys'', tb_columns =
     [text_col ''id'' [Primary_Key], text_col ''status'' [Not_Null, Check_In [''active'', ''retired'']],
      text_col ''algorithm'' [Not_Null], blob_col ''private_key'' [Not_Null],
      date_col ''created_at'' [Not_Null, now_default], date_col ''retired_at'' []], tb_unique = []\<rparr>"

definition grants_table :: table_def where
  "grants_table = \<lparr>tb_name = ''grants'', tb_columns =
     [text_col ''id'' [Primary_Key], text_col ''principal_id'' [Not_Null, References ''principals'' ''id'' True],
      text_col ''scope'' [Not_Null], text_col ''environment'' [Not_Null], text_col ''granted_by'' [Not_Null],
      date_col ''granted_at'' [Not_Null, now_default], text_col ''revoked_by'' [], date_col ''revoked_at'' []], tb_unique = []\<rparr>"

definition active_grants_index :: index_def where
  "active_grants_index = \<lparr>ix_name = ''idx_grants_active'', ix_table = ''grants'',
     ix_columns = [''principal_id'', ''scope'', ''environment''], ix_unique = True, ix_where_null = Some ''revoked_at''\<rparr>"

definition enrolment_invites_table :: table_def where
  "enrolment_invites_table = \<lparr>tb_name = ''enrolment_invites'', tb_columns =
     [text_col ''token_hash'' [Primary_Key], text_col ''contact_id'' [Not_Null], text_col ''created_by'' [Not_Null],
      date_col ''created_at'' [Not_Null], date_col ''expires_at'' [Not_Null], date_col ''used_at'' []], tb_unique = []\<rparr>"

definition oidc_clients_table :: table_def where
  "oidc_clients_table = \<lparr>tb_name = ''oidc_clients'', tb_columns =
     [text_col ''id'' [Primary_Key], text_col ''secret_hash'' [Not_Null], text_col ''redirect_uris'' [Not_Null],
      text_col ''client_name'' [Not_Null, Default ''''], date_col ''created_at'' [Not_Null, now_default]], tb_unique = []\<rparr>"

definition oidc_auth_codes_table :: table_def where
  "oidc_auth_codes_table = \<lparr>tb_name = ''oidc_auth_codes'', tb_columns =
     [text_col ''code_hash'' [Primary_Key], text_col ''client_id'' [Not_Null],
      text_col ''principal_id'' [Not_Null, References ''principals'' ''id'' True], text_col ''redirect_uri'' [Not_Null],
      text_col ''scope'' [Not_Null, Default ''''], text_col ''nonce'' [Not_Null, Default ''''],
      date_col ''expires_at'' [Not_Null], date_col ''created_at'' [Not_Null, now_default], date_col ''used_at'' []],
     tb_unique = []\<rparr>"

definition idp_sessions_table :: table_def where
  "idp_sessions_table = \<lparr>tb_name = ''idp_sessions'', tb_columns =
     [text_col ''token_hash'' [Primary_Key], text_col ''principal_id'' [Not_Null, References ''principals'' ''id'' True],
      date_col ''created_at'' [Not_Null], date_col ''expires_at'' [Not_Null], date_col ''revoked_at'' []], tb_unique = []\<rparr>"

definition sessions_index :: index_def where
  "sessions_index = \<lparr>ix_name = ''idx_idp_sessions_principal'', ix_table = ''idp_sessions'',
     ix_columns = [''principal_id''], ix_unique = False, ix_where_null = None\<rparr>"

definition migrate_stmts :: "ddl list" where
  "migrate_stmts =
     [Pragma_Foreign_Keys, Create_Table principals_table, Create_Table credentials_table, Create_Table signing_keys_table,
      Create_Table grants_table, Create_Index active_grants_index, Create_Table enrolment_invites_table,
      Create_Table oidc_clients_table, Create_Table oidc_auth_codes_table, Create_Table idp_sessions_table,
      Create_Index sessions_index]"

definition migrate_columns :: "column list" where
  "migrate_columns = [text_col ''revoked_by'' [], date_col ''revoked_at'' []]"

subsection \<open>Opening\<close>

definition build_dsn :: "string \<Rightarrow> string" where
  "build_dsn path =
     (if contains path ''?'' then path @ ''&'' @ ''_pragma=foreign_keys(ON)'' else path @ ''?'' @ ''_pragma=foreign_keys(ON)'')"

fun exec_all :: "ddl list \<Rightarrow> db_file \<Rightarrow> (err + unit) \<times> db_file" where
  "exec_all [] f = (Inr (), f)"
| "exec_all (s # ss) f =
     (case exec_ddl s f of
        (Inl msg, f) \<Rightarrow> (Inl (ErrOther (''exec: '' @ msg)), f)
      | (Inr _, f) \<Rightarrow> exec_all ss f)"

definition add_column_if_not_exists :: "string \<Rightarrow> column \<Rightarrow> db_file \<Rightarrow> (string + unit) \<times> db_file" where
  "add_column_if_not_exists n col f =
     (case exec_ddl (Add_Column n col) f of
        (Inl msg, f) \<Rightarrow> if contains msg ''duplicate column name'' then (Inr (), f) else (Inl msg, f)
      | (Inr _, f) \<Rightarrow> (Inr (), f))"

fun add_columns :: "string \<Rightarrow> column list \<Rightarrow> db_file \<Rightarrow> (err + unit) \<times> db_file" where
  "add_columns n [] f = (Inr (), f)"
| "add_columns n (col # cols) f =
     (case add_column_if_not_exists n col f of
        (Inl msg, f) \<Rightarrow> (Inl (ErrOther (''migrate '' @ n @ '': add column: '' @ msg)), f)
      | (Inr _, f) \<Rightarrow> add_columns n cols f)"

definition migrate :: "db_file \<Rightarrow> (err + unit) \<times> db_file" where
  "migrate f =
     (case exec_all migrate_stmts f of
        (Inl e, f) \<Rightarrow> (Inl e, f)
      | (Inr _, f) \<Rightarrow> add_columns ''credentials'' migrate_columns f)"

text \<open>\<^verbatim>\<open>sql.Open\<close> is the driver's: it either rejects the data source name or gives a handle on the file.\<close>

definition open_store :: "(string \<Rightarrow> bool) \<Rightarrow> string \<Rightarrow> db_file \<Rightarrow> (err + unit) \<times> db_file" where
  "open_store sql_open path f =
     (if \<not> sql_open (build_dsn path) then (Inl (ErrOther ''store: open''), f)
      else
        (case migrate f of
           (Inl _, f) \<Rightarrow> (Inl (ErrOther ''store: migrate''), f)
         | (Inr _, f) \<Rightarrow> (Inr (), f)))"

subsection \<open>What a statement leaves behind\<close>

text \<open>How the rows of a table read, and when they fit its columns.\<close>

definition readings :: "sql_table \<Rightarrow> (string \<Rightarrow> string option) list" where
  "readings t = map (row_value t) (tb_rows t)"

definition wf_table :: "sql_table \<Rightarrow> bool" where
  "wf_table t \<longleftrightarrow> distinct (map (to_lower \<circ> co_name) (tb_columns t)) \<and> (\<forall>r \<in> set (tb_rows t). length r = length (tb_columns t))"

text \<open>A table that has at most gained columns, without a constraint, in which the rows it had are NULL.\<close>

definition table_grows :: "sql_table \<Rightarrow> sql_table \<Rightarrow> bool" where
  "table_grows t t' \<longleftrightarrow> tb_name t' = tb_name t \<and> tb_unique t' = tb_unique t \<and>
     (\<exists>cs. tb_columns t' = tb_columns t @ cs \<and> (\<forall>col \<in> set cs. co_constraints col = [])) \<and>
     (wf_table t \<longrightarrow> wf_table t' \<and> readings t' = readings t)"

text \<open>The statements that add only.\<close>

definition additive :: "ddl \<Rightarrow> bool" where
  "additive stm \<longleftrightarrow> (case stm of Drop_Table _ \<Rightarrow> False | Rename_Table _ _ \<Rightarrow> False | Add_Column _ col \<Rightarrow> co_constraints col = [] | _ \<Rightarrow> True)"

definition catalog_grows :: "catalog \<Rightarrow> catalog \<Rightarrow> bool" where
  "catalog_grows c c' \<longleftrightarrow> (\<exists>us vs. ct_tables c' = us @ vs \<and> list_all2 table_grows (ct_tables c) us) \<and>
     prefix (ct_indexes c) (ct_indexes c') \<and> (ct_foreign_keys c \<longrightarrow> ct_foreign_keys c')"

text \<open>The state of the catalog in which a statement has nothing left to do.\<close>

definition settled :: "ddl \<Rightarrow> catalog \<Rightarrow> bool" where
  "settled stm c \<longleftrightarrow>
     (case stm of
        Pragma_Foreign_Keys \<Rightarrow> ct_foreign_keys c
      | Create_Table t \<Rightarrow> find_table (tb_name t) c \<noteq> None
      | Create_Index i \<Rightarrow> find_table (ix_table i) c \<noteq> None \<and> find_table (ix_name i) c = None \<and> has_index (ix_name i) c
      | Add_Column n col \<Rightarrow> (\<exists>t. find_table n c = Some t \<and> has_column (co_name col) t)
      | Drop_Table n \<Rightarrow> False
      | Rename_Table n m \<Rightarrow> False)"

lemma table_grows_refl: "table_grows t t"
  by (simp add: table_grows_def)

lemma table_grows_trans: "table_grows t u \<Longrightarrow> table_grows u v \<Longrightarrow> table_grows t v"
proof -
  assume t: "table_grows t u" and u: "table_grows u v"
  then obtain cs ds where "tb_columns u = tb_columns t @ cs" "tb_columns v = tb_columns u @ ds"
    "\<forall>col \<in> set cs. co_constraints col = []" "\<forall>col \<in> set ds. co_constraints col = []"
    unfolding table_grows_def by blast
  then have "\<exists>es. tb_columns v = tb_columns t @ es \<and> (\<forall>col \<in> set es. co_constraints col = [])"
    by (intro exI [of _ "cs @ ds"]) auto
  with t u show ?thesis unfolding table_grows_def by simp
qed

lemma catalog_growsI:
  "ct_tables d = us @ vs \<Longrightarrow> list_all2 table_grows (ct_tables c) us \<Longrightarrow> prefix (ct_indexes c) (ct_indexes d) \<Longrightarrow>
     (ct_foreign_keys c \<Longrightarrow> ct_foreign_keys d) \<Longrightarrow> catalog_grows c d"
  by (auto simp: catalog_grows_def)

lemma tables_same: "list_all2 table_grows ts ts"
  by (simp add: list_all2_refl table_grows_refl)

lemma catalog_grows_simps [simp]:
  "catalog_grows c c"
  "catalog_grows c (c\<lparr>ct_tables := ct_tables c @ [t]\<rparr>)"
  "catalog_grows c (c\<lparr>ct_indexes := ct_indexes c @ [i]\<rparr>)"
  "catalog_grows c (c\<lparr>ct_foreign_keys := True\<rparr>)"
  by (rule catalog_growsI [where vs = "[]", OF _ tables_same] catalog_growsI [where vs = "[t]", OF _ tables_same]; simp)+

lemma catalog_grows_trans:
  assumes "catalog_grows c d" "catalog_grows d e"
  shows "catalog_grows c e"
proof -
  obtain us vs where d: "ct_tables d = us @ vs" "list_all2 table_grows (ct_tables c) us"
    using assms(1) by (auto simp: catalog_grows_def)
  obtain us' vs' where e: "ct_tables e = us' @ vs'" "list_all2 table_grows (us @ vs) us'"
    using assms(2) d(1) by (auto simp: catalog_grows_def)
  from e(2) obtain xs ys where split: "us' = xs @ ys" "list_all2 table_grows us xs"
    by (auto simp: list_all2_append1)
  have "list_all2 table_grows (ct_tables c) xs"
    using list_all2_trans [OF table_grows_trans d(2) split(2)] .
  then have "\<exists>us vs. ct_tables e = us @ vs \<and> list_all2 table_grows (ct_tables c) us"
    using e(1) split(1) by (intro exI [of _ xs] exI [of _ "ys @ vs'"]) simp
  then show ?thesis using assms by (auto simp: catalog_grows_def)
qed

lemma find_grows:
  "list_all2 table_grows ts us \<Longrightarrow> List.find (\<lambda>t. same_name (tb_name t) n) ts = Some t \<Longrightarrow>
     \<exists>t'. List.find (\<lambda>t. same_name (tb_name t) n) (us @ vs) = Some t' \<and> table_grows t t'"
  by (induction rule: list_all2_induct) (auto simp: table_grows_def split: if_splits)

lemma find_table_grows: "catalog_grows c d \<Longrightarrow> find_table n c = Some t \<Longrightarrow> \<exists>t'. find_table n d = Some t' \<and> table_grows t t'"
  by (auto simp: catalog_grows_def find_table_def intro: find_grows)

lemma has_column_grows: "table_grows t t' \<Longrightarrow> has_column n t \<Longrightarrow> has_column n t'"
  by (auto simp: table_grows_def has_column_def)

lemma has_index_grows: "catalog_grows c d \<Longrightarrow> has_index n c \<Longrightarrow> has_index n d"
  by (auto simp: catalog_grows_def has_index_def prefix_def)

lemma foreign_keys_grow: "catalog_grows c d \<Longrightarrow> ct_foreign_keys c \<Longrightarrow> ct_foreign_keys d"
  by (simp add: catalog_grows_def)

lemma with_column_simps [simp]:
  "tb_name (with_column col t) = tb_name t" "tb_unique (with_column col t) = tb_unique t"
  "tb_columns (with_column col t) = tb_columns t @ [col]"
  by (simp_all add: with_column_def)

lemma row_value_with_column:
  assumes "length r = length (tb_columns t)"
  shows "row_value (with_column col t) (r @ [None]) = row_value t r"
proof
  fix n
  show "row_value (with_column col t) (r @ [None]) n = row_value t r n"
    using assms by (auto simp: row_value_def map_add_def split: option.split dest!: map_of_SomeD set_zip_leftD)
qed

lemma with_column_grows:
  assumes "co_constraints col = []" "\<not> has_column (co_name col) t"
  shows "table_grows t (with_column col t)"
proof -
  have "wf_table (with_column col t)" "readings (with_column col t) = readings t" if wf: "wf_table t"
  proof -
    have "to_lower (co_name col) \<notin> to_lower ` co_name ` set (tb_columns t)"
      using assms(2) by (auto simp: has_column_def same_name_def)
    with wf show "wf_table (with_column col t)" by (auto simp: wf_table_def with_column_def)
    show "readings (with_column col t) = readings t"
      using wf row_value_with_column [of _ t col] by (auto simp: readings_def wf_table_def with_column_def)
  qed
  with assms(1) show ?thesis by (simp add: table_grows_def)
qed

lemma columns_grow:
  assumes "find_table n c = Some t" "\<not> has_column (co_name col) t" "co_constraints col = []"
  shows "catalog_grows c (c\<lparr>ct_tables := alter_table n (with_column col) (ct_tables c)\<rparr>)"
proof -
  have "list_all2 table_grows ts (alter_table n (with_column col) ts)"
    if "List.find (\<lambda>t. same_name (tb_name t) n) ts = Some t" for ts
    using that assms(2,3) by (induction ts) (auto simp: with_column_grows tables_same table_grows_refl split: if_splits)
  then show ?thesis using assms(1)
    by (intro catalog_growsI [where vs = "[]", rotated]) (simp_all add: find_table_def)
qed

lemma apply_ddl_grows: "apply_ddl stm c = Inr c' \<Longrightarrow> additive stm \<Longrightarrow> catalog_grows c c'"
  by (cases stm)
    (auto simp: apply_ddl_def create_table_def create_index_def add_column_def additive_def columns_grow split: if_splits option.splits)

lemma find_snoc: "List.find P (xs @ [x]) = (case List.find P xs of Some y \<Rightarrow> Some y | None \<Rightarrow> if P x then Some x else None)"
  by (induction xs) auto

lemma has_column_snoc [simp]: "has_column (co_name col) (with_column col t)"
  by (simp add: has_column_def same_name_def)

lemma find_table_snoc:
  "find_table n (c\<lparr>ct_tables := ct_tables c @ [t]\<rparr>) =
     (case find_table n c of Some u \<Rightarrow> Some u | None \<Rightarrow> if same_name (tb_name t) n then Some t else None)"
  by (simp add: find_table_def find_snoc)

lemma new_table_name [simp]: "tb_name (new_table t) = tb_name t"
  by (simp add: new_table_def)

lemma find_alter:
  assumes "\<And>t. tb_name (f t) = tb_name t"
  shows "List.find (\<lambda>t. same_name (tb_name t) m) (alter_table n f ts) =
    map_option (if same_name m n then f else id) (List.find (\<lambda>t. same_name (tb_name t) m) ts)"
  by (induction ts) (auto simp: same_name_def id_def option.map_ident assms)

lemma find_table_columns:
  "find_table m (c\<lparr>ct_tables := alter_table n (with_column col) (ct_tables c)\<rparr>) =
     map_option (if same_name m n then with_column col else id) (find_table m c)"
  by (simp add: find_table_def find_alter)

lemma same_name_refl [simp]: "same_name n n"
  by (simp add: same_name_def)

lemma has_index_snoc [simp]: "has_index (ix_name i) (c\<lparr>ct_indexes := ct_indexes c @ [i]\<rparr>)"
  by (simp add: has_index_def)

lemma find_table_updates [simp]:
  "find_table n (c\<lparr>ct_indexes := is\<rparr>) = find_table n c" "find_table n (c\<lparr>ct_foreign_keys := b\<rparr>) = find_table n c"
  by (simp_all add: find_table_def)

lemma apply_ddl_settles: "apply_ddl stm c = Inr c' \<Longrightarrow> additive stm \<Longrightarrow> settled stm c'"
  by (cases stm)
    (auto simp: apply_ddl_def settled_def create_table_def create_index_def add_column_def find_table_snoc find_table_columns additive_def
      split: if_splits option.splits)

lemma settled_apply:
  assumes "settled stm c" "apply_ddl next c = Inr d" "additive next"
  shows "settled stm d"
proof (cases stm)
  case (Create_Index i)
  have "find_table (ix_name i) d = None"
    using assms Create_Index unfolding additive_def
    by (cases "next") (auto simp: settled_def apply_ddl_def create_table_def create_index_def add_column_def find_table_snoc
        find_table_columns has_index_def same_name_def split: if_splits option.splits)
  then show ?thesis
    using assms Create_Index apply_ddl_grows [OF assms(2,3)]
    by (auto simp: settled_def dest: find_table_grows has_index_grows)
qed (use assms apply_ddl_grows [OF assms(2,3)] in
  \<open>auto simp: settled_def dest: find_table_grows has_column_grows foreign_keys_grow\<close>)

lemma exec_ddl_run:
  assumes "exec_ddl stm f = (x, f')" "additive stm"
  shows "catalog_grows (df_catalog f) (df_catalog f') \<and>
    (\<forall>s. settled s (df_catalog f) \<longrightarrow> settled s (df_catalog f')) \<and> (x = Inr () \<longrightarrow> settled stm (df_catalog f'))"
  using assms
  by (auto simp: exec_ddl_def split: list.splits bool.splits sum.splits
      intro: apply_ddl_grows settled_apply apply_ddl_settles)

lemma exec_all_run:
  "exec_all ss f = (x, f') \<Longrightarrow> \<forall>s \<in> set ss. additive s \<Longrightarrow> catalog_grows (df_catalog f) (df_catalog f') \<and>
    (\<forall>s. settled s (df_catalog f) \<longrightarrow> settled s (df_catalog f')) \<and> (x = Inr () \<longrightarrow> (\<forall>s \<in> set ss. settled s (df_catalog f')))"
proof (induction ss arbitrary: f)
  case (Cons s ss)
  obtain y f1 where y: "exec_ddl s f = (y, f1)" by (cases "exec_ddl s f")
  have "additive s" using Cons.prems(2) by simp
  note one = exec_ddl_run [OF y this]
  show ?case
  proof (cases y)
    case (Inl m)
    with Cons.prems y one show ?thesis by auto
  next
    case (Inr u)
    with Cons.prems y have "exec_all ss f1 = (x, f')" "\<forall>s \<in> set ss. additive s" by simp_all
    from Cons.IH [OF this] one Inr show ?thesis by (auto intro: catalog_grows_trans)
  qed
qed auto

lemma add_columns_run:
  assumes "\<not> contains (''no such table: '' @ n) ''duplicate column name''"
  shows "add_columns n cols f = (x, f') \<Longrightarrow> \<forall>col \<in> set cols. co_constraints col = [] \<Longrightarrow> catalog_grows (df_catalog f) (df_catalog f') \<and>
    (\<forall>s. settled s (df_catalog f) \<longrightarrow> settled s (df_catalog f')) \<and>
    (x = Inr () \<longrightarrow> (\<forall>col \<in> set cols. settled (Add_Column n col) (df_catalog f')))"
proof (induction cols arbitrary: f)
  case (Cons col cols)
  have io: "\<not> contains io_failed ''duplicate column name''" by code_simp
  obtain y f1 where y: "exec_ddl (Add_Column n col) f = (y, f1)" by (cases "exec_ddl (Add_Column n col) f")
  have "additive (Add_Column n col)" using Cons.prems(2) by (simp add: additive_def)
  note one = exec_ddl_run [OF y this]
  have dup: "settled (Add_Column n col) (df_catalog f1)" if "y = Inl m" "contains m ''duplicate column name''" for m
    using y that assms io
    by (auto simp: exec_ddl_def apply_ddl_def add_column_def settled_def split: list.splits bool.splits sum.splits option.splits if_splits)
  have "(add_columns n cols f1 = (x, f') \<and> settled (Add_Column n col) (df_catalog f1)) \<or> (x \<noteq> Inr () \<and> f' = f1)"
    using Cons.prems y one dup by (auto simp: add_column_if_not_exists_def split: sum.splits if_splits)
  moreover have "\<forall>col \<in> set cols. co_constraints col = []" using Cons.prems(2) by simp
  ultimately show ?case
    using Cons.IH [of f1] one by (auto intro: catalog_grows_trans)
qed auto

lemma exec_all_settled:
  assumes "df_faults f = []" "\<forall>s \<in> set ss. settled s (df_catalog f) \<and> (\<forall>n col. s \<noteq> Add_Column n col)"
  shows "exec_all ss f = (Inr (), f)"
  using assms(2)
proof (induction ss)
  case (Cons s ss)
  then have "settled s (df_catalog f)" "\<forall>n col. s \<noteq> Add_Column n col" by simp_all
  then have "exec_ddl s f = (Inr (), f)"
    by (cases s) (auto simp: exec_ddl_def apply_ddl_def settled_def create_table_def create_index_def assms(1))
  with Cons show ?case by simp
qed simp

lemma add_columns_settled:
  assumes "df_faults f = []" "\<forall>col \<in> set cols. settled (Add_Column n col) (df_catalog f)"
  shows "add_columns n cols f = (Inr (), f)"
  using assms(2)
proof (induction cols)
  case (Cons col cols)
  have "contains (''duplicate column name: '' @ n) ''duplicate column name''" for n
    by (simp add: contains_def sublist_def) (metis append_Nil append_Cons append_assoc)
  then have "add_column_if_not_exists n col f = (Inr (), f)"
    using Cons.prems by (auto simp: add_column_if_not_exists_def exec_ddl_def apply_ddl_def settled_def add_column_def assms(1))
  with Cons show ?case by simp
qed simp

subsection \<open>Upgrading a database\<close>

lemma migrate_run:
  assumes "migrate f = (Inr (), f')"
  shows "catalog_grows (df_catalog f) (df_catalog f') \<and> (\<forall>s \<in> set migrate_stmts. settled s (df_catalog f')) \<and>
    (\<forall>col \<in> set migrate_columns. settled (Add_Column ''credentials'' col) (df_catalog f'))"
proof -
  from assms obtain f1 where stmts: "exec_all migrate_stmts f = (Inr (), f1)"
    and cols: "add_columns ''credentials'' migrate_columns f1 = (Inr (), f')"
    by (auto simp: migrate_def split: prod.splits sum.splits)
  have "\<not> contains (''no such table: '' @ ''credentials'') ''duplicate column name''" by code_simp
  moreover have "\<forall>s \<in> set migrate_stmts. additive s" "\<forall>col \<in> set migrate_columns. co_constraints col = []"
    by (simp_all add: migrate_stmts_def migrate_columns_def additive_def)
  ultimately show ?thesis using add_columns_run [OF _ cols] exec_all_run [OF stmts] by (blast intro: catalog_grows_trans)
qed

lemma migrate_again:
  assumes "migrate f = (Inr (), f')"
  shows "migrate (f'\<lparr>df_faults := []\<rparr>) = (Inr (), f'\<lparr>df_faults := []\<rparr>)"
proof -
  have "exec_all migrate_stmts (f'\<lparr>df_faults := []\<rparr>) = (Inr (), f'\<lparr>df_faults := []\<rparr>)"
    by (rule exec_all_settled) (use migrate_run [OF assms] in \<open>auto simp: migrate_stmts_def\<close>)
  moreover have "add_columns ''credentials'' migrate_columns (f'\<lparr>df_faults := []\<rparr>) = (Inr (), f'\<lparr>df_faults := []\<rparr>)"
    by (rule add_columns_settled) (use migrate_run [OF assms] in auto)
  ultimately show ?thesis by (simp add: migrate_def)
qed

text \<open>A file of the version without the revocation columns, whose only table is the old credentials with one row.\<close>

definition old_file :: db_file where
  "old_file = \<lparr>df_catalog = \<lparr>ct_tables = [(new_table credentials_table)\<lparr>tb_rows :=
       [[Some ''c1'', Some ''p1'', Some ''machine_key'', Some ''s'', Some ''l'', Some ''2024-01-01T00:00:00Z'']]\<rparr>],
     ct_indexes = [], ct_foreign_keys = False\<rparr>, df_faults = []\<rparr>"

end
