(* ===== verification/Process.thy ===== *)
theory Process
  imports Server Migration
begin

text \<open>
  The process as a whole (\<^verbatim>\<open>main\<close> and the subcommands of \<^verbatim>\<open>main.go\<close>): the arguments and environment variables it reads,
  the database file it opens, what it does to the rows, and how it ends or which server it starts. What the operating
  system and the libraries contribute is a field of the process: the variables, whether the directory of a path can be made
  and a database opened, the status a local HTTP request is answered with, the answer for an embedded file, the WebAuthn relying party for an RP ID and origin.
\<close>

record process =
  pc_args :: "string list"
  pc_getenv :: "string \<Rightarrow> string"
  pc_crypto :: crypto
  pc_jose :: jose
  pc_mkdir :: "string \<Rightarrow> bool"
  pc_sql_open :: "string \<Rightarrow> bool"
  pc_http_get :: "string \<Rightarrow> nat option"
  pc_contacts_do :: "string \<Rightarrow> string \<Rightarrow> (nat \<times> string) option"
  pc_webauthn_new :: "string \<Rightarrow> string \<Rightarrow> webauthn option"
  pc_serve_file :: "string \<Rightarrow> request \<Rightarrow> response"
  pc_scopes_yaml :: string
  pc_oidc_clients_json :: string

datatype outcome = Exited nat string | Serving config server

text \<open>An unset variable reads as the empty string; \<^verbatim>\<open>log.Fatalf\<close> ends the process with code 1.\<close>

definition get_env_required :: "process \<Rightarrow> string \<Rightarrow> string option" where
  "get_env_required pr key = (let val = pc_getenv pr key in if val = '''' then None else Some val)"

definition get_env_with_default :: "process \<Rightarrow> string \<Rightarrow> string \<Rightarrow> string" where
  "get_env_with_default pr key default_val = (let val = pc_getenv pr key in if val \<noteq> '''' then val else default_val)"

definition ensure_dir :: "process \<Rightarrow> string \<Rightarrow> bool" where
  "ensure_dir pr path = (if path = '':memory:'' \<or> path = '''' then True else pc_mkdir pr path)"

definition db_path :: "process \<Rightarrow> string" where
  "db_path pr = get_env_with_default pr ''DB_PATH'' ''/data/aithne.db''"

definition process_env :: "process \<Rightarrow> string \<Rightarrow> string \<Rightarrow> env" where
  "process_env pr origin signing_kek_str =
     \<lparr>en_crypto = pc_crypto pr, en_jose = pc_jose pr, en_kek = cx_sha256 (pc_crypto pr) signing_kek_str,
      en_issuer = origin, en_environment = get_env_with_default pr ''ENVIRONMENT'' ''development'', en_app_origin = origin\<rparr>"

type_synonym step = "db_file \<Rightarrow> world \<Rightarrow> outcome \<times> db_file \<times> world"

subsection \<open>The subcommands\<close>

definition run_bootstrap_invite :: "process \<Rightarrow> step" where
  "run_bootstrap_invite pr f w =
     (let contact_id = pc_getenv pr ''BOOTSTRAP_ADMIN_CONTACT_ID'' in
      if contact_id = '''' then (Exited 1 '''', f, w)
      else
        (case (get_env_required pr ''APP_ORIGIN'', get_env_required pr ''SIGNING_KEK'') of
           (Some app_origin, Some signing_kek_str) \<Rightarrow>
             (case open_store (pc_sql_open pr) (db_path pr) f of
                (Inl _, f) \<Rightarrow> (Exited 1 '''', f, w)
              | (Inr _, f) \<Rightarrow>
                  (case bootstrap_invite (process_env pr app_origin signing_kek_str) contact_id w of
                     (Inl _, w) \<Rightarrow> (Exited 1 '''', f, w)
                   | (Inr invite_url, w) \<Rightarrow> (Exited 0 invite_url, f, w)))
         | _ \<Rightarrow> (Exited 1 '''', f, w)))"

text \<open>
  The checks of the arguments come before the store is opened, those of \<^const>\<open>run_rekey\<close> and \<^const>\<open>run_migrate_kek\<close>; the printed
  confirmation is left out.
\<close>

definition rekey_command :: "process \<Rightarrow> step" where
  "rekey_command pr f w =
     (let old_kek_str = pc_getenv pr ''SIGNING_KEK''; new_kek_str = pc_getenv pr ''NEW_SIGNING_KEK'' in
      if \<not> kek_arguments_ok old_kek_str new_kek_str then (Exited 1 '''', f, w)
      else if cx_sha256 (pc_crypto pr) old_kek_str = cx_sha256 (pc_crypto pr) new_kek_str then (Exited 0 '''', f, w)
      else
        (case open_store (pc_sql_open pr) (db_path pr) f of
           (Inl _, f) \<Rightarrow> (Exited 1 '''', f, w)
         | (Inr _, f) \<Rightarrow>
             (case run_rekey (pc_crypto pr) old_kek_str new_kek_str w of (code, w) \<Rightarrow> (Exited code '''', f, w))))"

definition migrate_kek_command :: "process \<Rightarrow> step" where
  "migrate_kek_command pr f w =
     (let old_kek_str = pc_getenv pr ''SIGNING_KEK''; new_kek_str = pc_getenv pr ''NEW_SIGNING_KEK'' in
      if \<not> kek_arguments_ok old_kek_str new_kek_str then (Exited 1 '''', f, w)
      else
        (case open_store (pc_sql_open pr) (db_path pr) f of
           (Inl _, f) \<Rightarrow> (Exited 1 '''', f, w)
         | (Inr _, f) \<Rightarrow>
             (case run_migrate_kek (pc_crypto pr) old_kek_str new_kek_str w of (code, w) \<Rightarrow> (Exited code '''', f, w))))"

definition run_healthcheck :: "process \<Rightarrow> string \<Rightarrow> nat" where
  "run_healthcheck pr port =
     (case pc_http_get pr (''http://127.0.0.1:'' @ port @ ''/_info'') of
        None \<Rightarrow> 1
      | Some status \<Rightarrow> if status \<noteq> 200 then 1 else 0)"

subsection \<open>The server\<close>

text \<open>
  From the required variables to the listening server. The relying party is set up last, after the store's part of
  the start (\<^const>\<open>start_up\<close>) and the contacts variables.
\<close>

definition serve_command :: "process \<Rightarrow> step" where
  "serve_command pr f w =
     (case (get_env_required pr ''SYSTEM'', get_env_required pr ''APP_ORIGIN'') of
        (Some system, Some issuer) \<Rightarrow>
          (case (parse_scopes_yaml (pc_scopes_yaml pr), get_env_required pr ''SIGNING_KEK'') of
             (Inr vocab, Some signing_kek_str) \<Rightarrow>
               if \<not> ensure_dir pr (db_path pr) then (Exited 1 '''', f, w)
               else
                 (case open_store (pc_sql_open pr) (db_path pr) f of
                    (Inl _, f) \<Rightarrow> (Exited 1 '''', f, w)
                  | (Inr _, f) \<Rightarrow>
                      (let en = process_env pr issuer signing_kek_str in
                       case start_up en vocab (pc_getenv pr ''BOOTSTRAP_ADMIN_CONTACT_ID'') (pc_oidc_clients_json pr)
                              (pc_getenv pr ''CLIENT_KEYS'') w of
                         (Inl _, w) \<Rightarrow> (Exited 1 '''', f, w)
                       | (Inr _, w) \<Rightarrow>
                           (case (get_env_required pr ''LUCOS_CONTACTS_ORIGIN'', get_env_required pr ''KEY_LUCOS_CONTACTS'',
                                  pc_webauthn_new pr (derive_rp_id issuer) issuer) of
                              (Some contacts_origin, Some contacts_key, Some wa) \<Rightarrow>
                                (Serving \<lparr>cf_env = en, cf_system = system, cf_version = pc_getenv pr ''VERSION'',
                                    cf_vocab = vocab,
                                    cf_contacts = new_contacts_client contacts_origin contacts_key (pc_contacts_do pr),
                                    cf_webauthn = wa, cf_serve_file = pc_serve_file pr\<rparr> new_server, f, w)
                            | _ \<Rightarrow> (Exited 1 '''', f, w))))
           | _ \<Rightarrow> (Exited 1 '''', f, w))
      | _ \<Rightarrow> (Exited 1 '''', f, w))"

text \<open>The first argument after the program's name selects a subcommand; every subcommand exits.\<close>

definition first_arg :: "process \<Rightarrow> string" where
  "first_arg pr = (if length (pc_args pr) > 1 then pc_args pr ! 1 else '''')"

definition main :: "process \<Rightarrow> step" where
  "main pr f w =
     (if first_arg pr = ''--bootstrap-invite'' then run_bootstrap_invite pr f w
      else if first_arg pr = ''--rekey'' then rekey_command pr f w
      else if first_arg pr = ''--migrate-kek'' then migrate_kek_command pr f w
      else
        (case get_env_required pr ''PORT'' of
           None \<Rightarrow> (Exited 1 '''', f, w)
         | Some port \<Rightarrow>
             if first_arg pr = ''--healthcheck'' then (Exited (run_healthcheck pr port) '''', f, w)
             else serve_command pr f w))"

text \<open>A run of the program: \<^const>\<open>main\<close>, and when it serves, whatever it is asked until it is stopped.\<close>

definition run_program :: "process \<Rightarrow> activity list \<Rightarrow> step" where
  "run_program pr acts f w =
     (case main pr f w of
        (Exited code out, f, w) \<Rightarrow> (Exited code out, f, w)
      | (Serving cf sv, f, w) \<Rightarrow> (case run_server cf acts sv w of ((_, sv), w) \<Rightarrow> (Serving cf sv, f, w)))"

subsection \<open>Invariants\<close>

context db_invariant
begin

lemma subcommands [wf_intros]:
  assumes "I (w_db w)"
  shows "I (w_db (snd (snd (run_bootstrap_invite pr f w))))" "I (w_db (snd (snd (rekey_command pr f w))))"
    "I (w_db (snd (snd (migrate_kek_command pr f w))))" "I (w_db (snd (snd (serve_command pr f w))))"
  using bootstrap_invite [OF assms] run_rekey [OF assms] run_migrate_kek [OF assms] start_up [OF assms] assms
  by (auto simp: run_bootstrap_invite_def rekey_command_def migrate_kek_command_def serve_command_def Let_def
      split: option.splits prod.splits sum.splits) (metis snd_conv)+

lemma run_program [wf_intros]: "I (w_db w) \<Longrightarrow> I (w_db (snd (snd (run_program pr acts f w))))"
proof -
  assume I: "I (w_db w)"
  have "I (w_db (snd (snd (main pr f w))))"
    using subcommands [OF I] I by (simp add: main_def split: option.split)
  then show ?thesis
    using run_server by (auto simp: run_program_def split: prod.splits outcome.splits) (metis snd_conv)
qed

end

end
