(* ===== verification/Runs.thy ===== *)
theory Runs
  imports Token StoreOidc StoreInvites StoreGrants
begin

text \<open>
  What a run of an operation did, in the form a case split over a handler leaves it in: from
  \<open>f w = (Inr y, w')\<close>, the row or rows \<open>y\<close> was read from and the database \<open>w'\<close> has. The collections
  \<open>run_dests\<close> (driver) and \<open>op_dests\<close> (store) carry the proofs about handlers.
\<close>

named_theorems run_dests
named_theorems op_dests

subsection \<open>The driver\<close>

lemma run_time [run_dests, op_dests]:
  "time_now w = (t, w') \<Longrightarrow> w_db w' = w_db w \<and> w_clock w' = t \<and> w_clock w \<le> t"
  by (auto simp: time_now_def Let_def split: list.splits)

lemma run_query [run_dests]:
  "db_query q w = (Inr z, w') \<Longrightarrow> q (w_db w) = z \<and> w_db w' = w_db w \<and> w_clock w' = w_clock w"
  using db_query_InrD [of q w z] prim_frames(7) [of q w] w_clock_frames(6) [of q w] by simp

lemma run_query_err [run_dests]:
  "db_query q w = (Inl z, w') \<Longrightarrow> w_db w' = w_db w \<and> w_clock w' = w_clock w"
  using prim_frames(7) [of q w] w_clock_frames(6) [of q w] by simp

lemma run_begin [run_dests]:
  "db_begin w = (Inr d, w') \<Longrightarrow> d = w_db w \<and> w_db w' = w_db w \<and> w_clock w' = w_clock w"
  using db_begin_InrD [of w d] prim_frames(8) [of w] w_clock_frames(8) [of w] by simp

lemma run_begin_err [run_dests]: "db_begin w = (Inl d, w') \<Longrightarrow> w_db w' = w_db w"
  using prim_frames(8) [of w] by simp

lemma run_exec [run_dests]:
  "db_exec stm w = (Inr n, w') \<Longrightarrow> stm (w_db w) = Inr (w_db w', n) \<and> w_clock w' = w_clock w"
  using db_exec_InrD [of stm w n] w_clock_frames(7) [of stm w] by auto

lemma run_exec_err [run_dests]:
  "db_exec stm w = (Inl e, w') \<Longrightarrow>
   w_db w' = w_db w \<and> w_clock w' = w_clock w \<and> (e = io_failed \<or> stm (w_db w) = Inl e)"
  using db_exec_InlD [of stm w e] w_clock_frames(7) [of stm w] by auto

lemma run_commit [run_dests]: "db_commit d w = (Inr u, w') \<Longrightarrow> w_db w' = w_db w \<and> w_clock w' = w_clock w"
  using db_commit_Inr [of d w u] w_clock_frames(10) [of d w] by auto

lemma run_commit_err [run_dests]: "db_commit d w = (Inl e, w') \<Longrightarrow> w_db w' = d"
  using db_commit_Inl [of d w e] by auto

lemma run_rand [run_dests, op_dests]:
  "rand_read n w = (b, w') \<Longrightarrow> w_db w' = w_db w \<and> w_clock w' = w_clock w"
  using prim_frames(2) [of n w] w_clock_frames(1) [of n w] by simp

lemma run_uuid [run_dests, op_dests]:
  "new_uuid w = (b, w') \<Longrightarrow> w_db w' = w_db w \<and> w_clock w' = w_clock w"
  using prim_frames(3) [of w] w_clock_frames(2) [of w] by simp

lemma run_uuid_new [run_dests, op_dests]:
  "uuid_new w = (b, w') \<Longrightarrow> w_db w' = w_db w \<and> w_clock w' = w_clock w"
  using prim_frames(4) [of w] w_clock_frames(3) [of w] by simp

lemma run_key_der [run_dests]:
  "new_key_der w = (b, w') \<Longrightarrow> w_db w' = w_db w \<and> w_clock w' = w_clock w"
  using prim_frames(5) [of w] w_clock_frames(4) [of w] by simp

text \<open>Splitting a definition into its runs.\<close>

lemmas run_splits = prod.splits sum.splits option.splits if_splits

text \<open>The effect of the statements that succeeded.\<close>

lemma stm_InrD:
  "insert_credential c db = Inr (db', n) \<Longrightarrow> db' = db\<lparr>credentials := credentials db @ [c]\<rparr> \<and>
     has_principal (cr_principal_id c) db \<and> cr_id c \<notin> cr_id ` set (credentials db)"
  "insert_signing_key k db = Inr (db', n) \<Longrightarrow> db' = db\<lparr>signing_keys := signing_keys db @ [k]\<rparr> \<and>
     sk_id k \<notin> sk_id ` set (signing_keys db)"
  "insert_session ss db = Inr (db', n) \<Longrightarrow> db' = db\<lparr>idp_sessions := idp_sessions db @ [ss]\<rparr> \<and>
     ss_token_hash ss \<notin> ss_token_hash ` set (idp_sessions db) \<and> has_principal (ss_principal_id ss) db"
  "insert_code cd db = Inr (db', n) \<Longrightarrow> db' = db\<lparr>auth_codes := auth_codes db @ [cd]\<rparr> \<and>
     cd_code_hash cd \<notin> cd_code_hash ` set (auth_codes db) \<and> has_principal (cd_principal_id cd) db"
  "insert_invite i db = Inr (db', n) \<Longrightarrow> db' = db\<lparr>invites := invites db @ [i]\<rparr> \<and>
     ir_token_hash i \<notin> ir_token_hash ` set (invites db)"
  "delete_credentials p db = Inr (db', n) \<Longrightarrow> db' = db\<lparr>credentials := delete_where p (credentials db)\<rparr>"
  "update_invites pi fi db = Inr (db', n) \<Longrightarrow> db' = db\<lparr>invites := update_where pi fi (invites db)\<rparr> \<and>
     n = count_where pi (invites db)"
  "update_signing_keys pk fk db = Inr (db', n) \<Longrightarrow> db' = db\<lparr>signing_keys := update_where pk fk (signing_keys db)\<rparr>"
  "update_sessions ps fs db = Inr (db', n) \<Longrightarrow> db' = db\<lparr>idp_sessions := update_where ps fs (idp_sessions db)\<rparr> \<and>
     n = count_where ps (idp_sessions db)"
  by (auto simp: insert_credential_def insert_signing_key_def insert_session_def insert_code_def insert_invite_def
      delete_credentials_def update_invites_def update_signing_keys_def update_sessions_def image_iff split: if_splits)

text \<open>A statement that was run: its effect, from the database before it.\<close>

lemma exec_effect:
  assumes "db_exec stm w = (Inr n, w')"
  shows "stm (w_db w) = Inr (w_db w', n)" "w_clock w' = w_clock w"
  using run_exec [OF assms] by auto

subsection \<open>Reads\<close>

lemma run_get_principal_by_id [op_dests]:
  "get_principal_by_id i w = (Inr p, w') \<Longrightarrow> w_db w' = w_db w \<and> w_clock w' = w_clock w \<and>
     (\<exists>r \<in> set (principals (w_db w)). pr_id r = i \<and> read_principal r = Inr p)"
  unfolding get_principal_by_id_def scan_principal_def
  by (auto split: run_splits dest!: run_dests select_first_SomeD)

lemma run_get_principal_by_external_id [op_dests]:
  "get_principal_by_external_id cls ext w = (Inr p, w') \<Longrightarrow> w_db w' = w_db w \<and> w_clock w' = w_clock w \<and>
     (\<exists>r \<in> set (principals (w_db w)). pr_class r = cls \<and> pr_external_id r = ext \<and> read_principal r = Inr p)"
  unfolding get_principal_by_external_id_def scan_principal_def
  by (auto split: run_splits dest!: run_dests select_first_SomeD)

lemma read_principal_Inr:
  "read_principal r = Inr p \<Longrightarrow> p_id p = pr_id r \<and> p_class p = pr_class r \<and> p_external_id p = pr_external_id r"
  by (auto simp: read_principal_def split: option.splits)

lemma read_credential_Inr:
  "read_credential r = Inr c \<Longrightarrow> c_id c = cr_id r \<and> c_principal_id c = cr_principal_id r \<and>
     c_type c = cr_type r \<and> c_data c = cr_data r \<and> (c_revoked_at c = None \<longleftrightarrow> cr_revoked_at r = None)"
  by (auto simp: read_credential_def Let_def split: option.splits)

lemma list_all2_memD: "list_all2 P xs ys \<Longrightarrow> y \<in> set ys \<Longrightarrow> \<exists>x \<in> set xs. P x y"
  by (induction rule: list_all2_induct) auto

lemma list_all2_memD': "list_all2 P xs ys \<Longrightarrow> x \<in> set xs \<Longrightarrow> \<exists>y \<in> set ys. P x y"
  by (induction rule: list_all2_induct) auto

lemma list_all2_map_eq: "list_all2 P xs ys \<Longrightarrow> (\<And>x y. P x y \<Longrightarrow> f x = g y) \<Longrightarrow> map f xs = map g ys"
  by (induction rule: list_all2_induct) auto


text \<open>A credential row of the principal, of the type and with the data, that is not revoked.\<close>

definition active_credential :: "database \<Rightarrow> string \<Rightarrow> string \<Rightarrow> bytes \<Rightarrow> bool" where
  "active_credential db pid ty dat \<longleftrightarrow>
     (\<exists>r \<in> set (credentials db). cr_principal_id r = pid \<and> cr_type r = ty \<and> cr_revoked_at r = None \<and>
        cr_data r = dat)"

lemma run_list_credentials:
  assumes "list_credentials_by_principal pid w = (Inr cs, w')"
  shows "w_db w' = w_db w \<and> w_clock w' = w_clock w \<and> list_all2 (\<lambda>r c. read_credential r = Inr c)
     (sort_key cr_created_at (filter (\<lambda>r. cr_principal_id r = pid) (credentials (w_db w)))) cs"
  using assms unfolding list_credentials_by_principal_def collect_credentials_def
  by (auto split: run_splits dest!: run_dests simp: traverse_Inr_iff)

lemma run_listed_credentials [op_dests]:
  assumes "list_credentials_by_principal pid w = (Inr cs, w')"
  shows "w_db w' = w_db w \<and> w_clock w' = w_clock w \<and>
     (\<forall>c \<in> set cs. c_revoked_at c = None \<longrightarrow> active_credential (w_db w) pid (c_type c) (c_data c))"
proof -
  note listed = run_list_credentials [OF assms]
  have "active_credential (w_db w) pid (c_type c) (c_data c)" if "c \<in> set cs" "c_revoked_at c = None" for c
  proof -
    from listed list_all2_memD [OF _ that(1)] obtain r where "r \<in> set (credentials (w_db w))"
      "cr_principal_id r = pid" "read_credential r = Inr c" by fastforce
    with that(2) show ?thesis unfolding active_credential_def by (auto dest!: read_credential_Inr)
  qed
  with listed show ?thesis by blast
qed

text \<open>The active scopes of a principal in an environment, in the order of granting.\<close>

definition granted_scopes :: "database \<Rightarrow> string \<Rightarrow> string \<Rightarrow> string list" where
  "granted_scopes db pid environment =
     map gr_scope (sort_key gr_granted_at (filter (list_grants_where pid environment True) (grants db)))"

lemma read_grant_Inr:
  "read_grant r = Inr g \<Longrightarrow> g_id g = gr_id r \<and> g_principal_id g = gr_principal_id r \<and> g_scope g = gr_scope r \<and>
     g_environment g = gr_environment r"
  by (auto simp: read_grant_def Let_def split: option.splits)

lemma run_list_grants [op_dests]:
  assumes "list_grants pid environment act w = (Inr gs, w')"
  shows "w_db w' = w_db w \<and> w_clock w' = w_clock w \<and> list_all2 (\<lambda>r g. read_grant r = Inr g)
     (sort_key gr_granted_at (filter (list_grants_where pid environment act) (grants (w_db w)))) gs"
  using assms unfolding list_grants_def collect_grants_def
  by (auto split: run_splits dest!: run_dests simp: traverse_Inr_iff)

lemma run_get_active_scopes [op_dests]:
  assumes "get_active_scopes pid environment w = (Inr scs, w')"
  shows "w_db w' = w_db w \<and> w_clock w' = w_clock w \<and> scs = granted_scopes (w_db w) pid environment"
proof -
  obtain gs where gs: "list_grants pid environment True w = (Inr gs, w')" "scs = map g_scope gs"
    using assms unfolding get_active_scopes_def by (auto split: run_splits)
  note run_list_grants [OF gs(1)]
  moreover from this have "map g_scope gs = granted_scopes (w_db w) pid environment"
    unfolding granted_scopes_def
    by (auto simp: list_all2_conv_all_nth list_eq_iff_nth_eq dest!: read_grant_Inr)
  ultimately show ?thesis using gs(2) by simp
qed

lemma granted_scopes_cong: "grants db = grants db' \<Longrightarrow> granted_scopes db = granted_scopes db'"
  by (simp add: granted_scopes_def fun_eq_iff)

lemma set_granted_scopes:
  "environment \<noteq> '''' \<Longrightarrow> set (granted_scopes db pid environment) =
     {gr_scope r |r. r \<in> set (active_grants db) \<and> gr_principal_id r = pid \<and> gr_environment r = environment}"
  by (auto simp: granted_scopes_def list_grants_where_def active_grants_def)

lemma run_get_oidc_client [op_dests]:
  "get_oidc_client i w = (Inr c, w') \<Longrightarrow> w_db w' = w_db w \<and> w_clock w' = w_clock w \<and>
     (\<exists>r \<in> set (clients (w_db w)). cl_id r = i \<and> o_id c = i \<and> o_secret_hash c = cl_secret_hash r \<and>
        o_redirect_uris c = cl_redirect_uris r)"
  unfolding get_oidc_client_def scan_oidc_client_def read_oidc_client_def
  by (auto split: run_splits dest!: run_dests select_first_SomeD)

text \<open>A read that fails leaves the database alone too.\<close>

lemma frame_run: "m = (Inl e, w') \<Longrightarrow> w_db (snd m) = d \<Longrightarrow> w_db w' = d"
  by simp

lemmas read_frames [op_dests] =
  frame_run [OF _ principal_reads(1)] frame_run [OF _ principal_reads(2)]
  frame_run [OF _ principal_reads(5)] frame_run [OF _ grant_reads(1)] frame_run [OF _ grant_reads(3)]
  frame_run [OF _ oidc_reads(1)] frame_run [OF _ oidc_reads(3)] frame_run [OF _ oidc_reads(4)]
  frame_run [OF _ session_reads(2)] frame_run [OF _ invite_reads(2)] frame_run [OF _ key_frames(2)]
  frame_run [OF _ mint_session_frame] frame_run [OF _ mint_id_token_frame] frame_run [OF _ parse_session_frame]

subsection \<open>Authorization codes\<close>

definition code_row :: "crypto \<Rightarrow> string \<Rightarrow> database \<Rightarrow> code_row option" where
  "code_row x raw db = select_first (\<lambda>r. cd_code_hash r = hash_token x raw) (auth_codes db)"

lemma read_auth_code_Inr:
  "read_auth_code r = Inr ac \<Longrightarrow> cd_used_at r = None \<and> ac_code_hash ac = cd_code_hash r \<and>
     ac_client_id ac = cd_client_id r \<and> ac_principal_id ac = cd_principal_id r \<and>
     ac_redirect_uri ac = cd_redirect_uri r \<and> ac_scope ac = cd_scope r \<and> ac_nonce ac = cd_nonce r \<and>
     parse_time (cd_expires_at r) = Some (ac_expires_at ac)"
  by (auto simp: read_auth_code_def split: option.splits if_splits)

lemma run_get_oidc_auth_code [op_dests]:
  assumes "get_oidc_auth_code x raw w = (Inr ac, w')"
  shows "w_db w' = w_db w \<and> w_clock w \<le> w_clock w' \<and>
    (\<exists>r. code_row x raw (w_db w) = Some r \<and> read_auth_code r = Inr ac \<and> w_clock w \<le> ac_expires_at ac)"
  using assms unfolding get_oidc_auth_code_def code_row_def Let_def
  by (auto split: run_splits dest!: run_dests)

lemma code_spent_update:
  assumes "code_row x raw db = Some r"
  shows "code_spent (hash_token x raw) (db\<lparr>auth_codes :=
     update_where (\<lambda>r. cd_code_hash r = hash_token x raw \<and> cd_used_at r = None)
       (\<lambda>r. r\<lparr>cd_used_at := Some t\<rparr>) (auth_codes db)\<rparr>)"
proof -
  from assms have "r \<in> set (auth_codes db)" "cd_code_hash r = hash_token x raw"
    unfolding code_row_def by (auto dest: select_first_SomeD)
  then have "\<exists>r \<in> set (update_where (\<lambda>r. cd_code_hash r = hash_token x raw \<and> cd_used_at r = None)
       (\<lambda>r. r\<lparr>cd_used_at := Some t\<rparr>) (auth_codes db)). cd_code_hash r = hash_token x raw"
    unfolding set_update_where by (intro bexI [OF _ imageI]) auto
  then show ?thesis by (simp add: spent_def ball_update_where)
qed

lemma run_consume:
  assumes "consume_oidc_auth_code x raw w = (Inr ac, w')"
  shows "(\<exists>r. code_row x raw (w_db w) = Some r \<and> read_auth_code r = Inr ac \<and> w_clock w \<le> ac_expires_at ac) \<and>
    w_db w' = (w_db w)\<lparr>auth_codes :=
       update_where (\<lambda>r. cd_code_hash r = hash_token x raw \<and> cd_used_at r = None)
         (\<lambda>r. r\<lparr>cd_used_at := Some (rfc3339 (w_clock w'))\<rparr>) (auth_codes (w_db w))\<rparr>"
  using assms unfolding consume_oidc_auth_code_def code_row_def Let_def
  by (auto split: run_splits dest!: run_dests simp: update_codes_def)

lemma run_consume_spent [op_dests]:
  assumes "consume_oidc_auth_code x raw w = (Inr ac, w')"
  shows "code_spent (hash_token x raw) (w_db w') \<and> principals (w_db w') = principals (w_db w) \<and>
    grants (w_db w') = grants (w_db w) \<and> (\<exists>r. code_row x raw (w_db w) = Some r \<and> read_auth_code r = Inr ac \<and>
      w_clock w \<le> ac_expires_at ac)"
  using run_consume [OF assms] by (auto dest: code_spent_update)

lemma run_consume_err [op_dests]: "consume_oidc_auth_code x raw w = (Inl e, w') \<Longrightarrow> w_db w' = w_db w"
  unfolding consume_oidc_auth_code_def Let_def
  by (auto split: run_splits dest!: run_dests simp: rollback_def)

lemma code_spent_unused:
  "code_spent (hash_token x raw) db \<Longrightarrow> code_row x raw db = Some r \<Longrightarrow> cd_used_at r \<noteq> None"
  unfolding code_row_def spent_def by (auto dest!: select_first_SomeD)

lemma run_create_oidc_auth_code [op_dests]:
  assumes "create_oidc_auth_code x raw cid pid uri sc nonce exp w = (Inr u, w')"
  shows "w_clock w \<le> w_clock w' \<and> insert_code \<lparr>cd_code_hash = hash_token x raw, cd_client_id = cid,
     cd_principal_id = pid, cd_redirect_uri = uri, cd_scope = sc, cd_nonce = nonce,
     cd_expires_at = rfc3339 exp, cd_created_at = rfc3339 (w_clock w'), cd_used_at = None\<rparr> (w_db w) = Inr (w_db w', 1)"
  using assms unfolding create_oidc_auth_code_def Let_def
  by (auto split: run_splits dest!: run_dests simp: insert_code_def)

lemma run_create_oidc_auth_code_err [op_dests]:
  "create_oidc_auth_code x raw cid pid uri sc nonce exp w = (Inl e, w') \<Longrightarrow> w_db w' = w_db w"
  unfolding create_oidc_auth_code_def Let_def by (auto split: run_splits dest!: run_dests)

lemma run_generate_raw_code [op_dests]: "generate_raw_code w = (Inr c, w') \<Longrightarrow> w_db w' = w_db w \<and> w_clock w' = w_clock w"
  unfolding generate_raw_code_def by (auto split: run_splits dest!: run_rand)

subsection \<open>Sessions\<close>

definition session_row :: "crypto \<Rightarrow> string \<Rightarrow> database \<Rightarrow> session_row option" where
  "session_row x raw db = select_first (\<lambda>r. ss_token_hash r = hash_token x raw) (idp_sessions db)"

lemma run_get_idp_session [op_dests]:
  assumes "get_idp_session_by_token x raw w = (Inr s, w')"
  shows "w_db w' = w_db w \<and> w_clock w \<le> w_clock w' \<and> (\<exists>r. session_row x raw (w_db w) = Some r \<and> ss_revoked_at r = None \<and>
     s_principal_id s = ss_principal_id r \<and> parse_time (ss_expires_at r) = Some (s_expires_at s) \<and>
     w_clock w \<le> s_expires_at s)"
  using assms unfolding get_idp_session_by_token_def session_row_def Let_def
  by (auto split: run_splits dest!: run_dests)

lemma session_revoked_row:
  "session_revoked (hash_token x raw) db \<Longrightarrow> session_row x raw db = Some r \<Longrightarrow> ss_revoked_at r \<noteq> None"
  unfolding session_row_def spent_def by (auto dest!: select_first_SomeD)

subsection \<open>Tokens\<close>

text \<open>
  A token that some key signed for a principal (class and external identity), with the given scopes
  and OIDC scopes, for the issuer and audience, expiring at the given second.
\<close>

definition token_for ::
  "jose \<Rightarrow> string \<Rightarrow> string \<Rightarrow> string \<Rightarrow> string list \<Rightarrow> string list \<Rightarrow> string \<Rightarrow> string \<Rightarrow> int \<Rightarrow> bool" where
  "token_for j tok cls ext scopes oidc iss aud expiry \<longleftrightarrow>
     (\<exists>der kid t. jx_sign j der kid t = Some tok \<and> jw_iss t = iss \<and> jw_aud t = [aud] \<and> jw_exp t = expiry \<and>
        sc_subject (claims_of t) = ext \<and> sc_principal_class (claims_of t) = cls \<and>
        sc_scopes (claims_of t) = scopes \<and> sc_oidc_scopes (claims_of t) = oidc)"

lemma run_mint_session [op_dests]:
  assumes "mint_session j p scopes key iss aud ttl0 oidc w = (Inr tok, w')"
  shows "w_db w' = w_db w \<and> (\<exists>now \<ge> w_clock w. token_for j tok (p_class p) (p_external_id p) scopes oidc iss aud
     (unix_seconds (now + (if ttl0 \<le> 0 then default_session_ttl else ttl0))))"
proof -
  have ok: "fst (mint_session j p scopes key iss aud ttl0 oidc w) = Inr tok" using assms by simp
  have "w_db w' = w_db w" using mint_session_frame [of j p scopes key iss aud ttl0 oidc w] assms by simp
  moreover obtain t where "jx_sign j (k_private_key key) (k_id key) t = Some tok" "jw_iss t = iss" "jw_aud t = [aud]"
    "jw_exp t = unix_seconds (fst (time_now w) + (if ttl0 \<le> 0 then default_session_ttl else ttl0))"
    "sc_subject (claims_of t) = p_external_id p" "sc_principal_class (claims_of t) = p_class p"
    "sc_scopes (claims_of t) = scopes" "sc_oidc_scopes (claims_of t) = oidc"
    by (rule mint_session_InrD [OF ok])
  moreover have "w_clock w \<le> fst (time_now w)" by (simp add: time_now_mono)
  ultimately show ?thesis unfolding token_for_def by blast
qed

lemma run_mint_id_token [op_dests]: "mint_id_token j p c n sc e k i ttl w = (Inr z, w') \<Longrightarrow> w_db w' = w_db w"
  using mint_id_token_frame [of j p c n sc e k i ttl w] by simp

lemma run_parse_session [op_dests]:
  "parse_session j tok ks iss aud w = (Inr c, w') \<Longrightarrow> w_db w' = w_db w \<and> w_clock w \<le> w_clock w' \<and>
     (\<exists>t. jx_parse j ks iss aud (w_clock w') tok = Some t \<and> c = claims_of t)"
  unfolding parse_session_def by (auto split: run_splits dest!: run_dests)

subsection \<open>Keys\<close>

lemma run_list_verification_keys [op_dests]:
  assumes "list_verification_keys x kek win w = (Inr keys, w')"
  shows "w_db w' = w_db w \<and> w_clock w \<le> w_clock w' \<and>
     list_all2 (\<lambda>r k. read_signing_key x kek r = Inr k)
       (rev (sort_key sk_created_at (rev (filter (verification_where (rfc3339 (w_clock w' - win)))
          (signing_keys (w_db w)))))) keys"
  using assms unfolding list_verification_keys_def collect_signing_keys_def Let_def
  by (auto split: run_splits dest!: run_dests simp: traverse_Inr_iff)

lemma run_generate_key:
  assumes "generate_signing_key_with x kek w = (Inr k, w')"
  shows "\<exists>row. sk_id row = k_id k \<and> sk_status row = ''active'' \<and> sk_retired_at row = None \<and>
    sk_created_at row = rfc3339 (k_created_at k) \<and> w_clock w \<le> k_created_at k \<and> k_created_at k = w_clock w' \<and>
    (\<exists>nonce. sk_private_key row = nonce @ cx_seal x kek nonce (k_private_key k) \<and> length nonce = 12) \<and>
    w_db w' = (w_db w)\<lparr>signing_keys := signing_keys (w_db w) @ [row]\<rparr> \<and> w_clock w \<le> w_clock w' \<and>
    k_id k \<notin> sk_id ` set (signing_keys (w_db w))"
proof -
  from assms obtain i w1 w2 nonce w3 w4 n where
    i: "new_uuid w = (Some i, w1)" and der: "new_key_der w1 = (Some (k_private_key k), w2)"
    and nonce: "rand_read nonce_size w2 = (Some nonce, w3)" and t: "time_now w3 = (k_created_at k, w4)"
    and ins: "db_exec (insert_signing_key \<lparr>sk_id = k_id k, sk_status = ''active'', sk_algorithm = ''ES256'',
       sk_private_key = nonce @ cx_seal x kek nonce (k_private_key k), sk_created_at = rfc3339 (k_created_at k),
       sk_retired_at = None\<rparr>) w4 = (Inr n, w')" (is "db_exec (insert_signing_key ?row) _ = _")
    unfolding generate_signing_key_with_def encrypt_key_der_def by (auto split: run_splits)
  have "length nonce = 12" using nonce unfolding rand_read_def nonce_size_def by (auto split: list.splits option.splits)
  then show ?thesis
    using stm_InrD(2) [OF exec_effect(1) [OF ins]] exec_effect(2) [OF ins] run_uuid [OF i] run_key_der [OF der]
      run_rand [OF nonce] run_time [OF t] by (intro exI [of _ ?row]) auto
qed

end
