(* ===== verification/Endpoints.thy ===== *)
theory Endpoints
  imports Runs Admin
begin

text \<open>
  What a run of each endpoint did, from the response it gave: the rows behind an issued token, the
  effect on the database, and what was refused. The properties of the endpoints are short
  consequences of these.
\<close>

lemma status_simps [simp]:
  "rs_status server_error = 500" "rs_status invalid_client = 401" "rs_status (invalid_grant d) = 400"
  "rs_status code_expired = 400" "rs_status code_used = 400" "rs_status (tokens_response a i) = 200"
  by (simp_all add: server_error_def invalid_client_def invalid_grant_def code_expired_def code_used_def
      tokens_response_def)

lemma run_auth_code_issue:
  assumes "auth_code_issue en c cid ac w = (rs, w')" "rs_status rs = 200"
  shows "\<exists>r \<in> set (principals (w_db w)). \<exists>at it expiry. pr_id r = ac_principal_id ac \<and>
     rs = tokens_response at it \<and>
     token_for (en_jose en) at (pr_class r) (pr_external_id r)
       (narrowed_scopes (granted_scopes (w_db w) (pr_id r) (en_environment en)) (parse_scope_param (ac_scope ac)))
       (requested_oidc_scopes (parse_scope_param (ac_scope ac))) (en_issuer en) token_audience expiry"
  using assms unfolding auth_code_issue_def err_cases Let_def
  by (auto split: run_splits dest!: op_dests) (force dest!: read_principal_Inr)

lemma run_auth_code_exchange:
  assumes "auth_code_exchange en c code cid secret uri w = (rs, w')" "rs_status rs = 200"
  shows "\<exists>ac w1 r. auth_code_issue en c cid ac w1 = (rs, w') \<and> code_spent (hash_token (en_crypto en) code) (w_db w1) \<and>
    principals (w_db w1) = principals (w_db w) \<and> grants (w_db w1) = grants (w_db w) \<and>
    code_row (en_crypto en) code (w_db w) = Some r \<and> read_auth_code r = Inr ac \<and> w_clock w \<le> ac_expires_at ac \<and>
    cd_client_id r = cid \<and> cd_redirect_uri r = uri \<and>
    (\<exists>q \<in> set (clients (w_db w)). cl_id q = cid \<and> hash_oidc_secret (en_crypto en) secret = cl_secret_hash q)"
  using assms unfolding auth_code_exchange_def err_cases Let_def
  by (auto split: run_splits dest!: op_dests) (force dest!: read_auth_code_Inr)

lemma code_exchange_bad:
  assumes "auth_code_exchange en c code cid secret uri w = (rs, w')"
    "code_row (en_crypto en) code (w_db w) = Some r" "cd_client_id r \<noteq> cid \<or> cd_redirect_uri r \<noteq> uri"
  shows "w_db w' = w_db w \<and> rs_status rs \<noteq> 200"
  using assms unfolding auth_code_exchange_def err_cases Let_def
  by (auto split: run_splits dest!: op_dests dest: read_auth_code_Inr)
lemma machine_key_matches_iff [simp]:
  "machine_key_matches h cs \<longleftrightarrow>
     (\<exists>c \<in> set cs. c_type c = type_machine_key \<and> c_revoked_at c = None \<and> c_data c = h)"
  by (induction cs) auto

lemma find_None_iff': "List.find P xs = None \<longleftrightarrow> (\<forall>x \<in> set xs. \<not> P x)"
  by (simp add: find_None_iff) blast

lemma effective_scopes_Inr:
  "effective_scopes granted requested = Inr scs \<Longrightarrow> set scs \<subseteq> set granted \<and>
     scs = (if requested = [] then granted else requested)"
  by (auto simp: effective_scopes_def to_set_def find_None_iff' split: if_splits option.splits)

lemma run_client_credentials_issue:
  assumes "client_credentials_issue en cid secret sc w = (rs, w')" "rs_status rs = 200"
  shows "\<exists>r \<in> set (principals (w_db w)). pr_class r = class_agent \<and> pr_external_id r = cid \<and>
    active_credential (w_db w) (pr_id r) type_machine_key (hash_machine_key (en_crypto en) secret) \<and>
    (\<exists>tok scs expiry. rs = token_success tok scs \<and>
       scs = (if parse_scope_param sc = [] then granted_scopes (w_db w) (pr_id r) (en_environment en)
              else parse_scope_param sc) \<and>
       set scs \<subseteq> set (granted_scopes (w_db w) (pr_id r) (en_environment en)) \<and>
       token_for (en_jose en) tok class_agent cid scs [] (en_issuer en) token_audience expiry)"
  using assms unfolding client_credentials_issue_def err_cases Let_def
  apply (auto split: run_splits sum.splits dest!: op_dests effective_scopes_Inr)
  apply (auto dest!: read_principal_Inr)
  by fastforce+

lemma run_re_mint:
  assumes "re_mint en r w = (rs, w')" "rs_status rs = 200"
  shows "\<exists>cookie s p. cookie_get r idp_session_cookie_name = Some cookie \<and>
    session_row (en_crypto en) cookie (w_db w) = Some s \<and> ss_revoked_at s = None \<and>
    (\<exists>exp. parse_time (ss_expires_at s) = Some exp \<and> w_clock w \<le> exp) \<and>
    p \<in> set (principals (w_db w)) \<and> pr_id p = ss_principal_id s \<and>
    (\<exists>dat. active_credential (w_db w) (pr_id p) type_webauthn dat) \<and>
    (\<exists>tok expiry. rs = add_cookies [set_session_cookie tok (en_environment en)] (json_response 200 (JObj [(''ok'', JBool True)])) \<and>
       token_for (en_jose en) tok (pr_class p) (pr_external_id p)
         (granted_scopes (w_db w) (pr_id p) (en_environment en)) [] (en_issuer en) token_audience expiry)"
  using assms unfolding re_mint_def err_cases Let_def
  apply (auto split: run_splits dest!: op_dests simp: unauthorized_def internal_error_def credential_is_active_def)
  apply (auto dest!: read_principal_Inr)
  by fastforce+

lemma run_handle_re_mint:
  assumes "handle_re_mint en r w = (rs, w')" "rs_status rs = 200"
  obtains rs0 hs where "re_mint en r w = (rs0, w')" "rs_status rs0 = 200" "rs = add_headers hs rs0" "rq_method r = ''POST''"
    "set_cors_headers (header_get r ''Origin'') (en_app_origin en) (en_environment en) = Inr hs"
  using assms unfolding handle_re_mint_def handle_re_mint_preflight_def
  by (auto split: run_splits simp: origin_refused_def method_not_allowed_def add_headers_def empty_response_def)

subsection \<open>Verified sessions\<close>

text \<open>
  A token that verifies, from time \<open>lo\<close> on: the keys of the database within the verification window
  (read at \<open>t0\<close>) make up a set that accepts it at \<open>now\<close>.
\<close>

definition valid_session :: "env \<Rightarrow> database \<Rightarrow> time \<Rightarrow> string \<Rightarrow> session_claims \<Rightarrow> bool" where
  "valid_session en db lo tok claims \<longleftrightarrow>
     (\<exists>keys ks t t0 now. lo \<le> t0 \<and> t0 \<le> now \<and>
        (\<forall>k \<in> set keys. \<exists>r \<in> set (signing_keys db).
           verification_where (rfc3339 (t0 - verification_window)) r \<and>
           read_signing_key (en_crypto en) (en_kek en) r = Inr k) \<and>
        build_verification_key_set (en_jose en) keys = Inr ks \<and>
        jx_parse (en_jose en) ks (en_issuer en) token_audience now tok = Some t \<and> claims = claims_of t)"

lemma run_verify_session [op_dests]:
  assumes "verify_session en tok w = (Verified claims, w')"
  shows "w_db w' = w_db w \<and> w_clock w \<le> w_clock w' \<and> valid_session en (w_db w) (w_clock w) tok claims"
proof -
  from assms obtain keys w1 ks where keys: "list_verification_keys (en_crypto en) (en_kek en) verification_window w
      = (Inr keys, w1)" and ks: "build_verification_key_set (en_jose en) keys = Inr ks"
    and p: "parse_session (en_jose en) tok ks (en_issuer en) token_audience w1 = (Inr claims, w')"
    unfolding verify_session_def by (auto split: run_splits)
  note l = run_list_verification_keys [OF keys]
  then have "\<forall>k \<in> set keys. \<exists>r \<in> set (signing_keys (w_db w)).
      verification_where (rfc3339 (w_clock w1 - verification_window)) r \<and>
      read_signing_key (en_crypto en) (en_kek en) r = Inr k"
    using list_all2_memD [of _ _ keys] by fastforce
  moreover from run_parse_session [OF p] obtain t where "w_clock w1 \<le> w_clock w'" "w_db w' = w_db w1"
    "jx_parse (en_jose en) ks (en_issuer en) token_audience (w_clock w') tok = Some t" "claims = claims_of t"
    by auto
  ultimately show ?thesis using l ks unfolding valid_session_def by fastforce
qed

lemma run_verify_session_bad [op_dests]:
  "verify_session en tok w = (KeysUnavailable, w') \<Longrightarrow> w_db w' = w_db w"
  "verify_session en tok w = (BadToken, w') \<Longrightarrow> w_db w' = w_db w"
  using verify_session_frame [of en tok w] by simp_all

lemma run_check_any_scope [op_dests]:
  assumes "check_any_scope en allowed r w = (Inr claims, w')"
  shows "w_db w' = w_db w \<and> w_clock w \<le> w_clock w' \<and> (\<exists>tok. bearer_token r = Some tok \<and> valid_session en (w_db w) (w_clock w) tok claims)
    \<and> (\<exists>sc \<in> set (sc_scopes claims). sc \<in> set allowed)"
  using assms unfolding check_any_scope_def by (auto split: run_splits verified.splits dest!: run_verify_session)

subsection \<open>The authorization endpoint\<close>

lemmas page_responses = link_incomplete_def sign_in_failed_def something_went_wrong_def app_not_recognised_def
  app_mismatch_def method_not_allowed_def internal_error_def

lemma run_issue_auth_code:
  assumes "issue_auth_code en r claims w = (rs, w')" "w_db w' \<noteq> w_db w"
  shows "\<exists>p \<in> set (principals (w_db w)). pr_class p = sc_principal_class claims \<and> pr_external_id p = sc_subject claims \<and>
     (\<exists>raw t1 t2. insert_code \<lparr>cd_code_hash = hash_token (en_crypto en) raw,
        cd_client_id = query_get r ''client_id'', cd_principal_id = pr_id p,
        cd_redirect_uri = query_get r ''redirect_uri'', cd_scope = query_get r ''scope'',
        cd_nonce = query_get r ''nonce'', cd_expires_at = rfc3339 (t1 + auth_code_ttl),
        cd_created_at = rfc3339 t2, cd_used_at = None\<rparr> (w_db w) = Inr (w_db w', 1) \<and>
      w_clock w \<le> t1 \<and> t1 \<le> t2 \<and>
      rs = http_redirect (query_get r ''redirect_uri'' @ ''?''
         @ values_encode ([(''code'', raw)] @ state_param (query_get r ''state''))) 302)"
proof -
  from assms obtain p w1 raw w2 t w3 where
    p: "get_principal_by_external_id (sc_principal_class claims) (sc_subject claims) w = (Inr p, w1)"
    and raw: "generate_raw_code w1 = (Inr raw, w2)" and t: "time_now w2 = (t, w3)"
    and ins: "create_oidc_auth_code (en_crypto en) raw (query_get r ''client_id'') (p_id p)
       (query_get r ''redirect_uri'') (query_get r ''scope'') (query_get r ''nonce'') (t + auth_code_ttl) w3 = (Inr (), w')"
    and rs: "rs = http_redirect (query_get r ''redirect_uri'' @ ''?''
         @ values_encode ([(''code'', raw)] @ state_param (query_get r ''state''))) 302"
    unfolding issue_auth_code_def err_cases Let_def
    by (auto split: run_splits dest!: op_dests)
  show ?thesis
    using run_get_principal_by_external_id [OF p] run_generate_raw_code [OF raw] run_time [OF t]
      run_create_oidc_auth_code [OF ins] rs
    by (auto dest!: read_principal_Inr) fastforce
qed

lemma issue_auth_code_location:
  assumes "issue_auth_code en r claims w = (rs, w')" "location_of rs = Some l"
  shows "\<exists>params. l = query_get r ''redirect_uri'' @ ''?'' @ values_encode params"
  using assms unfolding issue_auth_code_def err_cases Let_def
  by (auto split: run_splits simp: page_responses redirect_error_def)

text \<open>Either a code is asked for, or the response is an error, an error redirect or the login page.\<close>


lemma get_oidc_client_run: "get_oidc_client i w = (x, w') \<Longrightarrow> w_db w' = w_db w"
  by (metis oidc_reads(1) snd_conv)

lemma verify_session_run: "verify_session en tok w = (v, w') \<Longrightarrow> w_db w' = w_db w"
  using verify_session_frame [of en tok w] by simp

lemmas authorize_runs = get_oidc_client_run verify_session_run

lemma authorize_stages:
  assumes "handle_authorize en r w = (rs, w')"
  shows "(location_of rs = None \<or> rs = login_redirect r) \<and> w_db w' = w_db w
    \<or> (\<exists>q w1. get_oidc_client (query_get r ''client_id'') w = (Inr q, w1) \<and>
         has_redirect_uri q (query_get r ''redirect_uri'') \<and>
         ((\<exists>code description. rs = redirect_error (query_get r ''redirect_uri'') (query_get r ''state'') code description \<and>
            w' = w1)
          \<or> (\<exists>cookie claims w2. cookie_get r session_cookie_name = Some cookie \<and>
               verify_session en cookie w1 = (Verified claims, w2) \<and> issue_auth_code en r claims w2 = (rs, w'))))"
proof -
  obtain x w1 where g: "get_oidc_client (query_get r ''client_id'') w = (x, w1)" by (cases "get_oidc_client (query_get r ''client_id'') w")
  note w1 = get_oidc_client_run [OF g]
  have v: "w_db (snd (verify_session en c w1)) = w_db w" for c using w1 by simp
  show ?thesis
  proof (cases x)
    case (Inl e)
    with assms g w1 show ?thesis
      unfolding handle_authorize_def err_cases Let_def by (auto simp: page_responses split: if_splits)
  next
    case (Inr q)
    show ?thesis
    proof (cases "cookie_get r session_cookie_name")
      case None
      with assms g w1 Inr show ?thesis
        unfolding handle_authorize_def err_cases Let_def by (auto simp: page_responses split: if_splits)
    next
      case (Some c)
      obtain vd w2 where vd: "verify_session en c w1 = (vd, w2)" by (cases "verify_session en c w1")
      with v [of c] have "w_db w2 = w_db w" by simp
      with assms g w1 Inr Some vd show ?thesis
        unfolding handle_authorize_def err_cases Let_def by (auto simp: page_responses split: if_splits verified.splits)
    qed
  qed
qed

text \<open>Either a code is asked for, or the response is an error, an error redirect or the login page.\<close>

lemma run_authorize:
  assumes "handle_authorize en r w = (rs, w')"
  obtains (page) "location_of rs = None" "w_db w' = w_db w"
  | (login) "rs = login_redirect r" "w_db w' = w_db w"
  | (registered) q where "q \<in> set (clients (w_db w))" "cl_id q = query_get r ''client_id''"
      "query_get r ''redirect_uri'' \<in> set (cl_redirect_uris q)"
      "(\<exists>code description. rs = redirect_error (query_get r ''redirect_uri'') (query_get r ''state'') code description \<and>
          w_db w' = w_db w)
       \<or> (\<exists>cookie claims w1. cookie_get r session_cookie_name = Some cookie \<and>
          valid_session en (w_db w) (w_clock w) cookie claims \<and> w_db w1 = w_db w \<and> w_clock w \<le> w_clock w1 \<and>
          issue_auth_code en r claims w1 = (rs, w'))"
  using authorize_stages [OF assms]
proof (elim disjE exE conjE)
  fix q w1
  assume q: "get_oidc_client (query_get r ''client_id'') w = (Inr q, w1)"
     and uri: "has_redirect_uri q (query_get r ''redirect_uri'')"
  from run_get_oidc_client [OF q] uri obtain row where row: "row \<in> set (clients (w_db w))"
      "cl_id row = query_get r ''client_id''" "query_get r ''redirect_uri'' \<in> set (cl_redirect_uris row)"
    and frame: "w_db w1 = w_db w" "w_clock w1 = w_clock w"
    by (auto simp: has_redirect_uri_def)
  {
    fix cookie claims w2
    assume "cookie_get r session_cookie_name = Some cookie" "verify_session en cookie w1 = (Verified claims, w2)"
      "issue_auth_code en r claims w2 = (rs, w')"
    with frame show thesis
      by (intro registered [OF row] disjI2) (fastforce dest!: run_verify_session)
  next
    fix code description
    assume "rs = redirect_error (query_get r ''redirect_uri'') (query_get r ''state'') code description" "w' = w1"
    with frame show thesis
      by (intro registered [OF row] disjI1) auto
  }
qed (auto intro: page login)

end
