(* ===== verification/Demo.thy ===== *)
theory Demo
  imports Admin "HOL-Library.Code_Target_Numeral"
begin

text \<open>
  A concrete instance on which the properties are evaluated: a token library that writes and reads a
  token as JSON (its contract is proved below), a database with one row or two in every table, and a
  world in which no call fails.
\<close>

subsection \<open>Evaluation\<close>

text \<open>
  Code equations that fire on a literal day number only, so that evaluation does not unfold the calendar
  under a binder.
\<close>

definition civil_body :: "int \<Rightarrow> int \<times> int \<times> int" where
  "civil_body = civil_of_days"

definition civil_code :: "integer \<Rightarrow> int \<times> int \<times> int" where
  "civil_code k = civil_body (int_of_integer k)"

lemma civil_evaluation [code]:
  "civil_body z = (case year_yday (z + 719162) of (y, yd) \<Rightarrow>
     (let m = month_of (leap_day y) yd in (y, m, yd - days_before_month (leap_day y) m + 1)))"
  "civil_of_days (int_of_integer k) = civil_code k"
  "civil_code 0 = civil_body 0"
  "civil_code (Code_Numeral.Pos n) = civil_body (int_of_integer (Code_Numeral.Pos n))"
  "civil_code (Code_Numeral.Neg n) = civil_body (int_of_integer (Code_Numeral.Neg n))"
  by (simp_all add: civil_body_def civil_code_def civil_of_days_def)

subsection \<open>A token library\<close>

definition encode_jwt :: "bytes \<Rightarrow> string \<Rightarrow> jwt \<Rightarrow> json" where
  "encode_jwt der kid t =
     JArr [JStr der, JStr kid, JStr (jw_iss t), JStr (jw_sub t), JArr (map JStr (jw_aud t)), JNum (jw_iat t),
           JNum (jw_exp t), JStr (jw_jti t), JObj (jw_other t)]"

definition demo_sign :: "bytes \<Rightarrow> string \<Rightarrow> jwt \<Rightarrow> string option" where
  "demo_sign der kid t =
     (if plain (encode_jwt der kid t) \<and> coerce (encode_jwt der kid t) = encode_jwt der kid t
      then Some (json_text (encode_jwt der kid t)) else None)"

fun text_of :: "json \<Rightarrow> string" where
  "text_of (JStr s) = s"
| "text_of _ = []"

fun number_of :: "json \<Rightarrow> int" where
  "number_of (JNum n) = n"
| "number_of _ = 0"

fun elements_of :: "json \<Rightarrow> json list" where
  "elements_of (JArr js) = js"
| "elements_of _ = []"

fun members_of :: "json \<Rightarrow> (string \<times> json) list" where
  "members_of (JObj kvs) = kvs"
| "members_of _ = []"

definition decode_jwt :: "json \<Rightarrow> (bytes \<times> string \<times> jwt) option" where
  "decode_jwt j =
     (let js = elements_of j in
      if length js \<noteq> 9 then None
      else Some (text_of (js ! 0), text_of (js ! 1),
        \<lparr>jw_iss = text_of (js ! 2), jw_sub = text_of (js ! 3), jw_aud = map text_of (elements_of (js ! 4)),
         jw_iat = number_of (js ! 5), jw_exp = number_of (js ! 6), jw_jti = text_of (js ! 7),
         jw_other = members_of (js ! 8)\<rparr>))"

lemma decode_encode_jwt: "decode_jwt (encode_jwt der kid t) = Some (der, kid, t)"
  by (simp add: encode_jwt_def decode_jwt_def comp_def)

definition demo_parse :: "key_set \<Rightarrow> string \<Rightarrow> string \<Rightarrow> time \<Rightarrow> string \<Rightarrow> jwt option" where
  "demo_parse ks iss aud now tok =
     (case json_unmarshal tok of
        None \<Rightarrow> None
      | Some j \<Rightarrow>
          (case decode_jwt j of
             None \<Rightarrow> None
           | Some (der, kid, t) \<Rightarrow>
               if map_of ks kid = Some der \<and> jw_iss t = iss \<and> aud \<in> set (jw_aud t) \<and>
                  jw_iat t \<le> unix_seconds now \<and> unix_seconds now < jw_exp t \<and> demo_sign der kid t = Some tok
               then Some t else None))"

definition demo_jose :: jose where
  "demo_jose = \<lparr>jx_public = Some, jx_is_ec = (\<lambda>_. True), jx_sign = demo_sign,
     jx_jwk = (\<lambda>kid der. JObj [(''kid'', JStr kid)]), jx_parse = demo_parse\<rparr>"

lemma demo_jose_complete: "jose_complete demo_jose"
  unfolding jose_complete_def
  by (auto simp: demo_jose_def demo_parse_def demo_sign_def json_unmarshal_text decode_encode_jwt split: if_splits)

lemma demo_jose_sound: "jose_sound demo_jose"
  unfolding jose_sound_def
  by (auto simp: demo_jose_def demo_parse_def split: option.splits if_splits prod.splits dest!: map_of_SomeD)

subsection \<open>An environment, a database, a request\<close>

definition demo_env :: env where
  "demo_env = \<lparr>en_crypto = demo_crypto, en_jose = demo_jose, en_kek = ''k'', en_issuer = ''https://a'',
     en_environment = ''production'', en_app_origin = ''https://a''\<rparr>"

definition demo_stamp :: string where "demo_stamp = ''2024-01-01T00:00:00Z''"

text \<open>
  The human \<open>7\<close> with a passkey and the scopes \<open>aithne:admin\<close> and \<open>x\<close>, the agent \<open>bot\<close> with the machine key
  of the secret \<open>s\<close> and the scope \<open>x\<close>; the client \<open>app\<close> with the secret \<open>z\<close>; an unused code \<open>q\<close>, an open
  session \<open>i\<close> and an unused invite \<open>t\<close>. Under \<open>demo_crypto\<close> the hash of a text is its hexadecimal form.
\<close>

definition demo_code :: code_row where
  "demo_code = \<lparr>cd_code_hash = ''71'', cd_client_id = ''app'', cd_principal_id = ''p1'',
     cd_redirect_uri = ''https://app/cb'', cd_scope = ''x openid'', cd_nonce = '''', cd_expires_at = demo_stamp,
     cd_created_at = demo_stamp, cd_used_at = None\<rparr>"

definition demo_session :: session_row where
  "demo_session = \<lparr>ss_token_hash = ''69'', ss_principal_id = ''p1'', ss_created_at = demo_stamp,
     ss_expires_at = demo_stamp, ss_revoked_at = None\<rparr>"

definition demo_invite :: invite_row where
  "demo_invite = \<lparr>ir_token_hash = ''74'', ir_contact_id = ''7'', ir_created_by = ''b'',
     ir_created_at = demo_stamp, ir_expires_at = demo_stamp, ir_used_at = None\<rparr>"

definition demo_grant :: "string \<Rightarrow> string \<Rightarrow> string \<Rightarrow> grant_row" where
  "demo_grant i pid sc = \<lparr>gr_id = i, gr_principal_id = pid, gr_scope = sc, gr_environment = ''production'',
     gr_granted_by = ''b'', gr_granted_at = demo_stamp, gr_revoked_by = None, gr_revoked_at = None\<rparr>"

definition demo_credential :: "string \<Rightarrow> string \<Rightarrow> string \<Rightarrow> bytes \<Rightarrow> credential_row" where
  "demo_credential i pid ty dat = \<lparr>cr_id = i, cr_principal_id = pid, cr_type = ty, cr_data = dat, cr_label = ''l'',
     cr_created_at = demo_stamp, cr_revoked_by = None, cr_revoked_at = None\<rparr>"

definition demo_key :: signing_key_row where
  "demo_key = \<lparr>sk_id = ''k1'', sk_status = ''active'', sk_algorithm = ''ES256'',
     sk_private_key = ''nnnnnnnnnnnnk|D'', sk_created_at = demo_stamp, sk_retired_at = None\<rparr>"

definition demo_client :: client_row where
  "demo_client = \<lparr>cl_id = ''app'', cl_secret_hash = ''7a'', cl_redirect_uris = [''https://app/cb''],
     cl_client_name = ''App'', cl_created_at = demo_stamp\<rparr>"

definition demo_db :: database where
  "demo_db =
     \<lparr>principals = [\<lparr>pr_id = ''p1'', pr_class = ''human'', pr_external_id = ''7'', pr_created_at = demo_stamp\<rparr>,
                    \<lparr>pr_id = ''p2'', pr_class = ''agent'', pr_external_id = ''bot'', pr_created_at = demo_stamp\<rparr>],
      credentials = [demo_credential ''c1'' ''p1'' ''webauthn'' ''{}'', demo_credential ''c2'' ''p2'' ''machine_key'' ''73''],
      signing_keys = [demo_key],
      grants = [demo_grant ''g1'' ''p1'' ''aithne:admin'', demo_grant ''g2'' ''p1'' ''x'', demo_grant ''g3'' ''p2'' ''x''],
      invites = [demo_invite], clients = [demo_client], auth_codes = [demo_code], idp_sessions = [demo_session]\<rparr>"

definition demo_world :: "database \<Rightarrow> world" where
  "demo_world db = \<lparr>w_db = db, w_clock = 0, w_delays = [], w_faults = [], w_rand = [Some ''r'', Some ''v''],
     w_uuids = [Some ''u1'', Some ''u2''], w_fresh = (\<lambda>n. ''f''), w_fresh_count = 0, w_keygen = [Some ''K'']\<rparr>"

definition demo_request :: "string \<Rightarrow> string \<Rightarrow> request" where
  "demo_request meth path = \<lparr>rq_method = meth, rq_path = path, rq_uri = path, rq_query = [], rq_form = Some [],
     rq_headers = [], rq_cookies = [], rq_remote = ''1.2.3.4:5'', rq_body = ''''\<rparr>"

lemma demo_env_simps [simp]:
  "en_crypto demo_env = demo_crypto" "en_jose demo_env = demo_jose" "en_kek demo_env = ''k''"
  "en_issuer demo_env = ''https://a''" "en_environment demo_env = ''production''"
  "en_app_origin demo_env = ''https://a''"
  by (simp_all add: demo_env_def)

lemma demo_world_simps [simp]: "w_db (demo_world db) = db" "w_clock (demo_world db) = 0"
  by (simp_all add: demo_world_def)

lemma demo_principals [simp]:
  "p \<in> set (principals demo_db) \<longleftrightarrow>
     p = \<lparr>pr_id = ''p1'', pr_class = ''human'', pr_external_id = ''7'', pr_created_at = demo_stamp\<rparr> \<or>
     p = \<lparr>pr_id = ''p2'', pr_class = ''agent'', pr_external_id = ''bot'', pr_created_at = demo_stamp\<rparr>"
  by (simp add: demo_db_def)

text \<open>The session token of the human \<open>7\<close>, with the given scopes.\<close>

definition demo_token :: "string list \<Rightarrow> string" where
  "demo_token scopes = the (demo_sign ''D'' ''k1''
     \<lparr>jw_iss = ''https://a'', jw_sub = ''7'', jw_aud = [''l42.eu''], jw_iat = 0, jw_exp = 9, jw_jti = ''j'',
      jw_other = [(''principal_class'', JStr ''human''), (''scopes'', string_array scopes)]\<rparr>)"

end
