(* ===== verification/TokenContract.thy ===== *)
theory TokenContract
  imports Endpoints Demo
begin

text \<open>
  The token endpoint: what the authorization_code and client_credentials grants require and issue.
\<close>

lemma code_grant_once_step:
  assumes "auth_code_exchange en c code cid secret uri w = (rs, w')" "rs_status rs = 200"
  shows "code_spent (hash_token (en_crypto en) code) (w_db w')"
proof -
  from run_auth_code_exchange [OF assms] obtain ac w1 where
    issue: "auth_code_issue en c cid ac w1 = (rs, w')"
    and "code_spent (hash_token (en_crypto en) code) (w_db w1)" by blast
  then show ?thesis
    using code_use.auth_code_issue [of "hash_token (en_crypto en) code" w1 en c cid ac] by simp
qed

text \<open>C1: A successful code exchange presented an unused code of the database together with the client and redirect URI it
  was issued for and that client's secret. The access token is for the principal of the code, and its scopes are the
  requested ones that are granted to that principal in this environment, in the order requested; the OIDC scopes it
  records are the requested ones among openid, profile and email.\<close>

theorem code_grant_scopes:
  assumes "auth_code_exchange en contacts code client_id secret uri w = (rs, w')" "rs_status rs = 200"
  shows "\<exists>r p tok idt expiry. code_row (en_crypto en) code (w_db w) = Some r \<and> cd_used_at r = None \<and>
    cd_client_id r = client_id \<and> cd_redirect_uri r = uri \<and>
    (\<exists>q \<in> set (clients (w_db w)). cl_id q = client_id \<and> hash_oidc_secret (en_crypto en) secret = cl_secret_hash q) \<and>
    p \<in> set (principals (w_db w)) \<and> pr_id p = cd_principal_id r \<and> rs = tokens_response tok idt \<and>
    token_for (en_jose en) tok (pr_class p) (pr_external_id p)
      (filter (\<lambda>sc. sc \<in> set (granted_scopes (w_db w) (pr_id p) (en_environment en))) (parse_scope_param (cd_scope r)))
      (filter (\<lambda>sc. sc \<in> {''openid'', ''profile'', ''email''}) (parse_scope_param (cd_scope r)))
      (en_issuer en) ''l42.eu'' expiry"
proof -
  from run_auth_code_exchange [OF assms] obtain ac w1 r where
    issue: "auth_code_issue en contacts client_id ac w1 = (rs, w')"
    and r: "code_row (en_crypto en) code (w_db w) = Some r" "read_auth_code r = Inr ac"
      "cd_client_id r = client_id" "cd_redirect_uri r = uri"
      "\<exists>q \<in> set (clients (w_db w)). cl_id q = client_id \<and> hash_oidc_secret (en_crypto en) secret = cl_secret_hash q"
    and w1: "principals (w_db w1) = principals (w_db w)" "grants (w_db w1) = grants (w_db w)" by blast
  note row = read_auth_code_Inr [OF r(2)]
  from run_auth_code_issue [OF issue assms(2)] w1 row granted_scopes_cong [OF w1(2)] obtain p at it expiry where
    "p \<in> set (principals (w_db w))" "pr_id p = cd_principal_id r" "rs = tokens_response at it"
    "token_for (en_jose en) at (pr_class p) (pr_external_id p)
       (narrowed_scopes (granted_scopes (w_db w) (pr_id p) (en_environment en)) (parse_scope_param (cd_scope r)))
       (requested_oidc_scopes (parse_scope_param (cd_scope r))) (en_issuer en) token_audience expiry"
    by auto
  with r row show ?thesis
    by (intro exI [of _ r] exI [of _ p] exI [of _ at] exI [of _ it] exI [of _ expiry])
      (simp add: narrowed_scopes_def requested_oidc_scopes_def to_set_def token_audience_def oidc_scopes_def)
qed

theorem code_grant_scopes_witness:
  "rs_status (fst (auth_code_exchange demo_env None ''q'' ''app'' ''z'' ''https://app/cb'' (demo_world demo_db))) = 200 \<and>
   (\<exists>r. code_row demo_crypto ''q'' demo_db = Some r \<and> cd_used_at r = None \<and> cd_client_id r = ''app'')"
proof -
  let ?x = "auth_code_exchange demo_env None ''q'' ''app'' ''z'' ''https://app/cb'' (demo_world demo_db)"
  have ok: "rs_status (fst ?x) = 200" by code_simp
  from code_grant_scopes [of demo_env None "''q''" "''app''" "''z''" "''https://app/cb''" "demo_world demo_db" "fst ?x" "snd ?x"] ok
  show ?thesis by (auto simp: demo_env_def demo_world_def)
qed

lemma status_rate_limited [simp]: "rs_status rate_limited = 429" "rs_status method_not_allowed = 405"
  by (simp_all add: rate_limited_def method_not_allowed_def Let_def)

lemma status_secure [simp]: "rs_status (secure_headers rs) = rs_status rs"
  by (simp add: secure_headers_def)

text \<open>What a successful response of the token endpoint comes from, for each grant.\<close>

lemma run_code_grant:
  assumes "handle_oauth2_token en c r rl w = ((rs, rl'), w')" "rs_status rs = 200"
    "form_value r ''grant_type'' = ''authorization_code''"
  shows "\<exists>cid secret w1. client_credentials r = Some (cid, secret) \<and> w_db w1 = w_db w \<and> w_clock w \<le> w_clock w1 \<and>
    auth_code_exchange en c (form_value r ''code'') cid secret (form_value r ''redirect_uri'') w1 = (rs, w')"
  using assms unfolding handle_oauth2_token_def handle_auth_code_grant_def Let_def
  by (auto split: run_splits dest!: run_time)

lemma run_agent_grant:
  assumes "handle_oauth2_token en c r rl w = ((rs, rl'), w')" "rs_status rs = 200"
    "form_value r ''grant_type'' = ''client_credentials''"
  shows "\<exists>w1. w_db w1 = w_db w \<and> w_clock w \<le> w_clock w1 \<and>
    client_credentials_issue en (form_value r ''client_id'') (form_value r ''client_secret'') (form_value r ''scope'') w1 = (rs, w')"
  using assms unfolding handle_oauth2_token_def handle_client_credentials_grant_def Let_def
  by (auto split: run_splits dest!: run_time)

text \<open>C2: A token request with the client_credentials grant succeeds only for an agent whose unrevoked machine key has the hash
  of the presented secret; the token is that agent's, carries the requested scopes (all of the granted ones when none
  are requested), and every one of them is granted to it in this environment.\<close>

theorem agent_grant_scopes:
  assumes "handle_oauth2_token en c r rl w = ((rs, rl'), w')" "rs_status rs = 200"
    "form_value r ''grant_type'' = ''client_credentials''"
  shows "\<exists>p tok scopes expiry. p \<in> set (principals (w_db w)) \<and> pr_class p = ''agent'' \<and>
    pr_external_id p = form_value r ''client_id'' \<and>
    (\<exists>k \<in> set (credentials (w_db w)). cr_principal_id k = pr_id p \<and> cr_type k = ''machine_key'' \<and>
       cr_revoked_at k = None \<and> cr_data k = hex_encode (cx_sha256 (en_crypto en) (form_value r ''client_secret''))) \<and>
    scopes = (if parse_scope_param (form_value r ''scope'') = []
              then granted_scopes (w_db w) (pr_id p) (en_environment en) else parse_scope_param (form_value r ''scope'')) \<and>
    set scopes \<subseteq> set (granted_scopes (w_db w) (pr_id p) (en_environment en)) \<and> rs = token_success tok scopes \<and>
    token_for (en_jose en) tok ''agent'' (form_value r ''client_id'') scopes [] (en_issuer en) ''l42.eu'' expiry"
proof -
  from run_agent_grant [OF assms] obtain w1 where w1: "w_db w1 = w_db w"
    and issue: "client_credentials_issue en (form_value r ''client_id'') (form_value r ''client_secret'')
      (form_value r ''scope'') w1 = (rs, w')" by blast
  from run_client_credentials_issue [OF issue assms(2)] show ?thesis
    unfolding w1 active_credential_def class_agent_def type_machine_key_def hash_machine_key_def token_audience_def
    by blast
qed

definition agent_request :: request where
  "agent_request = (demo_request ''POST'' ''/oauth2/token'')\<lparr>rq_form := Some [(''grant_type'', ''client_credentials''),
     (''client_id'', ''bot''), (''client_secret'', ''s''), (''scope'', ''x'')]\<rparr>"

theorem agent_grant_scopes_witness:
  "\<exists>tok expiry. fst (fst (handle_oauth2_token demo_env None agent_request (new_keyed_limiter 5 9) (demo_world demo_db)))
      = token_success tok [''x''] \<and>
    token_for demo_jose tok ''agent'' ''bot'' [''x''] [] ''https://a'' ''l42.eu'' expiry"
proof -
  let ?x = "handle_oauth2_token demo_env None agent_request (new_keyed_limiter 5 9) (demo_world demo_db)"
  have ok: "rs_status (fst (fst ?x)) = 200" by code_simp
  have scope: "parse_scope_param (form_value agent_request ''scope'') = [''x'']"
    "form_value agent_request ''grant_type'' = ''client_credentials''"
    "form_value agent_request ''client_id'' = ''bot''" by code_simp+
  from agent_grant_scopes [of demo_env None agent_request "new_keyed_limiter 5 9" "demo_world demo_db" "fst (fst ?x)"
      "snd (fst ?x)" "snd ?x"] ok scope
  show ?thesis by (auto simp: demo_env_def)
qed

text \<open>C35: Validation failures do not consume a code: when the client or the redirect URI presented differ from those
  the code was issued for, the exchange is refused and the database is unchanged.\<close>

theorem mismatch_keeps_code:
  assumes "code_row (en_crypto en) code (w_db w) = Some row"
    "cd_client_id row \<noteq> client_id \<or> cd_redirect_uri row \<noteq> uri"
  shows "w_db (snd (auth_code_exchange en contacts code client_id secret uri w)) = w_db w \<and>
    rs_status (fst (auth_code_exchange en contacts code client_id secret uri w)) \<noteq> 200"
  using code_exchange_bad [OF _ assms, of contacts secret] by (metis prod.collapse)

theorem mismatch_keeps_code_witness:
  "w_db (snd (auth_code_exchange demo_env None ''q'' ''app'' ''z'' ''https://b'' (demo_world demo_db))) = demo_db"
proof -
  have "code_row (en_crypto demo_env) ''q'' (w_db (demo_world demo_db)) = Some demo_code" by code_simp
  from mismatch_keeps_code [OF this, of "''app''" "''https://b''" None "''z''"] show ?thesis
    by (simp add: demo_code_def)
qed

end
