(* ===== verification/SessionContract.thy ===== *)
theory SessionContract
  imports Endpoints Demo
begin

text \<open>
  The authorization endpoint, the silent re-mint and the passkey login: where a redirect may go, and what a code or a
  session cookie is issued for.
\<close>

subsection \<open>Authorization\<close>

text \<open>C4: The authorization endpoint is not an open redirect: every redirect it answers with goes to its own login page
  (with the whole request to come back to, escaped), or to a redirect URI that is registered for the client the
  request names, followed by the encoded result.\<close>

theorem authorize_redirects:
  assumes "handle_authorize en r w = (rs, w')" "location_of rs = Some l"
  shows "l = ''/auth/login?next='' @ query_escape (rq_uri r) \<or>
    (\<exists>q \<in> set (clients (w_db w)). cl_id q = query_get r ''client_id'' \<and>
       query_get r ''redirect_uri'' \<in> set (cl_redirect_uris q) \<and>
       (\<exists>params. l = query_get r ''redirect_uri'' @ ''?'' @ values_encode params))"
  using assms(1)
proof (cases rule: run_authorize)
  case page
  with assms(2) show ?thesis by simp
next
  case login
  with assms(2) show ?thesis by (simp add: login_redirect_def)
next
  case (registered q)
  then have "\<exists>params. l = query_get r ''redirect_uri'' @ ''?'' @ values_encode params"
    using assms(2) issue_auth_code_location [OF _ assms(2)] by (auto simp del: append_Cons simp: redirect_error_def)
  with registered show ?thesis by blast
qed

definition authorize_request :: request where
  "authorize_request = (demo_request ''GET'' ''/oauth2/authorize'')\<lparr>
     rq_query := [(''client_id'', ''app''), (''redirect_uri'', ''https://app/cb''), (''response_type'', ''code''),
       (''scope'', ''openid x'')],
     rq_cookies := [(''aithne_session'', demo_token [''x''])]\<rparr>"

definition authorize_db :: database where
  "authorize_db = empty_db\<lparr>principals := principals demo_db, clients := [demo_client], signing_keys := [demo_key]\<rparr>"

theorem authorize_redirects_witness:
  "\<exists>l. location_of (fst (handle_authorize demo_env (authorize_request\<lparr>rq_cookies := []\<rparr>) (demo_world authorize_db))) = Some l \<and>
    (l = ''/auth/login?next='' @ query_escape ''/oauth2/authorize'' \<or> (\<exists>params. l = ''https://app/cb?'' @ values_encode params))"
proof -
  let ?r = "authorize_request\<lparr>rq_cookies := []\<rparr>"
  let ?x = "handle_authorize demo_env ?r (demo_world authorize_db)"
  have "location_of (fst ?x) \<noteq> None" by code_simp
  then obtain l where "location_of (fst ?x) = Some l" by auto
  with authorize_redirects [of demo_env ?r "demo_world authorize_db" "fst ?x" "snd ?x" l] show ?thesis
    by (simp add: authorize_request_def demo_request_def query_get_def values_get_def) auto
qed



subsection \<open>Re-mint\<close>

text \<open>C5: A silent re-mint answers 200 only to a POST whose origin the CORS policy admits, for an IdP session of the
  database that is neither revoked nor expired, whose principal still exists and still has a passkey that is not
  revoked; the cookie it sets is a token for that principal with the scopes granted to it at that moment, and nothing
  else.\<close>

theorem remint_issues:
  assumes "handle_re_mint en r w = (rs, w')" "rs_status rs = 200"
  shows "rq_method r = ''POST'' \<and> is_ok (set_cors_headers (header_get r ''Origin'') (en_app_origin en) (en_environment en)) \<and>
    (\<exists>cookie s exp p k tok expiry. cookie_get r ''aithne_idp_session'' = Some cookie \<and>
    session_row (en_crypto en) cookie (w_db w) = Some s \<and> ss_revoked_at s = None \<and>
    parse_time (ss_expires_at s) = Some exp \<and> w_clock w \<le> exp \<and>
    p \<in> set (principals (w_db w)) \<and> pr_id p = ss_principal_id s \<and>
    k \<in> set (credentials (w_db w)) \<and> cr_principal_id k = pr_id p \<and> cr_type k = ''webauthn'' \<and> cr_revoked_at k = None \<and>
    rs_cookies rs = [set_session_cookie tok (en_environment en)] \<and>
    token_for (en_jose en) tok (pr_class p) (pr_external_id p)
      (granted_scopes (w_db w) (pr_id p) (en_environment en)) [] (en_issuer en) ''l42.eu'' expiry)"
proof -
  obtain rs0 hs where mint: "re_mint en r w = (rs0, w')" "rs_status rs0 = 200" and rs: "rs = add_headers hs rs0"
    and origin: "rq_method r = ''POST''"
      "set_cors_headers (header_get r ''Origin'') (en_app_origin en) (en_environment en) = Inr hs"
    by (rule run_handle_re_mint [OF assms])
  from run_re_mint [OF mint] obtain cookie s p exp dat tok expiry where
    cookie: "cookie_get r ''aithne_idp_session'' = Some cookie"
    and s: "session_row (en_crypto en) cookie (w_db w) = Some s" "ss_revoked_at s = None"
      "parse_time (ss_expires_at s) = Some exp" "w_clock w \<le> exp"
    and p: "p \<in> set (principals (w_db w))" "pr_id p = ss_principal_id s"
    and k: "active_credential (w_db w) (pr_id p) ''webauthn'' dat"
    and rs0: "rs0 = add_cookies [set_session_cookie tok (en_environment en)] (json_response 200 (JObj [(''ok'', JBool True)]))"
    and tok: "token_for (en_jose en) tok (pr_class p) (pr_external_id p)
      (granted_scopes (w_db w) (pr_id p) (en_environment en)) [] (en_issuer en) ''l42.eu'' expiry"
    unfolding type_webauthn_def idp_session_cookie_name_def token_audience_def by blast
  have "rs_cookies rs = [set_session_cookie tok (en_environment en)]"
    by (simp add: rs rs0 add_cookies_def json_response_def add_headers_def)
  with cookie s p k tok origin show ?thesis unfolding active_credential_def by fastforce
qed

definition remint_request :: request where
  "remint_request = (demo_request ''POST'' ''/auth/remint'')\<lparr>rq_cookies := [(''aithne_idp_session'', ''i'')]\<rparr>"

theorem remint_issues_witness:
  "\<exists>tok. rs_cookies (fst (handle_re_mint demo_env remint_request (demo_world demo_db)))
     = [set_session_cookie tok ''production''] \<and>
   (\<exists>expiry. token_for demo_jose tok ''human'' ''7'' [''aithne:admin'', ''x''] [] ''https://a'' ''l42.eu'' expiry)"
proof -
  let ?x = "handle_re_mint demo_env remint_request (demo_world demo_db)"
  have ok: "rs_status (fst ?x) = 200" by code_simp
  have scopes: "granted_scopes demo_db ''p1'' ''production'' = [''aithne:admin'', ''x'']" by code_simp
  have row: "session_row demo_crypto ''i'' demo_db = Some demo_session" by code_simp
  from remint_issues [of demo_env remint_request "demo_world demo_db" "fst ?x" "snd ?x"] ok row scopes
  show ?thesis
    by (fastforce simp: remint_request_def cookie_get_def demo_session_def)
qed

subsection \<open>Login\<close>

lemma usable_credentials_mem:
  "wc \<in> set (usable_credentials cs) \<Longrightarrow>
   \<exists>c \<in> set cs. c_type c = type_webauthn \<and> c_revoked_at c = None \<and> unmarshal_webauthn_credential (c_data c) = Inr wc"
  by (induction cs) (auto split: if_splits sum.splits)

text \<open>
  A user as the login handlers load it: a principal of the database, and of its passkeys only those
  that are not revoked.
\<close>

definition loaded_user :: "database \<Rightarrow> webauthn_user \<Rightarrow> bool" where
  "loaded_user db u \<longleftrightarrow>
     (\<exists>p \<in> set (principals db). pr_id p = p_id (wu_principal u) \<and> pr_class p = p_class (wu_principal u) \<and>
        pr_external_id p = p_external_id (wu_principal u)) \<and>
     (\<forall>wc \<in> set (wu_credentials u). \<exists>dat. active_credential db (p_id (wu_principal u)) ''webauthn'' dat \<and>
        unmarshal_webauthn_credential dat = Inr wc)"

lemma run_load_by_principal:
  assumes "load_webauthn_user_by_principal p w = (Inr u, w')" "read_principal row = Inr p" "row \<in> set (principals (w_db w))"
  shows "loaded_user (w_db w) u \<and> wu_principal u = p \<and> w_db w' = w_db w \<and> w_clock w' = w_clock w"
proof -
  from assms(1) obtain creds where creds: "list_credentials_by_principal (p_id p) w = (Inr creds, w')"
    and u: "u = \<lparr>wu_principal = p, wu_credentials = usable_credentials creds, wu_display_name = ''''\<rparr>"
    unfolding load_webauthn_user_by_principal_def by (auto split: run_splits)
  have "\<exists>dat. active_credential (w_db w) (p_id p) ''webauthn'' dat \<and> unmarshal_webauthn_credential dat = Inr wc"
    if "wc \<in> set (usable_credentials creds)" for wc
    using usable_credentials_mem [OF that] run_listed_credentials [OF creds] unfolding type_webauthn_def by metis
  with u assms(2,3) run_listed_credentials [OF creds] show ?thesis
    unfolding loaded_user_def by (auto dest!: read_principal_Inr)
qed

lemma run_discoverable_user [op_dests]:
  assumes "discoverable_user h w = (Inr u, w')"
  shows "loaded_user (w_db w) u \<and> p_id (wu_principal u) = h \<and> w_db w' = w_db w \<and> w_clock w' = w_clock w"
proof -
  from assms obtain p w1 where p: "get_principal_by_id h w = (Inr p, w1)"
    and l: "load_webauthn_user_by_principal p w1 = (Inr u, w')"
    unfolding discoverable_user_def by (auto split: run_splits)
  from run_get_principal_by_id [OF p] show ?thesis using run_load_by_principal [OF l] by (auto dest: read_principal_Inr)
qed

lemma run_load_user [op_dests]:
  assumes "load_webauthn_user c w = (Inr u, w')"
  shows "loaded_user (w_db w) u \<and> p_class (wu_principal u) = ''human'' \<and> p_external_id (wu_principal u) = c \<and> w_db w' = w_db w \<and> w_clock w' = w_clock w"
proof -
  from assms obtain p w1 where p: "get_principal_by_external_id class_human c w = (Inr p, w1)"
    and l: "load_webauthn_user_by_principal p w1 = (Inr u, w')"
    unfolding load_webauthn_user_def by (auto split: run_splits)
  from run_get_principal_by_external_id [OF p] obtain row where row: "row \<in> set (principals (w_db w1))"
    "read_principal row = Inr p" "pr_class row = ''human''" "pr_external_id row = c" "w_db w1 = w_db w" "w_clock w1 = w_clock w"
    by (auto simp: class_human_def)
  from read_principal_Inr [OF row(2)] run_load_by_principal [OF l row(2,1)] row(3-) show ?thesis by simp
qed

text \<open>The library accepted an assertion of this user.\<close>

definition asserted :: "webauthn \<Rightarrow> webauthn_user \<Rightarrow> bytes \<Rightarrow> request \<Rightarrow> wcredential \<Rightarrow> bool" where
  "asserted wa u session_data r c \<longleftrightarrow>
     wa_finish_login wa (user_view u) session_data r = Some c \<or>
     wa_finish_discoverable wa (Some (user_view u)) session_data r = Some c"

lemma run_finish [op_dests]:
  "finish_discoverable wa r sd w = (Inr (u, c), w') \<Longrightarrow>
     loaded_user (w_db w) u \<and> asserted wa u sd r c \<and> wa_user_handle wa sd r = Some (p_id (wu_principal u)) \<and>
     w_db w' = w_db w \<and> w_clock w' = w_clock w"
  "finish_explicit wa r cid sd w = (Inr (u, c), w') \<Longrightarrow>
     loaded_user (w_db w) u \<and> asserted wa u sd r c \<and> p_class (wu_principal u) = ''human'' \<and>
     p_external_id (wu_principal u) = cid \<and> w_db w' = w_db w \<and> w_clock w' = w_clock w"
  unfolding finish_discoverable_def finish_explicit_def err_cases asserted_def
  by (auto split: run_splits dest!: op_dests)

lemma login_refusals [simp]:
  "rs_status internal_error = 500" "rs_status no_pending_login = 400" "rs_status auth_failed = 401"
  "rs_status principal_not_found = 404" "rs_status method_not_allowed = 405"
  by (simp_all add: internal_error_def no_pending_login_def auth_failed_def principal_not_found_def
      unauthorized_def method_not_allowed_def)

lemma finish_refused:
  "finish_discoverable wa r sd w = (Inl rs, w') \<Longrightarrow> rs_status rs \<noteq> 200"
  "finish_explicit wa r cid sd w = (Inl rs, w') \<Longrightarrow> rs_status rs \<noteq> 200"
  unfolding finish_discoverable_def finish_explicit_def err_cases by (auto split: run_splits)

lemma persist_sign_count_frames:
  "grants (w_db (snd (persist_sign_count u c w))) = grants (w_db w)"
  "principals (w_db (snd (persist_sign_count u c w))) = principals (w_db w)"
proof -
  have "grants (w_db w') = grants (w_db w1) \<and> principals (w_db w') = principals (w_db w1)"
    if "db_exec (update_credentials p f) w1 = (x, w')" for p f w1 x w'
  proof (cases x)
    case (Inr n)
    then have "w_db w' = (w_db w1)\<lparr>credentials := update_where p f (credentials (w_db w1))\<rparr>"
      using run_exec [of "update_credentials p f" w1 n w'] that by (simp add: update_credentials_def)
    then show ?thesis by simp
  qed (use that in \<open>auto dest!: run_dests\<close>)
  then have data: "grants (w_db (snd (update_credential_data i dat w1))) = grants (w_db w1) \<and>
      principals (w_db (snd (update_credential_data i dat w1))) = principals (w_db w1)" for i dat w1
    unfolding update_credential_data_def by (auto split: run_splits)
  note found = find_and_update_frame [of u c w]
  show "grants (w_db (snd (persist_sign_count u c w))) = grants (w_db w)"
    "principals (w_db (snd (persist_sign_count u c w))) = principals (w_db w)"
    unfolding persist_sign_count_def using found by (auto simp: case_prod_beta data split: run_splits)
qed

lemma run_login_success:
  assumes "login_succeed en r u c w = (rs, w')" "rs_status rs = 200"
  shows "\<not> wc_clone_warning c \<and> (\<exists>tok expiry more. rs_cookies rs = set_session_cookie tok (en_environment en) # more \<and>
     token_for (en_jose en) tok (p_class (wu_principal u)) (p_external_id (wu_principal u))
       (granted_scopes (w_db w) (p_id (wu_principal u)) (en_environment en)) [] (en_issuer en) token_audience expiry)"
proof -
  have g: "granted_scopes (w_db (snd (persist_sign_count u c w))) = granted_scopes (w_db w)"
    by (rule granted_scopes_cong) (rule persist_sign_count_frames)
  obtain w1 where w1: "persist_sign_count u c w = ((), w1)" by (cases "persist_sign_count u c w") auto
  have "granted_scopes (w_db w1) = granted_scopes (w_db w)" using g w1 by simp
  then show ?thesis
    using assms unfolding login_succeed_def w1 Let_def
    by (auto split: run_splits dest!: op_dests simp: internal_error_def add_cookies_def json_response_def) fastforce+
qed

text \<open>C3: A finished login sets a session cookie only when a ceremony was pending for the key the request names (it is taken
  from the store, so it cannot be finished twice), the WebAuthn library accepted the assertion for the
  user the key (or the user handle of the assertion) names, whose credentials are a principal's passkeys that are not revoked, and the library saw no cloned authenticator. The token
  is that principal's, with the scopes granted to it at that moment.\<close>

theorem login_issues:
  assumes "handle_login_finish en wa r cs w = ((rs, cs'), w')" "rs_status rs = 200"
  shows "\<exists>now session_data u c p tok expiry more. w_clock w \<le> now \<and>
    take_ceremony now (if query_get r ''session'' \<noteq> '''' then ''login:disco:'' @ query_get r ''session''
                       else ''login:'' @ query_get r ''contact_id'') cs = (Some session_data, cs') \<and>
    loaded_user (w_db w) u \<and> asserted wa u session_data r c \<and> \<not> wc_clone_warning c \<and>
    (if query_get r ''session'' \<noteq> '''' then wa_user_handle wa session_data r = Some (pr_id p)
     else pr_class p = ''human'' \<and> pr_external_id p = query_get r ''contact_id'') \<and>
    p \<in> set (principals (w_db w)) \<and> pr_id p = p_id (wu_principal u) \<and>
    rs_cookies rs = set_session_cookie tok (en_environment en) # more \<and>
    token_for (en_jose en) tok (pr_class p) (pr_external_id p)
      (granted_scopes (w_db w) (pr_id p) (en_environment en)) [] (en_issuer en) ''l42.eu'' expiry"
proof -
  let ?key = "if query_get r ''session'' \<noteq> '''' then disco_key (query_get r ''session'') else login_key (query_get r ''contact_id'')"
  from assms obtain sd w1 u c w2 where take: "take_now ?key cs w = ((Some sd, cs'), w1)"
    and fin: "(if query_get r ''session'' \<noteq> '''' then finish_discoverable wa r sd w1
        else finish_explicit wa r (query_get r ''contact_id'') sd w1) = (Inr (u, c), w2)"
    and ok: "login_succeed en r u c w2 = (rs, w')"
    unfolding handle_login_finish_def Let_def by (auto split: run_splits dest: finish_refused)
  obtain now where now: "w_clock w \<le> now" "take_ceremony now ?key cs = (Some sd, cs')" "w_db w1 = w_db w"
    using take unfolding take_now_def by (auto split: run_splits dest!: run_time)
  have u: "loaded_user (w_db w) u" "asserted wa u sd r c" "w_db w2 = w_db w"
    using fin now(3) by (auto split: if_splits dest!: run_finish)
  from u(1) obtain p where p: "p \<in> set (principals (w_db w))" "pr_id p = p_id (wu_principal u)"
    "pr_class p = p_class (wu_principal u)" "pr_external_id p = p_external_id (wu_principal u)"
    unfolding loaded_user_def by blast
  have who: "if query_get r ''session'' \<noteq> '''' then wa_user_handle wa sd r = Some (pr_id p)
     else pr_class p = ''human'' \<and> pr_external_id p = query_get r ''contact_id''"
    using fin p by (auto split: if_splits dest!: run_finish)
  from run_login_success [OF ok assms(2)] u(3) p obtain tok expiry more where
    "\<not> wc_clone_warning c" "rs_cookies rs = set_session_cookie tok (en_environment en) # more"
    "token_for (en_jose en) tok (pr_class p) (pr_external_id p)
      (granted_scopes (w_db w) (pr_id p) (en_environment en)) [] (en_issuer en) ''l42.eu'' expiry"
    unfolding token_audience_def by auto
  with now(1,2) u(1,2) p(1,2) who show ?thesis unfolding disco_key_def login_key_def by blast
qed

definition demo_webauthn :: webauthn where
  "demo_webauthn =
     (let c = \<lparr>wc_id = ''i'', wc_public_key = ''p'', wc_attestation_type = ''none'', wc_transports = [], wc_user_present = True,
               wc_user_verified = True, wc_backup_eligible = False, wc_backup_state = False, wc_aaguid = ''a'',
               wc_sign_count = 1, wc_clone_warning = False, wc_attachment = ''platform'', wc_attestation = []\<rparr> in
      \<lparr>wa_begin_login = (\<lambda>u ch. Some ([], ''d'')), wa_begin_discoverable = (\<lambda>ch. Some ([], ''d'')),
       wa_finish_login = (\<lambda>u sd r. if sd = ''d'' then Some c else None), wa_user_handle = (\<lambda>sd r. None),
       wa_finish_discoverable = (\<lambda>u sd r. None), wa_begin_registration = (\<lambda>u ch. Some (JNull, ''d'')),
       wa_finish_registration = (\<lambda>u sd r. if sd = ''d'' then Some c else None)\<rparr>)"

definition login_request :: request where
  "login_request = (demo_request ''POST'' ''/auth/login/finish'')\<lparr>rq_query := [(''contact_id'', ''7'')]\<rparr>"

definition login_ceremonies :: ceremony_store where
  "login_ceremonies = put 0 0 ''login:7'' ''d'' new_ceremony_store"

theorem login_issues_witness:
  "\<exists>tok expiry more. rs_cookies (fst (fst (handle_login_finish demo_env demo_webauthn login_request login_ceremonies
       (demo_world demo_db)))) = set_session_cookie tok ''production'' # more \<and>
     token_for demo_jose tok ''human'' ''7'' [''aithne:admin'', ''x''] [] ''https://a'' ''l42.eu'' expiry"
proof -
  let ?x = "handle_login_finish demo_env demo_webauthn login_request login_ceremonies (demo_world demo_db)"
  have ok: "rs_status (fst (fst ?x)) = 200" by code_simp
  have scopes: "granted_scopes demo_db ''p1'' ''production'' = [''aithne:admin'', ''x'']" by code_simp
  have query: "query_get login_request ''session'' = ''''" "query_get login_request ''contact_id'' = ''7''"
    by (simp_all add: login_request_def query_get_def values_get_def)
  from login_issues [of demo_env demo_webauthn login_request login_ceremonies "demo_world demo_db" "fst (fst ?x)"
      "snd (fst ?x)" "snd ?x"] ok scopes query show ?thesis by fastforce
qed

end
