(* ===== verification/AdminContract.thy ===== *)
theory AdminContract
  imports Endpoints Demo
begin

text \<open>
  Granting, revoking and checking scopes.
\<close>

subsection \<open>Grants\<close>

text \<open>What \<open>create_grant\<close> does, for each of its results.\<close>

lemma insert_grant_InlD:
  "insert_grant r db = Inl m \<Longrightarrow> (is_fk_violation m \<longleftrightarrow> m = fk_failed) \<and> (is_unique_violation m \<longleftrightarrow> m \<noteq> fk_failed)"
proof -
  have "is_fk_violation fk_failed" "\<not> is_unique_violation fk_failed"
    "\<not> is_fk_violation (unique_failed ''grants.id'')" "is_unique_violation (unique_failed ''grants.id'')"
    "\<not> is_fk_violation (unique_failed ''grants.principal_id, grants.scope, grants.environment'')"
    "is_unique_violation (unique_failed ''grants.principal_id, grants.scope, grants.environment'')"
    by code_simp+
  then show "insert_grant r db = Inl m \<Longrightarrow> ?thesis"
    by (auto simp: insert_grant_def split: if_splits)
qed

lemma unique_not_fk [simp]: "unique_failed c \<noteq> fk_failed"
  by (simp add: unique_failed_def fk_failed_def)

lemma io_failed_simps [simp]: "\<not> is_fk_violation io_failed" "\<not> is_unique_violation io_failed"
  by code_simp+

text \<open>C14: Granting a scope: a scope outside the vocabulary is refused whatever the database holds; a grant is returned only
  for a scope of the vocabulary and an existing principal that did not hold it actively in that environment, and then
  exactly one active row for it is appended; every error leaves the database as it was, and the duplicate error means
  that an active grant for that principal, scope and environment (or the drawn identifier) was there.\<close>

theorem create_grant_outcome:
  assumes "create_grant pid sc environment by vocab w = (res, w')"
  shows "case res of
      Inl e \<Rightarrow> w_db w' = w_db w \<and> (e = ErrUnknownScope \<longleftrightarrow> \<not> vocab_contains vocab sc) \<and>
        (e = ErrNotFound \<longrightarrow> \<not> has_principal pid (w_db w)) \<and>
        (e = ErrDuplicate \<longrightarrow> (pid, sc, environment) \<in> grant_key ` set (active_grants (w_db w)) \<or>
           fst (new_uuid w) \<in> Some ` gr_id ` set (grants (w_db w)))
    | Inr g \<Rightarrow> vocab_contains vocab sc \<and> has_principal pid (w_db w) \<and>
        (pid, sc, environment) \<notin> grant_key ` set (active_grants (w_db w)) \<and>
        (\<exists>row. w_db w' = (w_db w)\<lparr>grants := grants (w_db w) @ [row]\<rparr> \<and> grant_key row = (pid, sc, environment) \<and>
           gr_id row = g_id g \<and> gr_granted_by row = by \<and> gr_revoked_at row = None)"
proof -
  let ?row = "\<lambda>i now. \<lparr>gr_id = i, gr_principal_id = pid, gr_scope = sc, gr_environment = environment,
    gr_granted_by = by, gr_granted_at = rfc3339 now, gr_revoked_by = None, gr_revoked_at = None\<rparr>"
  consider "\<not> vocab_contains vocab sc" "res = Inl ErrUnknownScope" "w' = w"
    | w1 where "vocab_contains vocab sc" "new_uuid w = (None, w1)" "res = Inl (ErrOther ''store: generate grant id'')" "w' = w1"
    | i w1 now w2 m where "vocab_contains vocab sc" "new_uuid w = (Some i, w1)" "time_now w1 = (now, w2)"
        "db_exec (insert_grant (?row i now)) w2 = (Inl m, w')"
        "res = Inl (if is_fk_violation m then ErrNotFound else if is_unique_violation m then ErrDuplicate
           else ErrOther ''store: create grant'')"
    | i w1 now w2 n g where "vocab_contains vocab sc" "new_uuid w = (Some i, w1)" "time_now w1 = (now, w2)"
        "db_exec (insert_grant (?row i now)) w2 = (Inr n, w')" "res = Inr g" "g_id g = i"
    using assms unfolding create_grant_def by (auto split: run_splits)
  then show ?thesis
  proof cases
    case (3 i w1 now w2 m)
    from run_uuid [OF 3(2)] run_time [OF 3(3)] run_exec_err [OF 3(4)] have db: "w_db w' = w_db w" "w_db w2 = w_db w"
      and m: "m = io_failed \<or> insert_grant (?row i now) (w_db w) = Inl m" by auto
    show ?thesis
    proof (cases "m = io_failed")
      case False
      with m have "insert_grant (?row i now) (w_db w) = Inl m" by simp
      with insert_grant_InlD [OF this] 3 db show ?thesis
        by (auto simp: insert_grant_def active_grants_def grant_key_def image_iff split: if_splits)
    qed (use 3 db in simp)
  next
    case (4 i w1 now w2 n g)
    from run_uuid [OF 4(2)] run_time [OF 4(3)] run_exec [OF 4(4)]
    have ins: "insert_grant (?row i now) (w_db w) = Inr (w_db w', n)" by auto
    then have "w_db w' = (w_db w)\<lparr>grants := grants (w_db w) @ [?row i now]\<rparr>"
      by (auto simp: insert_grant_def split: if_splits)
    then have "\<exists>row. w_db w' = (w_db w)\<lparr>grants := grants (w_db w) @ [row]\<rparr> \<and> grant_key row = (pid, sc, environment) \<and>
        gr_id row = g_id g \<and> gr_granted_by row = by \<and> gr_revoked_at row = None"
      using 4(6) by (intro exI [of _ "?row i now"]) (simp add: grant_key_def)
    with ins 4 show ?thesis
      by (auto simp: insert_grant_def active_grants_def grant_key_def split: if_splits)
  qed (auto dest!: run_uuid)
qed

theorem create_grant_outcome_witness:
  "\<exists>row. w_db (snd (create_grant ''p2'' ''y'' ''production'' ''7'' (new_vocabulary [''x'', ''y'']) (demo_world demo_db)))
     = demo_db\<lparr>grants := grants demo_db @ [row]\<rparr> \<and> grant_key row = (''p2'', ''y'', ''production'')"
proof -
  let ?x = "create_grant ''p2'' ''y'' ''production'' ''7'' (new_vocabulary [''x'', ''y'']) (demo_world demo_db)"
  have "is_ok (fst ?x)" by code_simp
  then obtain g w' where x: "?x = (Inr g, w')" by (cases ?x) (auto simp: is_ok_def split: sum.splits)
  from create_grant_outcome [OF x] show ?thesis unfolding x by auto
qed

text \<open>C15: The grant-check endpoint answers exactly whether the principal it is asked about has an active grant of the scope;
  a revoked grant does not count, and nothing is changed.\<close>

theorem check_grant_answer:
  assumes "check_grant claims r rl w = ((rs, rl'), w')" "rs_status rs = 200"
  shows "w_db w' = w_db w \<and> rs = json_response 200 (JObj [(''granted'',
    JBool (\<exists>g \<in> set (grants (w_db w)). gr_principal_id g = query_get r ''principal_id'' \<and>
             gr_scope g = query_get r ''scope'' \<and> gr_revoked_at g = None))])"
proof -
  have scope: "scope_granted sc gs \<longleftrightarrow> (\<exists>g \<in> set gs. g_scope g = sc)" for sc gs
    by (induction gs) auto
  from assms obtain w1 gs where w1: "w_db w1 = w_db w" and gs: "list_grants (query_get r ''principal_id'') '''' True w1 = (Inr gs, w')"
    and rs: "rs = json_response 200 (JObj [(''granted'', JBool (scope_granted (query_get r ''scope'') gs))])"
    unfolding check_grant_def Let_def
    by (auto split: run_splits dest!: run_time simp: check_limited_def internal_error_def Let_def)
  note listed = run_list_grants [OF gs]
  let ?rows = "sort_key gr_granted_at (filter (list_grants_where (query_get r ''principal_id'') '''' True) (grants (w_db w)))"
  have all: "list_all2 (\<lambda>r g. read_grant r = Inr g) ?rows gs" using listed w1 by simp
  have "(\<exists>g \<in> set gs. g_scope g = sc) \<longleftrightarrow> (\<exists>row \<in> set ?rows. gr_scope row = sc)" for sc
  proof -
    have "map gr_scope ?rows = map g_scope gs"
      using all by (rule list_all2_map_eq) (simp add: read_grant_Inr)
    then have "gr_scope ` set ?rows = g_scope ` set gs" by (metis list.set_map)
    then show ?thesis by (auto simp: set_eq_iff image_iff) metis+
  qed
  then have "scope_granted sc gs \<longleftrightarrow> (\<exists>g \<in> set (grants (w_db w)). gr_principal_id g = query_get r ''principal_id'' \<and>
      gr_scope g = sc \<and> gr_revoked_at g = None)" for sc
    unfolding scope by (auto simp: list_grants_where_def)
  with rs listed w1 show ?thesis by simp
qed

theorem check_grant_answer_witness:
  "rs_body (fst (fst (check_grant \<lparr>sc_subject = ''bot'', sc_principal_class = ''agent'', sc_scopes = [], sc_oidc_scopes = [],
      sc_issued_at = 0, sc_expires_at = 0, sc_jwt_id = ''''\<rparr>
      ((demo_request ''GET'' ''/admin/grants/check'')\<lparr>rq_query := [(''principal_id'', ''p2''), (''scope'', ''x'')]\<rparr>)
      (new_keyed_limiter 3 9) (demo_world demo_db)))) = rs_body (json_response 200 (JObj [(''granted'', JBool True)]))"
  (is "rs_body (fst (fst (check_grant ?c ?r ?l ?w))) = _")
proof -
  have ok: "rs_status (fst (fst (check_grant ?c ?r ?l ?w))) = 200" by code_simp
  from check_grant_answer [of ?c ?r ?l ?w "fst (fst (check_grant ?c ?r ?l ?w))"
      "snd (fst (check_grant ?c ?r ?l ?w))" "snd (check_grant ?c ?r ?l ?w)"] ok
  show ?thesis by (simp add: demo_db_def demo_grant_def query_get_def values_get_def demo_request_def)
qed

lemma run_revoke_grant:
  assumes "revoke_grant i by w = (Inr u, w')"
  obtains r now where "r \<in> set (grants (w_db w))" "gr_id r = i" "gr_revoked_at r = None"
    "w_db w' = (w_db w)\<lparr>grants := update_where (\<lambda>r. gr_id r = i)
      (\<lambda>r. r\<lparr>gr_revoked_by := Some by, gr_revoked_at := Some (rfc3339 now)\<rparr>) (grants (w_db w))\<rparr>"
proof -
  from assms obtain w1 now w2 n where q: "db_query (\<lambda>db. map_option gr_revoked_at (select_first (\<lambda>r. gr_id r = i) (grants db))) w
      = (Inr (Some None), w1)" and now: "time_now w1 = (now, w2)"
    and upd: "db_exec (update_grants (\<lambda>r. gr_id r = i)
      (\<lambda>r. r\<lparr>gr_revoked_by := Some by, gr_revoked_at := Some (rfc3339 now)\<rparr>)) w2 = (Inr n, w')"
    unfolding revoke_grant_def by (auto split: run_splits)
  from run_query [OF q] obtain r where "r \<in> set (grants (w_db w))" "gr_id r = i" "gr_revoked_at r = None"
    by (auto dest: select_first_SomeD)
  moreover have "w_db w' = (w_db w)\<lparr>grants := update_where (\<lambda>r. gr_id r = i)
      (\<lambda>r. r\<lparr>gr_revoked_by := Some by, gr_revoked_at := Some (rfc3339 now)\<rparr>) (grants (w_db w))\<rparr>"
    using run_query [OF q] run_time [OF now] run_exec [OF upd] by (simp add: update_grants_def)
  ultimately show thesis by (rule that)
qed

text \<open>C12: Revoking a grant takes effect at once: in a well-formed database the principal no longer holds the scope in the
  grant's environment, because at most one grant of it was active.\<close>

theorem revoke_grant_effect:
  assumes "wf_db (w_db w)" "revoke_grant i by w = (Inr (), w')" "g \<in> set (grants (w_db w))" "gr_id g = i"
    "gr_environment g \<noteq> ''''"
  shows "gr_scope g \<notin> set (granted_scopes (w_db w') (gr_principal_id g) (gr_environment g)) \<and>
    (\<forall>q \<in> set (grants (w_db w')). gr_id q = i \<longrightarrow> gr_revoked_at q \<noteq> None)"
proof -
  obtain r now where r: "r \<in> set (grants (w_db w))" "gr_id r = i" "gr_revoked_at r = None"
    and db: "w_db w' = (w_db w)\<lparr>grants := update_where (\<lambda>r. gr_id r = i)
      (\<lambda>r. r\<lparr>gr_revoked_by := Some by, gr_revoked_at := Some (rfc3339 now)\<rparr>) (grants (w_db w))\<rparr>"
    by (rule run_revoke_grant [OF assms(2)])
  have ids: "distinct (map gr_id (grants (w_db w)))" and keys: "distinct (map grant_key (active_grants (w_db w)))"
    using assms(1) by (auto simp: wf_db_def wf_grants_def)
  from ids r assms(3,4) have "r = g" by (simp add: distinct_map inj_on_def)
  with r have g: "g \<in> set (active_grants (w_db w))" by (simp add: active_grants_def)
  have "gr_id q = i" if "q \<in> set (active_grants (w_db w))" "grant_key q = grant_key g" for q
  proof -
    have "inj_on grant_key (set (active_grants (w_db w)))" using keys by (simp add: distinct_map)
    from inj_onD [OF this that(2,1) g] assms(4) show ?thesis by simp
  qed
  then have free: "gr_id q = i" if "q \<in> set (active_grants (w_db w))" "gr_principal_id q = gr_principal_id g"
      "gr_scope q = gr_scope g" "gr_environment q = gr_environment g" for q
    using that by (simp add: grant_key_def)
  have left: "q \<in> set (active_grants (w_db w)) \<and> gr_id q \<noteq> i" if "q \<in> set (active_grants (w_db w'))" for q
  proof -
    have "q \<in> set (grants (w_db w'))" and act: "gr_revoked_at q = None"
      using that by (simp_all add: active_grants_def)
    then have "q \<in> set (update_where (\<lambda>r. gr_id r = i)
      (\<lambda>r. r\<lparr>gr_revoked_by := Some by, gr_revoked_at := Some (rfc3339 now)\<rparr>) (grants (w_db w)))"
      by (simp add: db)
    then obtain r' where "r' \<in> set (grants (w_db w))"
      "q = (if gr_id r' = i then r'\<lparr>gr_revoked_by := Some by, gr_revoked_at := Some (rfc3339 now)\<rparr> else r')"
      unfolding set_update_where by (rule imageE)
    with act show ?thesis by (cases "gr_id r' = i") (simp_all add: active_grants_def)
  qed
  have "gr_scope g \<notin> set (granted_scopes (w_db w') (gr_principal_id g) (gr_environment g))"
  proof
    assume "gr_scope g \<in> set (granted_scopes (w_db w') (gr_principal_id g) (gr_environment g))"
    then obtain q where q: "q \<in> set (active_grants (w_db w'))" "gr_principal_id q = gr_principal_id g"
      "gr_environment q = gr_environment g" "gr_scope q = gr_scope g"
      unfolding set_granted_scopes [OF assms(5)] by force
    with left [OF q(1)] free [of q] show False by simp
  qed
  moreover have "\<forall>q \<in> set (grants (w_db w')). gr_id q = i \<longrightarrow> gr_revoked_at q \<noteq> None"
    unfolding db by (simp add: ball_update_where)
  ultimately show ?thesis by simp
qed

theorem revoke_grant_effect_witness:
  "''x'' \<notin> set (granted_scopes (w_db (snd (revoke_grant ''g3'' ''7'' (demo_world demo_db)))) ''p2'' ''production'')"
proof -
  let ?x = "revoke_grant ''g3'' ''7'' (demo_world demo_db)"
  have "wf_db demo_db" "fst ?x = Inr ()" by code_simp+
  moreover have "demo_grant ''g3'' ''p2'' ''x'' \<in> set (grants demo_db)" by (simp add: demo_db_def)
  ultimately show ?thesis
    using revoke_grant_effect [of "demo_world demo_db" "''g3''" "''7''" "snd ?x" "demo_grant ''g3'' ''p2'' ''x''"]
    by (simp add: demo_grant_def prod_eq_iff)
qed

end
