(* ===== verification/StoreContract.thy ===== *)
theory StoreContract
  imports Runs Demo
begin

text \<open>
  The store: transactions that are all or nothing, rotation of the signing key, and what a stored code or session gives
  back, and re-encryption of the keys.
\<close>

text \<open>A world in which no driver call fails and no time passes.\<close>

definition calm :: "world \<Rightarrow> bool" where
  "calm w \<longleftrightarrow> w_faults w = [] \<and> w_delays w = []"

lemma calm_simps [simp]:
  "calm w \<Longrightarrow> time_now w = (w_clock w, w)"
  "calm w \<Longrightarrow> db_query q w = (Inr (q (w_db w)), w)"
  "calm w \<Longrightarrow> db_begin w = (Inr (w_db w), w)"
  "calm w \<Longrightarrow> db_commit d w = (Inr (), w)"
  "calm w \<Longrightarrow> db_exec stm w = (case stm (w_db w) of Inl m \<Rightarrow> (Inl m, w) | Inr (db, n) \<Rightarrow> (Inr n, w\<lparr>w_db := db\<rparr>))"
  "calm (w\<lparr>w_db := db\<rparr>) = calm w"
  "calm (demo_world db)"
  by (simp_all add: calm_def time_now_def db_query_def db_begin_def db_commit_def db_exec_def next_fault_def demo_world_def)

subsection \<open>Replacing a passkey\<close>

lemma run_replace:
  assumes "replace_webauthn_credential_and_consume_invite x pid raw dat label w = (Inr c, w')"
  obtains now where
    "\<exists>i \<in> set (invites (w_db w)). ir_token_hash i = hash_token x raw \<and> ir_used_at i = None"
    "w_db w' = (w_db w)\<lparr>
       credentials := delete_where (\<lambda>r. cr_principal_id r = pid \<and> cr_type r = type_webauthn) (credentials (w_db w))
         @ [\<lparr>cr_id = c_id c, cr_principal_id = pid, cr_type = type_webauthn, cr_data = dat, cr_label = label,
             cr_created_at = rfc3339 now, cr_revoked_by = None, cr_revoked_at = None\<rparr>],
       invites := update_where (\<lambda>r. ir_token_hash r = hash_token x raw \<and> ir_used_at r = None)
         (\<lambda>r. r\<lparr>ir_used_at := Some (rfc3339 now)\<rparr>) (invites (w_db w))\<rparr>"
    "has_principal pid (w_db w)"
proof -
  from assms obtain db0 w1 n1 w2 w3 now w4 n2 w5 n3 w6 u where
    b: "db_begin w = (Inr db0, w1)"
    and d: "db_exec (delete_credentials (\<lambda>r. cr_principal_id r = pid \<and> cr_type r = type_webauthn)) w1 = (Inr n1, w2)"
    and i: "new_uuid w2 = (Some (c_id c), w3)" and t: "time_now w3 = (now, w4)"
    and ins: "db_exec (insert_credential \<lparr>cr_id = c_id c, cr_principal_id = pid, cr_type = type_webauthn,
        cr_data = dat, cr_label = label, cr_created_at = rfc3339 now, cr_revoked_by = None,
        cr_revoked_at = None\<rparr>) w4 = (Inr n2, w5)"
    and use: "db_exec (update_invites (\<lambda>r. ir_token_hash r = hash_token x raw \<and> ir_used_at r = None)
        (\<lambda>r. r\<lparr>ir_used_at := Some (rfc3339 now)\<rparr>)) w5 = (Inr n3, w6)" and n3: "n3 \<noteq> 0"
    and com: "db_commit db0 w6 = (Inr u, w')"
    unfolding replace_webauthn_credential_and_consume_invite_def Let_def
    by (auto split: run_splits)
  have w5: "w_db w5 = (w_db w)\<lparr>credentials := delete_where (\<lambda>r. cr_principal_id r = pid \<and> cr_type r = type_webauthn)
      (credentials (w_db w)) @ [\<lparr>cr_id = c_id c, cr_principal_id = pid, cr_type = type_webauthn,
        cr_data = dat, cr_label = label, cr_created_at = rfc3339 now, cr_revoked_by = None,
        cr_revoked_at = None\<rparr>]\<rparr>" "has_principal pid (w_db w)"
    using run_begin [OF b] stm_InrD(6) [OF exec_effect(1) [OF d]] run_uuid [OF i] run_time [OF t]
      stm_InrD(1) [OF exec_effect(1) [OF ins]] by auto
  moreover have "w_db w' = (w_db w5)\<lparr>invites := update_where (\<lambda>r. ir_token_hash r = hash_token x raw \<and> ir_used_at r = None)
      (\<lambda>r. r\<lparr>ir_used_at := Some (rfc3339 now)\<rparr>) (invites (w_db w))\<rparr>"
    "\<exists>i \<in> set (invites (w_db w)). ir_token_hash i = hash_token x raw \<and> ir_used_at i = None"
    using stm_InrD(7) [OF exec_effect(1) [OF use]] n3 run_commit [OF com] w5(1) by auto
  ultimately show thesis by (intro that [of now]) simp_all
qed

text \<open>C11: Enrolment is all or nothing: when the transaction fails at any point the database is unchanged; when it
  succeeds, an unused invite with the token's hash existed, exactly the unused invites with that hash are now used,
  the principal's earlier passkeys are gone and the new one is there, and no other table changed.\<close>

theorem replace_is_atomic:
  "case replace_webauthn_credential_and_consume_invite x pid raw dat label w of
     (Inl e, w') \<Rightarrow> w_db w' = w_db w
   | (Inr c, w') \<Rightarrow> \<exists>row now.
       (\<exists>i \<in> set (invites (w_db w)). ir_token_hash i = hash_token x raw \<and> ir_used_at i = None) \<and>
       w_db w' = (w_db w)\<lparr>
         credentials := delete_where (\<lambda>r. cr_principal_id r = pid \<and> cr_type r = ''webauthn'') (credentials (w_db w)) @ [row],
         invites := update_where (\<lambda>r. ir_token_hash r = hash_token x raw \<and> ir_used_at r = None)
           (\<lambda>r. r\<lparr>ir_used_at := Some (rfc3339 now)\<rparr>) (invites (w_db w))\<rparr> \<and>
       cr_id row = c_id c \<and> cr_principal_id row = pid \<and> cr_type row = ''webauthn'' \<and> cr_data row = dat \<and>
       cr_revoked_at row = None \<and> has_principal pid (w_db w)"
proof (cases "replace_webauthn_credential_and_consume_invite x pid raw dat label w")
  case (Pair res w')
  show ?thesis
  proof (cases res)
    case (Inl e)
    with Pair have "w_db w' = w_db w"
      unfolding replace_webauthn_credential_and_consume_invite_def Let_def
      by (auto split: run_splits dest!: run_dests simp: rollback_def)
    with Pair Inl show ?thesis by simp
  next
    case (Inr c)
    with Pair have run: "replace_webauthn_credential_and_consume_invite x pid raw dat label w = (Inr c, w')" by simp
    obtain now where *: "\<exists>i \<in> set (invites (w_db w)). ir_token_hash i = hash_token x raw \<and> ir_used_at i = None"
      "w_db w' = (w_db w)\<lparr>
         credentials := delete_where (\<lambda>r. cr_principal_id r = pid \<and> cr_type r = type_webauthn) (credentials (w_db w))
           @ [\<lparr>cr_id = c_id c, cr_principal_id = pid, cr_type = type_webauthn, cr_data = dat, cr_label = label,
               cr_created_at = rfc3339 now, cr_revoked_by = None, cr_revoked_at = None\<rparr>],
         invites := update_where (\<lambda>r. ir_token_hash r = hash_token x raw \<and> ir_used_at r = None)
           (\<lambda>r. r\<lparr>ir_used_at := Some (rfc3339 now)\<rparr>) (invites (w_db w))\<rparr>"
      "has_principal pid (w_db w)"
      by (rule run_replace [OF run])
    then show ?thesis
      using Pair Inr by (auto simp: type_webauthn_def intro!: exI [of _ "\<lparr>cr_id = c_id c, cr_principal_id = pid,
        cr_type = ''webauthn'', cr_data = dat, cr_label = label, cr_created_at = rfc3339 now, cr_revoked_by = None,
        cr_revoked_at = None\<rparr>"])
  qed
qed

subsection \<open>Codes and sessions\<close>

lemma update_where_snoc:
  "(\<And>r. r \<in> set rs \<Longrightarrow> \<not> p r) \<Longrightarrow> p r' \<Longrightarrow> update_where p f (rs @ [r']) = rs @ [f r']"
  by (simp add: update_where_def map_idI)

lemma code_row_snoc:
  "cd_code_hash r \<notin> cd_code_hash ` set cs \<Longrightarrow> select_first (\<lambda>q. cd_code_hash q = cd_code_hash r) (cs @ [r]) = Some r"
  by (induction cs) auto

text \<open>C38: A stored authorization code can be redeemed while it lasts, exactly once: consuming it returns the client, principal,
  redirect URI, scope and nonce it was created with and its expiry to the second, and consuming it again reports that it
  was used.\<close>

theorem code_roundtrip:
  assumes "create_oidc_auth_code x raw client_id pid uri sc nonce exp w = (Inr u, w1)"
    "calm w2" "w_db w2 = w_db w1" "in_range exp" "in_range (w_clock w1)" "w_clock w2 \<le> second * unix_seconds exp"
  shows "\<exists>ac w3. consume_oidc_auth_code x raw w2 = (Inr ac, w3) \<and> ac_client_id ac = client_id \<and> ac_principal_id ac = pid \<and>
    ac_redirect_uri ac = uri \<and> ac_scope ac = sc \<and> ac_nonce ac = nonce \<and> ac_expires_at ac = second * unix_seconds exp \<and>
    fst (consume_oidc_auth_code x raw w3) = Inl ErrAuthCodeUsed"
proof -
  let ?row = "\<lparr>cd_code_hash = hash_token x raw, cd_client_id = client_id, cd_principal_id = pid, cd_redirect_uri = uri,
    cd_scope = sc, cd_nonce = nonce, cd_expires_at = rfc3339 exp, cd_created_at = rfc3339 (w_clock w1), cd_used_at = None\<rparr>"
  let ?used = "?row\<lparr>cd_used_at := Some (rfc3339 (w_clock w2))\<rparr>"
  from run_create_oidc_auth_code [OF assms(1)] have "insert_code ?row (w_db w) = Inr (w_db w1, 1)" by simp
  from stm_InrD(4) [OF this] assms(3) have codes: "auth_codes (w_db w2) = auth_codes (w_db w) @ [?row]"
    and fresh: "hash_token x raw \<notin> cd_code_hash ` set (auth_codes (w_db w))" by simp_all
  let ?old = "auth_codes (w_db w)"
  have first: "select_first (\<lambda>q. cd_code_hash q = hash_token x raw) (auth_codes (w_db w2)) = Some ?row"
    using code_row_snoc [of ?row ?old] fresh by (simp add: codes)
  have upd: "update_where (\<lambda>r. cd_code_hash r = hash_token x raw \<and> cd_used_at r = None)
      (\<lambda>r. r\<lparr>cd_used_at := Some (rfc3339 (w_clock w2))\<rparr>) (auth_codes (w_db w2)) = ?old @ [?used]"
    unfolding codes by (rule update_where_snoc) (use fresh in force)+
  have again: "select_first (\<lambda>q. cd_code_hash q = hash_token x raw) (?old @ [?used]) = Some ?used"
    using code_row_snoc [of ?used ?old] fresh by simp
  have read: "read_auth_code ?row = Inr \<lparr>ac_code_hash = hash_token x raw, ac_client_id = client_id, ac_principal_id = pid,
      ac_redirect_uri = uri, ac_scope = sc, ac_nonce = nonce, ac_expires_at = second * unix_seconds exp,
      ac_created_at = second * unix_seconds (w_clock w1)\<rparr>"
    "read_auth_code ?used = Inl ErrAuthCodeUsed"
    using assms(4,5) by (simp_all add: read_auth_code_def parse_time_rfc3339)
  have "consume_oidc_auth_code x raw w2 = (Inr (\<lparr>ac_code_hash = hash_token x raw, ac_client_id = client_id, ac_principal_id = pid,
      ac_redirect_uri = uri, ac_scope = sc, ac_nonce = nonce, ac_expires_at = second * unix_seconds exp,
      ac_created_at = second * unix_seconds (w_clock w1)\<rparr>),
      w2\<lparr>w_db := (w_db w2)\<lparr>auth_codes := ?old @ [?used]\<rparr>\<rparr>)"
    using assms(2,6) first read(1) upd by (simp add: consume_oidc_auth_code_def Let_def update_codes_def) (simp add: codes)
  moreover have "fst (consume_oidc_auth_code x raw (w2\<lparr>w_db := (w_db w2)\<lparr>auth_codes := ?old @ [?used]\<rparr>\<rparr>)) = Inl ErrAuthCodeUsed"
    using assms(2) again read(2) by (simp add: consume_oidc_auth_code_def Let_def rollback_def)
  ultimately show ?thesis by auto
qed


theorem code_roundtrip_witness:
  "\<exists>ac w3. consume_oidc_auth_code demo_crypto ''n'' (snd (create_oidc_auth_code demo_crypto ''n'' ''app'' ''p1'' ''u'' ''x'' ''''
       (300 * second) (demo_world demo_db))) = (Inr ac, w3) \<and> ac_client_id ac = ''app'' \<and> ac_scope ac = ''x'' \<and>
     ac_expires_at ac = second * unix_seconds (300 * second) \<and> fst (consume_oidc_auth_code demo_crypto ''n'' w3) = Inl ErrAuthCodeUsed"
proof -
  let ?x = "create_oidc_auth_code demo_crypto ''n'' ''app'' ''p1'' ''u'' ''x'' '''' (300 * second) (demo_world demo_db)"
  have "case ?x of (a, v) \<Rightarrow> a = Inr () \<and> w_clock v = 0 \<and> w_faults v = [] \<and> w_delays v = []" by code_simp
  then have "fst ?x = Inr ()" "w_clock (snd ?x) = 0" "w_faults (snd ?x) = []" "w_delays (snd ?x) = []"
    by (simp_all add: case_prod_beta)
  moreover have "in_range (300 * second)" "in_range 0" "0 \<le> second * unix_seconds (300 * second)" by code_simp+
  ultimately show ?thesis
    using code_roundtrip [of demo_crypto "''n''" "''app''" "''p1''" "''u''" "''x''" "''''" "300 * second" "demo_world demo_db"
        "()" "snd ?x" "snd ?x"] by (auto simp: calm_def prod_eq_iff)
qed

lemma session_row_snoc:
  "ss_token_hash r \<notin> ss_token_hash ` set rs \<Longrightarrow> select_first (\<lambda>q. ss_token_hash q = ss_token_hash r) (rs @ [r]) = Some r"
  by (induction rs) auto

text \<open>C39: An IdP session can be used until it expires or is revoked: looking up the token that was returned gives the principal
  it was created for and the expiry, 72 hours after its creation, to the second; once the token's session is revoked the
  lookup reports just that.\<close>

theorem session_roundtrip:
  assumes "create_idp_session x pid w = (Inr (raw, s0), w1)" "calm w2" "w_db w2 = w_db w1"
    "in_range (w_clock w1)" "in_range (w_clock w1 + 72 * hour)" "in_range (w_clock w2)"
    "w_clock w2 \<le> second * unix_seconds (w_clock w1 + 72 * hour)"
  shows "(\<exists>s. fst (get_idp_session_by_token x raw w2) = Inr s \<and> s_principal_id s = pid \<and>
      s_expires_at s = second * unix_seconds (w_clock w1 + 72 * hour)) \<and>
    fst (revoke_idp_session_by_token x raw w2) = Inr () \<and>
    fst (get_idp_session_by_token x raw (snd (revoke_idp_session_by_token x raw w2))) = Inl ErrIDPSessionRevoked"
proof -
  from assms(1) obtain w3 w4 now n where t: "time_now w3 = (now, w4)"
    and ins': "db_exec (insert_session \<lparr>ss_token_hash = hash_token x raw, ss_principal_id = pid, ss_created_at = rfc3339 now,
       ss_expires_at = rfc3339 (now + 72 * hour), ss_revoked_at = None\<rparr>) w4 = (Inr n, w1)"
    unfolding create_idp_session_def Let_def idp_session_ttl_def by (auto split: run_splits)
  have now: "now = w_clock w1" using run_time [OF t] exec_effect(2) [OF ins'] by simp
  note ins = ins' [unfolded now]
  let ?row = "\<lparr>ss_token_hash = hash_token x raw, ss_principal_id = pid,
       ss_created_at = rfc3339 (w_clock w1), ss_expires_at = rfc3339 (w_clock w1 + 72 * hour), ss_revoked_at = None\<rparr>"
  let ?gone = "?row\<lparr>ss_revoked_at := Some (rfc3339 (w_clock w2))\<rparr>"
  let ?old = "idp_sessions (w_db w4)"
  from stm_InrD(3) [OF exec_effect(1) [OF ins]] assms(3) have rows: "idp_sessions (w_db w2) = ?old @ [?row]"
    and fresh: "hash_token x raw \<notin> ss_token_hash ` set ?old" by simp_all
  have first: "select_first (\<lambda>q. ss_token_hash q = hash_token x raw) (?old @ [?row]) = Some ?row"
    "select_first (\<lambda>q. ss_token_hash q = hash_token x raw) (?old @ [?gone]) = Some ?gone"
    using session_row_snoc [of ?row ?old] session_row_snoc [of ?gone ?old] fresh by simp_all
  have upd: "update_where (\<lambda>r. ss_token_hash r = hash_token x raw \<and> ss_revoked_at r = None)
      (\<lambda>r. r\<lparr>ss_revoked_at := Some (rfc3339 (w_clock w2))\<rparr>) (idp_sessions (w_db w2)) = ?old @ [?gone]"
    unfolding rows by (rule update_where_snoc) (use fresh in force)+
  have "fst (get_idp_session_by_token x raw w2) = Inr \<lparr>s_token_hash = hash_token x raw, s_principal_id = pid,
      s_created_at = second * unix_seconds (w_clock w1), s_expires_at = second * unix_seconds (w_clock w1 + 72 * hour),
      s_revoked_at = None\<rparr>"
    using assms(2,4,5,7) first(1) by (simp add: get_idp_session_by_token_def Let_def rows parse_time_rfc3339)
  moreover have "revoke_idp_session_by_token x raw w2 = (Inr (), w2\<lparr>w_db := (w_db w2)\<lparr>idp_sessions := ?old @ [?gone]\<rparr>\<rparr>)"
    using assms(2) upd by (simp add: revoke_idp_session_by_token_def Let_def update_sessions_def)
  moreover have "fst (get_idp_session_by_token x raw (w2\<lparr>w_db := (w_db w2)\<lparr>idp_sessions := ?old @ [?gone]\<rparr>\<rparr>)) = Inl ErrIDPSessionRevoked"
    using assms(2,4,5,6) first(2) by (simp add: get_idp_session_by_token_def Let_def parse_time_rfc3339)
  ultimately show ?thesis by simp
qed

theorem session_roundtrip_witness:
  "\<exists>raw. fst (get_idp_session_by_token demo_crypto raw (snd (revoke_idp_session_by_token demo_crypto raw
      (snd (create_idp_session demo_crypto ''p1'' (demo_world demo_db)))))) = Inl ErrIDPSessionRevoked"
proof -
  let ?x = "create_idp_session demo_crypto ''p1'' (demo_world demo_db)"
  have "case ?x of (a, v) \<Rightarrow> is_ok a \<and> w_clock v = 0 \<and> w_faults v = [] \<and> w_delays v = []" by code_simp
  then have "is_ok (fst ?x)" "w_clock (snd ?x) = 0" "w_faults (snd ?x) = []" "w_delays (snd ?x) = []"
    by (simp_all add: case_prod_beta)
  moreover have "in_range 0" "in_range (72 * hour)" "unix_seconds (72 * hour) = 259200" by code_simp+
  moreover from calculation(1) obtain raw s0 where "fst ?x = Inr (raw, s0)" by (auto simp: is_ok_def split: sum.splits)
  ultimately show ?thesis
    using session_roundtrip [of demo_crypto "''p1''" "demo_world demo_db" raw s0 "snd ?x" "snd ?x"]
    by (auto simp: calm_def prod_eq_iff second_def)
qed

subsection \<open>Key rotation\<close>

text \<open>What a rotation leaves in the table.\<close>

lemma run_rotate:
  assumes "rotate_signing_key x kek w = (Inr k, w')"
  shows "\<exists>row nonce t. w_clock w' = t \<and> w_clock w \<le> k_created_at k \<and> k_created_at k \<le> t \<and> sk_id row = k_id k \<and>
    sk_status row = ''active'' \<and> sk_retired_at row = None \<and> sk_created_at row = rfc3339 (k_created_at k) \<and>
    sk_private_key row = nonce @ cx_seal x kek nonce (k_private_key k) \<and> length nonce = 12 \<and>
    w_db w' = (w_db w)\<lparr>signing_keys := update_where (\<lambda>r. sk_status r = ''active'')
         (\<lambda>r. r\<lparr>sk_status := ''retired'', sk_retired_at := Some (rfc3339 t)\<rparr>) (signing_keys (w_db w)) @ [row]\<rparr>"
proof -
  from assms obtain db0 w1 w2 now w3 n w4 u where b: "db_begin w = (Inr db0, w1)"
    and g: "generate_signing_key_with x kek w1 = (Inr k, w2)" and t: "time_now w2 = (now, w3)"
    and upd: "db_exec (update_signing_keys (\<lambda>r. sk_status r = ''active'' \<and> sk_id r \<noteq> k_id k)
      (\<lambda>r. r\<lparr>sk_status := ''retired'', sk_retired_at := Some (rfc3339 now)\<rparr>)) w3 = (Inr n, w4)"
    and com: "db_commit db0 w4 = (Inr u, w')"
    unfolding rotate_signing_key_def by (auto split: run_splits)
  from run_generate_key [OF g] obtain row nonce where row: "sk_id row = k_id k" "sk_status row = ''active''"
    "sk_retired_at row = None" "sk_created_at row = rfc3339 (k_created_at k)" "w_clock w1 \<le> k_created_at k"
    "k_created_at k = w_clock w2" "sk_private_key row = nonce @ cx_seal x kek nonce (k_private_key k)" "length nonce = 12"
    "w_db w2 = (w_db w1)\<lparr>signing_keys := signing_keys (w_db w1) @ [row]\<rparr>"
    "k_id k \<notin> sk_id ` set (signing_keys (w_db w1))"
    by auto
  let ?retire = "\<lambda>r. r\<lparr>sk_status := ''retired'', sk_retired_at := Some (rfc3339 now)\<rparr>"
  have "update_where (\<lambda>r. sk_status r = ''active'' \<and> sk_id r \<noteq> k_id k) ?retire (signing_keys (w_db w1) @ [row])
      = update_where (\<lambda>r. sk_status r = ''active'') ?retire (signing_keys (w_db w1)) @ [row]"
    using row(1,2,10) by (force simp: update_where_def)
  then have "w_db w' = (w_db w)\<lparr>signing_keys := update_where (\<lambda>r. sk_status r = ''active'') ?retire (signing_keys (w_db w)) @ [row]\<rparr>"
    using stm_InrD(8) [OF exec_effect(1) [OF upd]] run_time [OF t] run_commit [OF com] row(9) run_begin [OF b] by simp
  moreover have "w_clock w' = now" "w_clock w \<le> k_created_at k" "k_created_at k \<le> now"
    using run_begin [OF b] run_time [OF t] exec_effect(2) [OF upd] run_commit [OF com] row(5,6) by auto
  ultimately show ?thesis using row by blast
qed

text \<open>C20: Rotating the signing key leaves exactly one active key, the new one; every key that was active is retired at the
  time of the rotation and the others are untouched. When any part of it fails nothing has changed.\<close>

theorem rotate_one_active:
  "case rotate_signing_key x kek w of
     (Inl e, w') \<Rightarrow> w_db w' = w_db w
   | (Inr k, w') \<Rightarrow> \<exists>row t. w_clock w \<le> t \<and> sk_id row = k_id k \<and>
       w_db w' = (w_db w)\<lparr>signing_keys := update_where (\<lambda>r. sk_status r = ''active'')
         (\<lambda>r. r\<lparr>sk_status := ''retired'', sk_retired_at := Some (rfc3339 t)\<rparr>) (signing_keys (w_db w)) @ [row]\<rparr> \<and>
       filter (\<lambda>r. sk_status r = ''active'') (signing_keys (w_db w')) = [row]"
proof (cases "rotate_signing_key x kek w")
  case (Pair res w')
  show ?thesis
  proof (cases res)
    case (Inl e)
    with Pair have "w_db w' = w_db w"
      unfolding rotate_signing_key_def by (auto split: run_splits dest!: run_dests simp: rollback_def)
    with Pair Inl show ?thesis by simp
  next
    case (Inr k)
    with Pair have "rotate_signing_key x kek w = (Inr k, w')" by simp
    from run_rotate [OF this] obtain row where row: "sk_id row = k_id k" "sk_status row = ''active''" "w_clock w \<le> w_clock w'"
      and db: "w_db w' = (w_db w)\<lparr>signing_keys := update_where (\<lambda>r. sk_status r = ''active'')
         (\<lambda>r. r\<lparr>sk_status := ''retired'', sk_retired_at := Some (rfc3339 (w_clock w'))\<rparr>) (signing_keys (w_db w)) @ [row]\<rparr>"
      by auto
    moreover have "filter (\<lambda>r. sk_status r = ''active'') (signing_keys (w_db w')) = [row]"
      using row(2) by (simp add: db filter_empty_conv ball_update_where)
    ultimately show ?thesis using Pair Inr row by (auto intro!: exI [of _ row] exI [of _ "w_clock w'"])
  qed
qed

lemma rfc3339_mono:
  assumes "in_range t" "in_range u" "t \<le> u" shows "rfc3339 t \<le> rfc3339 u"
  using rfc3339_less_iff [OF assms(2,1)] unix_seconds_mono [OF assms(3)] by (simp add: not_less [symmetric])

lemma read_signing_key_Inr:
  "read_signing_key x kek r = Inr k \<Longrightarrow> k_id k = sk_id r \<and> decrypt_key_der x kek (sk_private_key r) = Inr (k_private_key k)"
  by (auto simp: read_signing_key_def Let_def split: run_splits)

lemma read_retired_key:
  assumes "read_signing_key x kek r = Inr k" "in_range t"
  shows "\<exists>k'. read_signing_key x kek (r\<lparr>sk_status := s, sk_retired_at := Some (rfc3339 t)\<rparr>) = Inr k' \<and>
    k_id k' = k_id k \<and> k_private_key k' = k_private_key k"
  using assms by (auto simp: read_signing_key_def Let_def parse_time_rfc3339 split: run_splits)

lemma decrypt_sealed:
  "seal_law x \<Longrightarrow> length nonce = 12 \<Longrightarrow> decrypt_key_der x kek (nonce @ cx_seal x kek nonce der) = Inr der"
  by (simp add: decrypt_key_der_def nonce_size_def seal_law_def)

text \<open>C21: Rotation does not invalidate tokens: as long as the verification window has not passed since, the key set still
  holds the new key and every key that was active before, each with its private key.\<close>

theorem rotation_overlap:
  assumes "rotate_signing_key x kek w = (Inr k, w1)" "calm w2" "w_db w2 = w_db w1" "seal_law x"
    "\<forall>r \<in> set (signing_keys (w_db w)). is_ok (read_signing_key x kek r)"
    "w_clock w2 \<le> w_clock w1 + window" "in_range (w_clock w2 - window)" "in_range (w_clock w1)" "in_range (k_created_at k)"
  shows "\<exists>keys. fst (list_verification_keys x kek window w2) = Inr keys \<and>
    (\<exists>k' \<in> set keys. k_id k' = k_id k \<and> k_private_key k' = k_private_key k) \<and>
    (\<forall>r \<in> set (signing_keys (w_db w)). sk_status r = ''active'' \<longrightarrow>
       (\<exists>k' \<in> set keys. k_id k' = sk_id r \<and> decrypt_key_der x kek (sk_private_key r) = Inr (k_private_key k')))"
proof -
  from run_rotate [OF assms(1)] obtain row nonce where row: "sk_id row = k_id k" "sk_status row = ''active''"
    "sk_retired_at row = None" "sk_created_at row = rfc3339 (k_created_at k)"
    "sk_private_key row = nonce @ cx_seal x kek nonce (k_private_key k)" "length nonce = 12"
    and db: "signing_keys (w_db w2) = update_where (\<lambda>r. sk_status r = ''active'')
         (\<lambda>r. r\<lparr>sk_status := ''retired'', sk_retired_at := Some (rfc3339 (w_clock w1))\<rparr>) (signing_keys (w_db w)) @ [row]"
    using assms(3) by auto
  let ?cut = "rfc3339 (w_clock w2 - window)" and ?retired = "\<lambda>r. r\<lparr>sk_status := ''retired'', sk_retired_at := Some (rfc3339 (w_clock w1))\<rparr>"
  have new: "\<exists>k'. read_signing_key x kek row = Inr k' \<and> k_id k' = k_id k \<and> k_private_key k' = k_private_key k"
    using row assms(4,9) by (simp add: read_signing_key_def decrypt_sealed parse_time_rfc3339)
  have known: "\<exists>k'. read_signing_key x kek r = Inr k'" if "r \<in> set (signing_keys (w_db w))" for r
    using assms(5) that by (cases "read_signing_key x kek r") (auto simp: is_ok_def)
  have old: "\<exists>k'. read_signing_key x kek (?retired r) = Inr k' \<and> k_id k' = sk_id r \<and>
      decrypt_key_der x kek (sk_private_key r) = Inr (k_private_key k')" if r: "r \<in> set (signing_keys (w_db w))" for r
  proof -
    from known [OF r] obtain k0 where k0: "read_signing_key x kek r = Inr k0" by blast
    show ?thesis using read_retired_key [OF k0 assms(8), of "''retired''"] read_signing_key_Inr [OF k0] by metis
  qed
  let ?rows = "rev (sort_key sk_created_at (rev (filter (verification_where ?cut) (signing_keys (w_db w2)))))"
  have ok: "\<exists>k'. read_signing_key x kek q = Inr k'" if q: "q \<in> set (signing_keys (w_db w2))" for q
  proof -
    consider "q = row" | r where "r \<in> set (signing_keys (w_db w))" "q = ?retired r" | "q \<in> set (signing_keys (w_db w))"
      using q unfolding db by (auto simp: set_update_where split: if_splits)
    then show ?thesis by cases (use new old known in blast)+
  qed
  then have "traverse (read_signing_key x kek) ?rows = Inr (map (\<lambda>q. projr (read_signing_key x kek q)) ?rows)"
    by (intro traverse_total) fastforce
  then have keys: "fst (list_verification_keys x kek window w2) = Inr (map (\<lambda>q. projr (read_signing_key x kek q)) ?rows)"
    using assms(2) by (simp add: list_verification_keys_def Let_def collect_signing_keys_def)
  have cut: "?cut \<le> rfc3339 (w_clock w1)" using assms(6,7,8) by (intro rfc3339_mono) auto
  have rows: "q \<in> set ?rows \<longleftrightarrow> q \<in> set (signing_keys (w_db w2)) \<and> verification_where ?cut q" for q by simp
  have "row \<in> set ?rows" using row(2) unfolding rows by (simp add: db verification_where_def)
  moreover have "?retired r \<in> set ?rows" if "r \<in> set (signing_keys (w_db w))" "sk_status r = ''active''" for r
    using that cut unfolding rows by (auto simp: db verification_where_def set_update_where intro!: image_eqI [of _ _ r])
  ultimately show ?thesis
    using new old unfolding keys by (simp del: set_rev set_sort set_filter) (metis sum.sel(2))
qed

theorem rotation_overlap_witness:
  "\<exists>keys. fst (list_verification_keys demo_crypto ''k'' (36 * hour)
      (snd (rotate_signing_key demo_crypto ''k'' (demo_world demo_db\<lparr>w_rand := [Some (replicate 12 (CHR ''r''))]\<rparr>)))) = Inr keys \<and>
    (\<exists>k' \<in> set keys. k_id k' = ''k1'' \<and> k_private_key k' = ''D'')"
proof -
  let ?w = "demo_world demo_db\<lparr>w_rand := [Some (replicate 12 (CHR ''r''))]\<rparr>"
  let ?x = "rotate_signing_key demo_crypto ''k'' ?w"
  have "case ?x of (a, v) \<Rightarrow> is_ok a \<and> w_clock v = 0 \<and> w_faults v = [] \<and> w_delays v = [] \<and> k_created_at (projr a) = 0"
    by code_simp
  then have run: "is_ok (fst ?x)" "w_clock (snd ?x) = 0" "w_faults (snd ?x) = []" "w_delays (snd ?x) = []"
    "k_created_at (projr (fst ?x)) = 0" by (simp_all add: case_prod_beta)
  have facts: "in_range 0" "in_range (0 - 36 * hour)" "0 \<le> 0 + 36 * hour"
    "decrypt_key_der demo_crypto ''k'' (sk_private_key demo_key) = Inr ''D''"
    "\<forall>r \<in> set (signing_keys demo_db). is_ok (read_signing_key demo_crypto ''k'' r)"
    "demo_key \<in> set (signing_keys demo_db)" "sk_status demo_key = ''active''" "sk_id demo_key = ''k1''" by code_simp+
  have db: "signing_keys (w_db ?w) = signing_keys demo_db" by simp
  from run(1) obtain k where k: "fst ?x = Inr k" by (auto simp: is_ok_def split: sum.splits)
  have "\<exists>keys. fst (list_verification_keys demo_crypto ''k'' (36 * hour) (snd ?x)) = Inr keys \<and>
    (\<exists>k' \<in> set keys. k_id k' = k_id k \<and> k_private_key k' = k_private_key k) \<and>
    (\<forall>r \<in> set (signing_keys (w_db ?w)). sk_status r = ''active'' \<longrightarrow>
       (\<exists>k' \<in> set keys. k_id k' = sk_id r \<and> decrypt_key_der demo_crypto ''k'' (sk_private_key r) = Inr (k_private_key k')))"
    by (rule rotation_overlap [of demo_crypto "''k''" ?w k "snd ?x" "snd ?x" "36 * hour"])
      (use facts run k db demo_seal_law in \<open>simp_all add: calm_def prod_eq_iff\<close>)
  then obtain keys where keys: "fst (list_verification_keys demo_crypto ''k'' (36 * hour) (snd ?x)) = Inr keys"
    "\<forall>r \<in> set (signing_keys (w_db ?w)). sk_status r = ''active'' \<longrightarrow>
       (\<exists>k' \<in> set keys. k_id k' = sk_id r \<and> decrypt_key_der demo_crypto ''k'' (sk_private_key r) = Inr (k_private_key k'))"
    by blast
  from bspec [OF keys(2), unfolded db, OF facts(6)] facts(4,7,8) keys(1) show ?thesis by auto
qed

subsection \<open>Keys under a new key-encryption key\<close>

lemma rekey_scan_pairs:
  "rekey_scan x kek nk rows w = (Inr es, w') \<Longrightarrow>
   list_all2 (\<lambda>(i, b) (i', b'). i' = i \<and>
     (\<exists>der. decrypt_key_der x kek b = Inr der \<and> decrypt_key_der x nk b' = Inr der)) rows es"
  by (induction x kek nk rows w arbitrary: es w' rule: rekey_scan.induct) (auto split: run_splits)

lemma rekey_scan_db: "rekey_scan x kek nk rows w = (r, w') \<Longrightarrow> w_db w' = w_db w"
  using rekey_scan_frame [of x kek nk rows w] by simp

definition put_blobs :: "(string \<times> bytes) list \<Rightarrow> signing_key_row list \<Rightarrow> signing_key_row list" where
  "put_blobs es = fold (\<lambda>(i, b). update_where (\<lambda>r. sk_id r = i) (\<lambda>r. r\<lparr>sk_private_key := b\<rparr>)) es"

lemma rekey_write_rows:
  "rekey_write es w = (Inr u, w') \<Longrightarrow> w_db w' = (w_db w)\<lparr>signing_keys := put_blobs es (signing_keys (w_db w))\<rparr>"
proof (induction es arbitrary: w)
  case (Cons e es)
  obtain i b where e: "e = (i, b)" by (cases e)
  with Cons.prems obtain n w1 where up: "db_exec (update_blob i b) w = (Inr n, w1)" and rest: "rekey_write es w1 = (Inr u, w')"
    by (auto split: run_splits)
  show ?case
    using Cons.IH [OF rest] stm_InrD(8) [OF exec_effect(1) [OF up, unfolded update_blob_def]]
    by (simp add: e put_blobs_def)
qed (simp add: put_blobs_def)

lemma put_blobs_rows:
  "list_all2 (\<lambda>r e. fst e = sk_id r) rows es \<Longrightarrow> distinct (map sk_id (pre @ rows)) \<Longrightarrow>
   put_blobs es (pre @ rows) = pre @ map2 (\<lambda>r e. r\<lparr>sk_private_key := snd e\<rparr>) rows es"
proof (induction arbitrary: pre rule: list_all2_induct)
  case (Cons r rows e es)
  let ?r = "r\<lparr>sk_private_key := snd e\<rparr>"
  have "update_where (\<lambda>q. sk_id q = fst e) (\<lambda>q. q\<lparr>sk_private_key := snd e\<rparr>) (pre @ r # rows) = (pre @ [?r]) @ rows"
    using Cons.hyps(1) Cons.prems by (auto simp: update_where_def image_iff intro!: map_idI)
  moreover have "put_blobs es ((pre @ [?r]) @ rows) = (pre @ [?r]) @ map2 (\<lambda>r e. r\<lparr>sk_private_key := snd e\<rparr>) rows es"
    using Cons.prems by (intro Cons.IH) auto
  ultimately show ?case by (simp add: put_blobs_def split_beta)
qed (simp add: put_blobs_def)

lemma run_rekey_keys:
  assumes "rekey_signing_keys x kek nk w = (Inr n, w')" "nk \<noteq> kek"
  obtains es w1 w2 where "rekey_scan x kek nk (select_blobs (w_db w)) w1 = (Inr es, w2)" "n = length es"
    "w_db w' = (w_db w)\<lparr>signing_keys := put_blobs es (signing_keys (w_db w))\<rparr>"
proof -
  from assms obtain rows w1 es w2 where q: "db_query select_blobs w = (Inr rows, w1)"
      and es: "rekey_scan x kek nk rows w1 = (Inr es, w2)" and n: "n = length es"
      and rest: "es = [] \<and> w' = w2 \<or> (\<exists>db0 w3 w4 u v. db_begin w2 = (Inr db0, w3) \<and>
        rekey_write es w3 = (Inr u, w4) \<and> db_commit db0 w4 = (Inr v, w'))"
      unfolding rekey_signing_keys_def by (auto split: run_splits)
    have db2: "w_db w2 = w_db w" "rows = select_blobs (w_db w)"
      using run_query [OF q] rekey_scan_db [OF es] by simp_all
    have "w_db w' = (w_db w)\<lparr>signing_keys := put_blobs es (signing_keys (w_db w))\<rparr>"
      using rest
    proof
      assume "es = [] \<and> w' = w2"
      then show ?thesis using db2 by (simp add: put_blobs_def)
    next
      assume "\<exists>db0 w3 w4 u v. db_begin w2 = (Inr db0, w3) \<and>
        rekey_write es w3 = (Inr u, w4) \<and> db_commit db0 w4 = (Inr v, w')"
      then obtain db0 w3 w4 u v where b: "db_begin w2 = (Inr db0, w3)"
        and wr: "rekey_write es w3 = (Inr u, w4)" and com: "db_commit db0 w4 = (Inr v, w')" by blast
      show ?thesis using run_begin [OF b] rekey_write_rows [OF wr] run_commit [OF com] db2 by simp
    qed
  then show thesis using that [OF es [unfolded db2(2)] n] by simp
qed

text \<open>C19: Re-encrypting the signing keys under a new key-encryption key loses none: when the operation fails at any point the
  database is unchanged; when it succeeds, every signing key is still there, in its place, with only its ciphertext
  replaced, and the new ciphertext decrypts under the new key to what the old one decrypted to under the old.\<close>

theorem rekey_keeps_keys:
  assumes "wf_db (w_db w)" "new_kek \<noteq> kek"
  shows "case rekey_signing_keys x kek new_kek w of
     (Inl e, w') \<Rightarrow> w_db w' = w_db w
   | (Inr n, w') \<Rightarrow> n = length (signing_keys (w_db w)) \<and>
       (\<exists>rows. w_db w' = (w_db w)\<lparr>signing_keys := rows\<rparr> \<and>
         list_all2 (\<lambda>r r'. r' = r\<lparr>sk_private_key := sk_private_key r'\<rparr> \<and>
           (\<exists>der. decrypt_key_der x kek (sk_private_key r) = Inr der \<and>
             decrypt_key_der x new_kek (sk_private_key r') = Inr der)) (signing_keys (w_db w)) rows)"
proof (cases "rekey_signing_keys x kek new_kek w")
  case (Pair res w')
  show ?thesis
  proof (cases res)
    case (Inl e)
    with Pair assms(2) have "w_db w' = w_db w"
      unfolding rekey_signing_keys_def
      by (auto split: run_splits dest!: run_dests rekey_scan_db simp: rollback_def)
    with Pair Inl show ?thesis by simp
  next
    case (Inr n)
    let ?keys = "signing_keys (w_db w)"
    from Pair Inr have run: "rekey_signing_keys x kek new_kek w = (Inr n, w')" by simp
    obtain es w1 w2 where es: "rekey_scan x kek new_kek (select_blobs (w_db w)) w1 = (Inr es, w2)" "n = length es"
      and db: "w_db w' = (w_db w)\<lparr>signing_keys := put_blobs es ?keys\<rparr>"
      by (rule run_rekey_keys [OF run assms(2)])
    have pairs: "list_all2 (\<lambda>r e. fst e = sk_id r \<and> (\<exists>der. decrypt_key_der x kek (sk_private_key r) = Inr der \<and>
        decrypt_key_der x new_kek (snd e) = Inr der)) ?keys es"
      using rekey_scan_pairs [OF es(1)] by (auto simp: select_blobs_def list_all2_map1 elim!: list_all2_mono)
    then have "list_all2 (\<lambda>r e. fst e = sk_id r) ?keys es" by (rule list_all2_mono) simp
    then have put: "put_blobs es ?keys = map2 (\<lambda>r e. r\<lparr>sk_private_key := snd e\<rparr>) ?keys es"
      using put_blobs_rows [of ?keys es "[]"] assms(1) by (simp add: wf_db_def wf_keys_def)
    have "list_all2 (\<lambda>r r'. r' = r\<lparr>sk_private_key := sk_private_key r'\<rparr> \<and>
           (\<exists>der. decrypt_key_der x kek (sk_private_key r) = Inr der \<and>
             decrypt_key_der x new_kek (sk_private_key r') = Inr der)) ?keys (put_blobs es ?keys)"
      using pairs unfolding put by (auto simp: list_all2_conv_all_nth)
    then show ?thesis using Pair Inr db es(2) list_all2_lengthD [OF pairs] by auto
  qed
qed

theorem rekey_keeps_keys_witness:
  "case rekey_signing_keys demo_crypto ''k'' ''new'' (demo_world demo_db\<lparr>w_rand := [Some (replicate 12 (CHR ''r''))]\<rparr>) of
     (Inl e, w') \<Rightarrow> False
   | (Inr n, w') \<Rightarrow> n = 1 \<and> length (signing_keys (w_db w')) = 1"
proof -
  let ?w = "demo_world demo_db\<lparr>w_rand := [Some (replicate 12 (CHR ''r''))]\<rparr>"
  have "wf_db (w_db ?w)" "is_ok (fst (rekey_signing_keys demo_crypto ''k'' ''new'' ?w))" "''new'' \<noteq> ''k''"
    "length (signing_keys (w_db ?w)) = 1" by code_simp+
  then show ?thesis
    using rekey_keeps_keys [of ?w "''new''" "''k''" demo_crypto]
    by (auto simp: is_ok_def split: sum.splits prod.splits dest: list_all2_lengthD)
qed

end
