(* ===== verification/ServerContract.thy ===== *)
theory ServerContract
  imports Process TokenContract SessionContract AdminContract StoreContract
begin

text \<open>
  The server over time: what holds after any sequence of requests and background sweeps. The proofs rest on the
  interpretations of the locale \<open>db_invariant\<close> and on what each endpoint was shown to do.
\<close>

subsection \<open>An example server\<close>

definition demo_config :: config where
  "demo_config = \<lparr>cf_env = demo_env, cf_system = ''lucos_aithne'', cf_version = '''', cf_vocab = new_vocabulary [''x''],
     cf_contacts = new_contacts_client ''https://c'' ''k'' (\<lambda>url key. None), cf_webauthn = demo_webauthn,
     cf_serve_file = (\<lambda>path r. http_error 404 path)\<rparr>"

lemma demo_config_env [simp]: "cf_env demo_config = demo_env"
  by (simp add: demo_config_def)

definition code_request :: request where
  "code_request = (demo_request ''POST'' ''/oauth2/token'')\<lparr>rq_form := Some [(''grant_type'', ''authorization_code''),
     (''code'', ''q''), (''client_id'', ''app''), (''client_secret'', ''z''), (''redirect_uri'', ''https://app/cb'')]\<rparr>"

definition admin_request :: request where
  "admin_request = (demo_request ''DELETE'' ''/admin/grants/g3'')\<lparr>rq_headers :=
     [(''Authorization'', ''Bearer '' @ demo_token [''aithne:admin''])]\<rparr>"

definition demo_process :: process where
  "demo_process = \<lparr>pc_args = [''/lucos_aithne''],
     pc_getenv = (\<lambda>key. if key = ''APP_ORIGIN'' then ''https://a'' else if key = ''ENVIRONMENT'' then ''production''
        else if key = ''DB_PATH'' then '':memory:'' else if key = ''BOOTSTRAP_ADMIN_CONTACT_ID'' then ''8'' else ''k''),
     pc_crypto = demo_crypto, pc_jose = demo_jose, pc_mkdir = (\<lambda>_. False), pc_sql_open = (\<lambda>_. True),
     pc_http_get = (\<lambda>_. None), pc_contacts_do = (\<lambda>_ _. None), pc_webauthn_new = (\<lambda>_ _. Some demo_webauthn),
     pc_serve_file = (\<lambda>path r. http_error 404 path),
     pc_scopes_yaml = ''- x'', pc_oidc_clients_json = ''[]''\<rparr>"

subsection \<open>One code, one exchange\<close>

text \<open>A request to the token endpoint that presents an authorization code.\<close>

definition redeems :: "request \<Rightarrow> string \<Rightarrow> bool" where
  "redeems r code \<longleftrightarrow> rq_path r = ''/oauth2/token'' \<and> form_value r ''grant_type'' = ''authorization_code'' \<and>
     form_value r ''code'' = code"

lemma route_token: "route_of ''/oauth2/token'' = Some RToken"
  by code_simp

lemma served_exchange:
  assumes "serve cf r sv w = ((rs, sv'), w')" "redeems r code" "rs_status rs = 200"
  shows "\<exists>c cid secret uri rs' w1. w_db w1 = w_db w \<and> auth_code_exchange (cf_env cf) c code cid secret uri w1 = (rs', w') \<and>
    rs_status rs' = 200"
proof -
  from assms obtain u w1 rs' where w1: "uuid_new w = (u, w1)" and rs: "rs_status rs' = 200"
    and h: "handle_oauth2_token (cf_env cf) (Some (cf_contacts cf)) r (sv_token_limiter sv) w1 = ((rs', sv_token_limiter sv'), w')"
    by (auto simp: serve_def dispatch_def Let_def redeems_def route_token split: prod.splits)
  from run_code_grant [OF h rs] assms(2) obtain cid secret w2 where "w_db w2 = w_db w1"
    "auth_code_exchange (cf_env cf) (Some (cf_contacts cf)) code cid secret (form_value r ''redirect_uri'') w2 = (rs', w')"
    by (auto simp: redeems_def)
  with run_uuid_new [OF w1] rs show ?thesis by metis
qed

subsection \<open>Every history is a sequence of atomic writes\<close>

text \<open>C18: The program refines the step relation of its database: however the process was started, whichever subcommand it runs or
  requests it serves, in whatever order, and whichever calls of the driver fail, the database it ends with is reached from
  the one it started with by the inserts, updates and deletions of the store, each in the shape the store issues it.\<close>

theorem server_refines_steps: "db_steps (w_db w) (w_db (snd (snd (run_program pr acts f w))))"
  by (rule reach.run_program) (rule steps_refl)

text \<open>C16: The schema is an invariant: from a database that satisfies its constraints (unique identifiers and keys, references
  to existing principals, at most one active grant per principal, scope and environment, consistent revocation and
  retirement columns), a run of the program, as the server with any requests or as any of the maintenance commands,
  leads to one that does.\<close>

theorem schema_kept:
  assumes "wf_db (w_db w)"
  shows "wf_db (w_db (snd (snd (run_program pr acts f w))))"
  using assms by (rule wf.run_program)

theorem schema_kept_witness:
  "(case fst (run_program demo_process [SweepLimiters] old_file (demo_world demo_db)) of Serving _ _ \<Rightarrow> True | _ \<Rightarrow> False) \<and>
   wf_db (w_db (snd (snd (run_program demo_process [SweepLimiters] old_file (demo_world demo_db)))))"
proof -
  have "wf_db (w_db (demo_world demo_db))" by code_simp
  note kept = schema_kept [OF this, of demo_process "[SweepLimiters]" old_file]
  have "case fst (run_program demo_process [SweepLimiters] old_file (demo_world demo_db)) of Serving _ _ \<Rightarrow> True | _ \<Rightarrow> False"
    by code_simp
  with kept show ?thesis by blast
qed

text \<open>C17: Every timestamp column is well typed for as long as the program runs: a database whose timestamps are RFC 3339 texts of
  instants, as the program writes them, has only such timestamps after any run of the server or of a maintenance
  command, in new rows as well as where a row is retired, revoked or used. Those texts are what the store compares
  in SQL and parses when it reads a row.\<close>

theorem timestamps_kept:
  assumes "stamped (w_db w)"
  shows "stamped (w_db (snd (snd (run_program pr acts f w))))"
  using assms by (rule stamps.run_program)

theorem timestamps_kept_witness:
  "stamped (w_db (snd (snd (run_program demo_process [Request admin_request, SweepLimiters] old_file (demo_world demo_db)))))"
proof -
  have "demo_stamp = rfc3339 (1704067200 * second)" by code_simp
  then have "is_stamp demo_stamp" unfolding is_stamp_def by (rule exI)
  then have "stamped (w_db (demo_world demo_db))"
    by (simp add: stamped_def table_stamped_def demo_db_def demo_credential_def demo_key_def demo_grant_def demo_invite_def
        demo_client_def demo_code_def demo_session_def)
  then show ?thesis by (rule timestamps_kept)
qed

text \<open>C7: A code buys tokens once: after a request that exchanged an authorization code successfully, no request that presents
  the same code is answered with success, whoever sends it and whatever the program wrote in between, in however many
  concurrent requests, restarts and maintenance commands.\<close>

theorem code_single_use:
  assumes "serve cf r sv w = ((rs, sv1), w1)" "redeems r code" "rs_status rs = 200"
    "db_steps (w_db w1) (w_db w2)"
    "serve cf r' sv2 w2 = ((rs', sv3), w3)" "redeems r' code"
  shows "rs_status rs' \<noteq> 200"
proof
  let ?h = "hash_token (en_crypto (cf_env cf)) code"
  assume "rs_status rs' = 200"
  from served_exchange [OF assms(5,6) this] obtain c cid secret uri rs2 w4 where
    second: "w_db w4 = w_db w2" "auth_code_exchange (cf_env cf) c code cid secret uri w4 = (rs2, w3)" "rs_status rs2 = 200"
    by blast
  from served_exchange [OF assms(1,2,3)] obtain c' cid' secret' uri' rs1 w5 where
    "auth_code_exchange (cf_env cf) c' code cid' secret' uri' w5 = (rs1, w1)" "rs_status rs1 = 200" by blast
  then have "code_spent ?h (w_db w1)" by (rule code_grant_once_step)
  then have "code_spent ?h (w_db w2)" using code_use.steps assms(4) by blast
  moreover from run_auth_code_exchange [OF second(2,3)] second(1) obtain row ac where
    "code_row (en_crypto (cf_env cf)) code (w_db w2) = Some row" "read_auth_code row = Inr ac" by auto
  ultimately show False using code_spent_unused read_auth_code_Inr by blast
qed

theorem code_single_use_witness:
  "rs_status (fst (fst (serve demo_config code_request (snd (fst (serve demo_config code_request new_server (demo_world demo_db))))
     (snd (serve demo_config code_request new_server (demo_world demo_db)))))) \<noteq> 200"
proof -
  let ?x = "serve demo_config code_request new_server (demo_world demo_db)"
  let ?y = "serve demo_config code_request (snd (fst ?x)) (snd ?x)"
  have ok: "rs_status (fst (fst ?x)) = 200" "redeems code_request ''q''" by code_simp+
  show ?thesis
    by (rule code_single_use [of demo_config code_request new_server "demo_world demo_db" "fst (fst ?x)" "snd (fst ?x)" "snd ?x"
        "''q''" "snd ?x" code_request "snd (fst ?x)" "fst (fst ?y)" "snd (fst ?y)" "snd ?y"]) (use ok steps_refl in simp_all)
qed

subsection \<open>Revocation holds\<close>

lemma run_revoke_sessions:
  assumes "revoke_idp_sessions_for_principal pid w = (Inr n, w')" "wf_db (w_db w)" "s \<in> set (idp_sessions (w_db w))"
    "ss_principal_id s = pid"
  shows "session_revoked (ss_token_hash s) (w_db w')"
proof -
  from assms(1) obtain now w1 m where t: "time_now w = (now, w1)"
    and up: "db_exec (update_sessions (\<lambda>r. ss_principal_id r = pid \<and> ss_revoked_at r = None)
        (\<lambda>r. r\<lparr>ss_revoked_at := Some (rfc3339 now)\<rparr>)) w1 = (Inr m, w')"
    unfolding revoke_idp_sessions_for_principal_def by (auto split: run_splits)
  have db: "idp_sessions (w_db w') = update_where (\<lambda>r. ss_principal_id r = pid \<and> ss_revoked_at r = None)
        (\<lambda>r. r\<lparr>ss_revoked_at := Some (rfc3339 now)\<rparr>) (idp_sessions (w_db w))"
    using stm_InrD(9) [OF exec_effect(1) [OF up]] run_time [OF t] by simp
  have "inj_on ss_token_hash (set (idp_sessions (w_db w)))"
    using assms(2) by (simp add: wf_db_def wf_tokens_def distinct_map)
  then have same: "q = s" if "q \<in> set (idp_sessions (w_db w))" "ss_token_hash q = ss_token_hash s" for q
    using that assms(3) by (auto dest: inj_onD)
  show ?thesis
    unfolding spent_def db ball_update_where
  proof (intro conjI)
    show "\<exists>r \<in> set (update_where (\<lambda>r. ss_principal_id r = pid \<and> ss_revoked_at r = None)
        (\<lambda>r. r\<lparr>ss_revoked_at := Some (rfc3339 now)\<rparr>) (idp_sessions (w_db w))). ss_token_hash r = ss_token_hash s"
      unfolding set_update_where by (intro bexI [OF _ imageI [OF assms(3)]]) auto
  qed (use same assms(3,4) in auto)
qed

text \<open>C8: Ending a person's sessions keeps them ended: once the sessions of a principal were revoked, the cookie of any of them
  is refused a new access token, whatever the program wrote since.\<close>

theorem revoked_sessions_stay_out:
  assumes "wf_db (w_db w)" "revoke_idp_sessions_for_principal pid w = (Inr n, w1)"
    "s \<in> set (idp_sessions (w_db w))" "ss_principal_id s = pid"
    "db_steps (w_db w1) (w_db w2)" "handle_re_mint en r w2 = (rs, w3)"
    "cookie_get r idp_session_cookie_name = Some raw" "ss_token_hash s = hash_token (en_crypto en) raw"
  shows "rs_status rs \<noteq> 200"
proof
  assume ok: "rs_status rs = 200"
  have "session_revoked (ss_token_hash s) (w_db w1)" by (rule run_revoke_sessions [OF assms(2,1,3,4)])
  then have "session_revoked (ss_token_hash s) (w_db w2)"
    using session_revocation.steps assms(5) by blast
  moreover obtain rs' hs where "re_mint en r w2 = (rs', w3)" "rs_status rs' = 200"
    by (rule run_handle_re_mint [OF assms(6) ok])
  ultimately show False
    using run_re_mint session_revoked_row assms(7,8) by fastforce
qed

theorem revoked_sessions_stay_out_witness:
  "rs_status (fst (handle_re_mint demo_env remint_request
     (snd (revoke_idp_sessions_for_principal ''p1'' (demo_world demo_db))))) \<noteq> 200"
proof -
  let ?x = "revoke_idp_sessions_for_principal ''p1'' (demo_world demo_db)"
  let ?y = "handle_re_mint demo_env remint_request (snd ?x)"
  have facts: "fst ?x = Inr 1" "wf_db demo_db" "cookie_get remint_request idp_session_cookie_name = Some ''i''"
    "ss_token_hash demo_session = hash_token demo_crypto ''i''" "ss_principal_id demo_session = ''p1''"
    "demo_session \<in> set (idp_sessions demo_db)" by code_simp+
  show ?thesis
    by (rule revoked_sessions_stay_out [of "demo_world demo_db" "''p1''" 1 "snd ?x" demo_session "snd ?x"
        demo_env remint_request "fst ?y" "snd ?y" "''i''"]) (use facts steps_refl in \<open>simp_all add: prod_eq_iff\<close>)
qed

lemma grant_revoked_now:
  assumes "revoke_grant i by w = (Inr u, w')"
  shows "grant_revoked i (w_db w')"
proof -
  obtain r now where r: "r \<in> set (grants (w_db w))" "gr_id r = i"
    and db: "w_db w' = (w_db w)\<lparr>grants := update_where (\<lambda>r. gr_id r = i)
      (\<lambda>r. r\<lparr>gr_revoked_by := Some by, gr_revoked_at := Some (rfc3339 now)\<rparr>) (grants (w_db w))\<rparr>"
    by (rule run_revoke_grant [OF assms])
  have "\<exists>q \<in> set (update_where (\<lambda>r. gr_id r = i)
      (\<lambda>r. r\<lparr>gr_revoked_by := Some by, gr_revoked_at := Some (rfc3339 now)\<rparr>) (grants (w_db w))). gr_id q = i"
    unfolding set_update_where by (intro bexI [OF _ imageI [OF r(1)]]) (use r in auto)
  then show ?thesis by (simp add: spent_def ball_update_where db)
qed

text \<open>C13: A grant that was revoked is never active again: after the revocation succeeded, whatever the program writes
  later, the grant is still on record, and revoked.\<close>

theorem revoked_grant_stays:
  assumes "revoke_grant i by w = (Inr (), w1)" "db_steps (w_db w1) (w_db w2)"
  shows "i \<in> gr_id ` set (grants (w_db w2)) \<and> i \<notin> gr_id ` set (active_grants (w_db w2))"
proof -
  from grant_revoked_now [OF assms(1)] have "grant_revoked i (w_db w2)"
    using grant_revocation.steps assms(2) by blast
  then show ?thesis by (force simp: spent_def active_grants_def)
qed

theorem revoked_grant_stays_witness:
  "''g3'' \<notin> gr_id ` set (active_grants (w_db (snd (revoke_grant ''g3'' ''7'' (demo_world demo_db)))))"
proof -
  let ?x = "revoke_grant ''g3'' ''7'' (demo_world demo_db)"
  have "fst ?x = Inr ()" by code_simp
  then show ?thesis
    using revoked_grant_stays [of "''g3''" "''7''" "demo_world demo_db" "snd ?x" "snd ?x"] steps_refl
    by (simp add: prod_eq_iff)
qed

text \<open>
  Who revoked it, and when, can still change: a second revocation that had read the row before the first one wrote it goes
  on to its UPDATE, which asks for the id alone, and overwrites the attribution of the first.
\<close>

lemma revocation_overwritten:
  assumes "revoke_grant i first_by w = (Inr (), w1)"
    "db_exec (update_grants (\<lambda>r. gr_id r = i)
       (\<lambda>r. r\<lparr>gr_revoked_by := Some second_by, gr_revoked_at := Some (rfc3339 later)\<rparr>)) w1 = (Inr n, w2)"
  shows "db_step (w_db w1) (w_db w2) \<and> (\<exists>r \<in> set (grants (w_db w2)). gr_id r = i) \<and>
    (\<forall>r \<in> set (grants (w_db w2)). gr_id r = i \<longrightarrow> gr_revoked_by r = Some second_by)"
proof -
  let ?stm = "update_grants (\<lambda>r. gr_id r = i)
    (\<lambda>r. r\<lparr>gr_revoked_by := Some second_by, gr_revoked_at := Some (rfc3339 later)\<rparr>)"
  have db2: "w_db w2 = (w_db w1)\<lparr>grants := update_where (\<lambda>r. gr_id r = i)
      (\<lambda>r. r\<lparr>gr_revoked_by := Some second_by, gr_revoked_at := Some (rfc3339 later)\<rparr>) (grants (w_db w1))\<rparr>"
    by (cases rule: db_exec_cases [of ?stm w1]) (use assms(2) in \<open>auto simp: update_grants_def\<close>)
  have step: "db_step (w_db w1) (w_db w2)"
    by (rule db_step.revoke_grant [where i = i and b = second_by and t = later]) (simp add: update_grants_def db2)
  have "grant_revoked i (w_db w2)"
    by (rule grant_revocation.steps [OF steps_more [OF steps_refl step] grant_revoked_now [OF assms(1)]])
  then have on_record: "\<exists>r \<in> set (grants (w_db w2)). gr_id r = i" unfolding spent_def by (rule conjunct1)
  have "\<forall>r \<in> set (grants (w_db w2)). gr_id r = i \<longrightarrow> gr_revoked_by r = Some second_by"
    by (simp add: db2 ball_update_where)
  with step on_record show ?thesis by (intro conjI)
qed

subsection \<open>Invites\<close>

lemma spent_consume:
  assumes "r \<in> set rs" "key r = k" "\<And>r. key (f r) = key r" "\<And>r. mark (f r) \<noteq> None"
  shows "spent key mark k (update_where (\<lambda>r. key r = k \<and> mark r = None) f rs)"
proof -
  have "\<exists>q \<in> set (update_where (\<lambda>r. key r = k \<and> mark r = None) f rs). key q = k"
    unfolding set_update_where by (intro bexI [OF _ imageI [OF assms(1)]]) (use assms in auto)
  then show ?thesis using assms(3,4) by (auto simp: spent_def ball_update_where)
qed

text \<open>C10: An invite enrols one passkey: after the transaction that stored a passkey for it succeeded, it fails for the same
  token from then on, for every principal and passkey, whatever the program wrote in between.\<close>

theorem invite_single_use:
  assumes "replace_webauthn_credential_and_consume_invite x pid raw dat label w = (Inr c, w1)"
    "db_steps (w_db w1) (w_db w2)"
  shows "\<not> is_ok (fst (replace_webauthn_credential_and_consume_invite x pid' raw dat' label' w2))"
proof
  let ?r = "replace_webauthn_credential_and_consume_invite x pid' raw dat' label' w2"
  assume "is_ok (fst ?r)"
  then obtain c' w3 where again: "?r = (Inr c', w3)" by (cases ?r) (auto simp: is_ok_def split: sum.splits)
  have "invite_spent (hash_token x raw) (w_db w1)"
    by (rule run_replace [OF assms(1)]) (auto simp: spent_consume)
  then have "invite_spent (hash_token x raw) (w_db w2)"
    using invite_use.steps assms(2) by blast
  moreover have "\<exists>i \<in> set (invites (w_db w2)). ir_token_hash i = hash_token x raw \<and> ir_used_at i = None"
    by (rule run_replace [OF again])
  ultimately show False by (auto simp: spent_def)
qed

theorem invite_single_use_witness:
  "\<not> is_ok (fst (replace_webauthn_credential_and_consume_invite demo_crypto ''p1'' ''t'' ''d'' ''l''
     (snd (replace_webauthn_credential_and_consume_invite demo_crypto ''p1'' ''t'' ''d'' ''l'' (demo_world demo_db)))))"
proof -
  let ?x = "replace_webauthn_credential_and_consume_invite demo_crypto ''p1'' ''t'' ''d'' ''l'' (demo_world demo_db)"
  have "is_ok (fst ?x)" by code_simp
  then obtain c where "?x = (Inr c, snd ?x)" by (cases "fst ?x") (auto simp: is_ok_def prod_eq_iff)
  then show ?thesis
    using invite_single_use [of demo_crypto "''p1''" "''t''" "''d''" "''l''" "demo_world demo_db" c "snd ?x" "snd ?x"] steps_refl by simp
qed

subsection \<open>The administration gate\<close>

definition admin_routes :: "route set" where
  "admin_routes = {RGrants, RGrantsCheck, RGrantById, RAdminEnrol, RContacts, RHumanPrincipals, RInvites, RInviteByHash,
     RAgents, RMachineKeys, RMachineKeyById, RRotate, RPrincipalActions}"

lemma find_mem: "List.find P xs = Some x \<Longrightarrow> x \<in> set xs"
  by (auto simp: find_Some_iff)

lemma admin_route:
  assumes "route_of path = Some rt" "prefix ''/admin/'' path"
  shows "rt \<in> admin_routes \<and> (rt = RGrantsCheck \<longrightarrow> path = ''/admin/grants/check'')"
proof -
  have "\<forall>(p, rt) \<in> set exact_routes. prefix ''/admin/'' p \<longrightarrow>
      rt \<in> admin_routes \<and> (rt = RGrantsCheck \<longrightarrow> p = ''/admin/grants/check'')"
    "\<forall>(p, rt) \<in> set subtree_routes. rt \<in> admin_routes \<and> rt \<noteq> RGrantsCheck"
    by code_simp+
  moreover from assms(1) have "(path, rt) \<in> set exact_routes \<or> rt \<in> snd ` set subtree_routes"
    unfolding route_of_def by (cases "map_of exact_routes path") (auto dest: map_of_SomeD find_mem intro: rev_image_eqI)
  ultimately show ?thesis using assms(2) by auto
qed

lemma check_any_scope_refused:
  "check_any_scope en allowed r w = (Inl rs, w') \<Longrightarrow> 300 \<le> rs_status rs \<and> w_db w' = w_db w"
  unfolding check_any_scope_def
  by (auto split: run_splits verified.splits dest!: op_dests simp: unauthorized_def internal_error_def)

lemma require_admin_scope_cases:
  assumes "require_admin_scope en h r w = (rs, w')"
  obtains (refused) "300 \<le> rs_status rs" "w_db w' = w_db w"
  | (admin) tok claims where "bearer_token r = Some tok" "valid_session en (w_db w) (w_clock w) tok claims"
      "''aithne:admin'' \<in> set (sc_scopes claims)"
  using assms unfolding require_admin_scope_def require_any_scope_def
  by (auto split: run_splits dest!: check_any_scope_refused run_check_any_scope simp: admin_scope_def)

lemma csp_run: "apply_page_csp w = (x, w') \<Longrightarrow> w_db w' = w_db w"
  using page_frames(2) [of w] by simp

lemma require_cookie_cases:
  assumes "require_admin_scope_from_cookie en h r w = (rs, w')" "\<And>c t w. w_db (snd (h c t r w)) = w_db w"
  obtains (refused) "300 \<le> rs_status rs" "w_db w' = w_db w"
  | (admin) tok claims where "cookie_get r session_cookie_name = Some tok"
      "valid_session en (w_db w) (w_clock w) tok claims" "''aithne:admin'' \<in> set (sc_scopes claims)" "w_db w' = w_db w"
proof (cases "cookie_get r session_cookie_name")
  case None
  then show thesis using assms(1) refused by (auto simp: require_admin_scope_from_cookie_def login_redirect_raw_def)
next
  case (Some tok)
  obtain v w1 where v: "verify_session en tok w = (v, w1)" by (cases "verify_session en tok w")
  have db: "w_db w1 = w_db w" by (rule verify_session_run [OF v])
  show thesis
  proof (cases v)
    case (Verified claims)
    note ok = run_verify_session [OF v [unfolded Verified]]
    show ?thesis
    proof (cases "any_equal (sc_scopes claims) admin_scope")
      case True
      then have "h claims tok r w1 = (rs, w')"
        using assms(1) v Some Verified by (simp add: require_admin_scope_from_cookie_def)
      then have "w_db w' = w_db w" using assms(2) [of claims tok w1] db by simp
      moreover have "valid_session en (w_db w) (w_clock w) tok claims" using ok by simp
      ultimately show ?thesis using True by (intro admin [OF Some]) (simp_all add: admin_scope_def)
    next
      case False
      then show ?thesis
        using assms(1) v Some Verified db refused
        by (auto simp: require_admin_scope_from_cookie_def internal_error_def page_def split: run_splits dest!: csp_run)
    qed
  qed (use assms(1) v Some db refused in \<open>auto simp: require_admin_scope_from_cookie_def internal_error_def login_redirect_raw_def\<close>)
qed

text \<open>What a request to a path under \<open>/admin/\<close> was authorised by.\<close>

definition admin_authority :: "env \<Rightarrow> database \<Rightarrow> time \<Rightarrow> request \<Rightarrow> bool" where
  "admin_authority en db t r \<longleftrightarrow> (\<exists>tok claims. bearer_token r = Some tok \<and> valid_session en db t tok claims \<and>
     ''aithne:admin'' \<in> set (sc_scopes claims))"

definition page_authority :: "env \<Rightarrow> database \<Rightarrow> time \<Rightarrow> request \<Rightarrow> bool" where
  "page_authority en db t r \<longleftrightarrow> (\<exists>tok claims. cookie_get r session_cookie_name = Some tok \<and>
     valid_session en db t tok claims \<and> ''aithne:admin'' \<in> set (sc_scopes claims))"

definition check_authority :: "env \<Rightarrow> database \<Rightarrow> time \<Rightarrow> request \<Rightarrow> bool" where
  "check_authority en db t r \<longleftrightarrow> rq_path r = ''/admin/grants/check'' \<and> (\<exists>tok claims. bearer_token r = Some tok \<and>
     valid_session en db t tok claims \<and> ''aithne:read'' \<in> set (sc_scopes claims))"

definition admin_outcome :: "env \<Rightarrow> request \<Rightarrow> world \<Rightarrow> response \<Rightarrow> world \<Rightarrow> bool" where
  "admin_outcome en r w rs w' \<longleftrightarrow> 300 \<le> rs_status rs \<and> w_db w' = w_db w \<or> admin_authority en (w_db w) (w_clock w) r \<or>
     w_db w' = w_db w \<and> (page_authority en (w_db w) (w_clock w) r \<or> check_authority en (w_db w) (w_clock w) r)"

lemma outcome_refused: "300 \<le> rs_status rs \<Longrightarrow> w_db w' = w_db w \<Longrightarrow> admin_outcome en r w rs w'"
  by (simp add: admin_outcome_def)

lemma outcome_bearer: "require_admin_scope en h r w = (rs, w') \<Longrightarrow> admin_outcome en r w rs w'"
  by (erule require_admin_scope_cases) (auto simp: admin_outcome_def admin_authority_def)

lemma outcome_page:
  "require_admin_scope_from_cookie en h r w = (rs, w') \<Longrightarrow> (\<And>c t w. w_db (snd (h c t r w)) = w_db w) \<Longrightarrow>
   admin_outcome en r w rs w'"
  by (erule require_cookie_cases) (auto simp: admin_outcome_def page_authority_def)

lemma outcome_check:
  assumes "grants_check_route en r rl w = ((rs, rl'), w')" "rq_path r = ''/admin/grants/check''"
  shows "admin_outcome en r w rs w'"
proof -
  have frame: "w_db w' = w_db w" using grants_check_frame [of en r rl w] assms(1) by simp
  show ?thesis
    using assms frame unfolding grants_check_route_def admin_outcome_def admin_authority_def check_authority_def
    by (auto split: run_splits dest!: check_any_scope_refused run_check_any_scope simp: admin_scope_def read_scope_def)
qed

lemmas outcome_rules = outcome_refused outcome_bearer outcome_page outcome_check

lemma outcome_grants: "handle_grants en v c r w = (rs, w') \<Longrightarrow> admin_outcome en r w rs w'"
  unfolding handle_grants_def
  by (auto split: if_splits simp: method_not_allowed_def intro: outcome_rules)

lemma outcome_agents: "handle_agents en v r w = (rs, w') \<Longrightarrow> admin_outcome en r w rs w'"
  unfolding handle_agents_def
  by (auto split: if_splits simp: method_not_allowed_def intro: outcome_rules)

lemma admin_handlers:
  assumes "serve_stateless cf rt r w = (rs, w')" "rt \<in> admin_routes" "rt \<noteq> RGrantsCheck"
  shows "admin_outcome (cf_env cf) r w rs w'"
  using assms
  by (auto simp: admin_routes_def serve_stateless_def Let_def intro: outcome_rules outcome_grants outcome_agents)

lemma outcome_status [simp]: "admin_outcome en r w (secure_headers rs) w' = admin_outcome en r w rs w'"
  by (simp add: admin_outcome_def)

lemma outcome_start: "w_db w0 = w_db w \<Longrightarrow> w_clock w0 = w_clock w \<Longrightarrow> admin_outcome en r w0 rs w' \<Longrightarrow> admin_outcome en r w rs w'"
  by (simp add: admin_outcome_def)

lemma served_admin:
  assumes "serve cf r sv w = ((rs, sv'), w')" "prefix ''/admin/'' (rq_path r)"
  shows "admin_outcome (cf_env cf) r w rs w'"
proof -
  obtain u w0 where u: "uuid_new w = (u, w0)" by (cases "uuid_new w")
  note w0 = run_uuid_new [OF u]
  show ?thesis
  proof (cases "route_of (rq_path r)")
    case None
    then show ?thesis using assms(1) u w0 by (auto simp: serve_def intro: outcome_refused)
  next
    case (Some rt)
    from admin_route [OF Some assms(2)] have rt: "rt \<in> admin_routes" "rt = RGrantsCheck \<longrightarrow> rq_path r = ''/admin/grants/check''"
      by auto
    from assms(1) Some u obtain rs' where run: "dispatch cf rt r sv w0 = ((rs', sv'), w')" and rs: "rs = secure_headers rs'"
      by (auto simp: serve_def split: prod.splits)
    have "admin_outcome (cf_env cf) r w0 rs' w'"
    proof (cases "rt = RGrantsCheck")
      case True
      then show ?thesis using run rt(2) by (auto simp: dispatch_def Let_def split: prod.splits intro: outcome_check)
    next
      case False
      with run rt have "serve_stateless cf rt r w0 = (rs', w')"
        by (auto simp: dispatch_def Let_def admin_routes_def split: prod.splits)
      then show ?thesis using rt(1) False by (rule admin_handlers)
    qed
    with w0 show ?thesis unfolding rs by (auto intro: outcome_start)
  qed
qed

text \<open>C6: Nothing under /admin/ works without an administrator's token: if such a request is answered with success or changes the
  database at all, it carried a valid session token with the scope aithne:admin as bearer token; only requests that
  change nothing may carry it in the cookie instead, or, for the grant check, a token with aithne:read.\<close>

theorem admin_gate:
  assumes "serve cf r sv w = ((rs, sv'), w')" "prefix ''/admin/'' (rq_path r)" "rs_status rs < 300 \<or> w_db w' \<noteq> w_db w"
  shows "admin_authority (cf_env cf) (w_db w) (w_clock w) r \<or>
    w_db w' = w_db w \<and> (page_authority (cf_env cf) (w_db w) (w_clock w) r \<or> check_authority (cf_env cf) (w_db w) (w_clock w) r)"
  using served_admin [OF assms(1,2)] assms(3) by (auto simp: admin_outcome_def)

theorem admin_gate_witness:
  "admin_authority demo_env demo_db 0 admin_request"
proof -
  let ?x = "serve demo_config admin_request new_server (demo_world demo_db)"
  have "case ?x of ((rs, sv), w) \<Rightarrow> rs_status rs < 300 \<and> w_db w \<noteq> demo_db" by code_simp
  then have "rs_status (fst (fst ?x)) < 300" "w_db (snd ?x) \<noteq> demo_db" by (simp_all add: case_prod_beta)
  moreover have "prefix ''/admin/'' (rq_path admin_request)" by code_simp
  ultimately show ?thesis
    using admin_gate [of demo_config admin_request new_server "demo_world demo_db" "fst (fst ?x)" "snd (fst ?x)" "snd ?x"] by simp
qed

end
