(* ===== verification/StartContract.thy ===== *)
theory StartContract
  imports ServerContract
begin

text \<open>
  Restarting: on a database that an earlier run has set up, \<^verbatim>\<open>main\<close> reaches the point where it serves, and does not touch
  the signing keys, so that the tokens that are out stay valid.
\<close>

subsection \<open>Writes that leave the signing keys alone\<close>

lemma exec_keeps_keys:
  assumes "\<And>db db' n. stm db = Inr (db', n) \<Longrightarrow> signing_keys db' = signing_keys db"
  shows "signing_keys (w_db (snd (db_exec stm w))) = signing_keys (w_db w)"
  using assms by (cases rule: db_exec_cases [of stm w]) auto

lemma table_execs_keep_keys [simp]:
  "signing_keys (w_db (snd (db_exec (insert_principal p) w))) = signing_keys (w_db w)"
  "signing_keys (w_db (snd (db_exec (insert_grant g) w))) = signing_keys (w_db w)"
  "signing_keys (w_db (snd (db_exec (upsert_client c) w))) = signing_keys (w_db w)"
  by (rule exec_keeps_keys, auto simp: insert_principal_def insert_grant_def upsert_client_def split: if_splits)+

lemma bootstrap_keeps_keys [simp]: "signing_keys (w_db (snd (bootstrap_admin en vocab c w))) = signing_keys (w_db w)"
proof -
  have p: "signing_keys (w_db (snd (create_principal cl e w))) = signing_keys (w_db w)" for cl e w
    by (simp add: create_principal_def case_prod_beta split: option.split sum.split)
  have h: "signing_keys (w_db (snd (ensure_human c w))) = signing_keys (w_db w)" for w
    by (auto simp: ensure_human_def case_prod_beta p principal_reads split: sum.split err.split)
  have g: "signing_keys (w_db (snd (create_grant i sc e b v w))) = signing_keys (w_db w)" for i sc e b v w
    by (simp add: create_grant_def case_prod_beta split: option.split sum.split)
  show ?thesis
    by (simp add: bootstrap_admin_def case_prod_beta h g principal_reads split: sum.split)
qed

lemma reconcile_keeps_keys [simp]:
  "signing_keys (w_db (snd (reconcile_oidc_clients en manifest keys w))) = signing_keys (w_db w)"
proof -
  have u: "signing_keys (w_db (snd (upsert_oidc_client i h n us w))) = signing_keys (w_db w)" for i h n us w
    by (simp add: upsert_oidc_client_def case_prod_beta oidc_reads split: sum.split)
  have "signing_keys (w_db (snd (reconcile_entries en s es w))) = signing_keys (w_db w)" for s es w
    by (induction es arbitrary: w) (simp_all add: case_prod_beta Let_def u split: option.split)
  then show ?thesis by (simp add: reconcile_oidc_clients_def split: sum.split)
qed

subsection \<open>Keys that need no work\<close>

definition keys_current :: "crypto \<Rightarrow> bytes \<Rightarrow> time \<Rightarrow> database \<Rightarrow> bool" where
  "keys_current x kek now db \<longleftrightarrow> (\<exists>r \<in> set (signing_keys db). sk_status r = ''active'') \<and>
     (\<forall>r \<in> set (signing_keys db). case read_signing_key x kek r of
        Inl _ \<Rightarrow> False
      | Inr k \<Rightarrow> sk_status r = ''active'' \<longrightarrow> now - k_created_at k \<le> signing_key_rotation_interval)"

lemma migrate_scan_none: "\<forall>(i, blob) \<in> set rows. is_ok (decrypt_key_der x kek blob) \<Longrightarrow> migrate_scan x kek rows = Inr []"
  by (induction rows) auto

lemma read_decrypts: "read_signing_key x kek r = Inr k \<Longrightarrow> is_ok (decrypt_key_der x kek (sk_private_key r))"
  by (auto simp: read_signing_key_def split: sum.splits)

lemma start_with_current_keys:
  assumes "calm w" "keys_current (en_crypto en) (en_kek en) (w_clock w) (w_db w)"
  shows "fst (start_up en vocab c m ks w) = Inr () \<and>
    signing_keys (w_db (snd (start_up en vocab c m ks w))) = signing_keys (w_db w)"
proof -
  let ?x = "en_crypto en" and ?kek = "en_kek en"
  have "is_ok (decrypt_key_der ?x ?kek (sk_private_key r))" if "r \<in> set (signing_keys (w_db w))" for r
    using assms(2) that by (cases "read_signing_key ?x ?kek r") (auto simp: keys_current_def dest: read_decrypts)
  then have "migrate_scan ?x ?kek (select_blobs (w_db w)) = Inr []"
    by (intro migrate_scan_none) (auto simp: select_blobs_def)
  then have mig: "migrate_signing_key_encryption ?x ?kek w = (Inr 0, w)"
    using assms(1) by (simp add: migrate_signing_key_encryption_def)
  obtain r where r: "select_first (\<lambda>r. sk_status r = ''active'') (signing_keys (w_db w)) = Some r"
    using assms(2) by (cases "select_first (\<lambda>r. sk_status r = ''active'') (signing_keys (w_db w))")
      (auto simp: keys_current_def select_first_None_iff)
  with select_first_SomeD have "r \<in> set (signing_keys (w_db w))" "sk_status r = ''active''" by force+
  then obtain k where k: "read_signing_key ?x ?kek r = Inr k" "w_clock w - k_created_at k \<le> signing_key_rotation_interval"
    using assms(2) by (cases "read_signing_key ?x ?kek r") (auto simp: keys_current_def)
  have get: "get_or_create_active_signing_key ?x ?kek w = (Inr k, w)"
    using assms(1) r k by (simp add: get_or_create_active_signing_key_def scan_signing_key_def)
  then have rot: "rotate_signing_key_if_older_than ?x ?kek signing_key_rotation_interval w = (Inr None, w)"
    using assms(1) k by (simp add: rotate_signing_key_if_older_than_def)
  show ?thesis
    by (simp add: start_up_def mig get rot case_prod_beta)
qed

subsection \<open>Serving\<close>

definition required_variables :: "string set" where
  "required_variables = {''PORT'', ''SYSTEM'', ''APP_ORIGIN'', ''SIGNING_KEK'', ''LUCOS_CONTACTS_ORIGIN'', ''KEY_LUCOS_CONTACTS''}"

text \<open>C36: A restart gets through: started without a subcommand, with every required variable set, a scope vocabulary that
  parses, a database file that an earlier start has migrated, and signing keys that the key-encryption key opens, of which
  the active ones are at most 30 days old, the process does reach the server when no call fails, and leaves the file and
  every signing key as they were.\<close>

theorem restart_serves:
  assumes "first_arg pr \<notin> {''--bootstrap-invite'', ''--rekey'', ''--migrate-kek'', ''--healthcheck''}"
    "\<forall>key \<in> required_variables. pc_getenv pr key \<noteq> ''''"
    "parse_scopes_yaml (pc_scopes_yaml pr) = Inr vocab" "ensure_dir pr (db_path pr)" "pc_sql_open pr (build_dsn (db_path pr))"
    "pc_webauthn_new pr (derive_rp_id (pc_getenv pr ''APP_ORIGIN'')) (pc_getenv pr ''APP_ORIGIN'') = Some wa"
    "migrate f0 = (Inr (), f)" "df_faults f = []" "calm w"
    "keys_current (pc_crypto pr) (cx_sha256 (pc_crypto pr) (pc_getenv pr ''SIGNING_KEK'')) (w_clock w) (w_db w)"
  shows "\<exists>cf w'. main pr f w = (Serving cf new_server, f, w') \<and> cf_vocab cf = vocab \<and> cf_webauthn cf = wa \<and>
    cf_env cf = process_env pr (pc_getenv pr ''APP_ORIGIN'') (pc_getenv pr ''SIGNING_KEK'') \<and>
    signing_keys (w_db w') = signing_keys (w_db w)"
proof -
  let ?en = "process_env pr (pc_getenv pr ''APP_ORIGIN'') (pc_getenv pr ''SIGNING_KEK'')"
  have "f\<lparr>df_faults := []\<rparr> = f" using assms(8) by simp
  with migrate_again [OF assms(7)] have "migrate f = (Inr (), f)" by simp
  then have open_ok: "open_store (pc_sql_open pr) (db_path pr) f = (Inr (), f)"
    using assms(5) by (simp add: open_store_def)
  let ?s = "start_up ?en vocab (pc_getenv pr ''BOOTSTRAP_ADMIN_CONTACT_ID'') (pc_oidc_clients_json pr) (pc_getenv pr ''CLIENT_KEYS'') w"
  have "en_crypto ?en = pc_crypto pr" "en_kek ?en = cx_sha256 (pc_crypto pr) (pc_getenv pr ''SIGNING_KEK'')"
    by (simp_all add: process_env_def)
  then have "keys_current (en_crypto ?en) (en_kek ?en) (w_clock w) (w_db w)" using assms(10) by simp
  from start_with_current_keys [OF assms(9) this, of vocab "pc_getenv pr ''BOOTSTRAP_ADMIN_CONTACT_ID''" "pc_oidc_clients_json pr"
      "pc_getenv pr ''CLIENT_KEYS''"]
  obtain w' where start: "?s = (Inr (), w')" "signing_keys (w_db w') = signing_keys (w_db w)" by (cases ?s) auto
  have req: "get_env_required pr key = Some (pc_getenv pr key)" if "key \<in> required_variables" for key
    using that assms(2) by (simp add: get_env_required_def Let_def)
  note reqs = req [of "''PORT''"] req [of "''SYSTEM''"] req [of "''APP_ORIGIN''"] req [of "''SIGNING_KEK''"]
    req [of "''LUCOS_CONTACTS_ORIGIN''"] req [of "''KEY_LUCOS_CONTACTS''"]
  have run: "main pr f w = serve_command pr f w"
    using assms(1) reqs by (simp add: main_def required_variables_def)
  show ?thesis
    unfolding run serve_command_def
    using reqs assms(3,4,6) open_ok start by (simp add: required_variables_def Let_def)
qed

theorem restart_serves_witness:
  "\<exists>cf w'. main demo_process (snd (migrate old_file)) (demo_world demo_db) = (Serving cf new_server, snd (migrate old_file), w') \<and>
     signing_keys (w_db w') = [demo_key]"
proof -
  have mig: "fst (migrate old_file) = Inr ()" "df_faults (snd (migrate old_file)) = []" by code_simp+
  have env: "first_arg demo_process = ''''" "parse_scopes_yaml (pc_scopes_yaml demo_process) = Inr (new_vocabulary [''x''])"
    "ensure_dir demo_process (db_path demo_process)" "pc_sql_open demo_process (build_dsn (db_path demo_process))" by code_simp+
  have wa: "pc_webauthn_new demo_process (derive_rp_id (pc_getenv demo_process ''APP_ORIGIN'')) (pc_getenv demo_process ''APP_ORIGIN'')
      = Some demo_webauthn" by (simp add: demo_process_def)
  have keys: "keys_current (pc_crypto demo_process) (cx_sha256 (pc_crypto demo_process) (pc_getenv demo_process ''SIGNING_KEK''))
      0 demo_db" by code_simp
  have "\<forall>key \<in> required_variables. pc_getenv demo_process key \<noteq> ''''"
    by (simp add: required_variables_def demo_process_def)
  moreover have "migrate old_file = (Inr (), snd (migrate old_file))" using mig(1) by (simp add: prod_eq_iff)
  moreover have "signing_keys demo_db = [demo_key]" by (simp add: demo_db_def)
  ultimately show ?thesis
    using restart_serves [OF _ _ env(2-4) wa _ mig(2), of old_file "demo_world demo_db"] env(1) keys by auto
qed

end
