(* ===== verification/KeyContract.thy ===== *)
theory KeyContract
  imports TokenContract StoreContract
begin

text \<open>
  Session tokens and the signing keys together: a token that was minted verifies for its whole life. The contract of the
  token library enters as the hypothesis \<open>jose_complete\<close>.
\<close>


lemma build_key_set_total:
  "(\<forall>k \<in> set keys. \<exists>pub. jx_public j (k_private_key k) = Some pub) \<Longrightarrow> distinct (map fst acc @ map k_id keys) \<Longrightarrow>
   build_key_set_from j acc keys = Inr (acc @ map (\<lambda>k. (k_id k, the (jx_public j (k_private_key k)))) keys)"
proof (induction keys arbitrary: acc)
  case (Cons k keys)
  then obtain pub where pub: "jx_public j (k_private_key k) = Some pub" by auto
  have "(k_id k, pub) \<notin> set acc" using Cons.prems(2) by (fastforce simp: image_iff)
  then show ?case using Cons.IH [of "acc @ [(k_id k, pub)]"] Cons.prems pub by simp
qed simp

text \<open>The stored keys can all be read, and each has a public half.\<close>

definition keys_usable :: "env \<Rightarrow> database \<Rightarrow> bool" where
  "keys_usable en db \<longleftrightarrow> distinct (map sk_id (signing_keys db)) \<and>
     (\<forall>r \<in> set (signing_keys db). case read_signing_key (en_crypto en) (en_kek en) r of
        Inl _ \<Rightarrow> False | Inr k \<Rightarrow> jx_public (en_jose en) (k_private_key k) \<noteq> None)"

lemma keys_usableD:
  assumes "keys_usable en db" "r \<in> set (signing_keys db)"
  obtains k pub where "read_signing_key (en_crypto en) (en_kek en) r = Inr k"
    "jx_public (en_jose en) (k_private_key k) = Some pub" "k_id k = sk_id r"
proof -
  from assms have "case read_signing_key (en_crypto en) (en_kek en) r of
      Inl _ \<Rightarrow> False | Inr k \<Rightarrow> jx_public (en_jose en) (k_private_key k) \<noteq> None" by (simp add: keys_usable_def)
  then show thesis using that read_signing_key_Inr by (fastforce split: sum.splits)
qed

lemma key_set_of_rows:
  assumes "distinct (map sk_id rows)"
    "\<forall>r \<in> set rows. \<exists>k pub. f r = Inr k \<and> jx_public j (k_private_key k) = Some pub \<and> k_id k = sk_id r"
    "row \<in> set rows" "f row = Inr key"
  obtains keys ks pub where "traverse f rows = Inr keys" "build_verification_key_set j keys = Inr ks"
    "jx_public j (k_private_key key) = Some pub" "map_of ks (sk_id row) = Some pub"
proof -
  let ?keys = "map (\<lambda>r. projr (f r)) rows"
  let ?set = "map (\<lambda>k. (k_id k, the (jx_public j (k_private_key k)))) ?keys"
  have good: "f r = Inr (projr (f r)) \<and> k_id (projr (f r)) = sk_id r \<and> (\<exists>pub. jx_public j (k_private_key (projr (f r))) = Some pub)"
    if "r \<in> set rows" for r using assms(2) that by fastforce
  then have read: "traverse f rows = Inr ?keys" by (intro traverse_total) blast
  have ids: "map k_id ?keys = map sk_id rows" using good by simp
  have "\<forall>k \<in> set ?keys. \<exists>pub. jx_public j (k_private_key k) = Some pub" using good by auto
  moreover have "distinct (map fst ([] :: key_set) @ map k_id ?keys)" unfolding ids using assms(1) by simp
  ultimately have built: "build_verification_key_set j ?keys = Inr ?set"
    unfolding build_verification_key_set_def by (subst build_key_set_total) simp_all
  from good [OF assms(3)] assms(4) obtain pub where pub: "jx_public j (k_private_key key) = Some pub" "k_id key = sk_id row" by auto
  have "(sk_id row, pub) \<in> set ?set" using assms(3,4) pub by (force intro!: image_eqI [of _ _ row])
  moreover have "map fst ?set = map sk_id rows" using ids by simp
  then have "distinct (map fst ?set)" using assms(1) by (simp only:)
  ultimately have "map_of ?set (sk_id row) = Some pub" by (rule map_of_is_SomeI [rotated])
  with read built pub(1) show thesis by (rule that)
qed

lemma verify_accepts:
  assumes "calm w" "keys_usable en (w_db w)" "jose_complete (en_jose en)" "row \<in> set (signing_keys (w_db w))"
    "verification_where (rfc3339 (w_clock w - verification_window)) row"
    "read_signing_key (en_crypto en) (en_kek en) row = Inr key" "jx_sign (en_jose en) (k_private_key key) (sk_id row) t = Some tok"
    "jw_iss t = en_issuer en" "token_audience \<in> set (jw_aud t)" "jw_iat t \<le> unix_seconds (w_clock w)"
    "unix_seconds (w_clock w) < jw_exp t"
  shows "verify_session en tok w = (Verified (claims_of t), w)"
proof -
  let ?rows = "rev (sort_key sk_created_at (rev (filter (verification_where (rfc3339 (w_clock w - verification_window)))
    (signing_keys (w_db w)))))"
  have rows: "set ?rows = {r \<in> set (signing_keys (w_db w)). verification_where (rfc3339 (w_clock w - verification_window)) r}"
    by simp
  have "distinct (map sk_id ?rows)"
    using assms(2) by (simp add: keys_usable_def distinct_map inj_on_def)
  moreover have "\<forall>r \<in> set ?rows. \<exists>k pub. read_signing_key (en_crypto en) (en_kek en) r = Inr k \<and>
      jx_public (en_jose en) (k_private_key k) = Some pub \<and> k_id k = sk_id r"
    unfolding rows using keys_usableD [OF assms(2)] by blast
  moreover have "row \<in> set ?rows" using assms(4,5) unfolding rows by blast
  ultimately obtain keys ks pub where
    keys: "traverse (read_signing_key (en_crypto en) (en_kek en)) ?rows = Inr keys"
    and ks: "build_verification_key_set (en_jose en) keys = Inr ks"
    and pub: "jx_public (en_jose en) (k_private_key key) = Some pub" "map_of ks (sk_id row) = Some pub"
    by (rule key_set_of_rows) (rule assms(6))
  have "list_verification_keys (en_crypto en) (en_kek en) verification_window w = (Inr keys, w)"
    using assms(1) keys by (simp add: list_verification_keys_def Let_def collect_signing_keys_def)
  moreover have "jx_parse (en_jose en) ks (en_issuer en) token_audience (w_clock w) tok = Some t"
    using assms(3,7-11) pub unfolding jose_complete_def by blast
  ultimately show ?thesis using assms(1) ks by (simp add: verify_session_def parse_session_def)
qed

text \<open>C22: A session outlives the key that signed it: an access token minted with an active key is still accepted, with the
  subject, class and scopes it was minted for, until it expires, even if the signing key was rotated in between, and
  without the caller having to present anything but the token.\<close>

theorem session_survives_rotation:
  assumes "mint_session (en_jose en) p scopes key (en_issuer en) token_audience 0 oidc w = (Inr tok, w1)"
    "row \<in> set (signing_keys (w_db w))" "sk_status row = ''active''"
    "read_signing_key (en_crypto en) (en_kek en) row = Inr key"
    "rotate_signing_key (en_crypto en) (en_kek en) w1 = (Inr k, w2)" "calm w3" "w_db w3 = w_db w2"
    "w_clock w2 \<le> w_clock w3" "unix_seconds (w_clock w3) < unix_seconds (w_clock w1 + default_session_ttl)"
    "in_range (w_clock w3 - verification_window)" "in_range (w_clock w2)"
    "jose_complete (en_jose en)" "keys_usable en (w_db w2)"
  shows "\<exists>claims. verify_session en tok w3 = (Verified claims, w3) \<and> sc_subject claims = p_external_id p \<and>
    sc_principal_class claims = p_class p \<and> sc_scopes claims = scopes"
proof -
  obtain t where sign: "jx_sign (en_jose en) (k_private_key key) (k_id key) t = Some tok"
    and t: "jw_iss t = en_issuer en" "jw_aud t = [token_audience]" "jw_iat t = unix_seconds (fst (time_now w))"
      "jw_exp t = unix_seconds (fst (time_now w) + default_session_ttl)"
      "sc_subject (claims_of t) = p_external_id p" "sc_principal_class (claims_of t) = p_class p" "sc_scopes (claims_of t) = scopes"
    using mint_session_InrD [of "en_jose en" p scopes key "en_issuer en" token_audience 0 oidc w tok] assms(1) by auto
  have clock: "fst (time_now w) = w_clock w1"
    using assms(1) by (auto simp: mint_session_def Let_def split: run_splits dest!: run_time run_uuid_new)
  have db1: "w_db w1 = w_db w" using mint_session_frame [of "en_jose en" p scopes key "en_issuer en" token_audience 0 oidc w] assms(1) by simp
  from run_rotate [OF assms(5)] have mono: "w_clock w1 \<le> w_clock w2" by auto
  have "second * unix_seconds (w_clock w3) < second * unix_seconds (w_clock w1 + default_session_ttl)"
    using assms(9) by (simp add: second_def)
  then have late: "w_clock w3 - verification_window \<le> w_clock w2"
    using unix_seconds_le [of "w_clock w3"] unix_seconds_le [of "w_clock w1 + default_session_ttl"] mono
    by (simp add: verification_window_def default_session_ttl_def minute_def second_def)
  let ?retired = "row\<lparr>sk_status := ''retired'', sk_retired_at := Some (rfc3339 (w_clock w2))\<rparr>"
  from run_rotate [OF assms(5)] have "?retired \<in> set (signing_keys (w_db w3))"
    using assms(2,3,7) db1 by (auto simp: set_update_where)
  moreover have "rfc3339 (w_clock w3 - verification_window) \<le> rfc3339 (w_clock w2)"
    using late assms(10,11) by (intro rfc3339_mono) auto
  then have "verification_where (rfc3339 (w_clock w3 - verification_window)) ?retired"
    by (simp add: verification_where_def)
  moreover obtain key' where "read_signing_key (en_crypto en) (en_kek en) ?retired = Inr key'"
    "k_id key' = k_id key" "k_private_key key' = k_private_key key"
    using read_retired_key [OF assms(4,11), of "''retired''"] by blast
  moreover have "jw_iat t \<le> unix_seconds (w_clock w3)"
    using t(3) clock unix_seconds_mono [of "w_clock w1" "w_clock w3"] mono assms(8) by simp
  ultimately have "verify_session en tok w3 = (Verified (claims_of t), w3)"
    using assms(6,9,12,13) sign t clock read_signing_key_Inr [OF assms(4)] assms(7)
    by (intro verify_accepts [where row = ?retired and key = key']) simp_all
  with t show ?thesis by simp
qed

definition demo_human :: principal where
  "demo_human = \<lparr>p_id = ''p1'', p_class = ''human'', p_external_id = ''7'', p_created_at = 0\<rparr>"

definition demo_signing_key :: signing_key where
  "demo_signing_key = \<lparr>k_id = ''k1'', k_algorithm = ''ES256'', k_private_key = ''D'', k_status = ''active'',
     k_created_at = 1704067200 * second, k_retired_at = None\<rparr>"

theorem session_survives_rotation_witness:
  "\<exists>tok claims w. verify_session demo_env tok w = (Verified claims, w) \<and> sc_subject claims = ''7'' \<and> sc_scopes claims = [''x'']
     \<and> length (signing_keys (w_db w)) = 2"
proof -
  let ?w = "demo_world demo_db\<lparr>w_rand := [Some (replicate 12 (CHR ''r''))]\<rparr>"
  let ?mint = "mint_session demo_jose demo_human [''x''] demo_signing_key ''https://a'' token_audience 0 [] ?w"
  let ?rot = "rotate_signing_key demo_crypto ''k'' (snd ?mint)"
  have "case ?mint of (t, w1) \<Rightarrow> is_ok t \<and> w_clock w1 = 0 \<and>
      (case rotate_signing_key demo_crypto ''k'' w1 of (q, w2) \<Rightarrow> is_ok q \<and> w_clock w2 = 0 \<and> w_faults w2 = [] \<and>
        w_delays w2 = [] \<and> keys_usable demo_env (w_db w2) \<and> length (signing_keys (w_db w2)) = 2)"
    by code_simp
  then have runs: "is_ok (fst ?mint)" "is_ok (fst ?rot)" "w_clock (snd ?mint) = 0" "w_clock (snd ?rot) = 0"
    "w_faults (snd ?rot) = []" "w_delays (snd ?rot) = []" "keys_usable demo_env (w_db (snd ?rot))"
    "length (signing_keys (w_db (snd ?rot))) = 2"
    by (simp_all add: case_prod_beta)
  have facts: "demo_key \<in> set (signing_keys (w_db ?w))" "sk_status demo_key = ''active''"
    "read_signing_key demo_crypto ''k'' demo_key = Inr demo_signing_key"
    "unix_seconds 0 < unix_seconds (0 + default_session_ttl)" "in_range (0 - verification_window)" "in_range 0"
    "p_external_id demo_human = ''7''"
    by code_simp+
  obtain tok where tok: "?mint = (Inr tok, snd ?mint)"
    using runs(1) by (cases "fst ?mint") (auto simp: is_ok_def prod_eq_iff)
  obtain k where k: "?rot = (Inr k, snd ?rot)"
    using runs(2) by (cases "fst ?rot") (auto simp: is_ok_def prod_eq_iff)
  have "\<exists>claims. verify_session demo_env tok (snd ?rot) = (Verified claims, snd ?rot) \<and>
      sc_subject claims = p_external_id demo_human \<and> sc_principal_class claims = p_class demo_human \<and> sc_scopes claims = [''x'']"
    by (rule session_survives_rotation [of demo_env demo_human "[''x'']" demo_signing_key "[]" ?w tok "snd ?mint" demo_key k
        "snd ?rot" "snd ?rot"])
      (use runs facts tok k demo_jose_complete in \<open>simp_all add: calm_def\<close>)
  with runs(8) facts(7) show ?thesis by auto
qed

end
