(* ===== verification/AccountContract.thy ===== *)
theory AccountContract
  imports SessionContract AdminContract StoreContract
begin

text \<open>
  What an account holder and an administrator can rely on: logging out, the claims of the userinfo endpoint, a machine key
  from its creation to its revocation, and the table of scopes of the administration pages.
\<close>

subsection \<open>Logging out\<close>

text \<open>What identifies a cookie in a browser, and the attributes it is sent under.\<close>

definition cookie_scope :: "cookie \<Rightarrow> string \<times> string \<times> string \<times> bool \<times> bool \<times> same_site" where
  "cookie_scope c = (ck_name c, ck_domain c, ck_path c, ck_http_only c, ck_secure c, ck_same_site c)"

lemma run_revoke_cookie:
  assumes "revoke_cookie_session en r w = (u, w')"
  shows "w_db w' = w_db w \<or>
   (\<exists>raw t. cookie_get r idp_session_cookie_name = Some raw \<and> w_db w' = (w_db w)\<lparr>idp_sessions :=
      update_where (\<lambda>s. ss_token_hash s = hash_token (en_crypto en) raw \<and> ss_revoked_at s = None)
        (\<lambda>s. s\<lparr>ss_revoked_at := Some t\<rparr>) (idp_sessions (w_db w))\<rparr>)"
proof (cases "cookie_get r idp_session_cookie_name")
  case None
  with assms show ?thesis by (simp add: revoke_cookie_session_def)
next
  case (Some raw)
  obtain now w1 where t: "time_now w = (now, w1)" by (cases "time_now w")
  let ?stm = "update_sessions (\<lambda>r. ss_token_hash r = hash_token (en_crypto en) raw \<and> ss_revoked_at r = None)
    (\<lambda>r. r\<lparr>ss_revoked_at := Some (rfc3339 now)\<rparr>)"
  obtain x w2 where run: "db_exec ?stm w1 = (x, w2)" by (cases "db_exec ?stm w1")
  have w': "w' = w2" using assms Some t run by (auto simp: revoke_cookie_session_def revoke_idp_session_by_token_def Let_def split: sum.splits)
  have w1: "w_db w1 = w_db w" using run_time [OF t] by simp
  show ?thesis
  proof (cases x)
    case (Inl m)
    then show ?thesis using run_exec_err [of ?stm w1 m w2] run w1 w' by simp
  next
    case (Inr n)
    with run have "?stm (w_db w1) = Inr (w_db w2, n)" using exec_effect(1) by blast
    then show ?thesis unfolding w' w1 using Some by (intro disjI2 exI [of _ raw] exI [of _ "rfc3339 now"]) (simp add: update_sessions_def)
  qed
qed

text \<open>C32: Logging out needs a POST from the application's own origin; anything else is refused and changes nothing. When it
  is accepted, both cookies are cleared, under exactly the name, domain, path and flags they are set with, so that the
  browser drops them, and the database changes at most in that the session of the presented cookie is revoked.\<close>

theorem logout_effect:
  assumes "handle_logout en r w = (rs, w')"
  shows "if rq_method r = ''POST'' \<and> header_get r ''Origin'' = en_app_origin en
    then location_of rs = Some ''/'' \<and> map ck_max_age (rs_cookies rs) = [-1, -1] \<and>
      map cookie_scope (rs_cookies rs) =
        [cookie_scope (set_session_cookie tok (en_environment en)), cookie_scope (set_idp_session_cookie tok (en_environment en))] \<and>
      (w_db w' = w_db w \<or>
       (\<exists>raw t. cookie_get r idp_session_cookie_name = Some raw \<and> w_db w' = (w_db w)\<lparr>idp_sessions :=
          update_where (\<lambda>s. ss_token_hash s = hash_token (en_crypto en) raw \<and> ss_revoked_at s = None)
            (\<lambda>s. s\<lparr>ss_revoked_at := Some t\<rparr>) (idp_sessions (w_db w))\<rparr>))
    else rs_status rs \<in> {403, 405} \<and> rs_cookies rs = [] \<and> w_db w' = w_db w"
proof (cases "rq_method r = ''POST'' \<and> header_get r ''Origin'' = en_app_origin en")
  case True
  with assms obtain u where rev: "revoke_cookie_session en r w = (u, w')"
    and rs: "rs = add_cookies [clear_session_cookie (en_environment en), clear_idp_session_cookie (en_environment en)]
              (http_redirect ''/'' 303)"
    by (auto simp: handle_logout_def split: prod.splits)
  show ?thesis
    using True run_revoke_cookie [OF rev]
    by (simp add: rs cookie_scope_def clear_session_cookie_def clear_idp_session_cookie_def set_session_cookie_def
        set_idp_session_cookie_def)
next
  case False
  then show ?thesis using assms by (auto simp: handle_logout_def method_not_allowed_def split: if_splits)
qed

definition logout_request :: request where
  "logout_request = (demo_request ''POST'' ''/auth/logout'')\<lparr>rq_headers := [(''Origin'', ''https://a'')],
     rq_cookies := [(''aithne_idp_session'', ''i'')]\<rparr>"

theorem logout_effect_witness:
  "map ck_max_age (rs_cookies (fst (handle_logout demo_env logout_request (demo_world demo_db)))) = [-1, -1]"
proof -
  have "rq_method logout_request = ''POST''" "header_get logout_request ''Origin'' = ''https://a''" by code_simp+
  then show ?thesis
    using logout_effect [of demo_env logout_request "demo_world demo_db" "fst (handle_logout demo_env logout_request (demo_world demo_db))"
        "snd (handle_logout demo_env logout_request (demo_world demo_db))" "''''"] by simp
qed

text \<open>
  Whether a browser sends a cookie to a path (RFC 6265, 5.1.4). The IdP session cookie is set for the path of the
  re-mint endpoint alone, so that it does not reach the logout endpoint, and without it nothing is revoked.
\<close>

definition cookie_path_matches :: "string \<Rightarrow> string \<Rightarrow> bool" where
  "cookie_path_matches cookie_path path \<longleftrightarrow> path = cookie_path \<or>
     prefix cookie_path path \<and> (last cookie_path = CHR ''/'' \<or> prefix (cookie_path @ ''/'') path)"

lemma logout_never_revokes:
  "\<not> cookie_path_matches (ck_path (set_idp_session_cookie tok environment)) ''/auth/logout''"
  "cookie_get r idp_session_cookie_name = None \<Longrightarrow> w_db (snd (handle_logout en r w)) = w_db w"
  by (simp_all add: cookie_path_matches_def set_idp_session_cookie_def handle_logout_def revoke_cookie_session_def)

subsection \<open>The userinfo endpoint\<close>

text \<open>C33: The userinfo endpoint discloses no more than was consented to: it answers 200 only for a valid session token, and then
  with the token's subject, principal class and scopes and at most two more claims, the e-mail address and the name. Both
  are given for a person only, never for an agent; the e-mail address only when the token records the OIDC scope email,
  the name only when it records profile.\<close>

theorem userinfo_discloses:
  assumes "handle_userinfo en contacts r w = (rs, w')" "rs_status rs = 200"
  shows "\<exists>tok claims kvs. bearer_token r = Some tok \<and> valid_session en (w_db w) (w_clock w) tok claims \<and>
    rs = json_response 200 (JObj kvs) \<and>
    fst ` set kvs \<subseteq> {''sub'', ''principal_class'', ''scopes'', ''email'', ''name''} \<and>
    {(''sub'', JStr (sc_subject claims)), (''principal_class'', JStr (sc_principal_class claims)),
     (''scopes'', string_array (sc_scopes claims))} \<subseteq> set kvs \<and>
    (''email'' \<in> fst ` set kvs \<longrightarrow> ''email'' \<in> set (sc_oidc_scopes claims) \<and> sc_principal_class claims = ''human'') \<and>
    (''name'' \<in> fst ` set kvs \<longrightarrow> ''profile'' \<in> set (sc_oidc_scopes claims) \<and> sc_principal_class claims = ''human'')"
proof -
  from assms obtain tok claims w1 where tok: "bearer_token r = Some tok" and v: "verify_session en tok w = (Verified claims, w1)"
    and rs: "rs = json_response 200 (JObj (profile_claims contacts claims @ [(''principal_class'', JStr (sc_principal_class claims)),
        (''scopes'', string_array (sc_scopes claims)), (''sub'', JStr (sc_subject claims))]))"
    unfolding handle_userinfo_def by (auto split: run_splits verified.splits simp: method_not_allowed_def internal_error_def)
  have mail: "''email'' \<in> set (sc_oidc_scopes claims) \<and> sc_principal_class claims = ''human''"
    if "(''email'', v) \<in> set (profile_claims contacts claims)" for v
    using that by (cases contacts; cases "contacts_get (the contacts) (sc_subject claims)")
      (auto simp: profile_claims_def class_human_def split: if_splits)
  have name: "''profile'' \<in> set (sc_oidc_scopes claims) \<and> sc_principal_class claims = ''human''"
    if "(''name'', v) \<in> set (profile_claims contacts claims)" for v
    using that by (cases contacts; cases "contacts_get (the contacts) (sc_subject claims)")
      (auto simp: profile_claims_def class_human_def split: if_splits)
  have keys: "k = ''email'' \<or> k = ''name''" if "(k, v) \<in> set (profile_claims contacts claims)" for k v
    using that by (cases contacts; cases "contacts_get (the contacts) (sc_subject claims)")
      (auto simp: profile_claims_def split: if_splits)
  show ?thesis
    using tok run_verify_session [OF v] unfolding rs
    by (intro exI [of _ tok] exI [of _ claims] exI conjI) (auto dest: keys mail name)
qed

definition userinfo_request :: request where
  "userinfo_request = (demo_request ''GET'' ''/oauth2/userinfo'')\<lparr>rq_headers :=
     [(''Authorization'', ''Bearer '' @ demo_token [''x''])]\<rparr>"

theorem userinfo_discloses_witness:
  "\<exists>tok claims. bearer_token userinfo_request = Some tok \<and> valid_session demo_env demo_db 0 tok claims"
proof -
  let ?x = "handle_userinfo demo_env None userinfo_request (demo_world demo_db)"
  have "rs_status (fst ?x) = 200" by code_simp
  then show ?thesis using userinfo_discloses [of demo_env None userinfo_request "demo_world demo_db" "fst ?x" "snd ?x"] by auto
qed

subsection \<open>Machine keys\<close>

lemma run_create_credential:
  assumes "create_credential pid ty dat label w = (Inr c, w')"
  shows "c_id c \<notin> cr_id ` set (credentials (w_db w)) \<and> (\<exists>t. w_db w' = (w_db w)\<lparr>credentials := credentials (w_db w) @
    [\<lparr>cr_id = c_id c, cr_principal_id = pid, cr_type = ty, cr_data = dat, cr_label = label, cr_created_at = t,
      cr_revoked_by = None, cr_revoked_at = None\<rparr>]\<rparr>)"
proof -
  from assms obtain w1 now w2 n where i: "new_uuid w = (Some (c_id c), w1)" and t: "time_now w1 = (now, w2)"
    and ins: "db_exec (insert_credential \<lparr>cr_id = c_id c, cr_principal_id = pid, cr_type = ty, cr_data = dat, cr_label = label,
       cr_created_at = rfc3339 now, cr_revoked_by = None, cr_revoked_at = None\<rparr>) w2 = (Inr n, w')"
    unfolding create_credential_def by (auto split: run_splits)
  show ?thesis
    using run_uuid [OF i] run_time [OF t] stm_InrD(1) [OF exec_effect(1) [OF ins]] by auto
qed

lemma run_revoke_credential:
  assumes "revoke_credential i by w = (Inr u, w')"
  obtains t where "w_db w' = (w_db w)\<lparr>credentials := update_where (\<lambda>r. cr_id r = i)
    (\<lambda>r. r\<lparr>cr_revoked_by := Some by, cr_revoked_at := Some t\<rparr>) (credentials (w_db w))\<rparr>"
proof -
  from assms obtain w1 now w2 n where q: "db_query (\<lambda>db. map_option cr_revoked_at
      (select_first (\<lambda>r. cr_id r = i) (credentials db))) w = (Inr (Some None), w1)" and now: "time_now w1 = (now, w2)"
    and upd: "db_exec (update_credentials (\<lambda>r. cr_id r = i)
      (\<lambda>r. r\<lparr>cr_revoked_by := Some by, cr_revoked_at := Some (rfc3339 now)\<rparr>)) w2 = (Inr n, w')"
    unfolding revoke_credential_def by (auto split: run_splits)
  show thesis
    by (rule that [of "rfc3339 now"]) (use run_query [OF q] run_time [OF now] run_exec [OF upd] in \<open>simp add: update_credentials_def\<close>)
qed

text \<open>C29: A machine key works from its creation to its revocation: the list of the agent's credentials read after it was
  created has a match for its secret, and the list read after it was revoked has none, provided the secret was new.\<close>

theorem machine_key_lifecycle:
  assumes "create_credential pid ''machine_key'' (hash_machine_key x secret) label w = (Inr c, w1)"
    "hash_machine_key x secret \<notin> cr_data ` set (credentials (w_db w))"
    "list_credentials_by_principal pid w1 = (Inr creds, w2)"
    "revoke_credential (c_id c) by w2 = (Inr (), w3)" "list_credentials_by_principal pid w3 = (Inr creds', w4)"
  shows "machine_key_matches (hash_machine_key x secret) creds \<and> \<not> machine_key_matches (hash_machine_key x secret) creds'"
proof -
  let ?h = "hash_machine_key x secret"
  from run_create_credential [OF assms(1)] obtain t where
    db1: "credentials (w_db w1) = credentials (w_db w) @ [\<lparr>cr_id = c_id c, cr_principal_id = pid, cr_type = ''machine_key'',
       cr_data = ?h, cr_label = label, cr_created_at = t, cr_revoked_by = None, cr_revoked_at = None\<rparr>]"
      (is "_ = _ @ [?row]") by auto
  note listed = run_list_credentials [OF assms(3)]
  have mem: "?row \<in> set (sort_key cr_created_at (filter (\<lambda>r. cr_principal_id r = pid) (credentials (w_db w1))))"
    by (simp add: db1)
  from list_all2_memD' [OF listed [THEN conjunct2, THEN conjunct2] mem] obtain c' where
    c': "c' \<in> set creds" "read_credential ?row = Inr c'" ..
  from read_credential_Inr [OF c'(2)] have "c_type c' = type_machine_key" "c_data c' = ?h" "c_revoked_at c' = None"
    by (simp_all add: type_machine_key_def)
  with c'(1) have found: "machine_key_matches ?h creds" unfolding machine_key_matches_iff by blast
  obtain t' where db3: "credentials (w_db w3) = update_where (\<lambda>r. cr_id r = c_id c)
      (\<lambda>r. r\<lparr>cr_revoked_by := Some by, cr_revoked_at := Some t'\<rparr>) (credentials (w_db w1))"
    by (rule run_revoke_credential [OF assms(4)]) (use listed in simp)
  have "\<forall>r \<in> set (credentials (w_db w3)). cr_data r = ?h \<longrightarrow> cr_revoked_at r \<noteq> None"
    using assms(2) unfolding db3 db1 ball_update_where by (force simp: image_iff)
  then have "\<not> active_credential (w_db w3) pid ty ?h" for ty by (auto simp: active_credential_def)
  then have "\<not> machine_key_matches ?h creds'" using run_listed_credentials [OF assms(5)] by auto
  with found show ?thesis by blast
qed

theorem machine_key_lifecycle_witness:
  "\<exists>creds. machine_key_matches (hash_machine_key demo_crypto ''new'') creds"
proof -
  let ?x = "create_credential ''p2'' ''machine_key'' (hash_machine_key demo_crypto ''new'') ''l'' (demo_world demo_db)"
  let ?l = "list_credentials_by_principal ''p2'' (snd ?x)"
  let ?r = "revoke_credential ''u1'' ''7'' (snd ?l)"
  let ?m = "list_credentials_by_principal ''p2'' (snd ?r)"
  have "case ?x of (c, w1) \<Rightarrow> is_ok c \<and> c_id (projr c) = ''u1'' \<and>
      (case list_credentials_by_principal ''p2'' w1 of (l, w2) \<Rightarrow> is_ok l \<and>
        (case revoke_credential ''u1'' ''7'' w2 of (r, w3) \<Rightarrow> r = Inr () \<and> is_ok (fst (list_credentials_by_principal ''p2'' w3))))"
    by code_simp
  then have facts: "is_ok (fst ?x)" "c_id (projr (fst ?x)) = ''u1''" "is_ok (fst ?l)" "fst ?r = Inr ()" "is_ok (fst ?m)"
    by (simp_all add: case_prod_beta)
  have fresh: "hash_machine_key demo_crypto ''new'' \<notin> cr_data ` set (credentials demo_db)" by code_simp
  obtain c creds creds' where runs: "?x = (Inr c, snd ?x)" "?l = (Inr creds, snd ?l)" "?m = (Inr creds', snd ?m)"
    using facts(1,3,5) by (cases "fst ?x"; cases "fst ?l"; cases "fst ?m") (auto simp: is_ok_def prod_eq_iff)
  have "c_id c = ''u1''" using facts(2) runs(1) by (metis fst_conv sum.sel(2))
  then have "machine_key_matches (hash_machine_key demo_crypto ''new'') creds \<and> \<not> machine_key_matches (hash_machine_key demo_crypto ''new'') creds'"
    using facts(4) fresh
    by (intro machine_key_lifecycle [OF runs(1) _ runs(2) _ runs(3), of "''7''"]) (simp_all add: prod_eq_iff)
  then show ?thesis by blast
qed

subsection \<open>The table of scopes\<close>

lemma grant_to_json_simps [simp]:
  "gj_id (grant_to_json g) = g_id g" "gj_scope (grant_to_json g) = g_scope g"
  "gj_revoked_at (grant_to_json g) = None \<longleftrightarrow> g_revoked_at g = None"
  by (simp_all add: grant_to_json_def)

text \<open>The administration pages show what is granted: the table built from the vocabulary and a principal's grants has one
  line per scope of the vocabulary, in its order, marked as granted exactly when one of the grants is of that scope and
  not revoked, and the grant it offers to revoke is such a grant.\<close>

lemma statuses_show_grants:
  "map st_scope (build_scope_statuses scopes (map grant_to_json gs)) = scopes \<and>
   (\<forall>s \<in> set (build_scope_statuses scopes (map grant_to_json gs)).
      if st_granted s then \<exists>g \<in> set gs. g_scope g = st_scope s \<and> g_revoked_at g = None \<and> g_id g = st_grant_id s
      else st_grant_id s = '''' \<and> (\<forall>g \<in> set gs. g_scope g \<noteq> st_scope s \<or> g_revoked_at g \<noteq> None))"
proof -
  have fin: "active_ids js m sc = (case active_ids js Map.empty sc of None \<Rightarrow> m sc | Some i \<Rightarrow> Some i)" for js m sc
  proof (induction js arbitrary: m)
    case (Cons j js)
    let ?upd = "\<lambda>m. if gj_revoked_at j = None then m(gj_scope j \<mapsto> gj_id j) else m"
    have "active_ids (j # js) m sc = (case active_ids js Map.empty sc of None \<Rightarrow> ?upd m sc | Some i \<Rightarrow> Some i)" for m
      using Cons.IH [of "?upd m"] by (simp only: active_ids.simps)
    from this [of m] this [of Map.empty] show ?case by (auto split: option.splits if_splits)
  qed simp
  have "case active_ids (map grant_to_json gs) Map.empty sc of
      None \<Rightarrow> \<forall>g \<in> set gs. g_scope g \<noteq> sc \<or> g_revoked_at g \<noteq> None
    | Some i \<Rightarrow> \<exists>g \<in> set gs. g_scope g = sc \<and> g_revoked_at g = None \<and> g_id g = i" for sc
  proof (induction gs)
    case (Cons g gs)
    then show ?case
      using fin [of "map grant_to_json gs" "[g_scope g \<mapsto> g_id g]" sc]
      by (auto split: option.splits if_splits)
  qed simp
  then show ?thesis
    by (auto simp: build_scope_statuses_def Let_def comp_def split: option.splits) (fastforce split: option.splits)+
qed

end
