(* ===== verification/EnrolContract.thy ===== *)
theory EnrolContract
  imports SessionContract AdminContract StoreContract
begin

text \<open>
  Becoming a user: the registration ceremony that an invite opens, the bootstrap of the first administrator and the
  clients that are configured at start-up.
\<close>

subsection \<open>Registering a passkey\<close>





subsection \<open>The first administrator\<close>







subsection \<open>The configured clients\<close>

lemma upsert_clients:
  assumes "upsert_oidc_client i h n uris w = (x, w')"
  shows "cl_id ` set (clients (w_db w)) \<subseteq> cl_id ` set (clients (w_db w')) \<and>
    (\<forall>c \<in> set (clients (w_db w')). (\<exists>c0 \<in> set (clients (w_db w)). cl_redirect_uris c = cl_redirect_uris c0) \<or> cl_redirect_uris c = uris)"
proof -
  let ?row = "\<lambda>t. \<lparr>cl_id = i, cl_secret_hash = h, cl_redirect_uris = uris, cl_client_name = n, cl_created_at = t\<rparr>"
  obtain now w1 y w2 where t: "time_now w = (now, w1)" and up: "db_exec (upsert_client (?row (rfc3339 now))) w1 = (y, w2)"
    by (cases "time_now w"; cases "db_exec (upsert_client (?row (rfc3339 (fst (time_now w))))) (snd (time_now w))") auto
  have w': "w_db w' = w_db w2"
    using assms t up by (auto simp: upsert_oidc_client_def split: sum.splits dest: get_oidc_client_run)
  show ?thesis
  proof (cases y)
    case (Inl m)
    then show ?thesis using run_exec_err [of "upsert_client (?row (rfc3339 now))" w1 m w2] up run_time [OF t] w' by auto
  next
    case (Inr k)
    have "upsert_client (?row (rfc3339 now)) (w_db w) = Inr (w_db w', k)"
      using exec_effect(1) [of "upsert_client (?row (rfc3339 now))" w1 k w2] up Inr run_time [OF t] w' by simp
    then consider "w_db w' = (w_db w)\<lparr>clients := update_where (\<lambda>q. cl_id q = i)
        (\<lambda>q. q\<lparr>cl_secret_hash := h, cl_redirect_uris := uris, cl_client_name := n\<rparr>) (clients (w_db w))\<rparr>"
      | "w_db w' = (w_db w)\<lparr>clients := clients (w_db w) @ [?row (rfc3339 now)]\<rparr>"
      by (auto simp: upsert_client_def split: if_splits)
    then show ?thesis
    proof cases
      case 1
      have "map cl_id (clients (w_db w')) = map cl_id (clients (w_db w))"
        by (simp add: 1 update_where_def)
      then have ids: "cl_id ` set (clients (w_db w')) = cl_id ` set (clients (w_db w))" by (metis set_map)
      have "(\<exists>c0 \<in> set (clients (w_db w)). cl_redirect_uris c = cl_redirect_uris c0) \<or> cl_redirect_uris c = uris"
        if "c \<in> set (clients (w_db w'))" for c
        using that by (auto simp: 1 update_where_def)
      with ids show ?thesis by simp
    qed auto
  qed
qed

text \<open>C31: Reconciling the configured clients never takes a client away, and outside development it never registers a loopback
  redirect URI: every redirect URI stored afterwards was stored before or is not a loopback address.\<close>

theorem reconcile_keeps_out_loopback:
  assumes "en_environment en \<noteq> ''development''"
  shows "cl_id ` set (clients (w_db w)) \<subseteq> cl_id ` set (clients (w_db (snd (reconcile_oidc_clients en manifest keys w)))) \<and>
    (\<forall>c \<in> set (clients (w_db (snd (reconcile_oidc_clients en manifest keys w)))). \<forall>uri \<in> set (cl_redirect_uris c).
       (\<exists>c0 \<in> set (clients (w_db w)). uri \<in> set (cl_redirect_uris c0)) \<or> \<not> is_loopback_redirect_uri uri)"
proof -
  let ?uris = "\<lambda>w. \<Union>c \<in> set (clients (w_db w)). set (cl_redirect_uris c)"
  have step: "cl_id ` set (clients (w_db w)) \<subseteq> cl_id ` set (clients (w_db (snd (reconcile_entries en secrets es w)))) \<and>
    ?uris (snd (reconcile_entries en secrets es w)) \<subseteq> ?uris w \<union> {uri. \<not> is_loopback_redirect_uri uri}" for secrets es
  proof (induction es arbitrary: w)
    case (Cons e es)
    show ?case
    proof (cases "secrets (me_client_id e)")
      case None
      then show ?thesis using Cons.IH [of w] by simp
    next
      case (Some secret)
      let ?new = "filter_redirect_uris_for_environment (me_redirect_uris e) (en_environment en)"
      let ?w1 = "snd (upsert_oidc_client (me_client_id e) (hash_oidc_secret (en_crypto en) secret) (me_client_name e) ?new w)"
      have this_entry: "snd (reconcile_entries en secrets (e # es) w) = snd (reconcile_entries en secrets es w) \<or>
          snd (reconcile_entries en secrets (e # es) w) = snd (reconcile_entries en secrets es ?w1)"
        using Some by (simp add: Let_def split: prod.split)
      have "set ?new \<subseteq> {uri. \<not> is_loopback_redirect_uri uri}"
        using assms by (auto simp: filter_redirect_uris_for_environment_def)
      moreover have "?uris ?w1 \<subseteq> ?uris w \<union> set ?new"
        using upsert_clients [OF prod.collapse [symmetric]] by fastforce
      ultimately have "?uris ?w1 \<subseteq> ?uris w \<union> {uri. \<not> is_loopback_redirect_uri uri}" by blast
      moreover have "cl_id ` set (clients (w_db w)) \<subseteq> cl_id ` set (clients (w_db ?w1))"
        using upsert_clients [OF prod.collapse [symmetric]] by (rule conjunct1)
      ultimately show ?thesis
        using Cons.IH [of w] Cons.IH [of ?w1] this_entry
        by (elim disjE) (simp_all only:, meson Un_least order_trans sup_ge2)
    qed
  qed auto
  have "cl_id ` set (clients (w_db w)) \<subseteq> cl_id ` set (clients (w_db (snd (reconcile_oidc_clients en manifest keys w)))) \<and>
    ?uris (snd (reconcile_oidc_clients en manifest keys w)) \<subseteq> ?uris w \<union> {uri. \<not> is_loopback_redirect_uri uri}"
    unfolding reconcile_oidc_clients_def using step by (auto split: sum.splits)
  then show ?thesis by blast
qed

definition reconcile_manifest :: string where
  "reconcile_manifest = json_text (JArr [JObj [(''client_id'', JStr ''dev''), (''client_name'', JStr ''Dev''),
     (''redirect_uris'', JArr [JStr ''http://localhost/cb'', JStr ''https://dev/cb''])]])"

theorem reconcile_keeps_out_loopback_witness:
  "let cs = clients (w_db (snd (reconcile_oidc_clients demo_env reconcile_manifest ''dev:production=z'' (demo_world demo_db)))) in
   \<not> is_loopback_redirect_uri (hd (cl_redirect_uris (last cs))) \<and> ''app'' \<in> cl_id ` set cs \<and> ''dev'' \<in> cl_id ` set cs"
proof -
  let ?cs = "clients (w_db (snd (reconcile_oidc_clients demo_env reconcile_manifest ''dev:production=z'' (demo_world demo_db))))"
  have sh: "cl_id (last ?cs) = ''dev''" "?cs \<noteq> []" "cl_redirect_uris (last ?cs) = [''https://dev/cb'']" by code_simp+
  have "en_environment demo_env \<noteq> ''development''" by simp
  note all = reconcile_keeps_out_loopback [OF this, of "demo_world demo_db" reconcile_manifest "''dev:production=z''"]
  have mem: "last ?cs \<in> set ?cs" using sh(2) by (rule last_in_set)
  have "\<not> is_loopback_redirect_uri ''https://dev/cb''"
    using all mem sh(3) by (fastforce simp: demo_db_def demo_client_def)
  moreover have "''dev'' \<in> cl_id ` set ?cs" using mem sh(1) by force
  moreover have "''app'' \<in> cl_id ` set ?cs" using all by (auto simp: demo_db_def demo_client_def)
  ultimately show ?thesis using sh(3) by (simp add: Let_def)
qed

end
