(* ===== verification/MigrationContract.thy ===== *)
theory MigrationContract
  imports Migration Json
begin

text \<open>
  What \<open>Migration\<close> owes the rest of the store: a file of any older version gets the tables, columns and constraints the
  statements of \<open>Database\<close> rely on, and holds the same rows as before.
\<close>

subsection \<open>What the store needs of a file\<close>

text \<open>
  A table as the statements of the store use it: its primary key, the columns they always give a value, those they may
  leave NULL, the allowed values, the unique keys, and the column that names a principal (and goes with it).
\<close>

record table_need =
  nd_table :: string
  nd_key :: string
  nd_values :: "string list"
  nd_nulls :: "string list"
  nd_checks :: "(string \<times> string list) list"
  nd_unique :: "string list list"
  nd_parent :: "string option"

definition store_needs :: "table_need list" where
  "store_needs =
    [\<lparr>nd_table = ''principals'', nd_key = ''id'', nd_values = [''class'', ''external_id'', ''created_at''], nd_nulls = [],
       nd_checks = [(''class'', [''human'', ''agent''])], nd_unique = [[''class'', ''external_id'']], nd_parent = None\<rparr>,
     \<lparr>nd_table = ''credentials'', nd_key = ''id'', nd_values = [''principal_id'', ''type'', ''data'', ''label'', ''created_at''],
       nd_nulls = [''revoked_by'', ''revoked_at''], nd_checks = [(''type'', [''webauthn'', ''machine_key''])], nd_unique = [],
       nd_parent = Some ''principal_id''\<rparr>,
     \<lparr>nd_table = ''signing_keys'', nd_key = ''id'', nd_values = [''status'', ''algorithm'', ''private_key'', ''created_at''],
       nd_nulls = [''retired_at''], nd_checks = [(''status'', [''active'', ''retired''])], nd_unique = [], nd_parent = None\<rparr>,
     \<lparr>nd_table = ''grants'', nd_key = ''id'', nd_values = [''principal_id'', ''scope'', ''environment'', ''granted_by'', ''granted_at''],
       nd_nulls = [''revoked_by'', ''revoked_at''], nd_checks = [], nd_unique = [], nd_parent = Some ''principal_id''\<rparr>,
     \<lparr>nd_table = ''enrolment_invites'', nd_key = ''token_hash'', nd_values = [''contact_id'', ''created_by'', ''created_at'', ''expires_at''],
       nd_nulls = [''used_at''], nd_checks = [], nd_unique = [], nd_parent = None\<rparr>,
     \<lparr>nd_table = ''oidc_clients'', nd_key = ''id'', nd_values = [''secret_hash'', ''redirect_uris'', ''client_name'', ''created_at''],
       nd_nulls = [], nd_checks = [], nd_unique = [], nd_parent = None\<rparr>,
     \<lparr>nd_table = ''oidc_auth_codes'', nd_key = ''code_hash'', nd_values = [''client_id'', ''principal_id'', ''redirect_uri'',
         ''scope'', ''nonce'', ''expires_at'', ''created_at''],
       nd_nulls = [''used_at''], nd_checks = [], nd_unique = [], nd_parent = Some ''principal_id''\<rparr>,
     \<lparr>nd_table = ''idp_sessions'', nd_key = ''token_hash'', nd_values = [''principal_id'', ''created_at'', ''expires_at''],
       nd_nulls = [''revoked_at''], nd_checks = [], nd_unique = [], nd_parent = Some ''principal_id''\<rparr>]"

text \<open>The one unique index the store relies on besides: at most one active grant of a scope.\<close>

definition grants_index :: index_def where
  "grants_index = \<lparr>ix_name = ''idx_grants_active'', ix_table = ''grants'',
     ix_columns = [''principal_id'', ''scope'', ''environment''], ix_unique = True, ix_where_null = Some ''revoked_at''\<rparr>"

definition checks_of :: "column \<Rightarrow> string list list" where
  "checks_of col = concat (map (\<lambda>k. case k of Check_In vs \<Rightarrow> [vs] | _ \<Rightarrow> []) (co_constraints col))"

definition parents_of :: "column \<Rightarrow> (string \<times> string \<times> bool) list" where
  "parents_of col = concat (map (\<lambda>k. case k of References t c casc \<Rightarrow> [(t, c, casc)] | _ \<Rightarrow> []) (co_constraints col))"

text \<open>
  A column has the constraints that are needed, and no others: an INSERT that gives the columns of the store, and nothing
  else, is refused exactly for the reasons of \<open>Database\<close>.
\<close>

definition column_meets :: "table_need \<Rightarrow> column \<Rightarrow> bool" where
  "column_meets n col \<longleftrightarrow>
     (Primary_Key \<in> set (co_constraints col) \<longleftrightarrow> same_name (co_name col) (nd_key n)) \<and>
     (Not_Null \<in> set (co_constraints col) \<longleftrightarrow> (\<exists>c \<in> set (nd_values n). same_name (co_name col) c)) \<and>
     checks_of col = map snd (filter (\<lambda>(c, vs). same_name (co_name col) c) (nd_checks n)) \<and>
     parents_of col =
       (case nd_parent n of
          Some c \<Rightarrow> if same_name (co_name col) c then [(''principals'', ''id'', True)] else []
        | None \<Rightarrow> [])"

definition meets_but :: "string list \<Rightarrow> table_need \<Rightarrow> 'a table_def_scheme \<Rightarrow> bool" where
  "meets_but missing n t \<longleftrightarrow>
     (\<forall>c \<in> set (nd_key n # nd_values n @ nd_nulls n). c \<in> set missing \<or> has_column c t) \<and>
     (\<forall>col \<in> set (tb_columns t). column_meets n col) \<and> tb_unique t = nd_unique n"

abbreviation meets :: "table_need \<Rightarrow> 'a table_def_scheme \<Rightarrow> bool" where
  "meets \<equiv> meets_but []"

definition schema_current :: "catalog \<Rightarrow> bool" where
  "schema_current c \<longleftrightarrow>
     ct_foreign_keys c \<and>
     (\<forall>n \<in> set store_needs. \<exists>t. find_table (nd_table n) c = Some t \<and> meets n t) \<and>
     grants_index \<in> set (ct_indexes c) \<and> (\<forall>i \<in> set (ct_indexes c). ix_unique i \<longrightarrow> i = grants_index)"

text \<open>
  A file of an older version: what tables of the store it has meet the needs, except that the revocation columns of the
  credentials may be missing; any number of tables may be missing altogether (a new file is empty). Other unique indexes
  than the one of the grants it does not have. No table has the name of an index of the schema, or the other way round,
  and if the index of the grants is yet to be built, the rows satisfy it.
\<close>

definition revocation_columns :: "string \<Rightarrow> string list" where
  "revocation_columns n = (if n = ''credentials'' then [''revoked_by'', ''revoked_at''] else [])"

definition older_version :: "catalog \<Rightarrow> bool" where
  "older_version c \<longleftrightarrow>
     (\<forall>t \<in> set (ct_tables c). wf_table t) \<and>
     (\<forall>n \<in> set store_needs. \<not> has_index (nd_table n) c \<and>
        (case find_table (nd_table n) c of None \<Rightarrow> True | Some t \<Rightarrow> meets_but (revocation_columns (nd_table n)) n t)) \<and>
     (\<forall>i \<in> set (ct_indexes c). ix_unique i \<or> same_name (ix_name i) ''idx_grants_active'' \<longrightarrow> i = grants_index) \<and>
     find_table ''idx_grants_active'' c = None \<and> find_table ''idx_idp_sessions_principal'' c = None \<and>
     (case find_table ''grants'' c of None \<Rightarrow> True | Some t \<Rightarrow> \<not> index_violated grants_index t)"

subsection \<open>The rows a file holds\<close>

text \<open>The rows of the typed tables, each as the values of its columns; redirect URIs are stored as a JSON array.\<close>

definition table_contents :: "database \<Rightarrow> (string \<times> string list \<times> string option list list) list" where
  "table_contents db =
    [(''principals'', [''id'', ''class'', ''external_id'', ''created_at''],
       map (\<lambda>r. [Some (pr_id r), Some (pr_class r), Some (pr_external_id r), Some (pr_created_at r)]) (principals db)),
     (''credentials'', [''id'', ''principal_id'', ''type'', ''data'', ''label'', ''created_at'', ''revoked_by'', ''revoked_at''],
       map (\<lambda>r. [Some (cr_id r), Some (cr_principal_id r), Some (cr_type r), Some (cr_data r), Some (cr_label r),
         Some (cr_created_at r), cr_revoked_by r, cr_revoked_at r]) (credentials db)),
     (''signing_keys'', [''id'', ''status'', ''algorithm'', ''private_key'', ''created_at'', ''retired_at''],
       map (\<lambda>r. [Some (sk_id r), Some (sk_status r), Some (sk_algorithm r), Some (sk_private_key r),
         Some (sk_created_at r), sk_retired_at r]) (signing_keys db)),
     (''grants'', [''id'', ''principal_id'', ''scope'', ''environment'', ''granted_by'', ''granted_at'', ''revoked_by'', ''revoked_at''],
       map (\<lambda>r. [Some (gr_id r), Some (gr_principal_id r), Some (gr_scope r), Some (gr_environment r),
         Some (gr_granted_by r), Some (gr_granted_at r), gr_revoked_by r, gr_revoked_at r]) (grants db)),
     (''enrolment_invites'', [''token_hash'', ''contact_id'', ''created_by'', ''created_at'', ''expires_at'', ''used_at''],
       map (\<lambda>r. [Some (ir_token_hash r), Some (ir_contact_id r), Some (ir_created_by r), Some (ir_created_at r),
         Some (ir_expires_at r), ir_used_at r]) (invites db)),
     (''oidc_clients'', [''id'', ''secret_hash'', ''redirect_uris'', ''client_name'', ''created_at''],
       map (\<lambda>r. [Some (cl_id r), Some (cl_secret_hash r), Some (json_text (JArr (map JStr (cl_redirect_uris r)))),
         Some (cl_client_name r), Some (cl_created_at r)]) (clients db)),
     (''oidc_auth_codes'', [''code_hash'', ''client_id'', ''principal_id'', ''redirect_uri'', ''scope'', ''nonce'', ''expires_at'',
         ''created_at'', ''used_at''],
       map (\<lambda>r. [Some (cd_code_hash r), Some (cd_client_id r), Some (cd_principal_id r), Some (cd_redirect_uri r),
         Some (cd_scope r), Some (cd_nonce r), Some (cd_expires_at r), Some (cd_created_at r), cd_used_at r]) (auth_codes db)),
     (''idp_sessions'', [''token_hash'', ''principal_id'', ''created_at'', ''expires_at'', ''revoked_at''],
       map (\<lambda>r. [Some (ss_token_hash r), Some (ss_principal_id r), Some (ss_created_at r), Some (ss_expires_at r),
         ss_revoked_at r]) (idp_sessions db))]"

definition rows_in :: "catalog \<Rightarrow> string \<Rightarrow> string list \<Rightarrow> string option list list" where
  "rows_in c n cols = (case find_table n c of None \<Rightarrow> [] | Some t \<Rightarrow> map (\<lambda>r. map (row_value t r) cols) (tb_rows t))"

definition file_holds :: "catalog \<Rightarrow> database \<Rightarrow> bool" where
  "file_holds c db \<longleftrightarrow> (\<forall>(n, cols, rows) \<in> set (table_contents db). rows_in c n cols = rows)"

subsection \<open>Rows stay\<close>

lemma migrate_grows: "migrate f = (x, f') \<Longrightarrow> catalog_grows (df_catalog f) (df_catalog f')"
proof -
  assume m: "migrate f = (x, f')"
  obtain y f1 where stmts: "exec_all migrate_stmts f = (y, f1)" by (cases "exec_all migrate_stmts f")
  have "\<forall>s \<in> set migrate_stmts. additive s" "\<forall>col \<in> set migrate_columns. co_constraints col = []"
    by (simp_all add: migrate_stmts_def migrate_columns_def additive_def)
  moreover have "\<not> contains (''no such table: '' @ ''credentials'') ''duplicate column name''" by code_simp
  ultimately show ?thesis
    using m stmts exec_all_run [OF stmts] add_columns_run [of "''credentials''" migrate_columns f1 x f']
    by (auto simp: migrate_def split: sum.splits intro: catalog_grows_trans)
qed

lemma find_table_in: "find_table n c = Some t \<Longrightarrow> t \<in> set (ct_tables c) \<and> same_name (tb_name t) n"
  by (auto simp: find_table_def find_Some_iff)

lemma grows_readings:
  assumes "catalog_grows c c'" "\<forall>t \<in> set (ct_tables c). wf_table t" "find_table n c = Some t"
  shows "\<exists>t'. find_table n c' = Some t' \<and> readings t' = readings t"
  using find_table_grows [OF assms(1,3)] assms(2) find_table_in [OF assms(3)] by (auto simp: table_grows_def)

lemma rows_in_readings: "rows_in c n cols = (case find_table n c of None \<Rightarrow> [] | Some t \<Rightarrow> map (\<lambda>f. map f cols) (readings t))"
  by (simp add: rows_in_def readings_def comp_def split: option.split)

subsection \<open>Where tables and indexes come from\<close>

definition created :: "ddl set \<Rightarrow> catalog \<Rightarrow> catalog \<Rightarrow> bool" where
  "created S c c' \<longleftrightarrow>
     (\<forall>n t. find_table n c' = Some t \<longrightarrow>
        (\<exists>t0. find_table n c = Some t0 \<and> table_grows t0 t) \<or>
        (find_table n c = None \<and> (\<exists>d. Create_Table d \<in> S \<and> same_name (tb_name d) n \<and> table_grows (new_table d) t))) \<and>
     (\<forall>i \<in> set (ct_indexes c'). i \<in> set (ct_indexes c) \<or> Create_Index i \<in> S)"

lemma created_refl: "created S c c"
  by (auto simp: created_def table_grows_refl)

lemma created_trans:
  assumes "created S c d" "created S d e" "catalog_grows c d"
  shows "created S c e"
  unfolding created_def
proof (intro conjI allI impI ballI)
  fix n t assume t: "find_table n e = Some t"
  from assms(2) t consider u where "find_table n d = Some u" "table_grows u t"
    | a where "find_table n d = None" "Create_Table a \<in> S" "same_name (tb_name a) n" "table_grows (new_table a) t"
    unfolding created_def by blast
  then show "(\<exists>t0. find_table n c = Some t0 \<and> table_grows t0 t) \<or>
      (find_table n c = None \<and> (\<exists>d. Create_Table d \<in> S \<and> same_name (tb_name d) n \<and> table_grows (new_table d) t))"
  proof cases
    case 1
    from assms(1) 1(1) show ?thesis unfolding created_def using 1(2) by (meson table_grows_trans)
  next
    case 2
    have "find_table n c = None" using 2(1) by (cases "find_table n c") (auto dest: find_table_grows [OF assms(3)])
    with 2 show ?thesis by blast
  qed
next
  fix i assume "i \<in> set (ct_indexes e)"
  then show "i \<in> set (ct_indexes c) \<or> Create_Index i \<in> S" using assms unfolding created_def by blast
qed

lemma apply_ddl_created: "apply_ddl stm c = Inr d \<Longrightarrow> additive stm \<Longrightarrow> stm \<in> S \<Longrightarrow> created S c d"
proof -
  assume a: "apply_ddl stm c = Inr d" "additive stm" "stm \<in> S"
  have snoc: "created S c (c\<lparr>ct_tables := ct_tables c @ [new_table t]\<rparr>)" if "Create_Table t \<in> S" for t
    using that by (auto simp: created_def find_table_snoc table_grows_refl split: option.splits if_splits)
  have col: "created S c (c\<lparr>ct_tables := alter_table n (with_column k) (ct_tables c)\<rparr>)"
    if "find_table n c = Some t" "\<not> has_column (co_name k) t" "co_constraints k = []" for n k t
  proof -
    have "table_grows u (with_column k u)" if "find_table m c = Some u" "same_name m n" for m u
    proof -
      have "find_table m c = find_table n c" using that(2) by (simp add: find_table_def same_name_def)
      then show ?thesis using that(1) \<open>find_table n c = Some t\<close> \<open>\<not> has_column (co_name k) t\<close> \<open>co_constraints k = []\<close>
        by (simp add: with_column_grows)
    qed
    then show ?thesis by (auto simp: created_def find_table_columns table_grows_refl)
  qed
  show ?thesis using a snoc col
    by (cases stm) (auto simp: apply_ddl_def create_table_def create_index_def add_column_def additive_def created_refl
        split: if_splits option.splits, auto simp: created_def table_grows_refl)
qed

lemma exec_ddl_created: "exec_ddl stm f = (x, f') \<Longrightarrow> additive stm \<Longrightarrow> stm \<in> S \<Longrightarrow> created S (df_catalog f) (df_catalog f')"
  by (auto simp: exec_ddl_def created_refl split: list.splits bool.splits sum.splits intro: apply_ddl_created)

lemma exec_all_created:
  "exec_all ss f = (x, f') \<Longrightarrow> set ss \<subseteq> S \<Longrightarrow> \<forall>s \<in> S. additive s \<Longrightarrow> created S (df_catalog f) (df_catalog f')"
proof (induction ss arbitrary: f)
  case (Cons s ss)
  obtain y f1 where y: "exec_ddl s f = (y, f1)" by (cases "exec_ddl s f")
  have s: "additive s" "s \<in> S" using Cons.prems by auto
  note one = exec_ddl_created [OF y s] exec_ddl_run [OF y s(1), THEN conjunct1]
  show ?case
  proof (cases y)
    case (Inl m)
    with Cons.prems y one show ?thesis by auto
  next
    case (Inr u)
    with Cons.prems y have "exec_all ss f1 = (x, f')" by simp
    from created_trans [OF one(1) Cons.IH [OF this] one(2)] Cons.prems show ?thesis by simp
  qed
qed (auto simp: created_refl)

lemma add_columns_created:
  "add_columns n cols f = (x, f') \<Longrightarrow> \<forall>col \<in> set cols. co_constraints col = [] \<Longrightarrow> Add_Column n ` set cols \<subseteq> S \<Longrightarrow>
     created S (df_catalog f) (df_catalog f')"
proof (induction cols arbitrary: f)
  case (Cons col cols)
  obtain y f1 where y: "exec_ddl (Add_Column n col) f = (y, f1)" by (cases "exec_ddl (Add_Column n col) f")
  have s: "additive (Add_Column n col)" "Add_Column n col \<in> S" using Cons.prems by (auto simp: additive_def)
  note one = exec_ddl_created [OF y s] exec_ddl_run [OF y s(1), THEN conjunct1]
  have "add_columns n cols f1 = (x, f') \<or> f' = f1"
    using Cons.prems(1) y by (auto simp: add_column_if_not_exists_def split: sum.splits if_splits)
  then show ?case
    using created_trans [OF one(1) Cons.IH one(2)] one(1) Cons.prems by auto
qed (auto simp: created_refl)

definition migrate_set :: "ddl set" where
  "migrate_set = set migrate_stmts \<union> Add_Column ''credentials'' ` set migrate_columns"

lemma migrate_created:
  assumes "migrate f = (x, f')"
  shows "created migrate_set (df_catalog f) (df_catalog f')"
proof -
  obtain y f1 where stmts: "exec_all migrate_stmts f = (y, f1)" by (cases "exec_all migrate_stmts f")
  have add: "\<forall>s \<in> migrate_set. additive s" "\<forall>col \<in> set migrate_columns. co_constraints col = []"
    by (auto simp: migrate_set_def migrate_stmts_def migrate_columns_def additive_def)
  have one: "created migrate_set (df_catalog f) (df_catalog f1)"
    by (rule exec_all_created [OF stmts _ add(1)]) (simp add: migrate_set_def)
  have grows: "catalog_grows (df_catalog f) (df_catalog f1)"
    using exec_all_run [OF stmts] add(1) by (simp add: migrate_set_def)
  show ?thesis
  proof (cases y)
    case (Inl e)
    then show ?thesis using assms stmts one by (auto simp: migrate_def)
  next
    case (Inr u)
    then have "add_columns ''credentials'' migrate_columns f1 = (x, f')" using assms stmts by (simp add: migrate_def)
    from add_columns_created [OF this add(2)] have "created migrate_set (df_catalog f1) (df_catalog f')"
      by (simp add: migrate_set_def)
    from created_trans [OF one this grows] show ?thesis .
  qed
qed

subsection \<open>Reaching the current schema\<close>

text \<open>An added column without constraints leaves a table's needs met.\<close>

definition need_ok :: "string list \<Rightarrow> table_need \<Rightarrow> bool" where
  "need_ok missing n \<longleftrightarrow> set missing \<inter> set (nd_key n # nd_values n) = {} \<and> fst ` set (nd_checks n) \<subseteq> set (nd_values n) \<and>
     set_option (nd_parent n) \<subseteq> set (nd_values n)"

lemma meets_grows:
  assumes "meets_but m n t" "table_grows t t'" "wf_table t" "need_ok m n"
  shows "meets_but m n t'"
proof -
  obtain cs where cs: "tb_columns t' = tb_columns t @ cs" "\<forall>col \<in> set cs. co_constraints col = []"
    and wf: "wf_table t'" and u: "tb_unique t' = tb_unique t"
    using assms(2,3) by (auto simp: table_grows_def)
  have fresh: "\<not> same_name (co_name col) c" if "col \<in> set cs" "c \<in> set (nd_key n # nd_values n)" for col c
  proof
    assume *: "same_name (co_name col) c"
    have "c \<notin> set m" using assms(4) that(2) unfolding need_ok_def by blast
    then have "has_column c t" using assms(1) that(2) by (auto simp: meets_but_def)
    then obtain k where k: "k \<in> set (tb_columns t)" "same_name (co_name k) c" by (auto simp: has_column_def)
    from k(2) * have "to_lower (co_name col) = (to_lower \<circ> co_name) k" by (simp add: same_name_def)
    with k(1) have "to_lower (co_name col) \<in> set (map (to_lower \<circ> co_name) (tb_columns t))"
      by (simp only: set_map imageI)
    moreover have "to_lower (co_name col) \<in> set (map (to_lower \<circ> co_name) cs)" using that(1) by simp
    moreover have "distinct (map (to_lower \<circ> co_name) (tb_columns t) @ map (to_lower \<circ> co_name) cs)"
      using wf cs(1) by (simp add: wf_table_def)
    ultimately show False unfolding distinct_append by blast
  qed
  have "column_meets n col" if "col \<in> set cs" for col
  proof -
    have e: "co_constraints col = []" using cs(2) that by blast
    have "\<not> same_name (co_name col) c" if "(c, vs) \<in> set (nd_checks n)" for c vs
      using fresh [OF \<open>col \<in> set cs\<close>, of c] assms(4) imageI [OF that, of fst] by (auto simp: need_ok_def)
    then have "filter (\<lambda>(c, vs). same_name (co_name col) c) (nd_checks n) = []"
      by (auto simp: filter_empty_conv)
    moreover have "\<not> same_name (co_name col) c" if "nd_parent n = Some c" for c
      using fresh [OF \<open>col \<in> set cs\<close>] assms(4) that by (simp add: need_ok_def)
    ultimately show ?thesis using fresh [OF that] e
      by (simp add: column_meets_def checks_of_def parents_of_def split: option.split)
  qed
  then show ?thesis using assms(1,2) cs(1) u by (auto simp: meets_but_def dest: has_column_grows)
qed

lemma store_needs_ok:
  assumes "n \<in> set store_needs"
  shows "need_ok (revocation_columns (nd_table n)) n"
  using assms by (auto simp: store_needs_def need_ok_def revocation_columns_def)

text \<open>The tables as \<^verbatim>\<open>migrate\<close> creates them meet the needs, and it creates every one.\<close>

lemma created_tables_meet:
  assumes "n \<in> set store_needs" "Create_Table d \<in> set migrate_stmts" "same_name (tb_name d) (nd_table n)"
  shows "meets_but (revocation_columns (nd_table n)) n d \<and> wf_table (new_table d)"
proof -
  have "list_all (\<lambda>n. list_all (\<lambda>s. case s of Create_Table d \<Rightarrow> same_name (tb_name d) (nd_table n) \<longrightarrow>
    meets_but (revocation_columns (nd_table n)) n d \<and> wf_table (new_table d) | _ \<Rightarrow> True) migrate_stmts) store_needs"
    by code_simp
  then have "list_all (\<lambda>s. case s of Create_Table d \<Rightarrow> same_name (tb_name d) (nd_table n) \<longrightarrow>
    meets_but (revocation_columns (nd_table n)) n d \<and> wf_table (new_table d) | _ \<Rightarrow> True) migrate_stmts"
    unfolding list_all_iff using assms(1) by (rule bspec)
  then have "case Create_Table d of Create_Table d \<Rightarrow> same_name (tb_name d) (nd_table n) \<longrightarrow>
    meets_but (revocation_columns (nd_table n)) n d \<and> wf_table (new_table d) | _ \<Rightarrow> True"
    unfolding list_all_iff using assms(2) by (rule bspec)
  with assms(3) show ?thesis by simp
qed

lemma tables_created:
  assumes "n \<in> set store_needs"
  shows "\<exists>d. Create_Table d \<in> set migrate_stmts \<and> tb_name d = nd_table n"
proof -
  have "list_all (\<lambda>n. list_ex (\<lambda>s. case s of Create_Table d \<Rightarrow> tb_name d = nd_table n | _ \<Rightarrow> False) migrate_stmts) store_needs"
    by code_simp
  then have "list_ex (\<lambda>s. case s of Create_Table d \<Rightarrow> tb_name d = nd_table n | _ \<Rightarrow> False) migrate_stmts"
    unfolding list_all_iff using assms by (rule bspec)
  then obtain s where "s \<in> set migrate_stmts" "case s of Create_Table d \<Rightarrow> tb_name d = nd_table n | _ \<Rightarrow> False"
    unfolding list_ex_iff by blast
  then show ?thesis by (auto split: ddl.splits)
qed

lemma unique_index_created:
  assumes "Create_Index i \<in> migrate_set" "ix_unique i \<or> same_name (ix_name i) ''idx_grants_active''"
  shows "i = grants_index"
proof -
  have "\<not> ix_unique sessions_index" "\<not> same_name (ix_name sessions_index) ''idx_grants_active''"
    "active_grants_index = grants_index" by code_simp+
  with assms show ?thesis by (auto simp: migrate_set_def migrate_stmts_def)
qed

lemma meets_new: "meets_but m n d \<Longrightarrow> meets_but m n (new_table d)"
  by (simp add: meets_but_def new_table_def has_column_def)

lemma migrated_schema:
  assumes "older_version (df_catalog f)" "migrate f = (Inr (), f')"
  shows "schema_current (df_catalog f')"
proof -
  let ?c = "df_catalog f" and ?d = "df_catalog f'"
  have settled: "settled s ?d" if "s \<in> migrate_set" for s
    using migrate_run [OF assms(2)] that by (auto simp: migrate_set_def)
  note made = migrate_created [OF assms(2), unfolded created_def]
  note old = made [THEN conjunct1, rule_format] and index = made [THEN conjunct2, rule_format]
  have tables: "\<exists>t. find_table (nd_table n) ?d = Some t \<and> meets n t" if n: "n \<in> set store_needs" for n
  proof -
    let ?m = "revocation_columns (nd_table n)"
    obtain d where "Create_Table d \<in> set migrate_stmts" "tb_name d = nd_table n" using tables_created [OF n] by blast
    then have "find_table (nd_table n) ?d \<noteq> None" using settled [of "Create_Table d"] by (simp add: migrate_set_def settled_def)
    then obtain t where t: "find_table (nd_table n) ?d = Some t" by blast
    have "meets_but ?m n t"
    proof (cases "find_table (nd_table n) ?c")
      case (Some t0)
      with old [OF t] have "table_grows t0 t" by simp
      moreover have "wf_table t0" "meets_but ?m n t0"
        using assms(1) Some n find_table_in [OF Some] by (auto simp: older_version_def)
      ultimately show ?thesis using meets_grows store_needs_ok [OF n] by blast
    next
      case None
      with old [OF t] obtain a where a: "Create_Table a \<in> migrate_set" "same_name (tb_name a) (nd_table n)"
        "table_grows (new_table a) t" by auto
      then have "Create_Table a \<in> set migrate_stmts" by (auto simp: migrate_set_def)
      from created_tables_meet [OF n this a(2)] have "meets_but ?m n (new_table a)" "wf_table (new_table a)"
        by (simp_all add: meets_new)
      with a(3) show ?thesis using meets_grows store_needs_ok [OF n] by blast
    qed
    moreover have "has_column c t" if "c \<in> set ?m" for c
    proof -
      have "nd_table n = ''credentials''" "\<exists>col \<in> set migrate_columns. co_name col = c"
        using that by (auto simp: revocation_columns_def migrate_columns_def split: if_splits)
      then show ?thesis using settled [of "Add_Column ''credentials'' col" for col] t
        by (fastforce simp: migrate_set_def settled_def)
    qed
    ultimately show ?thesis using t by (auto simp: meets_but_def)
  qed
  have idx: "i = grants_index" if "i \<in> set (ct_indexes ?d)" "ix_unique i \<or> same_name (ix_name i) ''idx_grants_active''" for i
    using index [OF that(1)] that(2) assms(1) unique_index_created [OF _ that(2)] by (auto simp: older_version_def)
  have "Create_Index active_grants_index \<in> migrate_set" "ix_name active_grants_index = ''idx_grants_active''"
    by (simp_all add: migrate_set_def migrate_stmts_def active_grants_index_def)
  with settled have "has_index ''idx_grants_active'' ?d" by (fastforce simp: settled_def)
  with idx have "grants_index \<in> set (ct_indexes ?d)" by (auto simp: has_index_def)
  moreover have "ct_foreign_keys ?d"
    using settled [of Pragma_Foreign_Keys] by (simp add: migrate_set_def migrate_stmts_def settled_def)
  ultimately show ?thesis using tables idx unfolding schema_current_def by blast
qed

subsection \<open>Getting through\<close>

text \<open>
  What lets a list of statements get through: no name is taken by the other kind of object, the columns of an index are in
  its table, the rows do not violate it, and the table of an index is created before it.
\<close>

definition fits :: "ddl set \<Rightarrow> catalog \<Rightarrow> bool" where
  "fits S c \<longleftrightarrow> (\<forall>d. Create_Table d \<in> S \<longrightarrow> \<not> has_index (tb_name d) c) \<and>
     (\<forall>i. Create_Index i \<in> S \<longrightarrow> find_table (ix_name i) c = None \<and>
        (\<forall>t. find_table (ix_table i) c = Some t \<longrightarrow>
           (\<forall>n \<in> set (index_columns i). has_column n t) \<and> (has_index (ix_name i) c \<or> \<not> index_violated i t)))"

definition compatible :: "ddl set \<Rightarrow> bool" where
  "compatible S \<longleftrightarrow> (\<forall>d i. Create_Table d \<in> S \<longrightarrow> Create_Index i \<in> S \<longrightarrow> \<not> same_name (tb_name d) (ix_name i) \<and>
     (same_name (tb_name d) (ix_table i) \<longrightarrow> (\<forall>n \<in> set (index_columns i). has_column n d)))"

fun in_order :: "ddl list \<Rightarrow> string list \<Rightarrow> bool" where
  "in_order [] names = True"
| "in_order (Pragma_Foreign_Keys # ss) names = in_order ss names"
| "in_order (Create_Table d # ss) names = in_order ss (tb_name d # names)"
| "in_order (Create_Index i # ss) names = (ix_table i \<in> set names \<and> in_order ss names)"
| "in_order (s # ss) names = False"

lemma same_name_sym: "same_name a b \<longleftrightarrow> same_name b a"
  by (auto simp: same_name_def)

lemma create_table_fits:
  assumes "fits S c" "compatible S" "Create_Table d \<in> S"
  shows "\<exists>c'. apply_ddl (Create_Table d) c = Inr c' \<and> fits S c' \<and> find_table (tb_name d) c' \<noteq> None \<and>
    (\<forall>n. find_table n c \<noteq> None \<longrightarrow> find_table n c' \<noteq> None)"
proof (cases "find_table (tb_name d) c")
  case (Some t)
  then show ?thesis using assms(1) by (simp add: apply_ddl_def create_table_def)
next
  case None
  let ?c = "c\<lparr>ct_tables := ct_tables c @ [new_table d]\<rparr>"
  have idx: "has_index n ?c = has_index n c" for n by (simp add: has_index_def)
  have new: "\<not> index_violated i (new_table d)" for i
    by (simp add: index_violated_def index_keys_def new_table_def)
  have cols: "has_column n (new_table d) = has_column n d" for n by (simp add: has_column_def new_table_def)
  have find: "find_table n ?c = (case find_table n c of Some u \<Rightarrow> Some u | None \<Rightarrow>
      if same_name (tb_name d) n then Some (new_table d) else None)" for n
    by (simp add: find_table_snoc)
  have i: "\<not> same_name (tb_name d) (ix_name i)" "same_name (tb_name d) (ix_table i) \<Longrightarrow> \<forall>n \<in> set (index_columns i). has_column n d"
    if "Create_Index i \<in> S" for i
    using assms(2,3) that unfolding compatible_def by blast+
  have "fits S ?c" unfolding fits_def
  proof (intro conjI allI impI)
    fix a assume "Create_Table a \<in> S"
    then show "\<not> has_index (tb_name a) ?c" using assms(1) unfolding fits_def idx by blast
  next
    fix j assume "Create_Index j \<in> S"
    then show "find_table (ix_name j) ?c = None" using assms(1) i(1) [of j] by (simp add: find fits_def)
  next
    fix j t assume j: "Create_Index j \<in> S" and "find_table (ix_table j) ?c = Some t"
    then consider "find_table (ix_table j) c = Some t" | "same_name (tb_name d) (ix_table j)" "t = new_table d"
      by (auto simp: find split: option.splits if_splits)
    then have "(\<forall>n \<in> set (index_columns j). has_column n t) \<and> (has_index (ix_name j) c \<or> \<not> index_violated j t)"
    proof cases
      case 1
      then show ?thesis using assms(1) j unfolding fits_def by blast
    next
      case 2
      then show ?thesis using i(2) [OF j] by (simp add: cols new)
    qed
    then show "\<forall>n \<in> set (index_columns j). has_column n t" "has_index (ix_name j) ?c \<or> \<not> index_violated j t"
      unfolding idx by blast+
  qed
  moreover have "\<not> has_index (tb_name d) c" using assms(1,3) by (simp add: fits_def)
  ultimately show ?thesis using None by (auto simp: apply_ddl_def create_table_def find split: option.split)
qed

lemma create_index_fits:
  assumes "fits S c" "compatible S" "Create_Index i \<in> S" "find_table (ix_table i) c \<noteq> None"
  shows "\<exists>c'. apply_ddl (Create_Index i) c = Inr c' \<and> fits S c' \<and> (\<forall>n. find_table n c' = find_table n c)"
proof (cases "has_index (ix_name i) c")
  case True
  then show ?thesis using assms(1,3,4) by (auto simp: apply_ddl_def create_index_def fits_def)
next
  case False
  let ?c = "c\<lparr>ct_indexes := ct_indexes c @ [i]\<rparr>"
  obtain t where t: "find_table (ix_table i) c = Some t" using assms(4) by blast
  with assms(1,3) False have "apply_ddl (Create_Index i) c = Inr ?c"
    by (auto simp: apply_ddl_def create_index_def fits_def)
  moreover have "fits S ?c"
    using assms(1-3) unfolding fits_def compatible_def by (auto simp: has_index_def same_name_sym)
  ultimately show ?thesis by (intro exI [of _ ?c]) simp
qed

lemma exec_all_succeeds:
  "df_faults f = [] \<Longrightarrow> fits S (df_catalog f) \<Longrightarrow> compatible S \<Longrightarrow> set ss \<subseteq> S \<Longrightarrow> in_order ss names \<Longrightarrow>
   \<forall>n \<in> set names. find_table n (df_catalog f) \<noteq> None \<Longrightarrow> \<exists>f'. exec_all ss f = (Inr (), f') \<and> df_faults f' = []"
proof (induction ss names arbitrary: f rule: in_order.induct)
  case (2 ss names)
  have "fits S ((df_catalog f)\<lparr>ct_foreign_keys := True\<rparr>)" using 2 by (auto simp: fits_def has_index_def)
  with 2 show ?case by (auto simp: exec_ddl_def apply_ddl_def)
next
  case (3 d ss names)
  obtain c where c: "apply_ddl (Create_Table d) (df_catalog f) = Inr c" "fits S c" "find_table (tb_name d) c \<noteq> None"
    "\<forall>n. find_table n (df_catalog f) \<noteq> None \<longrightarrow> find_table n c \<noteq> None"
    using create_table_fits [of S "df_catalog f" d] 3 by auto
  have "exec_all (Create_Table d # ss) f = exec_all ss (f\<lparr>df_catalog := c, df_faults := []\<rparr>)"
    using c(1) "3.prems"(1) by (simp add: exec_ddl_def)
  with 3 c show ?case by simp
next
  case (4 i ss names)
  then have "find_table (ix_table i) (df_catalog f) \<noteq> None" by simp
  with 4 obtain c where c: "apply_ddl (Create_Index i) (df_catalog f) = Inr c" "fits S c"
    "\<forall>n. find_table n c = find_table n (df_catalog f)"
    using create_index_fits [of S "df_catalog f" i] by auto
  have "exec_all (Create_Index i # ss) f = exec_all ss (f\<lparr>df_catalog := c, df_faults := []\<rparr>)"
    using c(1) "4.prems"(1) by (simp add: exec_ddl_def)
  with 4 c show ?case by simp
qed auto

lemma add_columns_succeed:
  "df_faults f = [] \<Longrightarrow> find_table n (df_catalog f) \<noteq> None \<Longrightarrow> \<exists>f'. add_columns n cols f = (Inr (), f')"
proof (induction cols arbitrary: f)
  case (Cons col cols)
  then obtain t where t: "find_table n (df_catalog f) = Some t" by blast
  have dup: "contains (''duplicate column name: '' @ m) ''duplicate column name''" for m
    by (simp add: contains_def sublist_def) (metis append_Nil append_Cons append_assoc)
  obtain f1 where "add_column_if_not_exists n col f = (Inr (), f1)" "df_faults f1 = []" "find_table n (df_catalog f1) \<noteq> None"
    using Cons.prems(1) t dup
    by (cases "has_column (co_name col) t")
      (auto simp: add_column_if_not_exists_def exec_ddl_def apply_ddl_def add_column_def find_table_columns)
  with Cons.IH [of f1] show ?case by simp
qed simp

lemma created_needed:
  assumes "Create_Table d \<in> set migrate_stmts"
  shows "\<exists>n \<in> set store_needs. nd_table n = tb_name d"
proof -
  have "list_all (\<lambda>s. case s of Create_Table d \<Rightarrow> list_ex (\<lambda>n. nd_table n = tb_name d) store_needs | _ \<Rightarrow> True) migrate_stmts"
    by code_simp
  then have "case Create_Table d of Create_Table d \<Rightarrow> list_ex (\<lambda>n. nd_table n = tb_name d) store_needs | _ \<Rightarrow> True"
    unfolding list_all_iff using assms by (rule bspec)
  then show ?thesis by (simp add: list_ex_iff)
qed

lemma index_needed:
  assumes "i = active_grants_index \<or> i = sessions_index"
  shows "\<exists>n \<in> set store_needs. nd_table n = ix_table i \<and> revocation_columns (nd_table n) = [] \<and>
    set (index_columns i) \<subseteq> set (nd_values n @ nd_nulls n)"
proof -
  have "list_all (\<lambda>i. list_ex (\<lambda>n. nd_table n = ix_table i \<and> revocation_columns (nd_table n) = [] \<and>
      set (index_columns i) \<subseteq> set (nd_values n @ nd_nulls n)) store_needs) [active_grants_index, sessions_index]"
    by code_simp
  with assms show ?thesis by (auto simp: list_ex_iff)
qed

lemma migrate_succeeds:
  assumes "older_version (df_catalog f)" "df_faults f = []"
  shows "fst (migrate f) = Inr ()"
proof -
  let ?S = "set migrate_stmts"
  have "list_all (\<lambda>s. list_all (\<lambda>r. case s of Create_Table d \<Rightarrow> (case r of Create_Index i \<Rightarrow>
      \<not> same_name (tb_name d) (ix_name i) \<and>
      (same_name (tb_name d) (ix_table i) \<longrightarrow> (\<forall>n \<in> set (index_columns i). has_column n d)) | _ \<Rightarrow> True) | _ \<Rightarrow> True)
      migrate_stmts) migrate_stmts" by code_simp
  then have "compatible ?S" unfolding compatible_def list_all_iff by fastforce
  moreover have "fits ?S (df_catalog f)" unfolding fits_def
  proof (intro conjI allI impI)
    fix d assume "Create_Table d \<in> ?S"
    then have "\<exists>n \<in> set store_needs. nd_table n = tb_name d" by (rule created_needed)
    then show "\<not> has_index (tb_name d) (df_catalog f)" using assms(1) by (auto simp: older_version_def)
  next
    fix i assume "Create_Index i \<in> ?S"
    then have i: "i = active_grants_index \<or> i = sessions_index" by (auto simp: migrate_stmts_def)
    then show "find_table (ix_name i) (df_catalog f) = None"
      using assms(1) by (auto simp: older_version_def active_grants_index_def sessions_index_def)
  next
    fix i t assume "Create_Index i \<in> ?S" and t: "find_table (ix_table i) (df_catalog f) = Some t"
    then have i: "i = active_grants_index \<or> i = sessions_index" by (auto simp: migrate_stmts_def)
    from index_needed [OF this] obtain n where n: "n \<in> set store_needs" "nd_table n = ix_table i"
      "revocation_columns (nd_table n) = []" "set (index_columns i) \<subseteq> set (nd_values n @ nd_nulls n)" by blast
    then have "meets n t" using assms(1) t by (auto simp: older_version_def)
    then have columns: "\<forall>n \<in> set (index_columns i). has_column n t" using n(4) by (auto simp: meets_but_def)
    have ok: "\<not> index_violated i t"
    proof (cases "i = active_grants_index")
      case True
      moreover have "active_grants_index = grants_index" "ix_table active_grants_index = ''grants''" by code_simp+
      ultimately show ?thesis using assms(1) t by (auto simp: older_version_def)
    next
      case False
      with i show ?thesis by (simp add: sessions_index_def index_violated_def)
    qed
    show "\<forall>n \<in> set (index_columns i). has_column n t" by (rule columns)
    show "has_index (ix_name i) (df_catalog f) \<or> \<not> index_violated i t" using ok by simp
  qed
  moreover have "in_order migrate_stmts []" by code_simp
  ultimately obtain f1 where f1: "exec_all migrate_stmts f = (Inr (), f1)" "df_faults f1 = []"
    using exec_all_succeeds [of f ?S migrate_stmts "[]"] assms(2) by auto
  have "\<forall>s \<in> set migrate_stmts. additive s" by (simp add: migrate_stmts_def additive_def)
  then have "settled (Create_Table credentials_table) (df_catalog f1)"
    using exec_all_run [OF f1(1)] by (simp add: migrate_stmts_def)
  then have "find_table ''credentials'' (df_catalog f1) \<noteq> None" by (simp add: settled_def credentials_table_def)
  from add_columns_succeed [OF f1(2) this, of migrate_columns] f1(1) show ?thesis by (auto simp: migrate_def)
qed

subsection \<open>Upgrading a database\<close>

lemma migrate_rows:
  assumes "older_version (df_catalog f)" "migrate f = (x, f')"
  shows "rows_in (df_catalog f') n cols = rows_in (df_catalog f) n cols"
proof (cases "find_table n (df_catalog f)")
  case (Some t)
  then show ?thesis
    using grows_readings [OF migrate_grows [OF assms(2)] _ Some] assms(1) by (auto simp: rows_in_readings older_version_def)
next
  case None
  have "readings t = []" if t: "find_table n (df_catalog f') = Some t" for t
  proof -
    obtain d where d: "Create_Table d \<in> migrate_set" "table_grows (new_table d) t"
      using migrate_created [OF assms(2)] t None unfolding created_def by fastforce
    have "list_all (\<lambda>s. case s of Create_Table d \<Rightarrow> wf_table (new_table d) | _ \<Rightarrow> True) migrate_stmts" by code_simp
    then have "wf_table (new_table d)" using d(1) unfolding list_all_iff migrate_set_def by fastforce
    with d(2) have "readings t = readings (new_table d)" by (simp add: table_grows_def)
    then show ?thesis by (simp add: readings_def new_table_def)
  qed
  then show ?thesis using None by (auto simp: rows_in_readings split: option.split)
qed

text \<open>C37: A start brings the database file of any older version, or a new one, to the current schema without losing a row.
  When every call of the driver goes through, the migration succeeds. Once it succeeded, each table the store uses exists
  with every column its statements name, the primary key, NOT NULL, CHECK, UNIQUE and cascading foreign-key constraints
  they count on and no others, foreign keys are enforced, and the index that allows one active grant of a scope is the only
  unique index; a later start changes nothing. Successful or not, every row of every table reads in every column as it did
  before, so that the file still holds the principals, credentials, keys, grants, invites, clients, codes and sessions it
  held.\<close>

theorem migrate_upgrades:
  assumes "older_version (df_catalog f)" "migrate f = (x, f')"
  shows "(df_faults f = [] \<longrightarrow> x = Inr ()) \<and>
    (x = Inr () \<longrightarrow> schema_current (df_catalog f') \<and> migrate (f'\<lparr>df_faults := []\<rparr>) = (Inr (), f'\<lparr>df_faults := []\<rparr>)) \<and>
    (\<forall>n cols. rows_in (df_catalog f') n cols = rows_in (df_catalog f) n cols) \<and>
    (\<forall>db. file_holds (df_catalog f) db \<longrightarrow> file_holds (df_catalog f') db)"
  using migrate_succeeds [OF assms(1)] migrated_schema [OF assms(1)] migrate_again migrate_rows [OF assms] assms(2)
  by (auto simp: file_holds_def)

theorem migrate_upgrades_witness:
  "fst (migrate old_file) = Inr () \<and> schema_current (df_catalog (snd (migrate old_file))) \<and>
   \<not> has_column ''revoked_at'' credentials_table \<and>
   rows_in (df_catalog (snd (migrate old_file))) ''credentials'' [''id'', ''revoked_at''] = [[Some ''c1'', None]]"
proof -
  have old: "older_version (df_catalog old_file)" "df_faults old_file = []" by code_simp+
  have "rows_in (df_catalog old_file) ''credentials'' [''id'', ''revoked_at''] = [[Some ''c1'', None]]"
    "\<not> has_column ''revoked_at'' credentials_table" by code_simp+
  with migrate_upgrades [OF old(1) prod.collapse [symmetric]] old(2) show ?thesis by simp
qed

end
