(* ===== verification/JsonFuel.thy ===== *)
theory JsonFuel
  imports Json
begin

text \<open>
  The fuel of the JSON reader is enough: whatever value some fuel reads at the front of a text, the length of the text reads as well.
\<close>

lemma skip_space_length: "length (skip_space s) \<le> length s"
  by (simp add: skip_space_def length_dropWhile_le)

lemma skip_space_ConsD: "skip_space s = c # t \<Longrightarrow> length t < length s"
  using skip_space_length [of s] by simp

lemma json_chars_shorter: "json_chars s = Some (v, r) \<Longrightarrow> length r < length s"
proof (induction "length s" arbitrary: s v r rule: less_induct)
  case less
  have step: "length r < length t" if "json_chars t = Some (v, r)" "length t < length s" for t v
    using less.hyps that by blast
  show ?case
  proof (cases s)
    case (Cons c s')
    show ?thesis
    proof (cases "c = CHR 0x5C")
      case False
      have "length (drop m s') < length s" for m using Cons by simp
      with False show ?thesis using less.prems Cons by (auto split: if_splits nat.splits dest!: step)
    next
      case True
      then obtain e t where t: "s' = e # t" using less.prems Cons by (auto split: list.splits)
      show ?thesis
      proof (cases "simple_escape e")
        case (Some x)
        then show ?thesis using less.prems Cons True t by (auto dest!: step)
      next
        case None
        then obtain a b c1 d t' where t': "t = a # b # c1 # d # t'" using less.prems Cons True t by (auto split: list.splits)
        show ?thesis
          using less.prems Cons True t t' None
          by (auto split: option.splits if_splits dest!: step low_surrogate_shorter simp del: json_chars.simps(1))
      qed
    qed
  qed (use less.prems in simp)
qed

lemma json_digits_length: "length (snd (json_digits s)) \<le> length s"
  by (simp add: json_digits_def length_dropWhile_le)

lemma json_fraction_length: "length (snd (json_fraction s)) \<le> length s"
  using json_digits_length by (auto simp: json_fraction_def le_SucI split: list.split)

lemma json_exponent_length: "length (snd (json_exponent s)) \<le> length s"
proof -
  have "length (snd (json_digits q)) \<le> Suc n" if "length q \<le> n" for q n using json_digits_length [of q] that by simp
  moreover have "length (snd (json_digits (d # q))) \<le> Suc (Suc (length q))" for d q using json_digits_length [of "d # q"] by simp
  ultimately show ?thesis by (auto simp: json_exponent_def le_SucI split: list.split)
qed

lemma json_digits_shorter: "json_digits s = (ds, r) \<Longrightarrow> ds \<noteq> [] \<Longrightarrow> length r < length s"
  by (cases s) (auto simp: json_digits_def split: if_splits intro: le_imp_less_Suc length_dropWhile_le)

lemma json_unsigned_shorter: "json_unsigned sign s = Some (j, r) \<Longrightarrow> length r < length s"
proof -
  assume "json_unsigned sign s = Some (j, r)"
  then obtain ds q where q: "json_digits s = (ds, q)" "ds \<noteq> []" and r: "r = snd (json_exponent (snd (json_fraction q)))"
    by (auto simp: json_unsigned_def split: prod.splits if_splits)
  have "length r \<le> length q"
    using r json_exponent_length [of "snd (json_fraction q)"] json_fraction_length [of q] by simp
  with json_digits_shorter [OF q] show ?thesis by simp
qed

lemma json_number_shorter: "json_number s = Some (j, r) \<Longrightarrow> length r < length s"
  by (cases s) (auto simp: json_number_def split: if_splits dest: json_unsigned_shorter)

lemma strip_word_shorter: "strip_word (c # w) s j = Some (k, r) \<Longrightarrow> length r < length s"
  by (auto simp: strip_word_def prefix_def split: if_splits)

lemma json_fuel:
  "json_value n s = Some (j, r) \<Longrightarrow> length r < length s \<and> (\<forall>m. length s \<le> m + length r \<longrightarrow> json_value m s = Some (j, r))"
  "json_elems n s = Some (js, r) \<Longrightarrow> length r < length s \<and> (\<forall>m. length s \<le> m + length r \<longrightarrow> json_elems m s = Some (js, r))"
  "json_members n s = Some (kvs, r) \<Longrightarrow> length r < length s \<and> (\<forall>m. length s \<le> m + length r \<longrightarrow> json_members m s = Some (kvs, r))"
proof (induction n s and n s and n s arbitrary: j r and js r and kvs r rule: json_value_json_elems_json_members.induct)
  case value_step: (2 n s)
  from value_step(3) obtain c t where c: "skip_space s = c # t" by (auto split: list.splits)
  note lt = skip_space_ConsD [OF c]
  have direct: ?case if "length r < length s" "\<And>k. json_value (Suc k) s = json_value (Suc n) s"
  proof (intro conjI allI impI)
    fix m assume "length s \<le> m + length r"
    with that(1) obtain k where "m = Suc k" by (cases m) auto
    with that(2) value_step(3) show "json_value m s = Some (j, r)" by simp
  qed (rule that(1))
  show ?case
  proof (cases "c = CHR ''['' \<or> c = CHR ''{''")
    case False
    show ?thesis
      by (rule direct) (use value_step(3) c lt False in \<open>auto split: if_splits dest!: strip_word_shorter json_chars_shorter json_number_shorter\<close>)
  next
    case True
    then obtain d u where d: "skip_space t = d # u" using value_step(3) c by (auto split: list.splits)
    note lu = skip_space_ConsD [OF d]
    show ?thesis
    proof (cases "(c = CHR ''['' \<and> d = CHR '']'') \<or> (c = CHR ''{'' \<and> d = CHR ''}'')")
      case True
      show ?thesis by (rule direct) (use value_step(3) c d lt lu True in auto)
    next
      case False
      with True consider "c = CHR ''[''" "d \<noteq> CHR '']''" | "c = CHR ''{''" "d \<noteq> CHR ''}''" by auto
      then show ?thesis
      proof cases
        case 1
        then obtain js where js: "json_elems n t = Some (js, r)" "j = JArr js" using value_step(3) c d by auto
        have IH: "length r < length t \<and> (\<forall>m. length t \<le> m + length r \<longrightarrow> json_elems m t = Some (js, r))"
          by (rule value_step(1) [OF c]) (use 1 d js in auto)
        show ?thesis
        proof (intro conjI allI impI)
          fix m assume m: "length s \<le> m + length r"
          then obtain k where k: "m = Suc k" using IH lt by (cases m) auto
          with m lt have "length t \<le> k + length r" by simp
          with IH have "json_elems k t = Some (js, r)" by blast
          with 1 c d k js(2) show "json_value m s = Some (j, r)" by simp
        qed (use IH lt in simp)
      next
        case 2
        then obtain kvs where kvs: "json_members n t = Some (kvs, r)" "j = JObj kvs" using value_step(3) c d by auto
        have IH: "length r < length t \<and> (\<forall>m. length t \<le> m + length r \<longrightarrow> json_members m t = Some (kvs, r))"
          by (rule value_step(2) [OF c]) (use 2 d kvs in auto)
        show ?thesis
        proof (intro conjI allI impI)
          fix m assume m: "length s \<le> m + length r"
          then obtain k where k: "m = Suc k" using IH lt by (cases m) auto
          with m lt have "length t \<le> k + length r" by simp
          with IH have "json_members k t = Some (kvs, r)" by blast
          with 2 c d k kvs(2) show "json_value m s = Some (j, r)" by simp
        qed (use IH lt in simp)
      qed
    qed
  qed
next
  case elems_step: (4 n s)
  from elems_step(3) obtain j q c t where v: "json_value n s = Some (j, q)" and c: "skip_space q = c # t"
    by (auto split: option.splits list.splits)
  have V: "length q < length s" "\<And>m. length s \<le> m + length q \<Longrightarrow> json_value m s = Some (j, q)"
    using elems_step(1) [OF v] by simp_all
  note lt = skip_space_ConsD [OF c]
  show ?case
  proof (cases "c = CHR '']''")
    case True
    then have res: "js = [j]" "r = t" using elems_step(3) v c by auto
    show ?thesis
    proof (intro conjI allI impI)
      fix m assume m: "length s \<le> m + length r"
      then obtain k where k: "m = Suc k" using V lt res by (cases m) auto
      with m lt res have "json_value k s = Some (j, q)" by (intro V) simp
      with k c True res show "json_elems m s = Some (js, r)" by simp
    qed (use V lt res in simp)
  next
    case False
    with elems_step(3) v c obtain js' where comma: "c = CHR '',''" and js': "json_elems n t = Some (js', r)" "js = j # js'"
      by (auto split: if_splits)
    have E: "length r < length t" "\<And>m. length t \<le> m + length r \<Longrightarrow> json_elems m t = Some (js', r)"
      using elems_step(2) [OF v refl c False comma js'(1)] by simp_all
    show ?thesis
    proof (intro conjI allI impI)
      fix m assume m: "length s \<le> m + length r"
      then obtain k where k: "m = Suc k" using V E lt by (cases m) auto
      have "json_value k s = Some (j, q)" "json_elems k t = Some (js', r)"
        using m k V(1) E(1) lt by (auto intro!: V(2) E(2))
      with k c comma js' show "json_elems m s = Some (js, r)" by simp
    qed (use V E lt in simp)
  qed
next
  case members_step: (6 n s)
  from members_step(3) obtain t where t: "skip_space s = CHR 0x22 # t" by (auto split: list.splits if_splits)
  from members_step(3) t obtain k q where k: "json_chars t = Some (k, q)" by (auto split: option.splits)
  from members_step(3) t k obtain u where u: "skip_space q = CHR '':'' # u" by (auto split: list.splits if_splits)
  from members_step(3) t k u obtain v p e z where v: "json_value n u = Some (v, p)" and e: "skip_space p = e # z"
    by (auto split: option.splits list.splits)
  note lens = skip_space_ConsD [OF t] json_chars_shorter [OF k] skip_space_ConsD [OF u] skip_space_ConsD [OF e]
  have V: "length p < length u" "\<And>m. length u \<le> m + length p \<Longrightarrow> json_value m u = Some (v, p)"
    using members_step(1) [OF t _ k _ u _ v] by auto
  show ?case
  proof (cases "e = CHR ''}''")
    case True
    then have res: "kvs = [(k, v)]" "r = z" using members_step(3) t k u v e by auto
    show ?thesis
    proof (intro conjI allI impI)
      fix m assume m: "length s \<le> m + length r"
      then obtain l where l: "m = Suc l" using V lens res by (cases m) auto
      have "json_value l u = Some (v, p)" using m l V(1) lens res by (intro V(2)) simp
      with l t k u e True res show "json_members m s = Some (kvs, r)" by simp
    qed (use V lens res in simp)
  next
    case False
    with members_step(3) t k u v e obtain kvs' where comma: "e = CHR '',''"
      and kvs': "json_members n z = Some (kvs', r)" "kvs = (k, v) # kvs'"
      by (auto split: if_splits)
    have E: "length r < length z" "\<And>m. length z \<le> m + length r \<Longrightarrow> json_members m z = Some (kvs', r)"
      using members_step(2) [OF t _ k _ u _ v _ e False comma kvs'(1)] by auto
    show ?thesis
    proof (intro conjI allI impI)
      fix m assume m: "length s \<le> m + length r"
      then obtain l where l: "m = Suc l" using V E lens by (cases m) auto
      have "json_value l u = Some (v, p)" "json_members l z = Some (kvs', r)"
        using m l V(1) E(1) lens by (auto intro!: V(2) E(2))
      with l t k u e comma kvs' show "json_members m s = Some (kvs, r)" by simp
    qed (use V E lens in simp)
  qed
qed auto

lemma json_fuel_enough: "json_value n s = Some x \<Longrightarrow> json_value (length s + 1) s = Some x"
  using json_fuel(1) [of n s "fst x" "snd x"] by (simp del: json_value.simps)

end
