(* ===== verification/Spec2Isabelle.thy ===== *)
theory Spec2Isabelle
  imports StartContract KeyContract AccountContract EnrolContract MigrationContract Redirect Ceremony RateLimit WebauthnCred JsonFuel
begin

text \<open>
  \<^bold>\<open>lucos_aithne\<close>, a passkey-based OpenID provider written in Go, and its properties.

  \<^bold>\<open>The program.\<close> A single process serves HTTP from a SQLite file (\<^verbatim>\<open>src/main.go\<close>). People enrol a passkey with an invite
  and log in with it (\<^verbatim>\<open>src/enrolment.go\<close>, \<^verbatim>\<open>src/webauthn.go\<close>); they get a short-lived session token as a cookie, which is
  renewed from a long-lived IdP session (\<^verbatim>\<open>src/remint.go\<close>). Relying parties get ID tokens through authorization codes
  (\<^verbatim>\<open>src/oidc.go\<close>), agents get session tokens for a machine key (\<^verbatim>\<open>src/machine_credentials.go\<close>). Administrators grant scopes,
  issue invites and machine keys, rotate the signing key and revoke sessions through the admin API (\<^verbatim>\<open>src/main.go\<close>). Tokens
  are signed with keys that are encrypted at rest and rotated (\<^verbatim>\<open>src/store/signing_key.go\<close>, \<^verbatim>\<open>src/token/token.go\<close>).

  \<^bold>\<open>The model.\<close> Every Go function that reads or changes something is a function from the \<open>world\<close> (theory \<open>Database\<close>) to a
  result and the world it leaves: the database, the clock with the delay before each reading, the random draws, and one
  flag per call of the database driver that says whether the call fails. An \<^verbatim>\<open>error\<close> is the left side of a sum, with the
  package's sentinel errors as constructors of \<open>err\<close>; a handler gives a response. Go strings and byte slices are
  character lists, \<^verbatim>\<open>int\<close> counters and \<^verbatim>\<open>time.Duration\<close> (nanoseconds) are \<^typ>\<open>int\<close>, the sign count of a passkey is a 32-bit word.

  \<^item> \<open>Prelude\<close>, \<open>GoTime\<close>, \<open>Json\<close>, \<open>JsonFuel\<close>, \<open>Base64\<close>, \<open>GoUrl\<close>, \<open>Http\<close>: what the source uses of Go's standard library (strings, RFC 3339
    instants, encoding/json with its treatment of invalid UTF-8, base64, net/url, net/http), and the collections \<open>row_simps\<close>, \<open>frame_simps\<close> and \<open>wf_intros\<close>.
  \<^item> \<open>Crypto\<close>: SHA-256, AES-GCM and the PKCS8 test as the record \<open>crypto\<close>, with the law of opening what was sealed.
  \<^item> \<open>Database\<close>, \<open>DbSteps\<close>: the tables, statements and constraints of \<^verbatim>\<open>src/store/store.go\<close>; the step relation of the
    atomic writes, the locale \<open>db_invariant\<close> that carries an invariant of the steps through every operation, and its
    interpretations for reachability, the schema's constraints (\<open>wf_db\<close>), used invites and codes, revoked grants and sessions.
  \<^item> \<open>Migration\<close>: \<^verbatim>\<open>Open\<close> and \<^verbatim>\<open>migrate\<close>, over a database file: its tables with their columns, constraints and rows, and its
    indexes.
  \<^item> \<open>StorePrincipals\<close>, \<open>StoreGrants\<close>, \<open>StoreInvites\<close>, \<open>StoreSessions\<close>, \<open>StoreOidc\<close>, \<open>StoreKeys\<close>, \<open>WebauthnCred\<close>: the operations of
    \<^verbatim>\<open>src/store\<close>, one theory per table or file.
  \<^item> \<open>Token\<close>: \<^verbatim>\<open>src/token/token.go\<close>; the JWT library is the record \<open>jose\<close>, its contract the predicates \<open>jose_complete\<close> (what it signed
    it accepts until it expires) and \<open>jose_sound\<close> (what it accepts was signed with a key of the set and holds the claims asked for).
  \<^item> \<open>Sweeping\<close>, \<open>RateLimit\<close>, \<open>Ceremony\<close>: the in-memory tables; the locale \<open>swept_table\<close> states that a background sweep is not
    observable and is interpreted on both.
  \<^item> \<open>Redirect\<close>, \<open>Remint\<close>, \<open>MachineCredentials\<close>, \<open>Oidc\<close>, \<open>Pages\<close>, \<open>Login\<close>, \<open>Enrolment\<close>, \<open>Startup\<close>, \<open>Admin\<close>: the handlers, in the
    files of \<^verbatim>\<open>src\<close> that have their names; the WebAuthn library is the record \<open>webauthn\<close>, the contacts service a field of
    \<open>contacts_client\<close>.
  \<^item> \<open>Server\<close>, \<open>Process\<close>: the route table and the running server with its sweeps as a sequence of activities; \<^verbatim>\<open>main\<close> and the
    subcommands, from the environment variables to the exit code or the server.
  \<^item> \<open>Runs\<close>, \<open>Endpoints\<close>: what a run of each operation or handler that gave a certain result did; \<open>Demo\<close>: a concrete instance of
    every parameter, with its laws proved, on which the witnesses are evaluated.

  \<^bold>\<open>What is shown.\<close>
  \<^item> \<open>TokenContract\<close>, \<open>SessionContract\<close>, \<open>KeyContract\<close>: what a token, a code or a session cookie is issued for, to whom and with
    which scopes; where the authorization endpoint may redirect; that a minted token verifies for its whole life across key
    rotations.
  \<^item> \<open>AdminContract\<close>, \<open>AccountContract\<close>: the outcome of granting, revoking and checking scopes on every branch; logging out; what the
    userinfo endpoint discloses; the life of a machine key; the scope table of the administration pages.
  \<^item> \<open>EnrolContract\<close>: what a finished enrolment has stored, whom the bootstrap may make an administrator, and which redirect URIs
    the start-up reconcile registers.
  \<^item> \<open>StoreContract\<close>: transactions are all or nothing, rotation leaves one active key and keeps the others for verification,
    re-encryption keeps the keys, and codes and sessions read back as they were stored.
  \<^item> \<open>ServerContract\<close>: over any sequence of requests, sweeps and failures, the database stays reachable by the store's writes and
    keeps its constraints, and the admin routes answer only to administrators; over any interleaving of the store's writes, a
    code is exchanged once, an invite used once, and a revoked session or grant stays revoked; who
    revoked a grant may be overwritten by a second revocation that races with the first (\<open>revocation_overwritten\<close>).
  \<^item> \<open>MigrationContract\<close>: a file of any older version gets the tables, columns, constraints and unique indexes that the
    statements of \<open>Database\<close> rely on (\<open>store_needs\<close>), and holds the rows it held (\<open>file_holds\<close>).
  \<^item> \<open>StartContract\<close>: a restart on the file and keys of an earlier run reaches the server and leaves both as they were.
  \<^item> \<open>RateLimit\<close>, \<open>Ceremony\<close>, \<open>Redirect\<close>: each equal to, or bounded by, a reference definition; \<open>WebauthnCred\<close>: what of a passkey
    survives being stored, and what does not.

  \<^bold>\<open>Bounds and fuel.\<close> Only the JSON reader takes fuel, the length of its input plus one; \<open>json_fuel_enough\<close>
  shows that no other fuel reads more, \<open>json_unmarshal_text\<close> that the reader gives back whatever is written, with invalid UTF-8 replaced. The other loops are structural recursions over the rows, list or
  characters they traverse. Instants are written with years 0 to 9999, the range of \<^verbatim>\<open>time.RFC3339\<close>; the properties
  that read a stored instant back say so (\<open>in_range\<close>). Counters of the rate limiter are Go's 64-bit \<^verbatim>\<open>int\<close> and are modelled
  unbounded: reaching 2 to the 63 calls in one window is out of the question.

  \<^bold>\<open>Not modelled.\<close> The rendering of the HTML templates (a page is the data given to its template), the scripts and styles that
  run in the browser, log lines, and what \<^verbatim>\<open>http.ServeMux\<close> answers by itself for paths that are not clean. A redirect's Location is the URL given to
  \<^verbatim>\<open>http.Redirect\<close>, which would also clean a relative path and escape bytes outside ASCII. The handlers work on the typed tables
  of \<open>Database\<close>, the migration on the file; \<open>file_holds\<close> says when the rows of one are those of the other. Requests are served one
  at a time in \<open>Server\<close>; the invariants of \<open>DbSteps\<close> hold for any interleaving of the store's writes, because a step is a
  single statement or a committed transaction's statement. The cryptographic libraries, the JWT and WebAuthn libraries, the
  contacts service, the driver's opening of a file and the operating system's calls are parameters.
\<close>

end
